(* ===== verification/Prelude.thy ===== *)
theory Prelude
  imports Main "HOL-Library.Sublist"
begin

text \<open>
  The prelude of the development: the generic facts on lists and options that every
  component shares, and the collections (\<^theory_text>\<open>named_theorems\<close>) that carry the
  component proofs. Nothing here models code of the repository except \<open>find_index\<close>,
  the search loop \<^verbatim>\<open>for i, x := range xs { if p(x) { return i } } return -1\<close> that the Go
  sources repeat for every record table, with \<open>None\<close> for the index \<^verbatim>\<open>-1\<close>.
\<close>

named_theorems go_text_defs \<open>definitions of the Go text helpers\<close>
named_theorems planner_defs \<open>definitions of the planner's primitive steps\<close>
named_theorems core_frame \<open>fields an update of the runtime state leaves alone\<close>

section \<open>Searching a table\<close>

fun find_index :: "('a \<Rightarrow> bool) \<Rightarrow> 'a list \<Rightarrow> nat option" where
  "find_index p [] = None"
| "find_index p (x # xs) = (if p x then Some 0 else map_option Suc (find_index p xs))"

lemma find_index_Some:
  "find_index p xs = Some i \<Longrightarrow> i < length xs \<and> p (xs ! i) \<and> (\<forall>j < i. \<not> p (xs ! j))"
proof (induction xs arbitrary: i)
  case Nil
  then show ?case by simp
next
  case (Cons x xs)
  show ?case
  proof (cases "p x")
    case True
    with Cons.prems show ?thesis by simp
  next
    case False
    with Cons.prems obtain k where k: "find_index p xs = Some k" "i = Suc k" by auto
    from Cons.IH [OF k(1)] False k(2) show ?thesis
      by (auto simp: less_Suc_eq_0_disj)
  qed
qed

lemma find_index_SomeD [dest]:
  assumes "find_index p xs = Some i"
  shows "i < length xs" and "p (xs ! i)"
  using find_index_Some [OF assms] by auto

lemma find_index_None [simp]: "find_index p xs = None \<longleftrightarrow> (\<forall>x \<in> set xs. \<not> p x)"
  by (induction xs) auto

lemma find_index_None_iff [simp]: "None = find_index p xs \<longleftrightarrow> (\<forall>x \<in> set xs. \<not> p x)"
  by (metis find_index_None)

lemma find_index_in_set: "find_index p xs = Some i \<Longrightarrow> xs ! i \<in> set xs"
  by (auto intro: nth_mem)

lemma find_index_append:
  "find_index p (xs @ ys) =
     (case find_index p xs of Some i \<Rightarrow> Some i
      | None \<Rightarrow> map_option (\<lambda>i. length xs + i) (find_index p ys))"
  by (induction xs) (cases "find_index p ys"; simp del: find_index_None find_index_None_iff split: option.splits)+

section \<open>Updating one record of a table\<close>

lemma set_list_update_subset: "set (xs[i := x]) \<subseteq> insert x (set xs)"
  by (rule set_update_subset_insert)

lemma map_list_update_same:
  "i < length xs \<Longrightarrow> f x = f (xs ! i) \<Longrightarrow> map f (xs[i := x]) = map f xs"
  by (metis list_update_id map_update)

lemma filter_list_update_other:
  "i < length xs \<Longrightarrow> \<not> p (xs ! i) \<Longrightarrow> \<not> p x \<Longrightarrow> filter p (xs[i := x]) = filter p xs"
  by (induction xs arbitrary: i) (auto split: nat.splits simp: nth_Cons)

lemma list_all2_update_same:
  assumes "\<And>y. R y y" and "i < length xs" and "R (xs ! i) x"
  shows "list_all2 R xs (xs[i := x])"
  using assms by (auto simp: list_all2_conv_all_nth nth_list_update)

lemma list_all2_reflI: "(\<And>x. x \<in> set xs \<Longrightarrow> R x x) \<Longrightarrow> list_all2 R xs xs"
  by (auto simp: list_all2_conv_all_nth)

lemma list_all2_mem2:
  assumes "list_all2 R xs ys" and "y \<in> set ys"
  shows "\<exists>x \<in> set xs. R x y"
  using assms by (metis in_set_conv_nth list_all2_conv_all_nth)

lemma list_all2_mem1:
  assumes "list_all2 R xs ys" and "x \<in> set xs"
  shows "\<exists>y \<in> set ys. R x y"
  using assms by (metis in_set_conv_nth list_all2_conv_all_nth)

section \<open>Distinctness of projections\<close>

lemma distinct_map_nth_eq:
  "distinct (map f xs) \<Longrightarrow> i < length xs \<Longrightarrow> j < length xs \<Longrightarrow> f (xs ! i) = f (xs ! j) \<Longrightarrow> i = j"
  by (metis length_map nth_eq_iff_index_eq nth_map)

lemma distinct_map_mem_eq:
  "distinct (map f xs) \<Longrightarrow> x \<in> set xs \<Longrightarrow> y \<in> set xs \<Longrightarrow> f x = f y \<Longrightarrow> x = y"
  by (auto simp: distinct_map dest: inj_onD)

end
