(* ===== verification/Go_Text.thy ===== *)
theory Go_Text
  imports Prelude
begin

text \<open>
  What the repository uses of Go's text packages. A Go string is its sequence of bytes, here
  a \<^typ>\<open>string\<close> whose characters are the bytes. \<open>utf8_step\<close> is one step of
  \<^verbatim>\<open>unicode/utf8\<close>'s decoder (a rune and the number of bytes it takes, \<open>None\<close> on an
  invalid sequence), \<open>trim_space\<close> is \<^verbatim>\<open>strings.TrimSpace\<close> on decoded runes,
  \<open>trim_set\<close> is \<^verbatim>\<open>strings.Trim\<close> with an ASCII cut set, \<open>itoa\<close> prints a number in
  decimal, and \<open>json_string\<close> is the string encoder of \<^verbatim>\<open>encoding/json\<close> with its HTML
  escapes. None of it is code of the repository.
\<close>

section \<open>UTF-8\<close>

abbreviation byte :: "char \<Rightarrow> nat" where
  "byte c \<equiv> of_char c"

definition continuation :: "nat \<Rightarrow> bool" where
  "continuation b \<longleftrightarrow> 128 \<le> b \<and> b \<le> 191"

definition utf8_step :: "string \<Rightarrow> (nat \<times> nat) option" where
  "utf8_step s =
     (case map of_char s of
        [] \<Rightarrow> None
      | a # t \<Rightarrow>
         if a < 128 then Some (a, 1)
         else if 194 \<le> a \<and> a \<le> 223 then
           (case t of
              b # _ \<Rightarrow> if continuation b then Some ((a - 192) * 64 + (b - 128), 2) else None
            | _ \<Rightarrow> None)
         else if 224 \<le> a \<and> a \<le> 239 then
           (case t of
              b # c # _ \<Rightarrow>
                if continuation b \<and> continuation c \<and> (a = 224 \<longrightarrow> 160 \<le> b) \<and> (a = 237 \<longrightarrow> b \<le> 159)
                then Some ((a - 224) * 4096 + (b - 128) * 64 + (c - 128), 3) else None
            | _ \<Rightarrow> None)
         else if 240 \<le> a \<and> a \<le> 244 then
           (case t of
              b # c # d # _ \<Rightarrow>
                if continuation b \<and> continuation c \<and> continuation d
                   \<and> (a = 240 \<longrightarrow> 144 \<le> b) \<and> (a = 244 \<longrightarrow> b \<le> 143)
                then Some ((a - 240) * 262144 + (b - 128) * 4096 + (c - 128) * 64 + (d - 128), 4)
                else None
            | _ \<Rightarrow> None)
         else None)"

fun utf8_runes :: "string \<Rightarrow> nat list option" where
  "utf8_runes [] = Some []"
| "utf8_runes (c # cs) =
     (case utf8_step (c # cs) of
        None \<Rightarrow> None
      | Some (r, w) \<Rightarrow> map_option (Cons r) (utf8_runes (drop (w - 1) cs)))"

definition utf8_valid :: "string \<Rightarrow> bool" where
  "utf8_valid s \<longleftrightarrow> utf8_runes s \<noteq> None"

section \<open>Trimming\<close>

text \<open>\<open>unicode.IsSpace\<close>: the Latin-1 cases and the code points of White\_Space beyond them.\<close>

definition is_space :: "nat \<Rightarrow> bool" where
  "is_space r \<longleftrightarrow>
     (9 \<le> r \<and> r \<le> 13) \<or> r = 32 \<or> r = 133 \<or> r = 160 \<or> r = 5760
     \<or> (8192 \<le> r \<and> r \<le> 8202) \<or> r = 8232 \<or> r = 8233 \<or> r = 8239 \<or> r = 8287 \<or> r = 12288"

definition trim_by :: "('a \<Rightarrow> bool) \<Rightarrow> 'a list \<Rightarrow> 'a list" where
  "trim_by p xs = rev (dropWhile p (rev (dropWhile p xs)))"

definition trim_space :: "nat list \<Rightarrow> nat list" where
  "trim_space rs = trim_by is_space rs"

definition trim_set :: "string \<Rightarrow> string \<Rightarrow> string" where
  "trim_set cutset s = trim_by (\<lambda>c. c \<in> set cutset) s"

text \<open>The value is valid UTF-8 and \<^verbatim>\<open>strings.TrimSpace(value) == value\<close>.\<close>

definition trimmed_utf8 :: "string \<Rightarrow> bool" where
  "trimmed_utf8 s \<longleftrightarrow> (case utf8_runes s of None \<Rightarrow> False | Some rs \<Rightarrow> trim_space rs = rs)"

lemma trim_by_Nil_iff: "trim_by p xs = [] \<longleftrightarrow> (\<forall>x \<in> set xs. p x)"
  by (auto simp: trim_by_def dropWhile_eq_Nil_conv dest: set_dropWhileD)
     (metis dropWhile_eq_Nil_conv empty_iff set_empty hd_dropWhile hd_in_set)

lemma trim_set_Nil_iff: "trim_set cutset s = [] \<longleftrightarrow> set s \<subseteq> set cutset"
  by (auto simp: trim_set_def trim_by_Nil_iff)

lemma utf8_runes_ascii:
  "\<forall>c \<in> set s. byte c < 128 \<Longrightarrow> utf8_runes s = Some (map of_char s)"
  by (induction s) (auto simp: utf8_step_def)

lemma trim_by_none: "\<forall>x \<in> set xs. \<not> p x \<Longrightarrow> trim_by p xs = xs"
proof -
  assume a: "\<forall>x \<in> set xs. \<not> p x"
  have "dropWhile p ys = ys" if "set ys = set xs" for ys
    using that a by (cases ys) auto
  then show "trim_by p xs = xs" by (simp add: trim_by_def)
qed

lemma trimmed_graphic:
  assumes "\<forall>c \<in> set s. 33 \<le> byte c \<and> byte c < 127"
  shows "trimmed_utf8 s"
proof -
  have "trim_by is_space (map of_char s) = map of_char s"
    using assms by (intro trim_by_none) (force simp: is_space_def)
  moreover have "utf8_runes s = Some (map of_char s)" using assms by (intro utf8_runes_ascii) auto
  ultimately show ?thesis by (simp add: trimmed_utf8_def trim_space_def)
qed

section \<open>Numbers\<close>

definition digit :: "nat \<Rightarrow> char" where
  "digit d = char_of (48 + d)"

fun itoa :: "nat \<Rightarrow> string" where
  "itoa n = (if n < 10 then [digit n] else itoa (n div 10) @ [digit (n mod 10)])"

declare itoa.simps [simp del]

definition hex_digit :: "nat \<Rightarrow> char" where
  "hex_digit d = (if d < 10 then char_of (48 + d) else char_of (87 + d))"

section \<open>JSON strings\<close>

definition json_escape :: "nat \<Rightarrow> string \<Rightarrow> string" where
  "json_escape r raw =
     (if r = 34 \<or> r = 92 then CHR 0x5C # raw
      else if r = 8 then [CHR 0x5C, CHR ''b'']
      else if r = 12 then [CHR 0x5C, CHR ''f'']
      else if r = 10 then [CHR 0x5C, CHR ''n'']
      else if r = 13 then [CHR 0x5C, CHR ''r'']
      else if r = 9 then [CHR 0x5C, CHR ''t'']
      else if r < 32 \<or> r = 60 \<or> r = 62 \<or> r = 38 then
        CHR 0x5C # ''u00'' @ [hex_digit (r div 16), hex_digit (r mod 16)]
      else if r = 8232 then CHR 0x5C # ''u2028''
      else if r = 8233 then CHR 0x5C # ''u2029''
      else raw)"

fun json_chars :: "string \<Rightarrow> string" where
  "json_chars [] = []"
| "json_chars (c # cs) =
     (case utf8_step (c # cs) of
        None \<Rightarrow> (CHR 0x5C # ''ufffd'') @ json_chars cs
      | Some (r, w) \<Rightarrow> json_escape r (take w (c # cs)) @ json_chars (drop (w - 1) cs))"

definition json_string :: "string \<Rightarrow> string" where
  "json_string s = CHR 0x22 # json_chars s @ [CHR 0x22]"

end
