(* ===== verification/Go_Time.thy ===== *)
theory Go_Time
  imports Go_Text
begin

text \<open>
  What the repository uses of Go's \<^verbatim>\<open>time.Time\<close>. A time is an instant, in nanoseconds since
  the zero time (January 1, year 1, 00:00:00 UTC), and the fact whether its location is UTC,
  the only thing the sources ask of a location. The monotonic reading, which
  \<^verbatim>\<open>Round(0)\<close> strips and no comparison of the sources uses, is not part of the model.
  \<open>normalizeTime\<close> is \<^verbatim>\<open>normalizeTime\<close> of \<^verbatim>\<open>internal/runtimestate/contract.go\<close>.
\<close>

datatype gtime = GTime (instant: int) (utc: bool)

definition zero_time :: gtime where
  "zero_time = GTime 0 True"

definition IsZero :: "gtime \<Rightarrow> bool" where
  "IsZero t \<longleftrightarrow> instant t = 0"

definition After :: "gtime \<Rightarrow> gtime \<Rightarrow> bool" where
  "After t u \<longleftrightarrow> instant u < instant t"

definition Before :: "gtime \<Rightarrow> gtime \<Rightarrow> bool" where
  "Before t u \<longleftrightarrow> instant t < instant u"

definition add_duration :: "gtime \<Rightarrow> int \<Rightarrow> gtime" where
  "add_duration t d = GTime (instant t + d) (utc t)"

definition hour :: int where
  "hour = 3600000000000"

definition normalizeTime :: "gtime \<Rightarrow> gtime" where
  "normalizeTime t = (if IsZero t then t else GTime (instant t) True)"

lemma instant_normalizeTime [simp]: "instant (normalizeTime t) = instant t"
  by (simp add: normalizeTime_def)

lemma IsZero_normalizeTime [simp]: "IsZero (normalizeTime t) = IsZero t"
  by (simp add: IsZero_def)

lemma utc_normalizeTime [simp]: "\<not> IsZero t \<Longrightarrow> utc (normalizeTime t)"
  by (simp add: normalizeTime_def)

lemma normalizeTime_idem [simp]: "normalizeTime (normalizeTime t) = normalizeTime t"
  by (simp add: normalizeTime_def IsZero_def)

lemma not_After_iff: "\<not> After t u \<longleftrightarrow> instant t \<le> instant u"
  by (auto simp: After_def)

lemma not_Before_iff: "\<not> Before t u \<longleftrightarrow> instant u \<le> instant t"
  by (auto simp: Before_def)

end
