(* ===== verification/Sdk_Types.thy ===== *)
theory Sdk_Types
  imports Go_Time
begin

text \<open>
  The identifiers of \<^verbatim>\<open>sdk/go/ids.go\<close> and the closed vocabularies of
  \<^verbatim>\<open>sdk/go/types.go\<close> that the runtime state is written in. A Go string type with named
  constants is a datatype with one constructor per constant; a first constructor
  \<open>...Unset\<close> stands for the type's zero value \<^verbatim>\<open>""\<close> where the code can hold it (the fields of a
  zero record). Opaque identifiers stay strings.
\<close>

section \<open>Opaque identifiers\<close>

type_synonym AgentID = string
type_synonym AgentRevisionID = string
type_synonym SessionID = string
type_synonym InputID = string
type_synonym TurnID = string
type_synonym EventID = string
type_synonym Cursor = string
type_synonym ArtifactID = string
type_synonym ApprovalID = string

definition agentPrefix :: string where "agentPrefix = ''agent_''"
definition agentRevisionPrefix :: string where "agentRevisionPrefix = ''arev_''"
definition sessionPrefix :: string where "sessionPrefix = ''sess_''"
definition inputPrefix :: string where "inputPrefix = ''inpt_''"
definition turnPrefix :: string where "turnPrefix = ''turn_''"
definition eventPrefix :: string where "eventPrefix = ''evt_''"
definition cursorPrefix :: string where "cursorPrefix = ''cur_''"
definition artifactPrefix :: string where "artifactPrefix = ''art_''"
definition approvalPrefix :: string where "approvalPrefix = ''appr_''"
definition requestPrefix :: string where "requestPrefix = ''req_''"

lemmas prefix_defs = agentPrefix_def agentRevisionPrefix_def sessionPrefix_def inputPrefix_def
  turnPrefix_def eventPrefix_def cursorPrefix_def artifactPrefix_def approvalPrefix_def requestPrefix_def

definition asciiAlphaNumeric :: "char \<Rightarrow> bool" where
  "asciiAlphaNumeric c \<longleftrightarrow>
     (97 \<le> byte c \<and> byte c \<le> 122) \<or> (65 \<le> byte c \<and> byte c \<le> 90) \<or> (48 \<le> byte c \<and> byte c \<le> 57)"

text \<open>The loop ranges over runes; a byte beyond ASCII is part of a rune that is rejected.\<close>

definition validPayload :: "string \<Rightarrow> bool" where
  "validPayload payload \<longleftrightarrow> length payload = 16 \<and> list_all asciiAlphaNumeric payload"

definition trimPrefix :: "string \<Rightarrow> string \<Rightarrow> string" where
  "trimPrefix value pre = (if prefix pre value then drop (length pre) value else value)"

text \<open>\<open>None\<close> is the error \<^verbatim>\<open>invalid ... identifier\<close>.\<close>

definition parseID :: "string \<Rightarrow> string \<Rightarrow> string option" where
  "parseID value pre =
     (if \<not> prefix pre value \<or> \<not> validPayload (trimPrefix value pre) then None else Some value)"

definition ParseAgentID :: "string \<Rightarrow> AgentID option" where
  "ParseAgentID value = parseID value agentPrefix"
definition ParseAgentRevisionID :: "string \<Rightarrow> AgentRevisionID option" where
  "ParseAgentRevisionID value = parseID value agentRevisionPrefix"
definition ParseSessionID :: "string \<Rightarrow> SessionID option" where
  "ParseSessionID value = parseID value sessionPrefix"
definition ParseInputID :: "string \<Rightarrow> InputID option" where
  "ParseInputID value = parseID value inputPrefix"
definition ParseTurnID :: "string \<Rightarrow> TurnID option" where
  "ParseTurnID value = parseID value turnPrefix"
definition ParseEventID :: "string \<Rightarrow> EventID option" where
  "ParseEventID value = parseID value eventPrefix"
definition ParseCursor :: "string \<Rightarrow> Cursor option" where
  "ParseCursor value = parseID value cursorPrefix"
definition ParseArtifactID :: "string \<Rightarrow> ArtifactID option" where
  "ParseArtifactID value = parseID value artifactPrefix"
definition ParseApprovalID :: "string \<Rightarrow> ApprovalID option" where
  "ParseApprovalID value = parseID value approvalPrefix"

lemmas parse_defs = ParseAgentID_def ParseAgentRevisionID_def ParseSessionID_def ParseInputID_def
  ParseTurnID_def ParseEventID_def ParseCursor_def ParseArtifactID_def ParseApprovalID_def

definition marshalID :: "string \<Rightarrow> string \<Rightarrow> string option" where
  "marshalID i pre = (case parseID i pre of None \<Rightarrow> None | Some _ \<Rightarrow> Some (json_string i))"

definition redactID :: "string \<Rightarrow> string \<Rightarrow> string" where
  "redactID i pre =
     (case parseID i pre of
        None \<Rightarrow> ''[INVALID ID]''
      | Some _ \<Rightarrow> pre @ ''...'' @ drop (length i - 4) i)"

lemma parseID_SomeD:
  assumes "parseID v pre = Some w"
  shows "w = v" and "\<exists>payload. v = pre @ payload \<and> validPayload payload"
  using assms by (auto simp: parseID_def trimPrefix_def prefix_def split: if_splits)

lemma parseID_append: "validPayload v \<Longrightarrow> parseID (p @ v) p = Some (p @ v)"
  by (simp add: parseID_def trimPrefix_def)

lemma parseID_nonempty: "parseID v pre = Some w \<Longrightarrow> w \<noteq> []"
  using parseID_SomeD [of v pre w] by (auto simp: validPayload_def)

lemma parse_nonempty [dest]:
  "ParseAgentID v = Some w \<Longrightarrow> w \<noteq> []" "ParseAgentRevisionID v = Some w \<Longrightarrow> w \<noteq> []"
  "ParseSessionID v = Some w \<Longrightarrow> w \<noteq> []" "ParseInputID v = Some w \<Longrightarrow> w \<noteq> []"
  "ParseTurnID v = Some w \<Longrightarrow> w \<noteq> []" "ParseEventID v = Some w \<Longrightarrow> w \<noteq> []"
  "ParseCursor v = Some w \<Longrightarrow> w \<noteq> []" "ParseArtifactID v = Some w \<Longrightarrow> w \<noteq> []"
  "ParseApprovalID v = Some w \<Longrightarrow> w \<noteq> []"
  by (auto simp: parse_defs dest: parseID_nonempty)

section \<open>Closed vocabularies\<close>

datatype SessionState =
    SessionUnset | SessionOpen | SessionClosing | SessionCompleted | SessionCancelled | SessionFailed

datatype TurnState =
    TurnUnset | TurnQueued | TurnRunning | TurnWaitingForApproval
  | TurnSucceeded | TurnFailed | TurnCancelled

datatype PolicyDecision = PolicyUnset | PolicyDenied | PolicyRequiresApproval

datatype ApprovalState =
    ApprovalUnset | ApprovalPending | ApprovalApproved | ApprovalDenied | ApprovalExpired
  | ApprovalCancelled

datatype EventKind =
    EventUnset | EventSessionCreated | EventInputAccepted | EventTurnQueued | EventTurnStarted
  | EventTurnSucceeded | EventTurnFailed | EventTurnCancelled | EventProducerGap
  | EventApprovalResolved | EventApprovalExpired | EventApprovalCancelled
  | EventSandboxOperationFinalized | EventSessionClosing | EventSessionCompleted
  | EventSessionCancelled | EventSessionFailed

record PolicyRule =
  rule_toolName :: string
  rule_decision :: PolicyDecision

fun policy_decision_string :: "PolicyDecision \<Rightarrow> string" where
  "policy_decision_string PolicyUnset = ''''"
| "policy_decision_string PolicyDenied = ''denied''"
| "policy_decision_string PolicyRequiresApproval = ''requires_approval''"

fun approval_state_string :: "ApprovalState \<Rightarrow> string" where
  "approval_state_string ApprovalUnset = ''''"
| "approval_state_string ApprovalPending = ''pending''"
| "approval_state_string ApprovalApproved = ''approved''"
| "approval_state_string ApprovalDenied = ''denied''"
| "approval_state_string ApprovalExpired = ''expired''"
| "approval_state_string ApprovalCancelled = ''cancelled''"

text \<open>A bounded public failure; its details are a map, listed by its entries.\<close>

record Failure =
  fl_code :: string
  fl_message :: string
  fl_retryable :: bool
  fl_details :: "(string \<times> string) list"

record EventGap =
  gap_requestedAfter :: Cursor
  gap_earliest :: Cursor
  gap_inspectSession :: bool

end
