(* ===== verification/State_Contract.thy ===== *)
theory State_Contract
  imports Sdk_Types
begin

text \<open>
  The data model of \<^verbatim>\<open>internal/runtimestate/contract.go\<close> and the tenant state
  \<^verbatim>\<open>RuntimeState\<close> of \<^verbatim>\<open>internal/runtimestate/planner.go\<close>: one record per Go struct, field by
  field, in the source's order. Pointers to values are options. The \<^verbatim>\<open>Clone\<close> and
  \<^verbatim>\<open>Owned\<close> methods copy memory and are the identity on values, so they have no counterpart here
  (what \<^verbatim>\<open>Owned\<close> normalises is written where a command is compiled).
  Counters of type \<^verbatim>\<open>uint64\<close> and \<^verbatim>\<open>uint32\<close> are natural numbers: every counter starts at zero or
  one and grows by one per committed transition, so it cannot reach its width.
\<close>

type_synonym TenantID = string
type_synonym PrincipalID = string
type_synonym RequestDigest = string
type_synonym OperationID = string
type_synonym InvocationID = string
type_synonym AuditFactID = string
type_synonym OutboxID = string

datatype store_error =
    ErrConflict | ErrNotFoundOrDenied | ErrUnavailable | ErrIntegrity | ErrReceiptExpired
  | ErrContext
  | ErrAllocate
  | ErrIdentifier
  | ErrInvalidCommand

datatype Authority =
    AuthorityUnset | AuthorityTenantAdministrator | AuthoritySessionOwner | AuthorityRuntimeWorker
  | AuthorityAuditReader | AuthorityOutboxPublisher

fun authority_string :: "Authority \<Rightarrow> string" where
  "authority_string AuthorityUnset = ''''"
| "authority_string AuthorityTenantAdministrator = ''tenant_administrator''"
| "authority_string AuthoritySessionOwner = ''session_owner''"
| "authority_string AuthorityRuntimeWorker = ''runtime_worker''"
| "authority_string AuthorityAuditReader = ''audit_reader''"
| "authority_string AuthorityOutboxPublisher = ''outbox_publisher''"

record MutationScope =
  sc_tenant :: TenantID
  sc_principal :: PrincipalID
  sc_authority :: Authority

record Reference =
  ref_digest :: string
  ref_mediaType :: string
  ref_sizeBytes :: int

section \<open>Durable records\<close>

record AgentRevisionRecord =
  ar_tenant :: TenantID
  ar_agentID :: AgentID
  ar_revisionID :: AgentRevisionID
  ar_revision :: nat
  ar_name :: string
  ar_modelProfile :: string
  ar_specification :: Reference
  ar_createdAt :: gtime
  ar_retainUntil :: gtime

record PolicyRevisionRecord =
  po_tenant :: TenantID
  po_name :: string
  po_revision :: nat
  po_digest :: string
  po_rules :: "PolicyRule list"
  po_createdAt :: gtime
  po_retainUntil :: gtime

record SessionRecord =
  ss_tenant :: TenantID
  ss_principal :: PrincipalID
  ss_sessionID :: SessionID
  ss_agentID :: AgentID
  ss_revisionID :: AgentRevisionID
  ss_state :: SessionState
  ss_version :: nat
  ss_createdAt :: gtime
  ss_updatedAt :: gtime
  ss_retainUntil :: gtime

record InputRecord =
  in_tenant :: TenantID
  in_principal :: PrincipalID
  in_sessionID :: SessionID
  in_inputID :: InputID
  in_content :: Reference
  in_acceptedAt :: gtime
  in_retentionUntil :: gtime

record ArtifactRecord =
  at_tenant :: TenantID
  at_principal :: PrincipalID
  at_artifactID :: ArtifactID
  at_sessionID :: SessionID
  at_turnID :: TurnID
  at_reference :: Reference
  at_createdAt :: gtime
  at_retainUntil :: gtime

record ConversationRecord =
  cv_tenant :: TenantID
  cv_principal :: PrincipalID
  cv_sessionID :: SessionID
  cv_version :: nat
  cv_reference :: Reference
  cv_createdAt :: gtime
  cv_retainUntil :: gtime

record ToolIntentRecord =
  ti_tenant :: TenantID
  ti_principal :: PrincipalID
  ti_sessionID :: SessionID
  ti_turnID :: TurnID
  ti_toolCallID :: string
  ti_toolName :: string
  ti_actionDigest :: string
  ti_actionDescriptor :: Reference
  ti_policyRevisionDigest :: string
  ti_createdAt :: gtime
  ti_retainUntil :: gtime

record CapabilityGrantRecord =
  gr_tenant :: TenantID
  gr_principal :: PrincipalID
  gr_sessionID :: SessionID
  gr_turnID :: TurnID
  gr_grantID :: string
  gr_toolCallID :: string
  gr_capabilityDigest :: string
  gr_maximumUses :: nat
  gr_uses :: nat
  gr_expiresAt :: gtime
  gr_revokedAt :: "gtime option"
  gr_policyRevisionDigest :: string
  gr_createdAt :: gtime
  gr_retainUntil :: gtime

datatype ToolExecutionState =
    ToolExecutionUnset | ToolExecutionIntent | ToolExecutionSucceeded | ToolExecutionFailed
  | ToolExecutionUncertain

record ToolExecutionRecord =
  te_tenant :: TenantID
  te_principal :: PrincipalID
  te_sessionID :: SessionID
  te_turnID :: TurnID
  te_toolCallID :: string
  te_grantID :: string
  te_operationID :: OperationID
  te_state :: ToolExecutionState
  te_result :: "Reference option"
  te_failure :: "Failure option"
  te_createdAt :: gtime
  te_updatedAt :: gtime
  te_retentionUntil :: gtime

record ApprovalRecord =
  ap_tenant :: TenantID
  ap_principal :: PrincipalID
  ap_approvalID :: string
  ap_sessionID :: SessionID
  ap_turnID :: TurnID
  ap_toolCallID :: string
  ap_actionDigest :: string
  ap_policyRevisionDigest :: string
  ap_state :: ApprovalState
  ap_capabilityDigest :: string
  ap_actionVerb :: string
  ap_actionTarget :: string
  ap_maximumUses :: nat
  ap_expiresAt :: gtime
  ap_decision :: ApprovalState
  ap_decidedAt :: "gtime option"
  ap_createdAt :: gtime
  ap_retainUntil :: gtime

record TurnRecord =
  tu_tenant :: TenantID
  tu_principal :: PrincipalID
  tu_sessionID :: SessionID
  tu_turnID :: TurnID
  tu_inputID :: InputID
  tu_position :: nat
  tu_state :: TurnState
  tu_version :: nat
  tu_startedAt :: "gtime option"
  tu_completedAt :: "gtime option"
  tu_failure :: "Failure option"
  tu_retentionUntil :: gtime

datatype InvocationState =
    InvocationUnset | InvocationIntent | InvocationSucceeded | InvocationFailed
  | InvocationUncertain | InvocationCancelled

record ModelUsage =
  mu_inputTokens :: "nat option"
  mu_outputTokens :: "nat option"

record InvocationRecord =
  iv_tenant :: TenantID
  iv_principal :: PrincipalID
  iv_sessionID :: SessionID
  iv_turnID :: TurnID
  iv_invocationID :: InvocationID
  iv_operationID :: OperationID
  iv_ordinal :: nat
  iv_fence :: nat
  iv_state :: InvocationState
  iv_result :: "Reference option"
  iv_failure :: "Failure option"
  iv_usage :: "ModelUsage option"
  iv_createdAt :: gtime
  iv_updatedAt :: gtime
  iv_retentionUntil :: gtime

record ProductEventRecord =
  ev_tenant :: TenantID
  ev_principal :: PrincipalID
  ev_sessionID :: SessionID
  ev_sequence :: nat
  ev_cursor :: Cursor
  ev_eventID :: EventID
  ev_kind :: EventKind
  ev_inputID :: InputID
  ev_turnID :: TurnID
  ev_operationID :: OperationID
  ev_occurredAt :: gtime
  ev_retentionUntil :: gtime

record AuditFactRecord =
  af_tenant :: TenantID
  af_auditFactID :: AuditFactID
  af_operationID :: OperationID
  af_actor :: PrincipalID
  af_kind :: string
  af_sessionID :: SessionID
  af_turnID :: TurnID
  af_agentRevisionID :: AgentRevisionID
  af_policyRevisionDigest :: string
  af_capabilityScopeDigest :: string
  af_toolCallID :: string
  af_occurredAt :: gtime
  af_retentionUntil :: gtime

datatype OutboxState = OutboxUnset | OutboxPending | OutboxClaimed | OutboxPublished | OutboxReconcile

record OutboxRecord =
  ob_tenant :: TenantID
  ob_principal :: PrincipalID
  ob_outboxID :: OutboxID
  ob_aggregate :: string
  ob_aggregateVersion :: nat
  ob_version :: nat
  ob_eventID :: EventID
  ob_eventKind :: EventKind
  ob_eventSequence :: nat
  ob_auditFactID :: AuditFactID
  ob_operationID :: OperationID
  ob_toolCallID :: string
  ob_sessionID :: SessionID
  ob_turnID :: TurnID
  ob_invocationID :: InvocationID
  ob_invocationOrdinal :: nat
  ob_invocationFence :: nat
  ob_sessionVersion :: nat
  ob_turnVersion :: nat
  ob_state :: OutboxState
  ob_claimedBy :: string
  ob_claimUntil :: "gtime option"
  ob_committedAt :: gtime
  ob_retentionUntil :: gtime

record MutationReceipt =
  rc_scope :: MutationScope
  rc_idempotencyKey :: string
  rc_operationID :: OperationID
  rc_command :: string
  rc_requestDigest :: RequestDigest
  rc_agentID :: AgentID
  rc_revisionID :: AgentRevisionID
  rc_sessionID :: SessionID
  rc_inputID :: InputID
  rc_turnID :: TurnID
  rc_artifactID :: ArtifactID
  rc_policyName :: string
  rc_policyRevision :: nat
  rc_conversationVersion :: nat
  rc_acceptedAt :: gtime
  rc_retentionUntil :: gtime

record EffectSet =
  ef_events :: "ProductEventRecord list"
  ef_audit :: "AuditFactRecord list"
  ef_outbox :: "OutboxRecord list"

text \<open>A fence binds a worker's terminal mutation to one exact live Outbox claim.\<close>

record OutboxLeaseFence =
  lf_outboxID :: OutboxID
  lf_expectedVersion :: nat
  lf_claimer :: string

record RuntimeState =
  st_revisions :: "AgentRevisionRecord list"
  st_policies :: "PolicyRevisionRecord list"
  st_sessions :: "SessionRecord list"
  st_inputs :: "InputRecord list"
  st_artifacts :: "ArtifactRecord list"
  st_conversations :: "ConversationRecord list"
  st_toolIntents :: "ToolIntentRecord list"
  st_grants :: "CapabilityGrantRecord list"
  st_toolExecutions :: "ToolExecutionRecord list"
  st_approvals :: "ApprovalRecord list"
  st_turns :: "TurnRecord list"
  st_invocations :: "InvocationRecord list"
  st_receipts :: "MutationReceipt list"
  st_events :: "ProductEventRecord list"
  st_audit :: "AuditFactRecord list"
  st_outbox :: "OutboxRecord list"

section \<open>Zero values\<close>

text \<open>Go's zero values of the record types, as the code passes them where a record does not apply.\<close>

definition zero_Reference :: Reference where
  "zero_Reference = \<lparr>ref_digest = [], ref_mediaType = [], ref_sizeBytes = 0\<rparr>"

definition zero_AgentRevisionRecord :: AgentRevisionRecord where
  "zero_AgentRevisionRecord =
     \<lparr>ar_tenant = [], ar_agentID = [], ar_revisionID = [], ar_revision = 0, ar_name = [],
      ar_modelProfile = [], ar_specification = zero_Reference, ar_createdAt = zero_time,
      ar_retainUntil = zero_time\<rparr>"

definition zero_PolicyRevisionRecord :: PolicyRevisionRecord where
  "zero_PolicyRevisionRecord =
     \<lparr>po_tenant = [], po_name = [], po_revision = 0, po_digest = [], po_rules = [],
      po_createdAt = zero_time, po_retainUntil = zero_time\<rparr>"

definition zero_SessionRecord :: SessionRecord where
  "zero_SessionRecord =
     \<lparr>ss_tenant = [], ss_principal = [], ss_sessionID = [], ss_agentID = [], ss_revisionID = [],
      ss_state = SessionUnset, ss_version = 0, ss_createdAt = zero_time, ss_updatedAt = zero_time,
      ss_retainUntil = zero_time\<rparr>"

definition zero_InputRecord :: InputRecord where
  "zero_InputRecord =
     \<lparr>in_tenant = [], in_principal = [], in_sessionID = [], in_inputID = [],
      in_content = zero_Reference, in_acceptedAt = zero_time, in_retentionUntil = zero_time\<rparr>"

definition zero_ArtifactRecord :: ArtifactRecord where
  "zero_ArtifactRecord =
     \<lparr>at_tenant = [], at_principal = [], at_artifactID = [], at_sessionID = [], at_turnID = [],
      at_reference = zero_Reference, at_createdAt = zero_time, at_retainUntil = zero_time\<rparr>"

definition zero_ConversationRecord :: ConversationRecord where
  "zero_ConversationRecord =
     \<lparr>cv_tenant = [], cv_principal = [], cv_sessionID = [], cv_version = 0,
      cv_reference = zero_Reference, cv_createdAt = zero_time, cv_retainUntil = zero_time\<rparr>"

definition zero_CapabilityGrantRecord :: CapabilityGrantRecord where
  "zero_CapabilityGrantRecord =
     \<lparr>gr_tenant = [], gr_principal = [], gr_sessionID = [], gr_turnID = [], gr_grantID = [],
      gr_toolCallID = [], gr_capabilityDigest = [], gr_maximumUses = 0, gr_uses = 0,
      gr_expiresAt = zero_time, gr_revokedAt = None, gr_policyRevisionDigest = [],
      gr_createdAt = zero_time, gr_retainUntil = zero_time\<rparr>"

definition zero_TurnRecord :: TurnRecord where
  "zero_TurnRecord =
     \<lparr>tu_tenant = [], tu_principal = [], tu_sessionID = [], tu_turnID = [], tu_inputID = [],
      tu_position = 0, tu_state = TurnUnset, tu_version = 0, tu_startedAt = None,
      tu_completedAt = None, tu_failure = None, tu_retentionUntil = zero_time\<rparr>"

definition zero_InvocationRecord :: InvocationRecord where
  "zero_InvocationRecord =
     \<lparr>iv_tenant = [], iv_principal = [], iv_sessionID = [], iv_turnID = [], iv_invocationID = [],
      iv_operationID = [], iv_ordinal = 0, iv_fence = 0, iv_state = InvocationUnset,
      iv_result = None, iv_failure = None, iv_usage = None, iv_createdAt = zero_time,
      iv_updatedAt = zero_time, iv_retentionUntil = zero_time\<rparr>"

definition zero_OutboxRecord :: OutboxRecord where
  "zero_OutboxRecord =
     \<lparr>ob_tenant = [], ob_principal = [], ob_outboxID = [], ob_aggregate = [],
      ob_aggregateVersion = 0, ob_version = 0, ob_eventID = [], ob_eventKind = EventUnset,
      ob_eventSequence = 0, ob_auditFactID = [], ob_operationID = [], ob_toolCallID = [],
      ob_sessionID = [], ob_turnID = [], ob_invocationID = [], ob_invocationOrdinal = 0,
      ob_invocationFence = 0, ob_sessionVersion = 0, ob_turnVersion = 0, ob_state = OutboxUnset,
      ob_claimedBy = [], ob_claimUntil = None, ob_committedAt = zero_time,
      ob_retentionUntil = zero_time\<rparr>"

definition zero_MutationReceipt :: MutationReceipt where
  "zero_MutationReceipt =
     \<lparr>rc_scope = \<lparr>sc_tenant = [], sc_principal = [], sc_authority = AuthorityUnset\<rparr>,
      rc_idempotencyKey = [], rc_operationID = [], rc_command = [], rc_requestDigest = [],
      rc_agentID = [], rc_revisionID = [], rc_sessionID = [], rc_inputID = [], rc_turnID = [],
      rc_artifactID = [], rc_policyName = [], rc_policyRevision = 0, rc_conversationVersion = 0,
      rc_acceptedAt = zero_time, rc_retentionUntil = zero_time\<rparr>"

definition zero_EffectSet :: EffectSet where
  "zero_EffectSet = \<lparr>ef_events = [], ef_audit = [], ef_outbox = []\<rparr>"

definition zero_RuntimeState :: RuntimeState where
  "zero_RuntimeState =
     \<lparr>st_revisions = [], st_policies = [], st_sessions = [], st_inputs = [], st_artifacts = [],
      st_conversations = [], st_toolIntents = [], st_grants = [], st_toolExecutions = [],
      st_approvals = [], st_turns = [], st_invocations = [], st_receipts = [], st_events = [],
      st_audit = [], st_outbox = []\<rparr>"

end
