(* ===== verification/Content_Handoff.thy ===== *)
theory Content_Handoff
  imports State_Contract
begin

text \<open>
  The opaque staged-content proofs of \<^verbatim>\<open>internal/runtimecontent/content.go\<close> that a state command
  carries, and the five validators of \<^verbatim>\<open>Store\<close> (the \<^verbatim>\<open>ContentHandoffValidator\<close> the command compiler
  is built from). A store is named by a number, its address; a handoff records the address of
  its issuer. Staging writes to an object store and is not modelled here.
\<close>

datatype contentKind =
    contentKindUnset | contentKindAgentSpecificationBody | contentKindInputEnvelope
  | contentKindArtifact | contentKindConversationEntry | contentKindToolActionDescriptor

record ContentHandoff =
  ch_issuer :: "nat option"
  ch_tenant :: TenantID
  ch_reference :: Reference
  ch_kind :: contentKind
  ch_name :: string
  ch_modelProfile :: string

record AgentSpecificationBodyCommitment =
  asc_tenant :: TenantID
  asc_reference :: Reference
  asc_name :: string
  asc_modelProfile :: string

text \<open>The other four commitments are a tenant and a reference.\<close>

record ContentCommitment =
  cc_tenant :: TenantID
  cc_reference :: Reference

definition AgentSpecificationBodyMediaTypeV1 :: string where
  "AgentSpecificationBodyMediaTypeV1 = ''application/vnd.agent-runtime.agent-specification-body+cbor;version=1''"
definition InputEnvelopeMediaTypeV1 :: string where
  "InputEnvelopeMediaTypeV1 = ''application/vnd.agent-runtime.input+cbor;version=1''"
definition ConversationEntryMediaTypeV1 :: string where
  "ConversationEntryMediaTypeV1 = ''application/vnd.agent-runtime.conversation-entry+octets;version=1''"
definition ToolActionDescriptorMediaTypeV1 :: string where
  "ToolActionDescriptorMediaTypeV1 = ''application/vnd.agent-runtime.tool-action+octets;version=1''"

definition maximumSpecificationBytes :: int where "maximumSpecificationBytes = 1048576"
definition maximumInputEnvelopeBytes :: int where "maximumInputEnvelopeBytes = 2101248"
definition maximumArtifactBytes :: int where "maximumArtifactBytes = 8388608"
definition maximumConversationEntryBytes :: int where "maximumConversationEntryBytes = 2097152"

section \<open>Checks\<close>

text \<open>
  \<open>validSegment\<close> ranges over the runes of a valid UTF-8 string and rejects every rune outside
  ASCII, so the check by bytes is the same.
\<close>

definition segment_char :: "bool \<Rightarrow> char \<Rightarrow> bool" where
  "segment_char first c \<longleftrightarrow>
     (97 \<le> byte c \<and> byte c \<le> 122) \<or> (48 \<le> byte c \<and> byte c \<le> 57)
     \<or> (\<not> first \<and> (c = CHR ''-'' \<or> c = CHR ''_''))"

definition validSegment :: "string \<Rightarrow> nat \<Rightarrow> bool" where
  "validSegment value maximum \<longleftrightarrow>
     \<not> (value = [] \<or> value = ''.'' \<or> value = ''..'' \<or> maximum < length value \<or> \<not> utf8_valid value)
     \<and> (case value of [] \<Rightarrow> True | c # cs \<Rightarrow> segment_char True c \<and> list_all (segment_char False) cs)"

definition validTenantID :: "TenantID \<Rightarrow> bool" where
  "validTenantID value \<longleftrightarrow> validSegment value 128"

definition content_validName :: "string \<Rightarrow> bool" where
  "content_validName value \<longleftrightarrow>
     \<not> (length value = 0 \<or> 128 < length value)
     \<and> list_all (\<lambda>c. asciiAlphaNumeric c \<or> c = CHR ''-'' \<or> c = CHR ''_'' \<or> c = CHR ''.'') value"

definition validDigest :: "string \<Rightarrow> bool" where
  "validDigest value \<longleftrightarrow>
     length value = 71 \<and> prefix ''sha256:'' value \<and> trim_set ''0123456789abcdef'' (drop 7 value) = []"

definition contains_any :: "string \<Rightarrow> string \<Rightarrow> bool" where
  "contains_any value cs \<longleftrightarrow> list_ex (\<lambda>c. c \<in> set cs) value"

definition validArtifactMediaType :: "string \<Rightarrow> bool" where
  "validArtifactMediaType value \<longleftrightarrow>
     value \<noteq> [] \<and> length value \<le> 255 \<and> utf8_valid value
     \<and> \<not> contains_any value [CHR 0x5C, CHR 0x00, CHR 0x0D, CHR 0x0A]"

definition bounded_reference :: "Reference \<Rightarrow> int \<Rightarrow> bool" where
  "bounded_reference r maximum \<longleftrightarrow>
     0 < ref_sizeBytes r \<and> ref_sizeBytes r \<le> maximum \<and> validDigest (ref_digest r)"

definition validAgentSpecificationBodyReference :: "Reference \<Rightarrow> bool" where
  "validAgentSpecificationBodyReference r \<longleftrightarrow>
     ref_mediaType r = AgentSpecificationBodyMediaTypeV1 \<and> bounded_reference r maximumSpecificationBytes"

definition validInputEnvelopeReference :: "Reference \<Rightarrow> bool" where
  "validInputEnvelopeReference r \<longleftrightarrow>
     ref_mediaType r = InputEnvelopeMediaTypeV1 \<and> bounded_reference r maximumInputEnvelopeBytes"

definition content_validArtifactReference :: "Reference \<Rightarrow> bool" where
  "content_validArtifactReference r \<longleftrightarrow>
     validArtifactMediaType (ref_mediaType r) \<and> bounded_reference r maximumArtifactBytes"

definition validConversationEntryReference :: "Reference \<Rightarrow> bool" where
  "validConversationEntryReference r \<longleftrightarrow>
     ref_mediaType r = ConversationEntryMediaTypeV1 \<and> bounded_reference r maximumConversationEntryBytes"

section \<open>Validators\<close>

definition ValidateAgentSpecificationBodyHandoff ::
    "nat \<Rightarrow> ContentHandoff \<Rightarrow> AgentSpecificationBodyCommitment option" where
  "ValidateAgentSpecificationBodyHandoff store h =
     (if ch_issuer h \<noteq> Some store \<or> ch_kind h \<noteq> contentKindAgentSpecificationBody
         \<or> \<not> validTenantID (ch_tenant h) \<or> \<not> validAgentSpecificationBodyReference (ch_reference h)
         \<or> \<not> content_validName (ch_name h) \<or> \<not> content_validName (ch_modelProfile h)
      then None
      else Some \<lparr>asc_tenant = ch_tenant h, asc_reference = ch_reference h, asc_name = ch_name h,
                 asc_modelProfile = ch_modelProfile h\<rparr>)"

definition ValidateInputEnvelopeHandoff :: "nat \<Rightarrow> ContentHandoff \<Rightarrow> ContentCommitment option" where
  "ValidateInputEnvelopeHandoff store h =
     (if ch_issuer h \<noteq> Some store \<or> ch_kind h \<noteq> contentKindInputEnvelope
         \<or> \<not> validTenantID (ch_tenant h) \<or> \<not> validInputEnvelopeReference (ch_reference h)
         \<or> ch_name h \<noteq> [] \<or> ch_modelProfile h \<noteq> []
      then None
      else Some \<lparr>cc_tenant = ch_tenant h, cc_reference = ch_reference h\<rparr>)"

definition ValidateArtifactHandoff :: "nat \<Rightarrow> ContentHandoff \<Rightarrow> ContentCommitment option" where
  "ValidateArtifactHandoff store h =
     (if ch_issuer h \<noteq> Some store \<or> ch_kind h \<noteq> contentKindArtifact
         \<or> \<not> validTenantID (ch_tenant h) \<or> \<not> content_validArtifactReference (ch_reference h)
         \<or> ch_name h \<noteq> [] \<or> ch_modelProfile h \<noteq> []
      then None
      else Some \<lparr>cc_tenant = ch_tenant h, cc_reference = ch_reference h\<rparr>)"

definition ValidateConversationEntryHandoff :: "nat \<Rightarrow> ContentHandoff \<Rightarrow> ContentCommitment option" where
  "ValidateConversationEntryHandoff store h =
     (if ch_issuer h \<noteq> Some store \<or> ch_kind h \<noteq> contentKindConversationEntry
         \<or> \<not> validTenantID (ch_tenant h) \<or> \<not> validConversationEntryReference (ch_reference h)
         \<or> ch_name h \<noteq> [] \<or> ch_modelProfile h \<noteq> []
      then None
      else Some \<lparr>cc_tenant = ch_tenant h, cc_reference = ch_reference h\<rparr>)"

definition ValidateToolActionDescriptorHandoff :: "nat \<Rightarrow> ContentHandoff \<Rightarrow> ContentCommitment option" where
  "ValidateToolActionDescriptorHandoff store h =
     (if ch_issuer h \<noteq> Some store \<or> ch_kind h \<noteq> contentKindToolActionDescriptor
         \<or> \<not> validTenantID (ch_tenant h) \<or> ref_mediaType (ch_reference h) \<noteq> ToolActionDescriptorMediaTypeV1
         \<or> ref_sizeBytes (ch_reference h) \<le> 0
         \<or> maximumConversationEntryBytes < ref_sizeBytes (ch_reference h)
         \<or> \<not> validDigest (ref_digest (ch_reference h))
      then None
      else Some \<lparr>cc_tenant = ch_tenant h, cc_reference = ch_reference h\<rparr>)"

end
