(* ===== verification/State_Commands.thy ===== *)
theory State_Commands
  imports Content_Handoff
begin

text \<open>
  The command vocabulary of \<^verbatim>\<open>internal/runtimestate\<close>: the command structs of
  \<^verbatim>\<open>contract.go\<close>, the closed command kinds, receipt bindings and compiled mutations of
  \<^verbatim>\<open>compiler.go\<close>. The Go value \<^verbatim>\<open>command any\<close> of a compiled mutation is the datatype
  \<open>compiled_command\<close>, with one constructor per case of the type switch in
  \<^verbatim>\<open>RuntimeStatePlanner.Plan\<close>.
\<close>

datatype CommandKind =
    CommandUnset
  | CommandRegisterAgentRevision | CommandRegisterPolicyRevision | CommandCreateSession
  | CommandAdmitInput | CommandRegisterArtifact | CommandAppendConversation
  | CommandAdmitToolApproval | CommandRecordToolIntent | CommandRequestApproval
  | CommandDecideApproval | CommandRevokeCapabilityGrant | CommandExpireCapabilityGrant
  | CommandDenyToolAdmission | CommandConsumeCapabilityGrant | CommandBeginToolExecution
  | CommandRecordToolOutcome | CommandBeginInvocation | CommandRecordOutcome
  | CommandSettleTurn | CommandCancelTurn | CommandCloseSession | CommandCancelSession
  | CommandFailSession | CommandClaimOutbox | CommandRenewOutbox | CommandAcknowledgeOutbox

fun command_string :: "CommandKind \<Rightarrow> string" where
  "command_string CommandUnset = ''''"
| "command_string CommandRegisterAgentRevision = ''register_agent_revision''"
| "command_string CommandRegisterPolicyRevision = ''register_policy_revision''"
| "command_string CommandCreateSession = ''create_session''"
| "command_string CommandAdmitInput = ''admit_input''"
| "command_string CommandRegisterArtifact = ''register_artifact''"
| "command_string CommandAppendConversation = ''append_conversation''"
| "command_string CommandAdmitToolApproval = ''admit_tool_approval''"
| "command_string CommandRecordToolIntent = ''record_tool_intent''"
| "command_string CommandRequestApproval = ''request_approval''"
| "command_string CommandDecideApproval = ''decide_approval''"
| "command_string CommandRevokeCapabilityGrant = ''revoke_capability_grant''"
| "command_string CommandExpireCapabilityGrant = ''expire_capability_grant''"
| "command_string CommandDenyToolAdmission = ''deny_tool_admission''"
| "command_string CommandConsumeCapabilityGrant = ''consume_capability_grant''"
| "command_string CommandBeginToolExecution = ''begin_tool_execution''"
| "command_string CommandRecordToolOutcome = ''record_tool_execution_outcome''"
| "command_string CommandBeginInvocation = ''begin_invocation_attempt''"
| "command_string CommandRecordOutcome = ''record_invocation_outcome''"
| "command_string CommandSettleTurn = ''settle_turn''"
| "command_string CommandCancelTurn = ''cancel_turn''"
| "command_string CommandCloseSession = ''close_session''"
| "command_string CommandCancelSession = ''cancel_session''"
| "command_string CommandFailSession = ''fail_session''"
| "command_string CommandClaimOutbox = ''claim_outbox''"
| "command_string CommandRenewOutbox = ''renew_outbox''"
| "command_string CommandAcknowledgeOutbox = ''acknowledge_outbox''"

record ReceiptBinding =
  rb_scope :: MutationScope
  rb_idempotencyKey :: string
  rb_command :: CommandKind
  rb_requestDigest :: RequestDigest

section \<open>Commands\<close>

record RegisterAgentRevisionCommand =
  rac_scope :: MutationScope
  rac_idempotencyKey :: string
  rac_agentID :: AgentID
  rac_expectedRevision :: nat
  rac_specification :: ContentHandoff

record RegisterPolicyRevisionCommand =
  rpc_scope :: MutationScope
  rpc_idempotencyKey :: string
  rpc_name :: string
  rpc_expectedRevision :: nat
  rpc_rules :: "PolicyRule list"

record CreateSessionCommand =
  csc_scope :: MutationScope
  csc_idempotencyKey :: string
  csc_revisionID :: AgentRevisionID

record AdmitInputCommand =
  aic_scope :: MutationScope
  aic_idempotencyKey :: string
  aic_sessionID :: SessionID
  aic_input :: ContentHandoff

record RegisterArtifactCommand =
  arc_scope :: MutationScope
  arc_idempotencyKey :: string
  arc_sessionID :: SessionID
  arc_turnID :: TurnID
  arc_artifact :: ContentHandoff
  arc_leaseFence :: "OutboxLeaseFence option"

record AppendConversationCommand =
  acc_scope :: MutationScope
  acc_idempotencyKey :: string
  acc_sessionID :: SessionID
  acc_expectedVersion :: nat
  acc_entry :: ContentHandoff

record RecordToolIntentCommand =
  tic_scope :: MutationScope
  tic_idempotencyKey :: string
  tic_sessionID :: SessionID
  tic_turnID :: TurnID
  tic_toolCallID :: string
  tic_toolName :: string
  tic_actionDigest :: string
  tic_policyRevisionDigest :: string
  tic_descriptor :: ContentHandoff

record AdmitToolApprovalCommand =
  tac_scope :: MutationScope
  tac_idempotencyKey :: string
  tac_sessionID :: SessionID
  tac_turnID :: TurnID
  tac_toolCallID :: string
  tac_toolName :: string
  tac_approvalID :: string
  tac_actionDigest :: string
  tac_policyRevisionDigest :: string
  tac_capabilityDigest :: string
  tac_actionVerb :: string
  tac_actionTarget :: string
  tac_descriptor :: ContentHandoff
  tac_maximumUses :: nat
  tac_expiresAt :: gtime

record RequestApprovalCommand =
  qac_scope :: MutationScope
  qac_idempotencyKey :: string
  qac_sessionID :: SessionID
  qac_turnID :: TurnID
  qac_toolCallID :: string
  qac_approvalID :: string
  qac_actionDigest :: string
  qac_policyRevisionDigest :: string
  qac_capabilityDigest :: string
  qac_actionVerb :: string
  qac_actionTarget :: string
  qac_maximumUses :: nat
  qac_expiresAt :: gtime

text \<open>The decision is one of the two strings the compiler accepts, an approval state.\<close>

record DecideApprovalCommand =
  dac_scope :: MutationScope
  dac_idempotencyKey :: string
  dac_approvalID :: string
  dac_decision :: ApprovalState

record ConsumeCapabilityGrantCommand =
  cgc_scope :: MutationScope
  cgc_idempotencyKey :: string
  cgc_grantID :: string
  cgc_toolCallID :: string
  cgc_policyRevisionDigest :: string
  cgc_sessionID :: SessionID
  cgc_turnID :: TurnID

record RevokeCapabilityGrantCommand =
  rgc_scope :: MutationScope
  rgc_idempotencyKey :: string
  rgc_grantID :: string
  rgc_toolCallID :: string
  rgc_sessionID :: SessionID
  rgc_turnID :: TurnID

record ExpireCapabilityGrantCommand =
  egc_scope :: MutationScope
  egc_idempotencyKey :: string
  egc_grantID :: string
  egc_toolCallID :: string
  egc_sessionID :: SessionID
  egc_turnID :: TurnID

record DenyToolAdmissionCommand =
  dtc_scope :: MutationScope
  dtc_idempotencyKey :: string
  dtc_toolCallID :: string
  dtc_decision :: string
  dtc_policyRevisionDigest :: string
  dtc_capabilityScopeDigest :: string
  dtc_sessionID :: SessionID
  dtc_turnID :: TurnID

record BeginToolExecutionCommand =
  btc_scope :: MutationScope
  btc_idempotencyKey :: string
  btc_toolCallID :: string
  btc_grantID :: string
  btc_sessionID :: SessionID
  btc_turnID :: TurnID
  btc_operationID :: OperationID

record RecordToolExecutionOutcomeCommand =
  toc_scope :: MutationScope
  toc_idempotencyKey :: string
  toc_sessionID :: SessionID
  toc_turnID :: TurnID
  toc_toolCallID :: string
  toc_operationID :: OperationID
  toc_outcome :: ToolExecutionState
  toc_result :: "Reference option"
  toc_failure :: "Failure option"
  toc_leaseFence :: "OutboxLeaseFence option"

record BeginInvocationAttemptCommand =
  bic_scope :: MutationScope
  bic_idempotencyKey :: string
  bic_sessionID :: SessionID
  bic_turnID :: TurnID
  bic_operationID :: OperationID
  bic_expectedSessionVersion :: nat
  bic_expectedTurnVersion :: nat
  bic_expectedFence :: nat

record RecordInvocationOutcomeCommand =
  ioc_scope :: MutationScope
  ioc_idempotencyKey :: string
  ioc_sessionID :: SessionID
  ioc_turnID :: TurnID
  ioc_operationID :: OperationID
  ioc_ordinal :: nat
  ioc_fence :: nat
  ioc_outcome :: InvocationState
  ioc_result :: "Reference option"
  ioc_failure :: "Failure option"
  ioc_usage :: "ModelUsage option"
  ioc_expectedSessionVersion :: nat
  ioc_expectedTurnVersion :: nat

record TerminalOutcome =
  to_operationID :: OperationID
  to_ordinal :: nat
  to_fence :: nat
  to_state :: TurnState
  to_failure :: "Failure option"

record SettleTurnCommand =
  stc_scope :: MutationScope
  stc_idempotencyKey :: string
  stc_sessionID :: SessionID
  stc_turnID :: TurnID
  stc_expectedSessionVersion :: nat
  stc_expectedTurnVersion :: nat
  stc_outcome :: TerminalOutcome
  stc_leaseFence :: "OutboxLeaseFence option"

record CancelTurnCommand =
  ctc_scope :: MutationScope
  ctc_idempotencyKey :: string
  ctc_sessionID :: SessionID
  ctc_turnID :: TurnID

text \<open>Closing, cancelling and failing a Session are three Go structs with the same fields.\<close>

record CloseSessionCommand =
  clc_scope :: MutationScope
  clc_idempotencyKey :: string
  clc_sessionID :: SessionID

record CancelSessionCommand =
  xsc_scope :: MutationScope
  xsc_idempotencyKey :: string
  xsc_sessionID :: SessionID

record FailSessionCommand =
  fsc_scope :: MutationScope
  fsc_idempotencyKey :: string
  fsc_sessionID :: SessionID

record ClaimOutboxCommand =
  coc_scope :: MutationScope
  coc_idempotencyKey :: string
  coc_outboxID :: OutboxID
  coc_expectedVersion :: nat
  coc_claimer :: string
  coc_claimUntil :: gtime

record RenewOutboxCommand =
  roc_scope :: MutationScope
  roc_idempotencyKey :: string
  roc_outboxID :: OutboxID
  roc_expectedVersion :: nat
  roc_claimer :: string
  roc_claimUntil :: gtime

record AcknowledgeOutboxCommand =
  aoc_scope :: MutationScope
  aoc_idempotencyKey :: string
  aoc_outboxID :: OutboxID
  aoc_expectedVersion :: nat
  aoc_claimer :: string
  aoc_publishedAt :: gtime

section \<open>Compiled mutations\<close>

record compiledRegister =
  cr_command :: RegisterAgentRevisionCommand
  cr_commitment :: AgentSpecificationBodyCommitment

record compiledAdmit =
  ca_command :: AdmitInputCommand
  ca_commitment :: ContentCommitment

record compiledArtifact =
  cf_command :: RegisterArtifactCommand
  cf_commitment :: ContentCommitment

record compiledConversation =
  cn_command :: AppendConversationCommand
  cn_commitment :: ContentCommitment

record compiledToolIntent =
  ct_command :: RecordToolIntentCommand
  ct_descriptor :: Reference

record compiledToolApproval =
  cp_command :: AdmitToolApprovalCommand
  cp_descriptor :: Reference

datatype compiled_command =
    C_register compiledRegister
  | C_registerPolicy RegisterPolicyRevisionCommand
  | C_createSession CreateSessionCommand
  | C_admit compiledAdmit
  | C_registerArtifact compiledArtifact
  | C_appendConversation compiledConversation
  | C_admitToolApproval compiledToolApproval
  | C_recordToolIntent compiledToolIntent
  | C_requestApproval RequestApprovalCommand
  | C_decideApproval DecideApprovalCommand
  | C_consumeCapabilityGrant ConsumeCapabilityGrantCommand
  | C_revokeCapabilityGrant RevokeCapabilityGrantCommand
  | C_expireCapabilityGrant ExpireCapabilityGrantCommand
  | C_denyToolAdmission DenyToolAdmissionCommand
  | C_beginToolExecution BeginToolExecutionCommand
  | C_recordToolExecutionOutcome RecordToolExecutionOutcomeCommand
  | C_begin BeginInvocationAttemptCommand
  | C_recordOutcome RecordInvocationOutcomeCommand
  | C_settle SettleTurnCommand
  | C_cancel CancelTurnCommand
  | C_close CloseSessionCommand
  | C_cancelSession CancelSessionCommand
  | C_failSession FailSessionCommand
  | C_claim ClaimOutboxCommand
  | C_renew RenewOutboxCommand
  | C_acknowledge AcknowledgeOutboxCommand

record CompiledMutation =
  cm_kind :: CommandKind
  cm_receipt :: ReceiptBinding
  cm_command :: compiled_command

end
