(* ===== verification/Planner_Monad.thy ===== *)
theory Planner_Monad
  imports State_Commands
begin

text \<open>
  The planner of \<^verbatim>\<open>internal/runtimestate/planner.go\<close> threads three things through every handler:
  the state it mutates in place (\<^verbatim>\<open>state *RuntimeState\<close>), the injected identifier source, and the
  error return. The model threads them in a state monad with errors over a context of the
  state and the number of identifiers drawn so far. The identifier source is a parameter:
  its \<open>n\<close>-th answer for a kind is any string, or \<open>None\<close> for an error. On an error the
  context keeps the identifiers already drawn, as the source does.
\<close>

section \<open>Planner configuration\<close>

datatype IdentifierKind =
    IdentifierAgent | IdentifierRevision | IdentifierSession | IdentifierInput | IdentifierArtifact
  | IdentifierTurn | IdentifierInvocation | IdentifierEvent | IdentifierCursor | IdentifierAudit
  | IdentifierOutbox | IdentifierGrant

datatype DataClass =
    DataClassAgentRevision | DataClassPolicy | DataClassSession | DataClassInput | DataClassTurn
  | DataClassArtifact | DataClassConversation | DataClassAuthorization | DataClassInvocation
  | DataClassEvent | DataClassAudit | DataClassOutbox | DataClassReceipt

text \<open>A retention policy is the plain interface, or the class-aware extension of it.\<close>

datatype RetentionPolicy =
    PlainRetention "gtime \<Rightarrow> gtime"
  | ClassRetentionPolicy "DataClass \<Rightarrow> gtime \<Rightarrow> gtime"

definition defaultRetention :: RetentionPolicy where
  "defaultRetention = PlainRetention (\<lambda>now. add_duration now (24 * hour))"

record RuntimeStatePlanner =
  pl_ids :: "nat \<Rightarrow> IdentifierKind \<Rightarrow> string option"
  pl_retention :: RetentionPolicy

definition retain :: "RuntimeStatePlanner \<Rightarrow> gtime \<Rightarrow> DataClass \<Rightarrow> gtime" where
  "retain P now c =
     (case pl_retention P of
        ClassRetentionPolicy f \<Rightarrow> normalizeTime (f c now)
      | PlainRetention f \<Rightarrow> normalizeTime (f now))"

section \<open>The monad\<close>

record pctx =
  px_state :: RuntimeState
  px_next :: nat

type_synonym 'a pm = "pctx \<Rightarrow> (store_error + 'a) \<times> pctx"

definition pure :: "'a \<Rightarrow> 'a pm" where
  "pure a = (\<lambda>c. (Inr a, c))"

definition pfail :: "store_error \<Rightarrow> 'a pm" where
  "pfail e = (\<lambda>c. (Inl e, c))"

definition pbind :: "'a pm \<Rightarrow> ('a \<Rightarrow> 'b pm) \<Rightarrow> 'b pm" where
  "pbind m f = (\<lambda>c. case m c of (Inl e, c') \<Rightarrow> (Inl e, c') | (Inr a, c') \<Rightarrow> f a c')"

definition pget :: "RuntimeState pm" where
  "pget = (\<lambda>c. (Inr (px_state c), c))"

definition pmodify :: "(RuntimeState \<Rightarrow> RuntimeState) \<Rightarrow> unit pm" where
  "pmodify f = (\<lambda>c. (Inr (), c\<lparr>px_state := f (px_state c)\<rparr>))"

definition pput :: "RuntimeState \<Rightarrow> unit pm" where
  "pput s = (\<lambda>c. (Inr (), c\<lparr>px_state := s\<rparr>))"

lemma pbind_Inr [simp]:
  "pbind m f c = (Inr b, c'') \<longleftrightarrow> (\<exists>a c'. m c = (Inr a, c') \<and> f a c' = (Inr b, c''))"
  by (auto simp: pbind_def split: prod.splits sum.splits)

lemma pure_Inr [simp]: "pure a c = (Inr b, c') \<longleftrightarrow> b = a \<and> c' = c"
  by (auto simp: pure_def)

lemma pfail_Inr [simp]: "pfail e c \<noteq> (Inr b, c')"
  by (simp add: pfail_def)

lemma pget_Inr [simp]: "pget c = (Inr s, c') \<longleftrightarrow> s = px_state c \<and> c' = c"
  by (auto simp: pget_def)

lemma pmodify_Inr [simp]:
  "pmodify f c = (Inr u, c') \<longleftrightarrow> c' = c\<lparr>px_state := f (px_state c)\<rparr>"
  by (auto simp: pmodify_def)

lemma pput_Inr [simp]: "pput s c = (Inr u, c') \<longleftrightarrow> c' = c\<lparr>px_state := s\<rparr>"
  by (auto simp: pput_def)

section \<open>Identifiers\<close>

definition raw :: "RuntimeStatePlanner \<Rightarrow> IdentifierKind \<Rightarrow> string pm" where
  "raw P kind = (\<lambda>c.
     let c' = c\<lparr>px_next := Suc (px_next c)\<rparr>
     in case pl_ids P (px_next c) kind of
          None \<Rightarrow> (Inl ErrAllocate, c')
        | Some value \<Rightarrow> if value = [] then (Inl ErrAllocate, c') else (Inr value, c'))"

text \<open>The parse functions of the SDK report the error an identifier source of another shape causes.\<close>

definition parsed :: "(string \<Rightarrow> string option) \<Rightarrow> string \<Rightarrow> string pm" where
  "parsed parse value = (case parse value of None \<Rightarrow> pfail ErrIdentifier | Some i \<Rightarrow> pure i)"

definition agentID :: "RuntimeStatePlanner \<Rightarrow> AgentID pm" where
  "agentID P = pbind (raw P IdentifierAgent) (parsed ParseAgentID)"
definition revisionID :: "RuntimeStatePlanner \<Rightarrow> AgentRevisionID pm" where
  "revisionID P = pbind (raw P IdentifierRevision) (parsed ParseAgentRevisionID)"
definition sessionID :: "RuntimeStatePlanner \<Rightarrow> SessionID pm" where
  "sessionID P = pbind (raw P IdentifierSession) (parsed ParseSessionID)"
definition inputID :: "RuntimeStatePlanner \<Rightarrow> InputID pm" where
  "inputID P = pbind (raw P IdentifierInput) (parsed ParseInputID)"
definition artifactID :: "RuntimeStatePlanner \<Rightarrow> ArtifactID pm" where
  "artifactID P = pbind (raw P IdentifierArtifact) (parsed ParseArtifactID)"
definition turnID :: "RuntimeStatePlanner \<Rightarrow> TurnID pm" where
  "turnID P = pbind (raw P IdentifierTurn) (parsed ParseTurnID)"
definition eventID :: "RuntimeStatePlanner \<Rightarrow> EventID pm" where
  "eventID P = pbind (raw P IdentifierEvent) (parsed ParseEventID)"
definition cursor :: "RuntimeStatePlanner \<Rightarrow> Cursor pm" where
  "cursor P = pbind (raw P IdentifierCursor) (parsed ParseCursor)"
definition invocationID :: "RuntimeStatePlanner \<Rightarrow> InvocationID pm" where
  "invocationID P = raw P IdentifierInvocation"
definition auditID :: "RuntimeStatePlanner \<Rightarrow> AuditFactID pm" where
  "auditID P = raw P IdentifierAudit"
definition outboxID :: "RuntimeStatePlanner \<Rightarrow> OutboxID pm" where
  "outboxID P = raw P IdentifierOutbox"

definition validOpaque :: "string \<Rightarrow> nat \<Rightarrow> bool" where
  "validOpaque value maximum \<longleftrightarrow> value \<noteq> [] \<and> length value \<le> maximum \<and> trimmed_utf8 value"

definition grantID :: "RuntimeStatePlanner \<Rightarrow> string pm" where
  "grantID P = pbind (raw P IdentifierGrant)
     (\<lambda>value. if \<not> validOpaque value 128 then pfail ErrIntegrity else pure value)"

text \<open>Drawing an identifier leaves the state alone and yields a nonempty string.\<close>

definition draws :: "string pm \<Rightarrow> bool" where
  "draws m \<longleftrightarrow> (\<forall>c v c'. m c = (Inr v, c') \<longrightarrow> px_state c' = px_state c \<and> v \<noteq> [])"

lemma drawsD [dest]: "m c = (Inr v, c') \<Longrightarrow> draws m \<Longrightarrow> px_state c' = px_state c \<and> v \<noteq> []"
  by (auto simp: draws_def)

lemma draws_raw [simp]: "draws (raw P kind)"
  by (auto simp: draws_def raw_def Let_def split: option.splits if_splits)

lemma draws_parsed:
  "(\<And>v w. parse v = Some w \<Longrightarrow> w \<noteq> []) \<Longrightarrow> draws (pbind (raw P kind) (parsed parse))"
  by (fastforce simp: draws_def parsed_def split: option.splits dest: drawsD [OF _ draws_raw])

lemma draws_identifiers [simp]:
  "draws (agentID P)" "draws (revisionID P)" "draws (sessionID P)" "draws (inputID P)"
  "draws (artifactID P)" "draws (turnID P)" "draws (eventID P)" "draws (cursor P)"
  "draws (invocationID P)" "draws (auditID P)" "draws (outboxID P)"
  unfolding agentID_def revisionID_def sessionID_def inputID_def artifactID_def turnID_def
    eventID_def cursor_def invocationID_def auditID_def outboxID_def
  by (auto intro!: draws_parsed)

lemma draws_grantID [simp]: "draws (grantID P)"
  by (fastforce simp: draws_def grantID_def split: if_splits dest: drawsD [OF _ draws_raw])

text \<open>Session, turn and the other parsed identifiers have their kind's shape.\<close>

lemma sessionID_parses: "sessionID P c = (Inr v, c') \<Longrightarrow> ParseSessionID v = Some v"
  by (auto simp: sessionID_def parsed_def ParseSessionID_def split: option.splits dest: parseID_SomeD(1))

lemma turnID_parses: "turnID P c = (Inr v, c') \<Longrightarrow> ParseTurnID v = Some v"
  by (auto simp: turnID_def parsed_def ParseTurnID_def split: option.splits dest: parseID_SomeD(1))

end
