(* ===== verification/Planner_Effects.thy ===== *)
theory Planner_Effects
  imports Planner_Monad
begin

text \<open>
  Lookups and effect producers of \<^verbatim>\<open>internal/runtimestate/planner.go\<close>: the product events, audit
  facts and outbox routes a transition appends, and the correlation
  \<^verbatim>\<open>decorateToolAuditFacts\<close> writes into the facts it has just appended.
  The contract of the producers is in \<open>Effects_Contract\<close>.
\<close>

section \<open>Lookups\<close>

definition findSession :: "RuntimeState \<Rightarrow> MutationScope \<Rightarrow> SessionID \<Rightarrow> nat option" where
  "findSession s scope i =
     find_index (\<lambda>x. ss_tenant x = sc_tenant scope \<and> ss_principal x = sc_principal scope
                     \<and> ss_sessionID x = i) (st_sessions s)"

definition findTurn :: "RuntimeState \<Rightarrow> MutationScope \<Rightarrow> SessionID \<Rightarrow> TurnID \<Rightarrow> nat option" where
  "findTurn s scope sid tid =
     find_index (\<lambda>x. tu_tenant x = sc_tenant scope \<and> tu_principal x = sc_principal scope
                     \<and> tu_sessionID x = sid \<and> tu_turnID x = tid) (st_turns s)"

definition findInvocation ::
    "RuntimeState \<Rightarrow> MutationScope \<Rightarrow> SessionID \<Rightarrow> TurnID \<Rightarrow> OperationID \<Rightarrow> nat option" where
  "findInvocation s scope sid tid op =
     find_index (\<lambda>x. iv_tenant x = sc_tenant scope \<and> iv_principal x = sc_principal scope
                     \<and> iv_sessionID x = sid \<and> iv_turnID x = tid \<and> iv_operationID x = op)
       (st_invocations s)"

definition findOutbox :: "RuntimeState \<Rightarrow> TenantID \<Rightarrow> OutboxID \<Rightarrow> nat option" where
  "findOutbox s tenant i =
     find_index (\<lambda>x. ob_tenant x = tenant \<and> ob_outboxID x = i) (st_outbox s)"

definition findReceipt :: "RuntimeState \<Rightarrow> ReceiptBinding \<Rightarrow> MutationReceipt option" where
  "findReceipt s b =
     find (\<lambda>r. rc_scope r = rb_scope b \<and> rc_idempotencyKey r = rb_idempotencyKey b) (st_receipts s)"

definition pending_turn :: "TurnState \<Rightarrow> bool" where
  "pending_turn t \<longleftrightarrow> t = TurnQueued \<or> t = TurnRunning \<or> t = TurnWaitingForApproval"

definition hasPending :: "RuntimeState \<Rightarrow> SessionID \<Rightarrow> bool" where
  "hasPending s sid \<longleftrightarrow> list_ex (\<lambda>t. tu_sessionID t = sid \<and> pending_turn (tu_state t)) (st_turns s)"

fun terminalEvent :: "TurnState \<Rightarrow> EventKind" where
  "terminalEvent TurnSucceeded = EventTurnSucceeded"
| "terminalEvent TurnCancelled = EventTurnCancelled"
| "terminalEvent _ = EventTurnFailed"

definition auditAgentRevisionID :: "RuntimeState \<Rightarrow> SessionID \<Rightarrow> AgentRevisionID" where
  "auditAgentRevisionID s sid =
     (case find (\<lambda>x. ss_sessionID x = sid) (st_sessions s) of None \<Rightarrow> [] | Some x \<Rightarrow> ss_revisionID x)"

section \<open>Building effects\<close>

definition auditLifecycleKinds :: "CommandKind \<Rightarrow> string list" where
  "auditLifecycleKinds command =
     (let pre = command_string command;
          kinds = [pre @ ''.attempted'', pre @ ''.authorized'', pre @ ''.committed'']
      in if command \<in> {CommandRecordToolOutcome, CommandRecordOutcome, CommandSettleTurn,
                       CommandCancelTurn, CommandCloseSession, CommandCancelSession,
                       CommandFailSession, CommandRevokeCapabilityGrant, CommandExpireCapabilityGrant}
         then kinds @ [pre @ ''.terminal'']
         else if command \<in> {CommandClaimOutbox, CommandRenewOutbox, CommandAcknowledgeOutbox}
         then kinds @ [pre @ ''.reconciled'']
         else kinds)"

text \<open>The loop that looks for the next sequence number of a Session, and the positions and
  ordinals found the same way.\<close>

definition next_after :: "('a \<Rightarrow> bool) \<Rightarrow> ('a \<Rightarrow> nat) \<Rightarrow> nat \<Rightarrow> 'a list \<Rightarrow> nat" where
  "next_after p f = foldl (\<lambda>n x. if p x \<and> n \<le> f x then f x + 1 else n)"

definition event ::
    "RuntimeStatePlanner \<Rightarrow> SessionRecord \<Rightarrow> TurnRecord \<Rightarrow> InvocationRecord \<Rightarrow> ReceiptBinding \<Rightarrow> EventKind
     \<Rightarrow> gtime \<Rightarrow> gtime \<Rightarrow> ProductEventRecord pm" where
  "event P session turn invocation b kind now until =
     pbind pget (\<lambda>s.
     let sequence = next_after (\<lambda>e. ev_sessionID e = ss_sessionID session) ev_sequence 1 (st_events s)
     in pbind (eventID P) (\<lambda>i.
        pbind (cursor P) (\<lambda>cur.
        let operation = (if iv_operationID invocation = [] then rb_idempotencyKey b
                         else iv_operationID invocation)
        in pure \<lparr>ev_tenant = ss_tenant session, ev_principal = ss_principal session,
                 ev_sessionID = ss_sessionID session, ev_sequence = sequence, ev_cursor = cur,
                 ev_eventID = i, ev_kind = kind, ev_inputID = tu_inputID turn,
                 ev_turnID = tu_turnID turn, ev_operationID = operation, ev_occurredAt = now,
                 ev_retentionUntil = until\<rparr>)))"

definition factKind ::
    "RuntimeStatePlanner \<Rightarrow> ReceiptBinding \<Rightarrow> string \<Rightarrow> SessionID \<Rightarrow> TurnID \<Rightarrow> gtime \<Rightarrow> gtime
     \<Rightarrow> AuditFactRecord pm" where
  "factKind P b kind sid tid now until =
     pbind pget (\<lambda>s.
     pbind (auditID P) (\<lambda>i.
     pure \<lparr>af_tenant = sc_tenant (rb_scope b), af_auditFactID = i,
           af_operationID = rb_idempotencyKey b, af_actor = sc_principal (rb_scope b),
           af_kind = kind, af_sessionID = sid, af_turnID = tid,
           af_agentRevisionID = auditAgentRevisionID s sid, af_policyRevisionDigest = [],
           af_capabilityScopeDigest = [], af_toolCallID = [], af_occurredAt = now,
           af_retentionUntil = until\<rparr>))"

definition fact ::
    "RuntimeStatePlanner \<Rightarrow> ReceiptBinding \<Rightarrow> SessionRecord \<Rightarrow> TurnRecord \<Rightarrow> gtime \<Rightarrow> gtime
     \<Rightarrow> AuditFactRecord pm" where
  "fact P b session turn now until =
     factKind P b (command_string (rb_command b)) (ss_sessionID session) (tu_turnID turn) now until"

definition outbox ::
    "RuntimeStatePlanner \<Rightarrow> SessionRecord \<Rightarrow> TurnRecord \<Rightarrow> InvocationRecord \<Rightarrow> EventID \<Rightarrow> EventKind
     \<Rightarrow> nat \<Rightarrow> gtime \<Rightarrow> gtime \<Rightarrow> OutboxRecord pm" where
  "outbox P session turn invocation eid ekind eseq now until =
     pbind (outboxID P) (\<lambda>i.
     pure (zero_OutboxRecord
       \<lparr>ob_tenant := ss_tenant session, ob_principal := ss_principal session, ob_outboxID := i,
        ob_aggregate := ''session'', ob_aggregateVersion := ss_version session, ob_version := 1,
        ob_eventID := eid, ob_eventKind := ekind, ob_eventSequence := eseq,
        ob_operationID := iv_operationID invocation, ob_sessionID := ss_sessionID session,
        ob_turnID := tu_turnID turn, ob_invocationID := iv_invocationID invocation,
        ob_invocationOrdinal := iv_ordinal invocation, ob_invocationFence := iv_fence invocation,
        ob_sessionVersion := ss_version session, ob_turnVersion := tu_version turn,
        ob_state := OutboxPending, ob_committedAt := now, ob_retentionUntil := until\<rparr>))"

definition auditOutbox ::
    "RuntimeStatePlanner \<Rightarrow> AuditFactRecord \<Rightarrow> gtime \<Rightarrow> gtime \<Rightarrow> OutboxRecord pm" where
  "auditOutbox P f now until =
     pbind (outboxID P) (\<lambda>i.
     pure (zero_OutboxRecord
       \<lparr>ob_tenant := af_tenant f, ob_principal := af_actor f, ob_outboxID := i,
        ob_aggregate := ''audit_fact'', ob_aggregateVersion := 1, ob_version := 1,
        ob_auditFactID := af_auditFactID f, ob_operationID := af_operationID f,
        ob_sessionID := af_sessionID f, ob_turnID := af_turnID f, ob_state := OutboxPending,
        ob_committedAt := now, ob_retentionUntil := until\<rparr>))"

definition catalogOutbox ::
    "RuntimeStatePlanner \<Rightarrow> ReceiptBinding \<Rightarrow> AgentRevisionRecord \<Rightarrow> gtime \<Rightarrow> gtime \<Rightarrow> OutboxRecord pm" where
  "catalogOutbox P b revision now until =
     pbind (outboxID P) (\<lambda>i.
     pure (zero_OutboxRecord
       \<lparr>ob_tenant := sc_tenant (rb_scope b), ob_principal := sc_principal (rb_scope b),
        ob_outboxID := i, ob_aggregate := ''agent_revision'',
        ob_aggregateVersion := ar_revision revision, ob_version := 1,
        ob_operationID := rb_idempotencyKey b, ob_state := OutboxPending, ob_committedAt := now,
        ob_retentionUntil := until\<rparr>))"

definition artifactOutbox ::
    "RuntimeStatePlanner \<Rightarrow> ReceiptBinding \<Rightarrow> ArtifactRecord \<Rightarrow> gtime \<Rightarrow> gtime \<Rightarrow> OutboxRecord pm" where
  "artifactOutbox P b artifact now until =
     pbind (outboxID P) (\<lambda>i.
     pure (zero_OutboxRecord
       \<lparr>ob_tenant := at_tenant artifact, ob_principal := at_principal artifact, ob_outboxID := i,
        ob_aggregate := ''artifact'', ob_aggregateVersion := 1, ob_version := 1,
        ob_operationID := rb_idempotencyKey b, ob_sessionID := at_sessionID artifact,
        ob_turnID := at_turnID artifact, ob_state := OutboxPending, ob_committedAt := now,
        ob_retentionUntil := until\<rparr>))"

definition toolExecutionOutbox ::
    "RuntimeStatePlanner \<Rightarrow> ToolExecutionRecord \<Rightarrow> gtime \<Rightarrow> gtime \<Rightarrow> OutboxRecord pm" where
  "toolExecutionOutbox P execution now until =
     pbind (outboxID P) (\<lambda>i.
     pure (zero_OutboxRecord
       \<lparr>ob_tenant := te_tenant execution, ob_principal := te_principal execution, ob_outboxID := i,
        ob_aggregate := ''tool_execution'', ob_aggregateVersion := 1, ob_version := 1,
        ob_operationID := te_operationID execution, ob_toolCallID := te_toolCallID execution,
        ob_sessionID := te_sessionID execution, ob_turnID := te_turnID execution,
        ob_state := OutboxPending, ob_committedAt := now, ob_retentionUntil := until\<rparr>))"

definition conversationOutbox ::
    "RuntimeStatePlanner \<Rightarrow> ReceiptBinding \<Rightarrow> ConversationRecord \<Rightarrow> gtime \<Rightarrow> gtime \<Rightarrow> OutboxRecord pm" where
  "conversationOutbox P b conversation now until =
     pbind (outboxID P) (\<lambda>i.
     pure (zero_OutboxRecord
       \<lparr>ob_tenant := cv_tenant conversation, ob_principal := cv_principal conversation,
        ob_outboxID := i, ob_aggregate := ''conversation'',
        ob_aggregateVersion := cv_version conversation, ob_version := 1,
        ob_operationID := rb_idempotencyKey b, ob_sessionID := cv_sessionID conversation,
        ob_state := OutboxPending, ob_committedAt := now, ob_retentionUntil := until\<rparr>))"

section \<open>Emitting effects\<close>

definition add_event :: "ProductEventRecord \<Rightarrow> RuntimeState \<Rightarrow> RuntimeState" where
  "add_event e s = s\<lparr>st_events := st_events s @ [e]\<rparr>"
definition add_audit :: "AuditFactRecord \<Rightarrow> RuntimeState \<Rightarrow> RuntimeState" where
  "add_audit f s = s\<lparr>st_audit := st_audit s @ [f]\<rparr>"
definition add_outbox :: "OutboxRecord \<Rightarrow> RuntimeState \<Rightarrow> RuntimeState" where
  "add_outbox r s = s\<lparr>st_outbox := st_outbox s @ [r]\<rparr>"

definition eff_event :: "ProductEventRecord \<Rightarrow> EffectSet \<Rightarrow> EffectSet" where
  "eff_event e eff = eff\<lparr>ef_events := ef_events eff @ [e]\<rparr>"
definition eff_audit :: "AuditFactRecord \<Rightarrow> EffectSet \<Rightarrow> EffectSet" where
  "eff_audit f eff = eff\<lparr>ef_audit := ef_audit eff @ [f]\<rparr>"
definition eff_outbox :: "OutboxRecord \<Rightarrow> EffectSet \<Rightarrow> EffectSet" where
  "eff_outbox r eff = eff\<lparr>ef_outbox := ef_outbox eff @ [r]\<rparr>"

definition appendEffects :: "EffectSet \<Rightarrow> EffectSet \<Rightarrow> EffectSet" where
  "appendEffects l r =
     \<lparr>ef_events = ef_events l @ ef_events r, ef_audit = ef_audit l @ ef_audit r,
      ef_outbox = ef_outbox l @ ef_outbox r\<rparr>"

text \<open>Append a fact and its independent export route.\<close>

definition route_fact ::
    "RuntimeStatePlanner \<Rightarrow> ReceiptBinding \<Rightarrow> string \<Rightarrow> SessionID \<Rightarrow> TurnID \<Rightarrow> gtime \<Rightarrow> EffectSet
     \<Rightarrow> EffectSet pm" where
  "route_fact P b kind sid tid now eff =
     pbind (factKind P b kind sid tid now (retain P now DataClassAudit)) (\<lambda>f.
     pbind (pmodify (add_audit f)) (\<lambda>_.
     pbind (auditOutbox P f now (retain P now DataClassOutbox)) (\<lambda>r.
     pbind (pmodify (add_outbox r)) (\<lambda>_.
     pure (eff_outbox r (eff_audit f eff))))))"

fun route_facts ::
    "RuntimeStatePlanner \<Rightarrow> ReceiptBinding \<Rightarrow> SessionID \<Rightarrow> TurnID \<Rightarrow> gtime \<Rightarrow> string list \<Rightarrow> EffectSet
     \<Rightarrow> EffectSet pm" where
  "route_facts P b sid tid now [] eff = pure eff"
| "route_facts P b sid tid now (kind # kinds) eff =
     pbind (route_fact P b kind sid tid now eff) (route_facts P b sid tid now kinds)"

definition appendAuditLifecycle ::
    "RuntimeStatePlanner \<Rightarrow> EffectSet \<Rightarrow> ReceiptBinding \<Rightarrow> SessionID \<Rightarrow> TurnID \<Rightarrow> gtime \<Rightarrow> EffectSet pm" where
  "appendAuditLifecycle P eff b sid tid now =
     route_facts P b sid tid now (auditLifecycleKinds (rb_command b)) eff"

definition auditOnly ::
    "RuntimeStatePlanner \<Rightarrow> ReceiptBinding \<Rightarrow> string \<Rightarrow> SessionID \<Rightarrow> TurnID \<Rightarrow> gtime \<Rightarrow> EffectSet pm" where
  "auditOnly P b kind sid tid now =
     pbind (route_fact P b kind sid tid now zero_EffectSet) (\<lambda>eff.
     appendAuditLifecycle P eff b sid tid now)"

fun emit_events ::
    "RuntimeStatePlanner \<Rightarrow> ReceiptBinding \<Rightarrow> SessionRecord \<Rightarrow> TurnRecord \<Rightarrow> InvocationRecord \<Rightarrow> gtime
     \<Rightarrow> EventKind list \<Rightarrow> EffectSet \<Rightarrow> EffectSet pm" where
  "emit_events P b session turn invocation now [] eff = pure eff"
| "emit_events P b session turn invocation now (kind # kinds) eff =
     pbind (event P session turn invocation b kind now (retain P now DataClassEvent)) (\<lambda>e.
     pbind (pmodify (add_event e)) (\<lambda>_.
     pbind (outbox P session turn invocation (ev_eventID e) kind (ev_sequence e) now
              (retain P now DataClassOutbox)) (\<lambda>r.
     pbind (pmodify (add_outbox r)) (\<lambda>_.
     emit_events P b session turn invocation now kinds (eff_outbox r (eff_event e eff))))))"

text \<open>Link the first of the last \<open>n\<close> outbox routes to a fact.\<close>

definition link_at :: "nat \<Rightarrow> AuditFactID \<Rightarrow> OutboxRecord list \<Rightarrow> OutboxRecord list" where
  "link_at k i rs = (if k < length rs then rs[k := (rs ! k)\<lparr>ob_auditFactID := i\<rparr>] else rs)"

definition link_route :: "AuditFactRecord \<Rightarrow> EffectSet \<Rightarrow> EffectSet pm" where
  "link_route f eff =
     (if ef_outbox eff \<noteq> [] then
        pbind (pmodify (\<lambda>s. s\<lparr>st_outbox :=
                 link_at (length (st_outbox s) - length (ef_outbox eff)) (af_auditFactID f) (st_outbox s)\<rparr>))
          (\<lambda>_. pure (eff\<lparr>ef_outbox := link_at 0 (af_auditFactID f) (ef_outbox eff)\<rparr>))
      else pure eff)"

definition effects ::
    "RuntimeStatePlanner \<Rightarrow> ReceiptBinding \<Rightarrow> SessionRecord \<Rightarrow> TurnRecord \<Rightarrow> InvocationRecord
     \<Rightarrow> EventKind list \<Rightarrow> gtime \<Rightarrow> EffectSet pm" where
  "effects P b session turn invocation kinds now =
     pbind (emit_events P b session turn invocation now kinds zero_EffectSet) (\<lambda>eff.
     pbind (fact P b session turn now (retain P now DataClassAudit)) (\<lambda>f.
     pbind (pmodify (add_audit f)) (\<lambda>_.
     pbind (link_route f (eff_audit f eff)) (\<lambda>eff.
     pbind (if kinds = [] then
              pbind (outbox P session turn invocation [] EventUnset 0 now (retain P now DataClassOutbox)) (\<lambda>r.
              let r = r\<lparr>ob_auditFactID := af_auditFactID f\<rparr>
              in pbind (pmodify (add_outbox r)) (\<lambda>_. pure (eff_outbox r eff)))
            else pure eff) (\<lambda>eff.
     appendAuditLifecycle P eff b (ss_sessionID session) (tu_turnID turn) now)))))"

section \<open>Tool correlation\<close>

record toolAuditContext =
  tx_policyRevisionDigest :: string
  tx_capabilityScopeDigest :: string
  tx_toolCallID :: string
  tx_operationID :: OperationID

definition auditContextForApproval :: "ApprovalRecord \<Rightarrow> toolAuditContext" where
  "auditContextForApproval a =
     \<lparr>tx_policyRevisionDigest = ap_policyRevisionDigest a,
      tx_capabilityScopeDigest = ap_capabilityDigest a, tx_toolCallID = ap_toolCallID a,
      tx_operationID = []\<rparr>"

definition auditContextForGrant :: "CapabilityGrantRecord \<Rightarrow> toolAuditContext" where
  "auditContextForGrant g =
     \<lparr>tx_policyRevisionDigest = gr_policyRevisionDigest g,
      tx_capabilityScopeDigest = gr_capabilityDigest g, tx_toolCallID = gr_toolCallID g,
      tx_operationID = []\<rparr>"

definition auditContextForExecution ::
    "ToolExecutionRecord \<Rightarrow> CapabilityGrantRecord \<Rightarrow> toolAuditContext" where
  "auditContextForExecution e g =
     (auditContextForGrant g)\<lparr>tx_toolCallID := te_toolCallID e, tx_operationID := te_operationID e\<rparr>"

definition decorate_fact :: "toolAuditContext \<Rightarrow> AuditFactRecord \<Rightarrow> AuditFactRecord" where
  "decorate_fact x f =
     f\<lparr>af_toolCallID := tx_toolCallID x, af_policyRevisionDigest := tx_policyRevisionDigest x,
       af_capabilityScopeDigest := tx_capabilityScopeDigest x,
       af_operationID := (if tx_operationID x \<noteq> [] then tx_operationID x else af_operationID f)\<rparr>"

definition decorate_route :: "(AuditFactID \<rightharpoonup> AuditFactRecord) \<Rightarrow> OutboxRecord \<Rightarrow> OutboxRecord" where
  "decorate_route m r =
     (case m (ob_auditFactID r) of None \<Rightarrow> r | Some f \<Rightarrow> r\<lparr>ob_operationID := af_operationID f\<rparr>)"

definition facts_by_id :: "AuditFactRecord list \<Rightarrow> (AuditFactID \<rightharpoonup> AuditFactRecord)" where
  "facts_by_id fs = map_of (rev (map (\<lambda>f. (af_auditFactID f, f)) fs))"

definition decorateToolAuditFacts :: "EffectSet \<Rightarrow> toolAuditContext \<Rightarrow> EffectSet pm" where
  "decorateToolAuditFacts eff x =
     pbind pget (\<lambda>s.
     if ef_audit eff = [] \<or> length (st_audit s) < length (ef_audit eff) then pure eff
     else
       let facts = map (decorate_fact x) (ef_audit eff);
           start = length (st_audit s) - length (ef_audit eff);
           decorated = facts_by_id facts
       in pbind (pput (s\<lparr>st_audit := take start (st_audit s) @ facts,
                         st_outbox := map (decorate_route decorated) (st_outbox s)\<rparr>))
            (\<lambda>_. pure (eff\<lparr>ef_audit := facts, ef_outbox := map (decorate_route decorated) (ef_outbox eff)\<rparr>)))"

end
