(* ===== verification/Effects_Contract.thy ===== *)
theory Effects_Contract
  imports Planner_Effects
begin

text \<open>
  The contract of the effect producers of \<open>Planner_Effects\<close>. \<open>emits T s d s'\<close> says that the
  step from state \<open>s\<close> to state \<open>s'\<close> appended the effects \<open>d\<close> to the event, audit and outbox
  tables and kept every other table; that the new records belong to tenants in \<open>T\<close>; that every
  new route is a pending version-one record linked to no fact or to a fact of \<open>d\<close>; and that
  the events of every Session stay numbered without gaps. Decoration may rewrite the
  operation identifier of routes whose fact it decorates; where every route of \<open>s\<close> refers to
  a fact of \<open>s\<close> (\<open>links\<close>) and audit identifiers do not repeat, that leaves the routes of \<open>s\<close> alone.

  The locale \<open>effect_producer\<close> is the interface the handlers rely on; each producer of the
  planner interprets it.
\<close>

section \<open>Deltas\<close>

definition core :: "RuntimeState \<Rightarrow> RuntimeState" where
  "core s = s\<lparr>st_events := [], st_audit := [], st_outbox := []\<rparr>"

definition links :: "RuntimeState \<Rightarrow> bool" where
  "links s \<longleftrightarrow> (\<forall>r \<in> set (st_outbox s).
     ob_auditFactID r \<noteq> [] \<longrightarrow> ob_auditFactID r \<in> af_auditFactID ` set (st_audit s))"

definition session_events :: "SessionID \<Rightarrow> ProductEventRecord list \<Rightarrow> ProductEventRecord list" where
  "session_events sid es = filter (\<lambda>e. ev_sessionID e = sid) es"

text \<open>The events of every Session are numbered \<open>1, 2, 3, \<dots>\<close> in table order.\<close>

definition gapless :: "ProductEventRecord list \<Rightarrow> bool" where
  "gapless es \<longleftrightarrow>
     (\<forall>sid. map ev_sequence (session_events sid es) = [1..<Suc (length (session_events sid es))])"

definition same_route :: "OutboxRecord \<Rightarrow> OutboxRecord \<Rightarrow> bool" where
  "same_route r r' \<longleftrightarrow> r'\<lparr>ob_operationID := []\<rparr> = r\<lparr>ob_operationID := []\<rparr>"

definition fresh_route :: "TenantID set \<Rightarrow> OutboxRecord \<Rightarrow> bool" where
  "fresh_route T r \<longleftrightarrow> ob_tenant r \<in> T \<and> ob_state r = OutboxPending \<and> ob_version r = 1 \<and> ob_claimUntil r = None
     \<and> ob_outboxID r \<noteq> []"

definition good_delta :: "TenantID set \<Rightarrow> ProductEventRecord list \<Rightarrow> EffectSet \<Rightarrow> bool" where
  "good_delta T es d \<longleftrightarrow>
     (\<forall>e \<in> set (ef_events d). ev_tenant e \<in> T \<and> ev_eventID e \<noteq> [] \<and> ev_cursor e \<noteq> [])
     \<and> (\<forall>f \<in> set (ef_audit d). af_tenant f \<in> T \<and> af_auditFactID f \<noteq> [])
     \<and> (\<forall>r \<in> set (ef_outbox d). fresh_route T r
          \<and> (ob_auditFactID r = [] \<or> ob_auditFactID r \<in> af_auditFactID ` set (ef_audit d)))
     \<and> (gapless es \<longrightarrow> gapless (es @ ef_events d))"

definition extend_state :: "RuntimeState \<Rightarrow> EffectSet \<Rightarrow> RuntimeState" where
  "extend_state s d = s\<lparr>st_events := st_events s @ ef_events d, st_audit := st_audit s @ ef_audit d,
                  st_outbox := st_outbox s @ ef_outbox d\<rparr>"

definition emits :: "TenantID set \<Rightarrow> RuntimeState \<Rightarrow> EffectSet \<Rightarrow> RuntimeState \<Rightarrow> bool" where
  "emits T s d s' \<longleftrightarrow>
     core s' = core s
     \<and> st_events s' = st_events s @ ef_events d
     \<and> st_audit s' = st_audit s @ ef_audit d
     \<and> list_all2 same_route (st_outbox s @ ef_outbox d) (st_outbox s')
     \<and> (links s \<and> distinct (map af_auditFactID (st_audit s')) \<longrightarrow> st_outbox s' = st_outbox s @ ef_outbox d)
     \<and> good_delta T (st_events s) d"

lemma core_extend [simp]: "core (extend_state s d) = core s"
  by (simp add: core_def extend_state_def)

lemma core_sel [simp]:
  "st_revisions (core s) = st_revisions s"
  "st_policies (core s) = st_policies s"
  "st_sessions (core s) = st_sessions s"
  "st_inputs (core s) = st_inputs s"
  "st_artifacts (core s) = st_artifacts s"
  "st_conversations (core s) = st_conversations s"
  "st_toolIntents (core s) = st_toolIntents s"
  "st_grants (core s) = st_grants s"
  "st_toolExecutions (core s) = st_toolExecutions s"
  "st_approvals (core s) = st_approvals s"
  "st_turns (core s) = st_turns s"
  "st_invocations (core s) = st_invocations s"
  "st_receipts (core s) = st_receipts s"
  by (simp_all add: core_def)

lemma core_eq_fields:
  assumes "core s' = core s"
  shows "st_revisions s' = st_revisions s" "st_policies s' = st_policies s"
    "st_sessions s' = st_sessions s" "st_inputs s' = st_inputs s" "st_artifacts s' = st_artifacts s"
    "st_conversations s' = st_conversations s" "st_toolIntents s' = st_toolIntents s"
    "st_grants s' = st_grants s" "st_toolExecutions s' = st_toolExecutions s"
    "st_approvals s' = st_approvals s" "st_turns s' = st_turns s"
    "st_invocations s' = st_invocations s" "st_receipts s' = st_receipts s"
  using arg_cong [OF assms, of st_revisions]
    arg_cong [OF assms, of st_policies]
    arg_cong [OF assms, of st_sessions]
    arg_cong [OF assms, of st_inputs]
    arg_cong [OF assms, of st_artifacts]
    arg_cong [OF assms, of st_conversations]
    arg_cong [OF assms, of st_toolIntents]
    arg_cong [OF assms, of st_grants]
    arg_cong [OF assms, of st_toolExecutions]
    arg_cong [OF assms, of st_approvals]
    arg_cong [OF assms, of st_turns]
    arg_cong [OF assms, of st_invocations]
    arg_cong [OF assms, of st_receipts]
  by simp_all

lemma same_route_refl [simp]: "same_route r r"
  by (simp add: same_route_def)

lemma same_route_sym: "same_route r r' \<Longrightarrow> same_route r' r"
  by (simp add: same_route_def)

lemma same_route_trans: "same_route r r' \<Longrightarrow> same_route r' r'' \<Longrightarrow> same_route r r''"
  by (simp add: same_route_def)

lemma same_route_fields:
  assumes "same_route r r'"
  shows "ob_auditFactID r' = ob_auditFactID r" "ob_tenant r' = ob_tenant r" "ob_state r' = ob_state r"
    "ob_version r' = ob_version r" "ob_outboxID r' = ob_outboxID r" "ob_claimUntil r' = ob_claimUntil r"
    "ob_claimedBy r' = ob_claimedBy r" "ob_principal r' = ob_principal r"
proof -
  note eq = assms [unfolded same_route_def]
  show "ob_auditFactID r' = ob_auditFactID r" using arg_cong [OF eq, of ob_auditFactID] by simp
  show "ob_tenant r' = ob_tenant r" using arg_cong [OF eq, of ob_tenant] by simp
  show "ob_state r' = ob_state r" using arg_cong [OF eq, of ob_state] by simp
  show "ob_version r' = ob_version r" using arg_cong [OF eq, of ob_version] by simp
  show "ob_outboxID r' = ob_outboxID r" using arg_cong [OF eq, of ob_outboxID] by simp
  show "ob_claimUntil r' = ob_claimUntil r" using arg_cong [OF eq, of ob_claimUntil] by simp
  show "ob_claimedBy r' = ob_claimedBy r" using arg_cong [OF eq, of ob_claimedBy] by simp
  show "ob_principal r' = ob_principal r" using arg_cong [OF eq, of ob_principal] by simp
qed

lemma same_route_decorate [simp]: "same_route r (decorate_route m r)"
  by (auto simp: same_route_def decorate_route_def split: option.splits)

lemma gapless_Nil [simp]: "gapless []"
  by (simp add: gapless_def session_events_def)


section \<open>Sequence numbers\<close>

lemma next_after_filter:
  "next_after p f n xs = foldl (\<lambda>n v. if n \<le> v then v + 1 else n) n (map f (filter p xs))"
  by (induction xs arbitrary: n) (auto simp: next_after_def)

lemma foldl_upt_next:
  "a \<le> b \<Longrightarrow> foldl (\<lambda>n v. if n \<le> v then v + 1 else n) a [a..<b] = (b::nat)"
  by (induction b rule: dec_induct) auto

lemma next_after_ge: "n \<le> next_after p f n xs"
  unfolding next_after_filter
proof (induction xs arbitrary: n)
  case Nil
  then show ?case by simp
next
  case (Cons x xs)
  have "n \<le> (if n \<le> f x then f x + 1 else n)" by simp
  also have "\<dots> \<le> foldl (\<lambda>n v. if n \<le> v then v + 1 else n) (if n \<le> f x then f x + 1 else n) (map f (filter p xs))"
    by (rule Cons.IH)
  finally show ?case using Cons.IH [of n] by auto
qed

lemma next_after_greater: "x \<in> set xs \<Longrightarrow> p x \<Longrightarrow> f x < next_after p f n xs"
proof (induction xs arbitrary: n)
  case Nil
  then show ?case by simp
next
  case (Cons y ys)
  show ?case
  proof (cases "x = y")
    case True
    have "f x < (if n \<le> f x then f x + 1 else n)" by auto
    also have "\<dots> \<le> next_after p f (if n \<le> f x then f x + 1 else n) ys" by (rule next_after_ge)
    finally show ?thesis using True Cons.prems by (simp add: next_after_def split: if_splits)
  next
    case False
    with Cons.prems have "x \<in> set ys" by simp
    from Cons.IH [OF this \<open>p x\<close>] show ?thesis by (simp add: next_after_def)
  qed
qed

lemma gapless_next:
  assumes "gapless es"
  shows "next_after (\<lambda>e. ev_sessionID e = sid) ev_sequence 1 es = Suc (length (session_events sid es))"
  using assms
  by (simp add: next_after_filter gapless_def session_events_def foldl_upt_next del: upt_Suc)

lemma gapless_snoc:
  assumes "gapless es"
    and "ev_sequence e = next_after (\<lambda>x. ev_sessionID x = ev_sessionID e) ev_sequence 1 es"
  shows "gapless (es @ [e])"
  unfolding gapless_def
proof
  fix sid
  show "map ev_sequence (session_events sid (es @ [e])) = [1..<Suc (length (session_events sid (es @ [e])))]"
  proof (cases "ev_sessionID e = sid")
    case True
    then have "ev_sequence e = Suc (length (session_events sid es))"
      using assms(2) gapless_next [OF assms(1), of sid] by simp
    with True assms(1) show ?thesis
      by (simp add: gapless_def session_events_def)
  next
    case False
    with assms(1) show ?thesis by (simp add: gapless_def session_events_def)
  qed
qed

section \<open>Composing deltas\<close>

lemma appendEffects_sel [simp]:
  "ef_events (appendEffects a b) = ef_events a @ ef_events b"
  "ef_audit (appendEffects a b) = ef_audit a @ ef_audit b"
  "ef_outbox (appendEffects a b) = ef_outbox a @ ef_outbox b"
  by (simp_all add: appendEffects_def)

lemma zero_EffectSet_sel [simp]:
  "ef_events zero_EffectSet = []" "ef_audit zero_EffectSet = []" "ef_outbox zero_EffectSet = []"
  by (simp_all add: zero_EffectSet_def)

lemma appendEffects_zero [simp]: "appendEffects zero_EffectSet d = d" "appendEffects d zero_EffectSet = d"
  by (simp_all add: appendEffects_def zero_EffectSet_def)

lemma appendEffects_assoc: "appendEffects (appendEffects a b) c = appendEffects a (appendEffects b c)"
  by (simp add: appendEffects_def)

lemma good_delta_zero [simp]: "good_delta T es zero_EffectSet"
  by (simp add: good_delta_def)

lemma good_delta_append:
  "good_delta T es a \<Longrightarrow> good_delta T (es @ ef_events a) b \<Longrightarrow> good_delta T es (appendEffects a b)"
  by (auto simp: good_delta_def)

lemma good_delta_mono: "T \<subseteq> U \<Longrightarrow> good_delta T es d \<Longrightarrow> good_delta U es d"
  by (auto simp: good_delta_def fresh_route_def)

lemma emits_refl [simp]: "emits T s zero_EffectSet s"
  by (simp add: emits_def list_all2_reflI)

lemma emits_mono: "emits T s d s' \<Longrightarrow> T \<subseteq> U \<Longrightarrow> emits U s d s'"
  by (auto simp: emits_def intro: good_delta_mono)

lemma emits_extend:
  "good_delta T (st_events s) d \<Longrightarrow> emits T s d (extend_state s d)"
  by (simp add: emits_def extend_state_def list_all2_reflI core_def)

lemma emits_core: "emits T s d s' \<Longrightarrow> core s' = core s"
  by (simp add: emits_def)

lemmas emits_fields = core_eq_fields [OF emits_core]

lemma emits_links:
  assumes e: "emits T s d s'" and l: "links s"
  shows "links s'"
proof -
  from e have routes: "list_all2 same_route (st_outbox s @ ef_outbox d) (st_outbox s')"
    and audit: "st_audit s' = st_audit s @ ef_audit d"
    and good: "good_delta T (st_events s) d"
    by (auto simp: emits_def)
  show ?thesis
    unfolding links_def
  proof (intro ballI impI)
    fix r' assume "r' \<in> set (st_outbox s')" and "ob_auditFactID r' \<noteq> []"
    from this(1) routes obtain r where r: "r \<in> set (st_outbox s @ ef_outbox d)" "same_route r r'"
      by (blast dest: list_all2_mem2)
    with \<open>ob_auditFactID r' \<noteq> []\<close> show "ob_auditFactID r' \<in> af_auditFactID ` set (st_audit s')"
      using l good audit by (auto simp: links_def good_delta_def same_route_fields)
  qed
qed

lemma emits_trans:
  assumes a: "emits T s d1 s1" and b: "emits T s1 d2 s2"
  shows "emits T s (appendEffects d1 d2) s2"
proof -
  from a b have routes: "list_all2 same_route (st_outbox s @ ef_outbox d1) (st_outbox s1)"
      "list_all2 same_route (st_outbox s1 @ ef_outbox d2) (st_outbox s2)"
    by (auto simp: emits_def)
  have "list_all2 same_route ((st_outbox s @ ef_outbox d1) @ ef_outbox d2) (st_outbox s1 @ ef_outbox d2)"
    using routes(1) by (intro list_all2_appendI list_all2_reflI) auto
  from list_all2_trans [OF same_route_trans this routes(2)]
  have "list_all2 same_route (st_outbox s @ ef_outbox (appendEffects d1 d2)) (st_outbox s2)"
    by simp
  moreover have "st_outbox s2 = st_outbox s @ ef_outbox (appendEffects d1 d2)"
    if "links s" "distinct (map af_auditFactID (st_audit s2))"
  proof -
    have "distinct (map af_auditFactID (st_audit s1))"
      using that(2) b by (auto simp: emits_def)
    with a that have "st_outbox s1 = st_outbox s @ ef_outbox d1" by (auto simp: emits_def)
    moreover have "st_outbox s2 = st_outbox s1 @ ef_outbox d2"
      using b that(2) emits_links [OF a that(1)] by (auto simp: emits_def)
    ultimately show ?thesis by simp
  qed
  moreover have "good_delta T (st_events s) (appendEffects d1 d2)"
    using a b by (auto simp: emits_def intro: good_delta_append)
  ultimately show ?thesis using a b by (auto simp: emits_def)
qed


section \<open>What the builders return\<close>

lemma extend_state_zero [simp]: "extend_state s zero_EffectSet = s"
  by (simp add: extend_state_def)

lemma extend_state_extend: "extend_state (extend_state s a) b = extend_state s (appendEffects a b)"
  by (simp add: extend_state_def)

lemma extend_state_sel [simp]:
  "st_events (extend_state s d) = st_events s @ ef_events d"
  "st_audit (extend_state s d) = st_audit s @ ef_audit d"
  "st_outbox (extend_state s d) = st_outbox s @ ef_outbox d"
  by (simp_all add: extend_state_def)

lemma event_Inr:
  assumes "event P session turn invocation b kind now until c = (Inr e, c')"
  shows "px_state c' = px_state c" and "ev_tenant e = ss_tenant session"
    and "ev_sessionID e = ss_sessionID session" and "ev_eventID e \<noteq> []" and "ev_cursor e \<noteq> []"
    and "ev_sequence e = next_after (\<lambda>x. ev_sessionID x = ss_sessionID session) ev_sequence 1
           (st_events (px_state c))"
    and "ev_kind e = kind" and "ev_turnID e = tu_turnID turn"
  using assms by (auto simp: event_def Let_def dest!: drawsD [where m = "eventID P"] drawsD [where m = "cursor P"])

lemma factKind_Inr:
  assumes "factKind P b kind sid tid now until c = (Inr f, c')"
  shows "px_state c' = px_state c" and "af_tenant f = sc_tenant (rb_scope b)" and "af_auditFactID f \<noteq> []"
    and "af_kind f = kind"
  using assms by (auto simp: factKind_def dest!: drawsD [where m = "auditID P"])

lemma route_Inr:
  "outbox P session turn invocation eid ekind eseq now until c = (Inr r, c') \<Longrightarrow>
     px_state c' = px_state c \<and> fresh_route {ss_tenant session} r \<and> ob_auditFactID r = []"
  "auditOutbox P f now until c = (Inr r, c') \<Longrightarrow>
     px_state c' = px_state c \<and> fresh_route {af_tenant f} r \<and> ob_auditFactID r = af_auditFactID f"
  "catalogOutbox P b revision now until c = (Inr r, c') \<Longrightarrow>
     px_state c' = px_state c \<and> fresh_route {sc_tenant (rb_scope b)} r \<and> ob_auditFactID r = []"
  "artifactOutbox P b artifact now until c = (Inr r, c') \<Longrightarrow>
     px_state c' = px_state c \<and> fresh_route {at_tenant artifact} r \<and> ob_auditFactID r = []"
  "toolExecutionOutbox P execution now until c = (Inr r, c') \<Longrightarrow>
     px_state c' = px_state c \<and> fresh_route {te_tenant execution} r \<and> ob_auditFactID r = []"
  "conversationOutbox P b conversation now until c = (Inr r, c') \<Longrightarrow>
     px_state c' = px_state c \<and> fresh_route {cv_tenant conversation} r \<and> ob_auditFactID r = []"
  by (auto simp: outbox_def auditOutbox_def catalogOutbox_def artifactOutbox_def toolExecutionOutbox_def
      conversationOutbox_def fresh_route_def zero_OutboxRecord_def dest!: drawsD [where m = "outboxID P"])

section \<open>Appending producers\<close>

definition appends :: "TenantID set \<Rightarrow> (EffectSet \<Rightarrow> EffectSet pm) \<Rightarrow> bool" where
  "appends T m \<longleftrightarrow> (\<forall>eff c eff' c'. m eff c = (Inr eff', c') \<longrightarrow>
     (\<exists>d. eff' = appendEffects eff d \<and> px_state c' = extend_state (px_state c) d
          \<and> good_delta T (st_events (px_state c)) d))"

lemma appendsD:
  assumes "m eff c = (Inr eff', c')" and "appends T m"
  obtains d where "eff' = appendEffects eff d" and "px_state c' = extend_state (px_state c) d"
    and "good_delta T (st_events (px_state c)) d"
  using assms unfolding appends_def by blast

lemma appends_pure [simp]: "appends T pure"
  by (auto simp: appends_def intro!: exI [where x = zero_EffectSet])

lemma appends_bind:
  assumes m: "appends T m" and n: "appends T n"
  shows "appends T (\<lambda>eff. pbind (m eff) n)"
  unfolding appends_def
proof (intro allI impI)
  fix eff c eff'' c''
  assume "pbind (m eff) n c = (Inr eff'', c'')"
  then obtain eff' c' where 1: "m eff c = (Inr eff', c')" and 2: "n eff' c' = (Inr eff'', c'')" by auto
  from 1 m obtain d1 where d1: "eff' = appendEffects eff d1" "px_state c' = extend_state (px_state c) d1"
      "good_delta T (st_events (px_state c)) d1" by (rule appendsD)
  from 2 n obtain d2 where d2: "eff'' = appendEffects eff' d2" "px_state c'' = extend_state (px_state c') d2"
      "good_delta T (st_events (px_state c')) d2" by (rule appendsD)
  show "\<exists>d. eff'' = appendEffects eff d \<and> px_state c'' = extend_state (px_state c) d
          \<and> good_delta T (st_events (px_state c)) d"
    using d1 d2 by (intro exI [where x = "appendEffects d1 d2"])
      (simp add: appendEffects_assoc extend_state_extend good_delta_append)
qed

lemma appends_route_fact: "appends {sc_tenant (rb_scope b)} (route_fact P b kind sid tid now)"
  unfolding appends_def
proof (intro allI impI)
  fix eff c eff' c'
  assume "route_fact P b kind sid tid now eff c = (Inr eff', c')"
  then obtain f c1 r c2 where
      f: "factKind P b kind sid tid now (retain P now DataClassAudit) c = (Inr f, c1)"
    and r: "auditOutbox P f now (retain P now DataClassOutbox) (c1\<lparr>px_state := add_audit f (px_state c1)\<rparr>) = (Inr r, c2)"
    and c': "c' = c2\<lparr>px_state := add_outbox r (px_state c2)\<rparr>" and eff': "eff' = eff_outbox r (eff_audit f eff)"
    by (auto simp: route_fact_def)
  let ?d = "\<lparr>ef_events = [], ef_audit = [f], ef_outbox = [r]\<rparr>"
  have "good_delta {sc_tenant (rb_scope b)} (st_events (px_state c)) ?d"
    using factKind_Inr [OF f] route_Inr(2) [OF r] by (auto simp: good_delta_def fresh_route_def)
  moreover have "px_state c' = extend_state (px_state c) ?d"
    using factKind_Inr [OF f] route_Inr(2) [OF r] c' by (simp add: extend_state_def add_audit_def add_outbox_def)
  moreover have "eff' = appendEffects eff ?d"
    by (simp add: eff' eff_outbox_def eff_audit_def appendEffects_def)
  ultimately show "\<exists>d. eff' = appendEffects eff d \<and> px_state c' = extend_state (px_state c) d
          \<and> good_delta {sc_tenant (rb_scope b)} (st_events (px_state c)) d" by blast
qed

lemma appends_route_facts: "appends {sc_tenant (rb_scope b)} (route_facts P b sid tid now kinds)"
proof (induction kinds)
  case Nil
  have "route_facts P b sid tid now [] = pure" by (rule ext) simp
  then show ?case by simp
next
  case (Cons kind kinds)
  have "route_facts P b sid tid now (kind # kinds) =
          (\<lambda>eff. pbind (route_fact P b kind sid tid now eff) (route_facts P b sid tid now kinds))"
    by (rule ext) simp
  then show ?case using appends_bind [OF appends_route_fact Cons.IH] by simp
qed

lemma route_facts_events:
  "route_facts P b sid tid now kinds eff c = (Inr eff', c') \<Longrightarrow> ef_events eff' = ef_events eff"
  by (induction kinds arbitrary: eff c) (fastforce simp: route_fact_def eff_outbox_def eff_audit_def Let_def)+

lemma emit_events_Inr:
  "emit_events P b session turn invocation now kinds eff c = (Inr eff', c') \<Longrightarrow>
   \<exists>d. eff' = appendEffects eff d \<and> px_state c' = extend_state (px_state c) d
     \<and> good_delta {ss_tenant session} (st_events (px_state c)) d
     \<and> ef_audit d = [] \<and> length (ef_outbox d) = length kinds
     \<and> (\<forall>r \<in> set (ef_outbox d). ob_auditFactID r = [])
     \<and> map ev_kind (ef_events d) = kinds
     \<and> (\<forall>e \<in> set (ef_events d). ev_sessionID e = ss_sessionID session \<and> ev_turnID e = tu_turnID turn)"
proof (induction kinds arbitrary: eff c)
  case Nil
  then show ?case by (auto intro!: exI [where x = zero_EffectSet])
next
  case (Cons kind kinds)
  from Cons.prems obtain e c1 r c2 where
      e: "event P session turn invocation b kind now (retain P now DataClassEvent) c = (Inr e, c1)"
    and r: "outbox P session turn invocation (ev_eventID e) kind (ev_sequence e) now
              (retain P now DataClassOutbox) (c1\<lparr>px_state := add_event e (px_state c1)\<rparr>) = (Inr r, c2)"
    and rest: "emit_events P b session turn invocation now kinds (eff_outbox r (eff_event e eff))
              (c2\<lparr>px_state := add_outbox r (px_state c2)\<rparr>) = (Inr eff', c')"
    by auto
  let ?d = "\<lparr>ef_events = [e], ef_audit = [], ef_outbox = [r]\<rparr>"
  have s: "px_state (c2\<lparr>px_state := add_outbox r (px_state c2)\<rparr>) = extend_state (px_state c) ?d"
    using event_Inr [OF e] route_Inr(1) [OF r] by (simp add: extend_state_def add_event_def add_outbox_def)
  have gl: "gapless (st_events (px_state c)) \<Longrightarrow> gapless (st_events (px_state c) @ [e])"
    using event_Inr [OF e] by (simp add: gapless_snoc)
  have good: "good_delta {ss_tenant session} (st_events (px_state c)) ?d"
    using event_Inr [OF e] route_Inr(1) [OF r] gl by (auto simp: good_delta_def)
  have eff: "eff_outbox r (eff_event e eff) = appendEffects eff ?d"
    by (simp add: eff_outbox_def eff_event_def appendEffects_def)
  from Cons.IH [OF rest] obtain d where d: "eff' = appendEffects (appendEffects eff ?d) d"
      "px_state c' = extend_state (extend_state (px_state c) ?d) d"
      "good_delta {ss_tenant session} (st_events (extend_state (px_state c) ?d)) d"
      "ef_audit d = []" "length (ef_outbox d) = length kinds"
      "\<forall>r \<in> set (ef_outbox d). ob_auditFactID r = []" "map ev_kind (ef_events d) = kinds"
      "\<forall>e \<in> set (ef_events d). ev_sessionID e = ss_sessionID session \<and> ev_turnID e = tu_turnID turn"
    unfolding s eff by blast
  show ?case
    using d good event_Inr [OF e] route_Inr(1) [OF r]
    by (intro exI [where x = "appendEffects ?d d"])
      (auto simp: appendEffects_assoc extend_state_extend intro: good_delta_append)
qed


section \<open>Linking and decorating\<close>

lemma link_at_append:
  "link_at (length xs) i (xs @ ys) = xs @ link_at 0 i ys"
  by (cases ys) (auto simp: link_at_def)

lemma link_at_good:
  assumes "\<forall>r \<in> set rs. fresh_route T r \<and> ob_auditFactID r = []"
  shows "\<forall>r \<in> set (link_at 0 i rs). fresh_route T r \<and> (ob_auditFactID r = [] \<or> ob_auditFactID r = i)"
  using assms by (cases rs) (auto simp: link_at_def fresh_route_def)

lemma decorate_fact_sel [simp]:
  "af_auditFactID (decorate_fact x f) = af_auditFactID f"
  "af_tenant (decorate_fact x f) = af_tenant f"
  "af_kind (decorate_fact x f) = af_kind f"
  by (simp_all add: decorate_fact_def)

lemma facts_by_id_None:
  "facts_by_id fs i = None \<longleftrightarrow> i \<notin> af_auditFactID ` set fs"
  by (auto simp: facts_by_id_def map_of_eq_None_iff image_image)

lemma good_delta_decorate:
  "good_delta T es d \<Longrightarrow>
   good_delta T es (d\<lparr>ef_audit := map (decorate_fact x) (ef_audit d),
                    ef_outbox := map (decorate_route m) (ef_outbox d)\<rparr>)"
  using same_route_fields [OF same_route_decorate]
  by (auto simp: good_delta_def fresh_route_def image_image)

lemma emits_decorate:
  assumes e: "emits T s d (px_state c)" and dec: "decorateToolAuditFacts d x c = (Inr d', c')"
  shows "emits T s d' (px_state c')"
proof (cases "ef_audit d = []")
  case True
  with dec e show ?thesis by (auto simp: decorateToolAuditFacts_def)
next
  case False
  let ?s = "px_state c"
  let ?fs = "map (decorate_fact x) (ef_audit d)"
  let ?m = "facts_by_id ?fs"
  from e have audit: "st_audit ?s = st_audit s @ ef_audit d" by (simp add: emits_def)
  with dec False have d': "d' = d\<lparr>ef_audit := ?fs, ef_outbox := map (decorate_route ?m) (ef_outbox d)\<rparr>"
    and s': "px_state c' = ?s\<lparr>st_audit := st_audit s @ ?fs, st_outbox := map (decorate_route ?m) (st_outbox ?s)\<rparr>"
    by (auto simp: decorateToolAuditFacts_def Let_def)
  have ids: "map af_auditFactID (st_audit (px_state c')) = map af_auditFactID (st_audit ?s)"
    by (simp add: s' audit)
  have routes: "list_all2 same_route (st_outbox s @ ef_outbox d') (st_outbox (px_state c'))"
  proof -
    from e have r: "list_all2 same_route (st_outbox s @ ef_outbox d) (st_outbox ?s)" by (simp add: emits_def)
    have "list_all2 same_route (st_outbox s @ ef_outbox d') (st_outbox s @ ef_outbox d)"
      unfolding d'
      by (intro list_all2_appendI list_all2_reflI)
        (auto simp: list_all2_map1 intro!: list_all2_reflI same_route_sym [OF same_route_decorate])
    from list_all2_trans [OF same_route_trans this r]
    have 1: "list_all2 same_route (st_outbox s @ ef_outbox d') (st_outbox ?s)" .
    have 2: "list_all2 same_route (st_outbox ?s) (st_outbox (px_state c'))"
      unfolding s' by (auto simp: list_all2_map2 intro!: list_all2_reflI)
    from list_all2_trans [OF same_route_trans 1 2] show ?thesis .
  qed
  have eq: "st_outbox (px_state c') = st_outbox s @ ef_outbox d'"
    if l: "links s" and dist: "distinct (map af_auditFactID (st_audit (px_state c')))"
  proof -
    from dist have "distinct (map af_auditFactID (st_audit s @ ef_audit d))" by (simp only: ids audit)
    moreover from this l e audit have outb: "st_outbox ?s = st_outbox s @ ef_outbox d" by (simp add: emits_def)
    moreover from e have "\<forall>f \<in> set (ef_audit d). af_auditFactID f \<noteq> []"
      by (auto simp: emits_def good_delta_def)
    ultimately have fresh: "ob_auditFactID r \<notin> af_auditFactID ` set (ef_audit d)" if "r \<in> set (st_outbox s)" for r
      using that l by (cases "ob_auditFactID r = []") (auto simp: links_def dest: sym)
    have "?m (ob_auditFactID r) = None" if "r \<in> set (st_outbox s)" for r
      using fresh [OF that] by (simp add: facts_by_id_None image_image)
    then have "decorate_route ?m r = r" if "r \<in> set (st_outbox s)" for r
      using that by (simp add: decorate_route_def)
    then have "map (decorate_route ?m) (st_outbox s) = st_outbox s" by (rule map_idI)
    with outb show ?thesis by (simp add: s' d')
  qed
  show ?thesis
    using e routes eq unfolding emits_def
    by (auto simp: d' s' core_def intro: good_delta_decorate)
qed


text \<open>Decorating the facts of \<open>a\<close> decorates every route linked to them, also the ones that
  precede the routes of \<open>a\<close>.\<close>

lemma decorate_prefix:
  assumes "decorateToolAuditFacts a x c = (Inr a', c')" and "ef_audit a \<noteq> []"
    and "length (ef_audit a) \<le> length (st_audit (px_state c))"
  defines "m \<equiv> facts_by_id (map (decorate_fact x) (ef_audit a))"
  shows "decorateToolAuditFacts \<lparr>ef_events = es, ef_audit = ef_audit a, ef_outbox = rs @ ef_outbox a\<rparr> x c
       = (Inr \<lparr>ef_events = es, ef_audit = ef_audit a', ef_outbox = map (decorate_route m) rs @ ef_outbox a'\<rparr>, c')"
    and "st_outbox (px_state c') = map (decorate_route m) (st_outbox (px_state c))"
    and "ef_events a' = ef_events a"
  using assms
  by (auto simp: decorateToolAuditFacts_def m_def Let_def pbind_def pget_def pput_def pure_def)

section \<open>The interface of the effect producers\<close>

locale effect_producer =
  fixes produce :: "EffectSet pm" and tenants :: "TenantID set"
  assumes produces: "produce c = (Inr d, c') \<Longrightarrow> emits tenants (px_state c) d (px_state c')"
begin

lemma after:
  assumes "emits T s d0 (px_state c)" and "produce c = (Inr d, c')" and "tenants \<subseteq> T"
  shows "emits T s (appendEffects d0 d) (px_state c')"
  using emits_trans [OF assms(1) emits_mono [OF produces [OF assms(2)] assms(3)]] .

lemma decorated:
  assumes "produce c = (Inr d, c1)" and "decorateToolAuditFacts d x c1 = (Inr d', c')"
  shows "emits tenants (px_state c) d' (px_state c')"
  using emits_decorate [OF produces [OF assms(1)] assms(2)] .

lemma append_only:
  assumes "produce c = (Inr d, c')"
  shows "st_events (px_state c') = st_events (px_state c) @ ef_events d"
    and "st_audit (px_state c') = st_audit (px_state c) @ ef_audit d"
  using produces [OF assms] by (simp_all add: emits_def)

end

lemma auditOnly_Inr:
  assumes "auditOnly P b kind sid tid now c = (Inr d, c')"
  shows "px_state c' = extend_state (px_state c) d"
    and "good_delta {sc_tenant (rb_scope b)} (st_events (px_state c)) d"
    and "ef_events d = []" and "ef_audit d \<noteq> []"
proof -
  have "appends {sc_tenant (rb_scope b)} (\<lambda>eff. pbind (route_fact P b kind sid tid now eff)
          (route_facts P b sid tid now (auditLifecycleKinds (rb_command b))))"
    by (rule appends_bind [OF appends_route_fact appends_route_facts])
  then show "px_state c' = extend_state (px_state c) d" "good_delta {sc_tenant (rb_scope b)} (st_events (px_state c)) d"
    using assms by (fastforce simp: auditOnly_def appendAuditLifecycle_def appends_def simp del: pbind_Inr)+
  from assms obtain d1 c1 where
      d1: "route_fact P b kind sid tid now zero_EffectSet c = (Inr d1, c1)"
    and rest: "route_facts P b sid tid now (auditLifecycleKinds (rb_command b)) d1 c1 = (Inr d, c')"
    by (auto simp: auditOnly_def appendAuditLifecycle_def)
  from d1 have "ef_events d1 = []" "ef_audit d1 \<noteq> []" by (auto simp: route_fact_def eff_outbox_def eff_audit_def)
  moreover obtain dd where "d = appendEffects d1 dd"
    using appendsD [OF rest appends_route_facts] by metis
  ultimately show "ef_events d = []" "ef_audit d \<noteq> []"
    using route_facts_events [OF rest] by simp_all
qed

lemma auditOnly_emits:
  assumes "auditOnly P b kind sid tid now c = (Inr d, c')"
  shows "emits {sc_tenant (rb_scope b)} (px_state c) d (px_state c')"
  using auditOnly_Inr(1,2) [OF assms] by (simp add: emits_extend)

interpretation audit_only: effect_producer "auditOnly P b kind sid tid now" "{sc_tenant (rb_scope b)}"
  for P b kind sid tid now
  by unfold_locales (rule auditOnly_emits)

lemma link_route_Inr:
  assumes l: "link_route f eff c = (Inr eff', c')"
    and s: "px_state c = extend_state s eff" and good: "good_delta T (st_events s) (eff\<lparr>ef_audit := []\<rparr>)"
    and audit: "ef_audit eff = [f]" "af_tenant f \<in> T" "af_auditFactID f \<noteq> []"
    and unlinked: "\<forall>r \<in> set (ef_outbox eff). ob_auditFactID r = []"
  shows "px_state c' = extend_state s eff' \<and> good_delta T (st_events s) eff' \<and> ef_events eff' = ef_events eff
    \<and> ef_audit eff' = ef_audit eff"
proof (cases "ef_outbox eff = []")
  case True
  with l s good audit show ?thesis by (auto simp: link_route_def good_delta_def)
next
  case False
  with l s have eff': "eff' = eff\<lparr>ef_outbox := link_at 0 (af_auditFactID f) (ef_outbox eff)\<rparr>"
    and s': "px_state c' = extend_state s eff'"
    by (auto simp: link_route_def extend_state_def link_at_append)
  have "\<forall>r \<in> set (ef_outbox eff'). fresh_route T r \<and> (ob_auditFactID r = [] \<or> ob_auditFactID r = af_auditFactID f)"
    using good unlinked link_at_good [of "ef_outbox eff" T] by (auto simp: eff' good_delta_def)
  with good audit s' show ?thesis by (simp add: eff' good_delta_def)
qed

lemma effects_Inr:
  assumes "effects P b session turn invocation kinds now c = (Inr d, c')"
  shows "emits {ss_tenant session, sc_tenant (rb_scope b)} (px_state c) d (px_state c')"
    and "map ev_kind (ef_events d) = kinds"
    and "\<forall>e \<in> set (ef_events d). ev_sessionID e = ss_sessionID session \<and> ev_turnID e = tu_turnID turn"
    and "ef_audit d \<noteq> []"
proof -
  let ?T = "{ss_tenant session, sc_tenant (rb_scope b)}"
  let ?s = "px_state c"
  from assms obtain d1 c1 f c2 d2 c3 d3 c4 where
      e: "emit_events P b session turn invocation now kinds zero_EffectSet c = (Inr d1, c1)"
    and f: "fact P b session turn now (retain P now DataClassAudit) c1 = (Inr f, c2)"
    and l: "link_route f (eff_audit f d1) (c2\<lparr>px_state := add_audit f (px_state c2)\<rparr>) = (Inr d2, c3)"
    and o: "(if kinds = [] then
              pbind (outbox P session turn invocation [] EventUnset 0 now (retain P now DataClassOutbox)) (\<lambda>r.
              let r = r\<lparr>ob_auditFactID := af_auditFactID f\<rparr>
              in pbind (pmodify (add_outbox r)) (\<lambda>_. pure (eff_outbox r d2)))
            else pure d2) c3 = (Inr d3, c4)"
    and a: "route_facts P b (ss_sessionID session) (tu_turnID turn) now
              (auditLifecycleKinds (rb_command b)) d3 c4 = (Inr d, c')"
    by (auto simp: effects_def appendAuditLifecycle_def simp del: split_paired_Ex)
  from emit_events_Inr [OF e] have d1: "px_state c1 = extend_state ?s d1"
      "good_delta {ss_tenant session} (st_events ?s) d1" "ef_audit d1 = []"
      "\<forall>r \<in> set (ef_outbox d1). ob_auditFactID r = []" "map ev_kind (ef_events d1) = kinds"
      "\<forall>e \<in> set (ef_events d1). ev_sessionID e = ss_sessionID session \<and> ev_turnID e = tu_turnID turn"
    by auto
  note f' = factKind_Inr [OF f [unfolded fact_def]]
  have s2: "px_state (c2\<lparr>px_state := add_audit f (px_state c2)\<rparr>) = extend_state ?s (eff_audit f d1)"
    using f' d1 by (simp add: extend_state_def add_audit_def eff_audit_def)
  have g: "good_delta ?T (st_events ?s) (eff_audit f d1\<lparr>ef_audit := []\<rparr>)"
  proof -
    have "eff_audit f d1\<lparr>ef_audit := []\<rparr> = d1" using d1(3) by (simp add: eff_audit_def)
    then show ?thesis using good_delta_mono [OF _ d1(2), of ?T] by simp
  qed
  have d2: "px_state c3 = extend_state ?s d2" "good_delta ?T (st_events ?s) d2"
      "ef_events d2 = ef_events d1" "ef_audit d2 = [f]"
    using link_route_Inr [OF l s2 g] d1 f' by (auto simp: eff_audit_def)
  have d3: "px_state c4 = extend_state ?s d3 \<and> good_delta ?T (st_events ?s) d3 \<and> ef_events d3 = ef_events d1
      \<and> ef_audit d3 = [f]"
  proof (cases "kinds = []")
    case True
    with o obtain r c5 where
        r: "outbox P session turn invocation [] EventUnset 0 now (retain P now DataClassOutbox) c3 = (Inr r, c5)"
      and d3: "d3 = eff_outbox (r\<lparr>ob_auditFactID := af_auditFactID f\<rparr>) d2"
      and c4: "c4 = c5\<lparr>px_state := add_outbox (r\<lparr>ob_auditFactID := af_auditFactID f\<rparr>) (px_state c5)\<rparr>"
      by (auto simp: Let_def)
    from route_Inr(1) [OF r] d2 show ?thesis
      by (auto simp: d3 c4 extend_state_def add_outbox_def eff_outbox_def good_delta_def fresh_route_def)
  next
    case False
    with o d2 show ?thesis by auto
  qed
  from appendsD [OF a appends_route_facts] obtain dd where dd: "d = appendEffects d3 dd"
      "px_state c' = extend_state (px_state c4) dd"
      "good_delta {sc_tenant (rb_scope b)} (st_events (px_state c4)) dd" .
  have no_events: "ef_events dd = []"
    using a dd(1) d3 by (auto dest!: route_facts_events)
  have "good_delta ?T (st_events ?s) d"
    unfolding dd(1) using d3 dd(3) by (intro good_delta_append) (auto intro: good_delta_mono [rotated])
  with dd d3 show "emits ?T ?s d (px_state c')" by (simp add: extend_state_extend emits_extend)
  show "map ev_kind (ef_events d) = kinds"
    and "\<forall>e \<in> set (ef_events d). ev_sessionID e = ss_sessionID session \<and> ev_turnID e = tu_turnID turn"
    and "ef_audit d \<noteq> []"
    using dd(1) d3 d1 no_events by auto
qed

interpretation effect_emitter: effect_producer "effects P b session turn invocation kinds now"
    "{ss_tenant session, sc_tenant (rb_scope b)}"
  for P b session turn invocation kinds now
  by unfold_locales (rule effects_Inr(1))

end
