(* ===== verification/Lifecycle.thy ===== *)
theory Lifecycle
  imports Effects_Contract
begin

text \<open>
  The abstract specification of a committed command: what may happen to one record of each
  table of the tenant state. A Turn, Session, capability grant, approval, tool execution,
  invocation or outbox route moves along its own small state machine (an inductive step
  relation with the clock reading as parameter); the other tables only grow. \<open>lifecycle\<close> puts the
  tables together and \<open>commits\<close> adds the effects of \<open>Effects_Contract\<close>. The handlers of the
  planner are refinements of \<open>commits\<close>; that is proved where they are defined.
\<close>

section \<open>Record state machines\<close>

definition terminal_turn :: "TurnState \<Rightarrow> bool" where
  "terminal_turn t \<longleftrightarrow> t = TurnSucceeded \<or> t = TurnFailed \<or> t = TurnCancelled"

inductive turn_step :: "gtime \<Rightarrow> TurnRecord \<Rightarrow> TurnRecord \<Rightarrow> bool" for now where
  turn_start: "tu_state t = TurnQueued \<Longrightarrow>
    turn_step now t (t\<lparr>tu_state := TurnRunning, tu_version := Suc (tu_version t), tu_startedAt := Some now\<rparr>)"
| turn_pause: "tu_state t = TurnRunning \<Longrightarrow>
    turn_step now t (t\<lparr>tu_state := TurnWaitingForApproval, tu_version := Suc (tu_version t)\<rparr>)"
| turn_resume: "tu_state t = TurnWaitingForApproval \<Longrightarrow>
    turn_step now t (t\<lparr>tu_state := TurnRunning, tu_version := Suc (tu_version t)\<rparr>)"
| turn_progress: "tu_state t = TurnRunning \<Longrightarrow> turn_step now t (t\<lparr>tu_version := Suc (tu_version t)\<rparr>)"
| turn_settle: "tu_state t = TurnRunning \<Longrightarrow> terminal_turn st \<Longrightarrow>
    turn_step now t (t\<lparr>tu_state := st, tu_failure := f, tu_version := Suc (tu_version t),
                      tu_completedAt := Some now\<rparr>)"
| turn_cancel: "pending_turn (tu_state t) \<Longrightarrow>
    turn_step now t (t\<lparr>tu_state := TurnCancelled, tu_version := Suc (tu_version t),
                      tu_completedAt := Some now\<rparr>)"

inductive session_step :: "gtime \<Rightarrow> SessionRecord \<Rightarrow> SessionRecord \<Rightarrow> bool" for now where
  session_touch: "session_step now x (x\<lparr>ss_version := Suc (ss_version x), ss_updatedAt := now\<rparr>)"
| session_move: "ss_state x = SessionOpen \<and> st = SessionClosing
      \<or> ss_state x \<in> {SessionOpen, SessionClosing} \<and> st \<in> {SessionCompleted, SessionCancelled, SessionFailed} \<Longrightarrow>
    session_step now x (x\<lparr>ss_state := st, ss_version := Suc (ss_version x), ss_updatedAt := now\<rparr>)"

inductive grant_step :: "gtime \<Rightarrow> CapabilityGrantRecord \<Rightarrow> CapabilityGrantRecord \<Rightarrow> bool" for now where
  grant_consume: "gr_revokedAt g = None \<Longrightarrow> Before now (gr_expiresAt g) \<Longrightarrow> gr_uses g < gr_maximumUses g \<Longrightarrow>
    grant_step now g (g\<lparr>gr_uses := Suc (gr_uses g)\<rparr>)"
| grant_revoke: "gr_revokedAt g = None \<Longrightarrow> grant_step now g (g\<lparr>gr_revokedAt := Some now\<rparr>)"

inductive approval_step :: "gtime \<Rightarrow> ApprovalRecord \<Rightarrow> ApprovalRecord \<Rightarrow> bool" for now where
  approval_expire: "ap_state a = ApprovalPending \<Longrightarrow> \<not> Before now (ap_expiresAt a) \<Longrightarrow>
    approval_step now a (a\<lparr>ap_state := ApprovalExpired\<rparr>)"
| approval_decide: "ap_state a = ApprovalPending \<Longrightarrow> Before now (ap_expiresAt a) \<Longrightarrow>
    st = ApprovalApproved \<or> st = ApprovalDenied \<Longrightarrow>
    approval_step now a (a\<lparr>ap_state := st, ap_decision := st, ap_decidedAt := Some now\<rparr>)"
| approval_withdraw: "ap_state a = ApprovalPending \<Longrightarrow>
    approval_step now a (a\<lparr>ap_state := ApprovalCancelled\<rparr>)"

inductive execution_step :: "gtime \<Rightarrow> ToolExecutionRecord \<Rightarrow> ToolExecutionRecord \<Rightarrow> bool" for now where
  execution_record: "te_state e = ToolExecutionIntent \<Longrightarrow>
    st = ToolExecutionSucceeded \<or> st = ToolExecutionFailed \<or> st = ToolExecutionUncertain \<Longrightarrow>
    execution_step now e (e\<lparr>te_state := st, te_result := r, te_failure := f, te_updatedAt := now\<rparr>)"

inductive invocation_step :: "gtime \<Rightarrow> InvocationRecord \<Rightarrow> InvocationRecord \<Rightarrow> bool" for now where
  invocation_record: "iv_state i = InvocationIntent \<Longrightarrow>
    st \<in> {InvocationSucceeded, InvocationFailed, InvocationUncertain, InvocationCancelled} \<Longrightarrow>
    invocation_step now i (i\<lparr>iv_state := st, iv_result := r, iv_failure := f, iv_usage := u, iv_updatedAt := now\<rparr>)"

definition claimable :: "gtime \<Rightarrow> OutboxRecord \<Rightarrow> bool" where
  "claimable now r \<longleftrightarrow> ob_state r = OutboxPending
     \<or> ob_state r = OutboxClaimed \<and> (case ob_claimUntil r of None \<Rightarrow> False | Some u \<Rightarrow> \<not> After u now)"

definition live_claim :: "gtime \<Rightarrow> OutboxRecord \<Rightarrow> bool" where
  "live_claim now r \<longleftrightarrow>
     ob_state r = OutboxClaimed \<and> (case ob_claimUntil r of None \<Rightarrow> False | Some u \<Rightarrow> After u now)"

inductive outbox_step :: "gtime \<Rightarrow> OutboxRecord \<Rightarrow> OutboxRecord \<Rightarrow> bool" for now where
  outbox_claim: "claimable now r \<Longrightarrow> After u now \<Longrightarrow>
    outbox_step now r (r\<lparr>ob_state := OutboxClaimed, ob_claimedBy := who, ob_claimUntil := Some u,
                        ob_version := Suc (ob_version r)\<rparr>)"
| outbox_renew: "live_claim now r \<Longrightarrow> After u (the (ob_claimUntil r)) \<Longrightarrow>
    outbox_step now r (r\<lparr>ob_claimUntil := Some u, ob_version := Suc (ob_version r)\<rparr>)"
| outbox_publish: "live_claim now r \<Longrightarrow>
    outbox_step now r (r\<lparr>ob_state := OutboxPublished, ob_version := Suc (ob_version r), ob_claimUntil := None\<rparr>)"

section \<open>Tables of evolving records\<close>

text \<open>A table keeps its records in place, each unchanged or moved along its machine if the actor
  may touch it, and grows at the end by fresh records (moved along their machine if at all).\<close>

definition evolves :: "('a \<Rightarrow> bool) \<Rightarrow> ('a \<Rightarrow> 'a \<Rightarrow> bool) \<Rightarrow> ('a \<Rightarrow> bool) \<Rightarrow> 'a list \<Rightarrow> 'a list \<Rightarrow> bool" where
  "evolves may step fresh xs ys \<longleftrightarrow>
     (\<exists>zs ws. ys = zs @ ws \<and> list_all2 (\<lambda>x y. x = y \<or> may x \<and> step\<^sup>*\<^sup>* x y) xs zs
        \<and> (\<forall>w \<in> set ws. \<exists>w0. fresh w0 \<and> step\<^sup>*\<^sup>* w0 w))"

definition appended :: "('a \<Rightarrow> bool) \<Rightarrow> 'a list \<Rightarrow> 'a list \<Rightarrow> bool" where
  "appended fresh xs ys \<longleftrightarrow> (\<exists>ws. ys = xs @ ws \<and> (\<forall>w \<in> set ws. fresh w))"

lemma appended_refl [simp]: "appended fresh xs xs"
  by (simp add: appended_def)

lemma appended_snoc [intro]: "fresh w \<Longrightarrow> appended fresh xs (xs @ [w])"
  by (simp add: appended_def)

lemma appended_trans:
  "appended f xs ys \<Longrightarrow> appended g ys zs \<Longrightarrow> (\<And>x. f x \<Longrightarrow> h x) \<Longrightarrow> (\<And>x. g x \<Longrightarrow> h x) \<Longrightarrow> appended h xs zs"
  by (fastforce simp: appended_def)

lemma appended_mem: "appended fresh xs ys \<Longrightarrow> x \<in> set xs \<Longrightarrow> x \<in> set ys"
  by (auto simp: appended_def)

lemma appended_inv:
  "appended fresh xs ys \<Longrightarrow> \<forall>x \<in> set xs. I x \<Longrightarrow> (\<And>x. fresh x \<Longrightarrow> I x) \<Longrightarrow> \<forall>y \<in> set ys. I y"
  by (auto simp: appended_def)

lemma appended_prefix: "appended fresh xs ys \<Longrightarrow> prefix xs ys"
  by (auto simp: appended_def)

lemma evolves_refl [simp]: "evolves may step fresh xs xs"
  unfolding evolves_def
  by (intro exI [where x = xs] exI [where x = "[]"]) (auto intro!: list_all2_reflI)

lemma evolves_snoc [intro]: "fresh w \<Longrightarrow> evolves may step fresh xs (xs @ [w])"
  unfolding evolves_def
  by (intro exI [where x = xs] exI [where x = "[w]"]) (auto intro!: list_all2_reflI)

lemma evolves_update [intro]:
  assumes "i < length xs" and "may (xs ! i)" and "step (xs ! i) x"
  shows "evolves may step fresh xs (xs[i := x])"
  using assms unfolding evolves_def
  by (intro exI [where x = "xs[i := x]"] exI [where x = "[]"])
    (auto intro!: list_all2_update_same)

lemma steps_inv: "step\<^sup>*\<^sup>* x y \<Longrightarrow> I x \<Longrightarrow> (\<And>x y. step x y \<Longrightarrow> I x \<Longrightarrow> I y) \<Longrightarrow> I y"
  by (induction rule: rtranclp_induct) auto

lemma evolves_inv:
  assumes e: "evolves may step fresh xs ys" and I: "\<forall>x \<in> set xs. I x"
    and fresh: "\<And>x. fresh x \<Longrightarrow> I x" and step: "\<And>x y. step x y \<Longrightarrow> I x \<Longrightarrow> I y"
  shows "\<forall>y \<in> set ys. I y"
proof
  from e obtain zs ws where ys: "ys = zs @ ws" and z: "list_all2 (\<lambda>x y. x = y \<or> may x \<and> step\<^sup>*\<^sup>* x y) xs zs"
    and w: "\<forall>w \<in> set ws. \<exists>w0. fresh w0 \<and> step\<^sup>*\<^sup>* w0 w"
    by (auto simp: evolves_def)
  fix y assume "y \<in> set ys"
  then consider "y \<in> set zs" | "y \<in> set ws" by (auto simp: ys)
  then show "I y"
  proof cases
    case 1
    with z obtain x where "x \<in> set xs" "x = y \<or> may x \<and> step\<^sup>*\<^sup>* x y" by (blast dest: list_all2_mem2)
    with I steps_inv [of step x y I] step show ?thesis by blast
  next
    case 2
    with w obtain w0 where "fresh w0" "step\<^sup>*\<^sup>* w0 y" by blast
    with fresh steps_inv [of step w0 y I] step show ?thesis by blast
  qed
qed

text \<open>What every record machine promises: a step keeps the identity of the record and the Session
  that owns it.\<close>

locale record_lifecycle =
  fixes step :: "gtime \<Rightarrow> 'r \<Rightarrow> 'r \<Rightarrow> bool" and ident :: "'r \<Rightarrow> 'k"
  assumes step_ident: "step now x y \<Longrightarrow> ident y = ident x"
begin

lemma steps_ident: "(step now)\<^sup>*\<^sup>* x y \<Longrightarrow> ident y = ident x"
  by (induction rule: rtranclp_induct) (auto dest: step_ident)

lemma evolves_idents:
  assumes "evolves may (step now) fresh xs ys"
  shows "prefix (map ident xs) (map ident ys)"
proof -
  from assms obtain zs ws where ys: "ys = zs @ ws"
    and z: "list_all2 (\<lambda>x y. x = y \<or> may x \<and> (step now)\<^sup>*\<^sup>* x y) xs zs"
    by (auto simp: evolves_def)
  from z have "map ident zs = map ident xs"
    by (auto simp: list_all2_conv_all_nth steps_ident intro!: nth_equalityI)
  then show ?thesis by (simp add: ys)
qed

lemma evolves_ident_mem:
  "evolves may (step now) fresh xs ys \<Longrightarrow> ident ` set xs \<subseteq> ident ` set ys"
  using evolves_idents set_mono_prefix by fastforce

lemma evolves_trans:
  assumes 1: "evolves may (step now) f xs ys" and 2: "evolves may' (step now) g ys zs"
    and may: "\<And>x y. may' y \<Longrightarrow> ident y = ident x \<Longrightarrow> may x"
    and f: "\<And>x. f x \<Longrightarrow> h x" and g: "\<And>x. g x \<Longrightarrow> h x"
  shows "evolves may (step now) h xs zs"
proof -
  let ?R = "\<lambda>may x y. x = y \<or> may x \<and> (step now)\<^sup>*\<^sup>* x y"
  from 1 obtain y1 w1 where y: "ys = y1 @ w1" "list_all2 (?R may) xs y1"
      "\<forall>w \<in> set w1. \<exists>w0. f w0 \<and> (step now)\<^sup>*\<^sup>* w0 w" by (auto simp: evolves_def)
  from 2 obtain z1 w2 where z: "zs = z1 @ w2" "list_all2 (?R may') (y1 @ w1) z1"
      "\<forall>w \<in> set w2. \<exists>w0. g w0 \<and> (step now)\<^sup>*\<^sup>* w0 w" by (auto simp: evolves_def y)
  from z(2) obtain a b where ab: "z1 = a @ b" "list_all2 (?R may') y1 a" "list_all2 (?R may') w1 b"
    by (auto simp: list_all2_append1)
  have "list_all2 (?R may) xs a"
  proof (rule list_all2_trans [OF _ y(2) ab(2)])
    fix x y z assume "?R may x y" and "?R may' y z"
    then show "?R may x z" using may [of y x] steps_ident [of now x y] by (auto intro: rtranclp_trans)
  qed
  moreover have "\<exists>w0. h w0 \<and> (step now)\<^sup>*\<^sup>* w0 w" if "w \<in> set (b @ w2)" for w
  proof (cases "w \<in> set w2")
    case True
    with z(3) g show ?thesis by blast
  next
    case False
    with that have "w \<in> set b" by simp
    with ab(3) obtain v where "v \<in> set w1" "?R may' v w" by (blast dest: list_all2_mem2)
    with y(3) f show ?thesis by (blast intro: rtranclp_trans)
  qed
  ultimately show ?thesis unfolding evolves_def z(1) ab(1) by (intro exI [where x = a] exI [where x = "b @ w2"]) auto
qed

lemma evolves_nth:
  assumes "evolves may (step now) fresh xs ys" and "i < length xs"
  shows "i < length ys \<and> (ys ! i = xs ! i \<or> may (xs ! i) \<and> (step now)\<^sup>*\<^sup>* (xs ! i) (ys ! i))"
proof -
  from assms(1) obtain zs ws where "ys = zs @ ws"
    and "list_all2 (\<lambda>x y. x = y \<or> may x \<and> (step now)\<^sup>*\<^sup>* x y) xs zs"
    by (auto simp: evolves_def)
  with assms(2) show ?thesis by (auto simp: list_all2_conv_all_nth nth_append)
qed

end

definition session_ident :: "SessionRecord \<Rightarrow> TenantID \<times> PrincipalID \<times> SessionID" where
  "session_ident x = (ss_tenant x, ss_principal x, ss_sessionID x)"
definition turn_ident :: "TurnRecord \<Rightarrow> TenantID \<times> PrincipalID \<times> SessionID \<times> TurnID \<times> nat" where
  "turn_ident t = (tu_tenant t, tu_principal t, tu_sessionID t, tu_turnID t, tu_position t)"
definition grant_ident :: "CapabilityGrantRecord \<Rightarrow> CapabilityGrantRecord" where
  "grant_ident g = g\<lparr>gr_uses := 0, gr_revokedAt := None\<rparr>"
definition approval_ident :: "ApprovalRecord \<Rightarrow> ApprovalRecord" where
  "approval_ident a = a\<lparr>ap_state := ApprovalUnset, ap_decision := ApprovalUnset, ap_decidedAt := None\<rparr>"
definition execution_ident :: "ToolExecutionRecord \<Rightarrow> TenantID \<times> PrincipalID \<times> SessionID \<times> TurnID \<times> OperationID" where
  "execution_ident e = (te_tenant e, te_principal e, te_sessionID e, te_turnID e, te_operationID e)"
definition invocation_ident :: "InvocationRecord \<Rightarrow> TenantID \<times> PrincipalID \<times> SessionID \<times> TurnID \<times> OperationID" where
  "invocation_ident i = (iv_tenant i, iv_principal i, iv_sessionID i, iv_turnID i, iv_operationID i)"
definition outbox_ident :: "OutboxRecord \<Rightarrow> TenantID \<times> OutboxID" where
  "outbox_ident r = (ob_tenant r, ob_outboxID r)"

lemma grant_ident_fields:
  assumes "grant_ident g' = grant_ident g"
  shows "gr_tenant g' = gr_tenant g" "gr_principal g' = gr_principal g" "gr_sessionID g' = gr_sessionID g"
    "gr_turnID g' = gr_turnID g" "gr_grantID g' = gr_grantID g" "gr_toolCallID g' = gr_toolCallID g"
    "gr_capabilityDigest g' = gr_capabilityDigest g" "gr_maximumUses g' = gr_maximumUses g"
    "gr_expiresAt g' = gr_expiresAt g" "gr_policyRevisionDigest g' = gr_policyRevisionDigest g"
  using assms by (cases g; cases g'; simp add: grant_ident_def)+

lemma approval_ident_fields:
  assumes "approval_ident a' = approval_ident a"
  shows "ap_tenant a' = ap_tenant a" "ap_principal a' = ap_principal a" "ap_sessionID a' = ap_sessionID a"
    "ap_turnID a' = ap_turnID a" "ap_approvalID a' = ap_approvalID a" "ap_toolCallID a' = ap_toolCallID a"
    "ap_capabilityDigest a' = ap_capabilityDigest a" "ap_maximumUses a' = ap_maximumUses a"
    "ap_expiresAt a' = ap_expiresAt a" "ap_policyRevisionDigest a' = ap_policyRevisionDigest a"
  using assms by (cases a; cases a'; simp add: approval_ident_def)+

lemmas ident_defs = session_ident_def turn_ident_def execution_ident_def invocation_ident_def outbox_ident_def
lemmas ident_fields = grant_ident_fields approval_ident_fields

interpretation turns: record_lifecycle turn_step turn_ident
  by unfold_locales (auto simp: turn_ident_def elim: turn_step.cases)
interpretation sessions: record_lifecycle session_step session_ident
  by unfold_locales (auto simp: session_ident_def elim: session_step.cases)
interpretation grants: record_lifecycle grant_step grant_ident
  by unfold_locales (auto simp: grant_ident_def elim: grant_step.cases)
interpretation approvals: record_lifecycle approval_step approval_ident
  by unfold_locales (auto simp: approval_ident_def elim: approval_step.cases)
interpretation executions: record_lifecycle execution_step execution_ident
  by unfold_locales (auto simp: execution_ident_def elim: execution_step.cases)
interpretation invocations: record_lifecycle invocation_step invocation_ident
  by unfold_locales (auto simp: invocation_ident_def elim: invocation_step.cases)
interpretation routes: record_lifecycle outbox_step outbox_ident
  by unfold_locales (auto simp: outbox_ident_def elim: outbox_step.cases)


section \<open>A committed transition\<close>

definition turn_key :: "TurnRecord \<Rightarrow> TenantID \<times> PrincipalID \<times> SessionID \<times> TurnID" where
  "turn_key t = (tu_tenant t, tu_principal t, tu_sessionID t, tu_turnID t)"

definition session_keys :: "RuntimeState \<Rightarrow> (TenantID \<times> PrincipalID \<times> SessionID) set" where
  "session_keys s = session_ident ` set (st_sessions s)"
definition turn_keys :: "RuntimeState \<Rightarrow> (TenantID \<times> PrincipalID \<times> SessionID \<times> TurnID) set" where
  "turn_keys s = turn_key ` set (st_turns s)"

text \<open>What a record looks like when a command creates it, and the records it refers to.\<close>

definition session_fresh :: "TenantID \<Rightarrow> SessionRecord \<Rightarrow> bool" where
  "session_fresh T x \<longleftrightarrow> ss_tenant x = T \<and> ss_state x = SessionOpen \<and> ss_version x = 1 \<and> ss_sessionID x \<noteq> []"
definition turn_fresh :: "TenantID \<Rightarrow> RuntimeState \<Rightarrow> TurnRecord \<Rightarrow> bool" where
  "turn_fresh T s t \<longleftrightarrow> tu_tenant t = T \<and> tu_version t = 1 \<and> tu_completedAt t = None
     \<and> (tu_state t = TurnQueued \<and> tu_startedAt t = None \<or> tu_state t = TurnRunning \<and> tu_startedAt t \<noteq> None)
     \<and> (tu_tenant t, tu_principal t, tu_sessionID t) \<in> session_keys s"
text \<open>The chain of authority behind an external effect: an execution has a consumed grant, a grant
  an approved approval, an approval a recorded intent, all of one Turn and one tool call.\<close>

definition approval_intent :: "RuntimeState \<Rightarrow> ApprovalRecord \<Rightarrow> bool" where
  "approval_intent s a \<longleftrightarrow> (\<exists>i \<in> set (st_toolIntents s).
     ti_toolCallID i = ap_toolCallID a \<and> ti_sessionID i = ap_sessionID a \<and> ti_turnID i = ap_turnID a)"
definition grant_approval :: "RuntimeState \<Rightarrow> CapabilityGrantRecord \<Rightarrow> bool" where
  "grant_approval s g \<longleftrightarrow> (\<exists>a \<in> set (st_approvals s). ap_state a = ApprovalApproved
     \<and> ap_tenant a = gr_tenant g \<and> ap_principal a = gr_principal g \<and> ap_sessionID a = gr_sessionID g
     \<and> ap_turnID a = gr_turnID g \<and> ap_toolCallID a = gr_toolCallID g
     \<and> ap_capabilityDigest a = gr_capabilityDigest g \<and> ap_maximumUses a = gr_maximumUses g
     \<and> ap_expiresAt a = gr_expiresAt g \<and> ap_policyRevisionDigest a = gr_policyRevisionDigest g)"
definition execution_grant :: "RuntimeState \<Rightarrow> ToolExecutionRecord \<Rightarrow> bool" where
  "execution_grant s e \<longleftrightarrow> (\<exists>g \<in> set (st_grants s). 0 < gr_uses g \<and> gr_grantID g = te_grantID e
     \<and> gr_tenant g = te_tenant e \<and> gr_principal g = te_principal e \<and> gr_sessionID g = te_sessionID e
     \<and> gr_turnID g = te_turnID e \<and> gr_toolCallID g = te_toolCallID e)"

definition grant_fresh :: "TenantID \<Rightarrow> RuntimeState \<Rightarrow> CapabilityGrantRecord \<Rightarrow> bool" where
  "grant_fresh T s g \<longleftrightarrow> gr_tenant g = T \<and> gr_grantID g \<noteq> [] \<and> gr_uses g = 0 \<and> gr_revokedAt g = None \<and> grant_approval s g
     \<and> (gr_tenant g, gr_principal g, gr_sessionID g, gr_turnID g) \<in> turn_keys s"
definition approval_fresh :: "TenantID \<Rightarrow> RuntimeState \<Rightarrow> ApprovalRecord \<Rightarrow> bool" where
  "approval_fresh T s a \<longleftrightarrow> ap_tenant a = T \<and> ap_state a = ApprovalPending \<and> approval_intent s a
     \<and> (ap_tenant a, ap_principal a, ap_sessionID a, ap_turnID a) \<in> turn_keys s"
definition execution_fresh :: "TenantID \<Rightarrow> RuntimeState \<Rightarrow> ToolExecutionRecord \<Rightarrow> bool" where
  "execution_fresh T s e \<longleftrightarrow> te_tenant e = T \<and> te_state e = ToolExecutionIntent \<and> execution_grant s e
     \<and> (te_tenant e, te_principal e, te_sessionID e, te_turnID e) \<in> turn_keys s"
definition invocation_fresh :: "TenantID \<Rightarrow> RuntimeState \<Rightarrow> InvocationRecord \<Rightarrow> bool" where
  "invocation_fresh T s i \<longleftrightarrow> iv_tenant i = T \<and> iv_state i = InvocationIntent
     \<and> (iv_tenant i, iv_principal i, iv_sessionID i, iv_turnID i) \<in> turn_keys s"
definition input_fresh :: "TenantID \<Rightarrow> RuntimeState \<Rightarrow> InputRecord \<Rightarrow> bool" where
  "input_fresh T s i \<longleftrightarrow> in_tenant i = T \<and> (in_tenant i, in_principal i, in_sessionID i) \<in> session_keys s"
definition artifact_fresh :: "TenantID \<Rightarrow> RuntimeState \<Rightarrow> ArtifactRecord \<Rightarrow> bool" where
  "artifact_fresh T s a \<longleftrightarrow> at_tenant a = T
     \<and> (at_tenant a, at_principal a, at_sessionID a, at_turnID a) \<in> turn_keys s"
definition conversation_fresh :: "TenantID \<Rightarrow> RuntimeState \<Rightarrow> ConversationRecord \<Rightarrow> bool" where
  "conversation_fresh T s v \<longleftrightarrow> cv_tenant v = T \<and> (cv_tenant v, cv_principal v, cv_sessionID v) \<in> session_keys s"
definition intent_fresh :: "TenantID \<Rightarrow> RuntimeState \<Rightarrow> ToolIntentRecord \<Rightarrow> bool" where
  "intent_fresh T s i \<longleftrightarrow> ti_tenant i = T
     \<and> (ti_tenant i, ti_principal i, ti_sessionID i, ti_turnID i) \<in> turn_keys s"

lemmas fresh_defs = session_fresh_def turn_fresh_def grant_fresh_def approval_fresh_def
  execution_fresh_def invocation_fresh_def input_fresh_def artifact_fresh_def
  conversation_fresh_def intent_fresh_def

definition lifecycle :: "TenantID \<Rightarrow> SessionID set \<Rightarrow> gtime \<Rightarrow> RuntimeState \<Rightarrow> RuntimeState \<Rightarrow> bool" where
  "lifecycle T S now s s' \<longleftrightarrow>
     appended (\<lambda>r. ar_tenant r = T) (st_revisions s) (st_revisions s')
     \<and> appended (\<lambda>p. po_tenant p = T) (st_policies s) (st_policies s')
     \<and> evolves (\<lambda>x. ss_sessionID x \<in> S) (session_step now) (session_fresh T) (st_sessions s) (st_sessions s')
     \<and> appended (input_fresh T s') (st_inputs s) (st_inputs s')
     \<and> appended (artifact_fresh T s') (st_artifacts s) (st_artifacts s')
     \<and> appended (conversation_fresh T s') (st_conversations s) (st_conversations s')
     \<and> appended (intent_fresh T s') (st_toolIntents s) (st_toolIntents s')
     \<and> evolves (\<lambda>g. gr_sessionID g \<in> S) (grant_step now) (grant_fresh T s') (st_grants s) (st_grants s')
     \<and> evolves (\<lambda>e. te_sessionID e \<in> S) (execution_step now) (execution_fresh T s') (st_toolExecutions s) (st_toolExecutions s')
     \<and> evolves (\<lambda>a. ap_sessionID a \<in> S) (approval_step now) (approval_fresh T s') (st_approvals s) (st_approvals s')
     \<and> evolves (\<lambda>t. tu_sessionID t \<in> S) (turn_step now) (turn_fresh T s') (st_turns s) (st_turns s')
     \<and> evolves (\<lambda>i. iv_sessionID i \<in> S) (invocation_step now) (invocation_fresh T s') (st_invocations s) (st_invocations s')
     \<and> st_receipts s' = st_receipts s"

lemma lifecycleD:
  assumes "lifecycle T S now s s'"
  shows "appended (\<lambda>r. ar_tenant r = T) (st_revisions s) (st_revisions s')"
    and "appended (\<lambda>p. po_tenant p = T) (st_policies s) (st_policies s')"
    and "evolves (\<lambda>x. ss_sessionID x \<in> S) (session_step now) (session_fresh T) (st_sessions s) (st_sessions s')"
    and "appended (input_fresh T s') (st_inputs s) (st_inputs s')"
    and "appended (artifact_fresh T s') (st_artifacts s) (st_artifacts s')"
    and "appended (conversation_fresh T s') (st_conversations s) (st_conversations s')"
    and "appended (intent_fresh T s') (st_toolIntents s) (st_toolIntents s')"
    and "evolves (\<lambda>g. gr_sessionID g \<in> S) (grant_step now) (grant_fresh T s') (st_grants s) (st_grants s')"
    and "evolves (\<lambda>e. te_sessionID e \<in> S) (execution_step now) (execution_fresh T s') (st_toolExecutions s) (st_toolExecutions s')"
    and "evolves (\<lambda>a. ap_sessionID a \<in> S) (approval_step now) (approval_fresh T s') (st_approvals s) (st_approvals s')"
    and "evolves (\<lambda>t. tu_sessionID t \<in> S) (turn_step now) (turn_fresh T s') (st_turns s) (st_turns s')"
    and "evolves (\<lambda>i. iv_sessionID i \<in> S) (invocation_step now) (invocation_fresh T s') (st_invocations s) (st_invocations s')"
    and "st_receipts s' = st_receipts s"
  using assms unfolding lifecycle_def by auto

lemma session_keys_mono: "lifecycle T S now s s' \<Longrightarrow> session_keys s \<subseteq> session_keys s'"
  unfolding session_keys_def lifecycle_def by (blast intro: sessions.evolves_ident_mem [THEN subsetD])

lemma turn_keys_ident: "turn_keys s = (\<lambda>(a, b, c, d, e). (a, b, c, d)) ` (turn_ident ` set (st_turns s))"
  by (auto simp: turn_keys_def turn_key_def turn_ident_def image_image)

lemma turn_keys_mono:
  assumes "lifecycle T S now s s'" shows "turn_keys s \<subseteq> turn_keys s'"
proof -
  have "turn_ident ` set (st_turns s) \<subseteq> turn_ident ` set (st_turns s')"
    using assms by (auto simp: lifecycle_def dest!: turns.evolves_ident_mem)
  then show ?thesis unfolding turn_keys_ident by (rule image_mono)
qed

lemma grants_persist:
  assumes "lifecycle T S now s s'" and "g \<in> set (st_grants s)"
  obtains g' where "g' \<in> set (st_grants s')" "grant_ident g' = grant_ident g" "gr_uses g \<le> gr_uses g'"
proof -
  have mono: "gr_uses x \<le> gr_uses y" if "(grant_step now)\<^sup>*\<^sup>* x y" for x y
    using that by (induction rule: rtranclp_induct) (auto elim!: grant_step.cases)
  from assms(2) obtain i where "i < length (st_grants s)" "g = st_grants s ! i" by (auto simp: in_set_conv_nth)
  with grants.evolves_nth [OF lifecycleD(8) [OF assms(1)], of i] that [of "st_grants s' ! i"]
  show thesis by (auto dest: grants.steps_ident mono)
qed

lemma approved_persist:
  assumes "lifecycle T S now s s'" and "a \<in> set (st_approvals s)" and "ap_state a \<noteq> ApprovalPending"
  shows "a \<in> set (st_approvals s')"
proof -
  have stays: "x = y" if "(approval_step now)\<^sup>*\<^sup>* x y" "ap_state x \<noteq> ApprovalPending" for x y
    using that by (cases rule: converse_rtranclpE) (auto elim!: approval_step.cases)
  from assms(2) obtain i where "i < length (st_approvals s)" "a = st_approvals s ! i" by (auto simp: in_set_conv_nth)
  with approvals.evolves_nth [OF lifecycleD(10) [OF assms(1)], of i] stays [of a "st_approvals s' ! i"] assms(3)
  show ?thesis by (metis nth_mem)
qed

lemma authority_mono:
  assumes "lifecycle T S now s s'"
  shows "approval_intent s a \<Longrightarrow> approval_intent s' a"
    and "grant_approval s g \<Longrightarrow> grant_approval s' g"
    and "execution_grant s e \<Longrightarrow> execution_grant s' e"
proof -
  show "approval_intent s a \<Longrightarrow> approval_intent s' a"
    using appended_mem [OF lifecycleD(7) [OF assms]] by (auto simp: approval_intent_def)
  show "grant_approval s g \<Longrightarrow> grant_approval s' g"
    unfolding grant_approval_def using approved_persist [OF assms] by force
  show "execution_grant s' e" if "execution_grant s e"
  proof -
    from that obtain g where g: "g \<in> set (st_grants s)" "0 < gr_uses g" "gr_grantID g = te_grantID e"
        "gr_tenant g = te_tenant e" "gr_principal g = te_principal e" "gr_sessionID g = te_sessionID e"
        "gr_turnID g = te_turnID e" "gr_toolCallID g = te_toolCallID e"
      by (auto simp: execution_grant_def)
    from grants_persist [OF assms g(1)] obtain g' where "g' \<in> set (st_grants s')"
        "grant_ident g' = grant_ident g" "gr_uses g \<le> gr_uses g'" .
    with g show ?thesis unfolding execution_grant_def by (intro bexI [of _ g']) (auto dest: ident_fields)
  qed
qed

lemma lifecycle_refl [simp]: "lifecycle T S now s s"
  by (simp add: lifecycle_def)

lemma lifecycle_trans:
  assumes 1: "lifecycle T S now s m" and 2: "lifecycle T S now m s'"
  shows "lifecycle T S now s s'"
proof -
  note keys = session_keys_mono [OF 2, THEN subsetD] turn_keys_mono [OF 2, THEN subsetD] authority_mono [OF 2]
  show ?thesis
    unfolding lifecycle_def
  proof (intro conjI)
    show "appended (\<lambda>r. ar_tenant r = T) (st_revisions s) (st_revisions s')"
      by (rule appended_trans [OF lifecycleD(1) [OF 1] lifecycleD(1) [OF 2]]) (auto simp: fresh_defs intro: keys)
    show "appended (\<lambda>p. po_tenant p = T) (st_policies s) (st_policies s')"
      by (rule appended_trans [OF lifecycleD(2) [OF 1] lifecycleD(2) [OF 2]]) (auto simp: fresh_defs intro: keys)
    show "evolves (\<lambda>x. ss_sessionID x \<in> S) (session_step now) (session_fresh T) (st_sessions s) (st_sessions s')"
      by (rule sessions.evolves_trans [OF lifecycleD(3) [OF 1] lifecycleD(3) [OF 2]]) (auto simp: ident_defs fresh_defs dest: ident_fields intro: keys)
    show "appended (input_fresh T s') (st_inputs s) (st_inputs s')"
      by (rule appended_trans [OF lifecycleD(4) [OF 1] lifecycleD(4) [OF 2]]) (auto simp: fresh_defs intro: keys)
    show "appended (artifact_fresh T s') (st_artifacts s) (st_artifacts s')"
      by (rule appended_trans [OF lifecycleD(5) [OF 1] lifecycleD(5) [OF 2]]) (auto simp: fresh_defs intro: keys)
    show "appended (conversation_fresh T s') (st_conversations s) (st_conversations s')"
      by (rule appended_trans [OF lifecycleD(6) [OF 1] lifecycleD(6) [OF 2]]) (auto simp: fresh_defs intro: keys)
    show "appended (intent_fresh T s') (st_toolIntents s) (st_toolIntents s')"
      by (rule appended_trans [OF lifecycleD(7) [OF 1] lifecycleD(7) [OF 2]]) (auto simp: fresh_defs intro: keys)
    show "evolves (\<lambda>g. gr_sessionID g \<in> S) (grant_step now) (grant_fresh T s') (st_grants s) (st_grants s')"
      by (rule grants.evolves_trans [OF lifecycleD(8) [OF 1] lifecycleD(8) [OF 2]]) (auto simp: ident_defs fresh_defs dest: ident_fields intro: keys)
    show "evolves (\<lambda>e. te_sessionID e \<in> S) (execution_step now) (execution_fresh T s') (st_toolExecutions s) (st_toolExecutions s')"
      by (rule executions.evolves_trans [OF lifecycleD(9) [OF 1] lifecycleD(9) [OF 2]]) (auto simp: ident_defs fresh_defs dest: ident_fields intro: keys)
    show "evolves (\<lambda>a. ap_sessionID a \<in> S) (approval_step now) (approval_fresh T s') (st_approvals s) (st_approvals s')"
      by (rule approvals.evolves_trans [OF lifecycleD(10) [OF 1] lifecycleD(10) [OF 2]]) (auto simp: ident_defs fresh_defs dest: ident_fields intro: keys)
    show "evolves (\<lambda>t. tu_sessionID t \<in> S) (turn_step now) (turn_fresh T s') (st_turns s) (st_turns s')"
      by (rule turns.evolves_trans [OF lifecycleD(11) [OF 1] lifecycleD(11) [OF 2]]) (auto simp: ident_defs fresh_defs dest: ident_fields intro: keys)
    show "evolves (\<lambda>i. iv_sessionID i \<in> S) (invocation_step now) (invocation_fresh T s') (st_invocations s) (st_invocations s')"
      by (rule invocations.evolves_trans [OF lifecycleD(12) [OF 1] lifecycleD(12) [OF 2]]) (auto simp: ident_defs fresh_defs dest: ident_fields intro: keys)
    show "st_receipts s' = st_receipts s"
      using lifecycleD(13) [OF 1] lifecycleD(13) [OF 2] by simp
  qed
qed

text \<open>The Sessions an actor reaches: the ones its principal owns in its tenant; the tenant
  administrator's policy change reaches every Session of the tenant.\<close>

definition actor_sessions :: "bool \<Rightarrow> MutationScope \<Rightarrow> RuntimeState \<Rightarrow> SessionID set" where
  "actor_sessions admin scope s =
     {sid. \<exists>p. (admin \<or> p = sc_principal scope) \<and>
        ((sc_tenant scope, p, sid) \<in> session_keys s \<or> (\<exists>tid. (sc_tenant scope, p, sid, tid) \<in> turn_keys s))}"

definition commits :: "bool \<Rightarrow> ReceiptBinding \<Rightarrow> gtime \<Rightarrow> RuntimeState \<Rightarrow> EffectSet \<Rightarrow> RuntimeState \<Rightarrow> bool" where
  "commits admin b now s d s' \<longleftrightarrow> (\<exists>m.
     lifecycle (sc_tenant (rb_scope b)) (actor_sessions admin (rb_scope b) s) now s m
     \<and> st_events m = st_events s \<and> st_audit m = st_audit s
     \<and> evolves (\<lambda>r. ob_tenant r = sc_tenant (rb_scope b)) (outbox_step now) (\<lambda>_. False) (st_outbox s) (st_outbox m)
     \<and> emits {sc_tenant (rb_scope b)} m d s')"


lemma commitsI:
  assumes "lifecycle (sc_tenant (rb_scope b)) (actor_sessions admin (rb_scope b) s) now s m"
    and "st_events m = st_events s" and "st_audit m = st_audit s" and "st_outbox m = st_outbox s"
    and "emits {sc_tenant (rb_scope b)} m d s'"
  shows "commits admin b now s d s'"
  using assms unfolding commits_def by (intro exI [where x = m]) simp

subsection \<open>Single-table transitions\<close>

lemma keys_other [simp]:
  "session_keys (s\<lparr>st_turns := a\<rparr>) = session_keys s" "session_keys (s\<lparr>st_inputs := b\<rparr>) = session_keys s"
  "session_keys (s\<lparr>st_conversations := d\<rparr>) = session_keys s"
  "turn_keys (s\<lparr>st_sessions := e\<rparr>) = turn_keys s" "turn_keys (s\<lparr>st_grants := f\<rparr>) = turn_keys s"
  "turn_keys (s\<lparr>st_approvals := g\<rparr>) = turn_keys s" "turn_keys (s\<lparr>st_toolExecutions := h\<rparr>) = turn_keys s"
  "turn_keys (s\<lparr>st_invocations := i\<rparr>) = turn_keys s" "turn_keys (s\<lparr>st_artifacts := j\<rparr>) = turn_keys s"
  "turn_keys (s\<lparr>st_toolIntents := k\<rparr>) = turn_keys s"
  "approval_intent (s\<lparr>st_approvals := g\<rparr>) = approval_intent s" "grant_approval (s\<lparr>st_grants := f\<rparr>) = grant_approval s"
  "execution_grant (s\<lparr>st_toolExecutions := h\<rparr>) = execution_grant s"
  by (auto simp: session_keys_def turn_keys_def approval_intent_def grant_approval_def execution_grant_def fun_eq_iff)

lemma lifecycle_update:
  "i < length (st_sessions s) \<Longrightarrow> ss_sessionID (st_sessions s ! i) \<in> S \<Longrightarrow> session_step now (st_sessions s ! i) x \<Longrightarrow>
     lifecycle T S now s (s\<lparr>st_sessions := (st_sessions s)[i := x]\<rparr>)"
  "i < length (st_turns s) \<Longrightarrow> tu_sessionID (st_turns s ! i) \<in> S \<Longrightarrow> turn_step now (st_turns s ! i) t \<Longrightarrow>
     lifecycle T S now s (s\<lparr>st_turns := (st_turns s)[i := t]\<rparr>)"
  "i < length (st_grants s) \<Longrightarrow> gr_sessionID (st_grants s ! i) \<in> S \<Longrightarrow> grant_step now (st_grants s ! i) g \<Longrightarrow>
     lifecycle T S now s (s\<lparr>st_grants := (st_grants s)[i := g]\<rparr>)"
  "i < length (st_approvals s) \<Longrightarrow> ap_sessionID (st_approvals s ! i) \<in> S \<Longrightarrow> approval_step now (st_approvals s ! i) a \<Longrightarrow>
     lifecycle T S now s (s\<lparr>st_approvals := (st_approvals s)[i := a]\<rparr>)"
  "i < length (st_toolExecutions s) \<Longrightarrow> te_sessionID (st_toolExecutions s ! i) \<in> S \<Longrightarrow>
     execution_step now (st_toolExecutions s ! i) e \<Longrightarrow>
     lifecycle T S now s (s\<lparr>st_toolExecutions := (st_toolExecutions s)[i := e]\<rparr>)"
  "i < length (st_invocations s) \<Longrightarrow> iv_sessionID (st_invocations s ! i) \<in> S \<Longrightarrow>
     invocation_step now (st_invocations s ! i) v \<Longrightarrow>
     lifecycle T S now s (s\<lparr>st_invocations := (st_invocations s)[i := v]\<rparr>)"
  by (simp_all add: lifecycle_def evolves_update)

lemma lifecycle_append:
  "session_fresh T x \<Longrightarrow> lifecycle T S now s (s\<lparr>st_sessions := st_sessions s @ [x]\<rparr>)"
  "turn_fresh T s t \<Longrightarrow> lifecycle T S now s (s\<lparr>st_turns := st_turns s @ [t]\<rparr>)"
  "grant_fresh T s g \<Longrightarrow> lifecycle T S now s (s\<lparr>st_grants := st_grants s @ [g]\<rparr>)"
  "approval_fresh T s a \<Longrightarrow> lifecycle T S now s (s\<lparr>st_approvals := st_approvals s @ [a]\<rparr>)"
  "execution_fresh T s e \<Longrightarrow> lifecycle T S now s (s\<lparr>st_toolExecutions := st_toolExecutions s @ [e]\<rparr>)"
  "invocation_fresh T s v \<Longrightarrow> lifecycle T S now s (s\<lparr>st_invocations := st_invocations s @ [v]\<rparr>)"
  "input_fresh T s n \<Longrightarrow> lifecycle T S now s (s\<lparr>st_inputs := st_inputs s @ [n]\<rparr>)"
  "artifact_fresh T s f \<Longrightarrow> lifecycle T S now s (s\<lparr>st_artifacts := st_artifacts s @ [f]\<rparr>)"
  "conversation_fresh T s cv \<Longrightarrow> lifecycle T S now s (s\<lparr>st_conversations := st_conversations s @ [cv]\<rparr>)"
  "intent_fresh T s ti \<Longrightarrow> lifecycle T S now s (s\<lparr>st_toolIntents := st_toolIntents s @ [ti]\<rparr>)"
  "ar_tenant ar = T \<Longrightarrow> lifecycle T S now s (s\<lparr>st_revisions := st_revisions s @ [ar]\<rparr>)"
  "po_tenant po = T \<Longrightarrow> lifecycle T S now s (s\<lparr>st_policies := st_policies s @ [po]\<rparr>)"
  by (simp_all add: lifecycle_def, auto simp: fresh_defs)

lemma findSessionD:
  assumes "findSession s scope sid = Some i"
  shows "i < length (st_sessions s)" and "ss_tenant (st_sessions s ! i) = sc_tenant scope"
    and "ss_principal (st_sessions s ! i) = sc_principal scope" and "ss_sessionID (st_sessions s ! i) = sid"
    and "(sc_tenant scope, sc_principal scope, sid) \<in> session_keys s"
    and "sid \<in> actor_sessions admin scope s"
proof -
  from assms have i: "i < length (st_sessions s)" and f: "ss_tenant (st_sessions s ! i) = sc_tenant scope"
      "ss_principal (st_sessions s ! i) = sc_principal scope" "ss_sessionID (st_sessions s ! i) = sid"
    by (auto simp: findSession_def)
  from f have "session_ident (st_sessions s ! i) = (sc_tenant scope, sc_principal scope, sid)"
    by (simp add: session_ident_def)
  with i have k: "(sc_tenant scope, sc_principal scope, sid) \<in> session_keys s"
    unfolding session_keys_def by (metis image_eqI nth_mem)
  then have "sid \<in> actor_sessions admin scope s" by (auto simp: actor_sessions_def)
  with i f k show "i < length (st_sessions s)" "ss_tenant (st_sessions s ! i) = sc_tenant scope"
    "ss_principal (st_sessions s ! i) = sc_principal scope" "ss_sessionID (st_sessions s ! i) = sid"
    "(sc_tenant scope, sc_principal scope, sid) \<in> session_keys s"
    "sid \<in> actor_sessions admin scope s" by auto
qed

lemma findTurnD:
  assumes "findTurn s scope sid tid = Some i"
  shows "i < length (st_turns s)" and "tu_tenant (st_turns s ! i) = sc_tenant scope"
    and "tu_principal (st_turns s ! i) = sc_principal scope" and "tu_sessionID (st_turns s ! i) = sid"
    and "tu_turnID (st_turns s ! i) = tid"
    and "(sc_tenant scope, sc_principal scope, sid, tid) \<in> turn_keys s"
    and "sid \<in> actor_sessions admin scope s"
proof -
  from assms have i: "i < length (st_turns s)" and f: "tu_tenant (st_turns s ! i) = sc_tenant scope"
      "tu_principal (st_turns s ! i) = sc_principal scope" "tu_sessionID (st_turns s ! i) = sid"
      "tu_turnID (st_turns s ! i) = tid"
    by (auto simp: findTurn_def)
  from f have "turn_key (st_turns s ! i) = (sc_tenant scope, sc_principal scope, sid, tid)"
    by (simp add: turn_key_def)
  with i have k: "(sc_tenant scope, sc_principal scope, sid, tid) \<in> turn_keys s"
    unfolding turn_keys_def by (metis image_eqI nth_mem)
  then have "sid \<in> actor_sessions admin scope s" by (auto simp: actor_sessions_def)
  with i f k show "i < length (st_turns s)" "tu_tenant (st_turns s ! i) = sc_tenant scope"
    "tu_principal (st_turns s ! i) = sc_principal scope" "tu_sessionID (st_turns s ! i) = sid"
    "tu_turnID (st_turns s ! i) = tid" "(sc_tenant scope, sc_principal scope, sid, tid) \<in> turn_keys s"
    "sid \<in> actor_sessions admin scope s" by auto
qed

section \<open>The interface of the command handlers\<close>

text \<open>A handler refines \<open>commits\<close>: if it returns, the state it leaves behind is one the
  abstract specification allows. Some handlers copy an outcome out of the command and rely on the
  compiler for its shape, and one relies on grants being keyed by their identifier; \<open>pre\<close> is what
  they rely on.\<close>

locale command_handler =
  fixes handle :: "('r \<times> EffectSet) pm" and admin :: bool and pre :: "RuntimeState \<Rightarrow> bool"
    and b :: ReceiptBinding and now :: gtime
  assumes refines: "handle c = (Inr (r, d), c') \<Longrightarrow> pre (px_state c) \<Longrightarrow> commits admin b now (px_state c) d (px_state c')"
begin

lemma appends_events:
  assumes "handle c = (Inr (r, d), c')" and "pre (px_state c)"
  shows "st_events (px_state c') = st_events (px_state c) @ ef_events d"
    and "st_audit (px_state c') = st_audit (px_state c) @ ef_audit d"
  using refines [OF assms] by (auto simp: commits_def emits_def)

lemma keeps_receipts:
  assumes "handle c = (Inr (r, d), c')" and "pre (px_state c)"
  shows "st_receipts (px_state c') = st_receipts (px_state c)"
  using refines [OF assms] by (auto simp: commits_def emits_fields dest: lifecycleD(13))

end

end
