(* ===== verification/Planner_Sessions.thy ===== *)
theory Planner_Sessions
  imports Lifecycle
begin

text \<open>
  The Session, Turn and invocation handlers of \<^verbatim>\<open>internal/runtimestate/planner.go\<close>. A handler reads
  the state, checks the guards of the source in the source's order, writes the tables it changes
  and then emits its effects. Each handler refines the abstract \<open>commits\<close> of \<open>Lifecycle\<close>.
\<close>

section \<open>Results\<close>

record PlanResult =
  pr_kind :: CommandKind
  pr_revision :: AgentRevisionRecord
  pr_policy :: PolicyRevisionRecord
  pr_session :: SessionRecord
  pr_input :: InputRecord
  pr_artifact :: ArtifactRecord
  pr_conversation :: ConversationRecord
  pr_turn :: TurnRecord
  pr_promoted :: "TurnRecord option"
  pr_invocation :: InvocationRecord
  pr_outbox :: OutboxRecord
  pr_receipt :: MutationReceipt

definition zero_PlanResult :: PlanResult where
  "zero_PlanResult =
     \<lparr>pr_kind = CommandUnset, pr_revision = zero_AgentRevisionRecord, pr_policy = zero_PolicyRevisionRecord,
      pr_session = zero_SessionRecord, pr_input = zero_InputRecord, pr_artifact = zero_ArtifactRecord,
      pr_conversation = zero_ConversationRecord, pr_turn = zero_TurnRecord, pr_promoted = None,
      pr_invocation = zero_InvocationRecord, pr_outbox = zero_OutboxRecord,
      pr_receipt = zero_MutationReceipt\<rparr>"

section \<open>Shared steps\<close>

text \<open>The index of the queued Turn of a Session with the lowest position, found in one pass.\<close>

fun lowest_queued :: "SessionID \<Rightarrow> nat \<Rightarrow> (nat \<times> nat) option \<Rightarrow> TurnRecord list \<Rightarrow> nat option" where
  "lowest_queued sid i best [] = map_option fst best"
| "lowest_queued sid i best (t # ts) =
     lowest_queued sid (Suc i)
       (if tu_sessionID t = sid \<and> tu_state t = TurnQueued
           \<and> (case best of None \<Rightarrow> True | Some (_, position) \<Rightarrow> tu_position t < position)
        then Some (i, tu_position t) else best) ts"

definition promote :: "RuntimeState \<Rightarrow> SessionID \<Rightarrow> gtime \<Rightarrow> TurnRecord option \<times> RuntimeState" where
  "promote s sid now =
     (case lowest_queued sid 0 None (st_turns s) of
        None \<Rightarrow> (None, s)
      | Some k \<Rightarrow>
          let t = st_turns s ! k;
              t' = t\<lparr>tu_state := TurnRunning, tu_version := tu_version t + 1, tu_startedAt := Some now\<rparr>
          in (Some t', s\<lparr>st_turns := (st_turns s)[k := t']\<rparr>))"

definition outboxLeaseFenceCurrent :: "RuntimeState \<Rightarrow> TenantID \<Rightarrow> OutboxLeaseFence option \<Rightarrow> gtime \<Rightarrow> bool" where
  "outboxLeaseFenceCurrent s tenant fence now =
     (case fence of None \<Rightarrow> True
      | Some f \<Rightarrow>
          (case find (\<lambda>r. ob_tenant r = tenant \<and> ob_outboxID r = lf_outboxID f) (st_outbox s) of
             None \<Rightarrow> False
           | Some r \<Rightarrow> ob_version r = lf_expectedVersion f \<and> ob_state r = OutboxClaimed
                        \<and> ob_claimedBy r = lf_claimer f
                        \<and> (case ob_claimUntil r of None \<Rightarrow> False | Some u \<Rightarrow> After u now)))"

definition terminalApprovalEffects ::
    "RuntimeStatePlanner \<Rightarrow> ReceiptBinding \<Rightarrow> SessionRecord \<Rightarrow> TurnRecord \<Rightarrow> ApprovalRecord \<Rightarrow> gtime \<Rightarrow> string
     \<Rightarrow> EffectSet pm" where
  "terminalApprovalEffects P b session turn approval now auditKind =
     pbind (event P session turn zero_InvocationRecord b EventApprovalCancelled now
              (retain P now DataClassEvent)) (\<lambda>e.
     pbind (pmodify (add_event e)) (\<lambda>_.
     pbind (outbox P session turn zero_InvocationRecord (ev_eventID e) (ev_kind e) (ev_sequence e) now
              (retain P now DataClassOutbox)) (\<lambda>r.
     pbind (pmodify (add_outbox r)) (\<lambda>_.
     pbind pget (\<lambda>s.
     let k = length (st_outbox s) - 1
     in pbind (auditOnly P b auditKind (ap_sessionID approval) (ap_turnID approval) now) (\<lambda>a.
        if ef_audit a = [] then pfail ErrIntegrity
        else
          let f = hd (ef_audit a)
          in pbind (pmodify (\<lambda>s. s\<lparr>st_outbox := link_at k (af_auditFactID f) (st_outbox s)\<rparr>)) (\<lambda>_.
            pbind (decorateToolAuditFacts a (auditContextForApproval approval)) (\<lambda>a.
            pbind pget (\<lambda>s.
            pure \<lparr>ef_events = [e], ef_audit = ef_audit a,
                  ef_outbox = (st_outbox s ! k) # ef_outbox a\<rparr>)))))))))"

definition cancelledApprovalEffects ::
    "RuntimeStatePlanner \<Rightarrow> ReceiptBinding \<Rightarrow> SessionRecord \<Rightarrow> TurnRecord \<Rightarrow> ApprovalRecord \<Rightarrow> gtime
     \<Rightarrow> EffectSet pm" where
  "cancelledApprovalEffects P b session turn approval now =
     terminalApprovalEffects P b session turn approval now ''approval.cancelled''"

definition invalidatedApprovalEffects ::
    "RuntimeStatePlanner \<Rightarrow> ReceiptBinding \<Rightarrow> SessionRecord \<Rightarrow> TurnRecord \<Rightarrow> ApprovalRecord \<Rightarrow> gtime
     \<Rightarrow> EffectSet pm" where
  "invalidatedApprovalEffects P b session turn approval now =
     terminalApprovalEffects P b session turn approval now ''approval.policy_invalidated''"

section \<open>Sessions\<close>

definition createSession ::
    "RuntimeStatePlanner \<Rightarrow> ReceiptBinding \<Rightarrow> CreateSessionCommand \<Rightarrow> gtime \<Rightarrow> (PlanResult \<times> EffectSet) pm" where
  "createSession P b command now =
     pbind pget (\<lambda>s.
     case find (\<lambda>r. ar_tenant r = sc_tenant (rb_scope b) \<and> ar_revisionID r = csc_revisionID command)
            (st_revisions s) of
       None \<Rightarrow> pfail ErrNotFoundOrDenied
     | Some revision \<Rightarrow>
         pbind (sessionID P) (\<lambda>i.
         let session = \<lparr>ss_tenant = sc_tenant (rb_scope b), ss_principal = sc_principal (rb_scope b),
               ss_sessionID = i, ss_agentID = ar_agentID revision, ss_revisionID = ar_revisionID revision,
               ss_state = SessionOpen, ss_version = 1, ss_createdAt = now, ss_updatedAt = now,
               ss_retainUntil = retain P now DataClassSession\<rparr>
         in pbind (pmodify (\<lambda>s. s\<lparr>st_sessions := st_sessions s @ [session]\<rparr>)) (\<lambda>_.
            pbind (effects P b session zero_TurnRecord zero_InvocationRecord [EventSessionCreated] now) (\<lambda>eff.
            pure (zero_PlanResult\<lparr>pr_session := session\<rparr>, eff)))))"

definition close ::
    "RuntimeStatePlanner \<Rightarrow> ReceiptBinding \<Rightarrow> CloseSessionCommand \<Rightarrow> gtime \<Rightarrow> (PlanResult \<times> EffectSet) pm" where
  "close P b command now =
     pbind pget (\<lambda>s.
     case findSession s (rb_scope b) (clc_sessionID command) of
       None \<Rightarrow> pfail ErrNotFoundOrDenied
     | Some i \<Rightarrow>
         let x = st_sessions s ! i in
         if ss_state x \<noteq> SessionOpen then pfail ErrConflict
         else
           let drained = \<not> hasPending s (ss_sessionID x);
               session = x\<lparr>ss_state := (if drained then SessionCompleted else SessionClosing),
                           ss_version := ss_version x + 1, ss_updatedAt := now\<rparr>;
               kinds = (if drained then [EventSessionClosing, EventSessionCompleted] else [EventSessionClosing])
           in pbind (pput (s\<lparr>st_sessions := (st_sessions s)[i := session]\<rparr>)) (\<lambda>_.
              pbind (effects P b session zero_TurnRecord zero_InvocationRecord kinds now) (\<lambda>eff.
              pure (zero_PlanResult\<lparr>pr_session := session\<rparr>, eff))))"

text \<open>The two terminal commands of a drained Session differ in the state and the event.\<close>

definition stop_session ::
    "SessionState \<Rightarrow> EventKind \<Rightarrow> SessionID \<Rightarrow> RuntimeStatePlanner \<Rightarrow> ReceiptBinding \<Rightarrow> gtime
     \<Rightarrow> (PlanResult \<times> EffectSet) pm" where
  "stop_session st kind sid P b now =
     pbind pget (\<lambda>s.
     case findSession s (rb_scope b) sid of
       None \<Rightarrow> pfail ErrNotFoundOrDenied
     | Some i \<Rightarrow>
         let x = st_sessions s ! i in
         if ss_state x \<noteq> SessionOpen \<and> ss_state x \<noteq> SessionClosing \<or> hasPending s (ss_sessionID x)
         then pfail ErrConflict
         else
           let session = x\<lparr>ss_state := st, ss_version := ss_version x + 1, ss_updatedAt := now\<rparr>
           in pbind (pput (s\<lparr>st_sessions := (st_sessions s)[i := session]\<rparr>)) (\<lambda>_.
              pbind (effects P b session zero_TurnRecord zero_InvocationRecord [kind] now) (\<lambda>eff.
              pure (zero_PlanResult\<lparr>pr_session := session\<rparr>, eff))))"

definition cancelSession ::
    "RuntimeStatePlanner \<Rightarrow> ReceiptBinding \<Rightarrow> CancelSessionCommand \<Rightarrow> gtime \<Rightarrow> (PlanResult \<times> EffectSet) pm" where
  "cancelSession P b command now =
     stop_session SessionCancelled EventSessionCancelled (xsc_sessionID command) P b now"

definition failSession ::
    "RuntimeStatePlanner \<Rightarrow> ReceiptBinding \<Rightarrow> FailSessionCommand \<Rightarrow> gtime \<Rightarrow> (PlanResult \<times> EffectSet) pm" where
  "failSession P b command now =
     stop_session SessionFailed EventSessionFailed (fsc_sessionID command) P b now"

section \<open>Turns\<close>

definition admitted_input ::
    "RuntimeStatePlanner \<Rightarrow> compiledAdmit \<Rightarrow> SessionRecord \<Rightarrow> InputID \<Rightarrow> gtime \<Rightarrow> InputRecord" where
  "admitted_input P compiled x iid now =
     \<lparr>in_tenant = ss_tenant x, in_principal = ss_principal x, in_sessionID = ss_sessionID x,
      in_inputID = iid, in_content = cc_reference (ca_commitment compiled), in_acceptedAt = now,
      in_retentionUntil = retain P now DataClassInput\<rparr>"

definition active_turn :: "RuntimeState \<Rightarrow> SessionID \<Rightarrow> bool" where
  "active_turn s sid \<longleftrightarrow> list_ex (\<lambda>t. tu_sessionID t = sid \<and> tu_state t = TurnRunning) (st_turns s)"

definition admitted_turn ::
    "RuntimeStatePlanner \<Rightarrow> RuntimeState \<Rightarrow> SessionRecord \<Rightarrow> InputID \<Rightarrow> TurnID \<Rightarrow> gtime \<Rightarrow> TurnRecord" where
  "admitted_turn P s x iid tid now =
     (let active = active_turn s (ss_sessionID x) in
      \<lparr>tu_tenant = ss_tenant x, tu_principal = ss_principal x, tu_sessionID = ss_sessionID x,
       tu_turnID = tid, tu_inputID = iid,
       tu_position = next_after (\<lambda>t. tu_sessionID t = ss_sessionID x) tu_position 1 (st_turns s),
       tu_state = (if active then TurnQueued else TurnRunning), tu_version = 1,
       tu_startedAt = (if active then None else Some now), tu_completedAt = None, tu_failure = None,
       tu_retentionUntil = retain P now DataClassTurn\<rparr>)"

definition admit ::
    "RuntimeStatePlanner \<Rightarrow> ReceiptBinding \<Rightarrow> compiledAdmit \<Rightarrow> gtime \<Rightarrow> (PlanResult \<times> EffectSet) pm" where
  "admit P b compiled now =
     pbind pget (\<lambda>s.
     case findSession s (rb_scope b) (aic_sessionID (ca_command compiled)) of
       None \<Rightarrow> pfail ErrNotFoundOrDenied
     | Some i \<Rightarrow>
         let x = st_sessions s ! i in
         if ss_state x \<noteq> SessionOpen then pfail ErrConflict
         else
           pbind (inputID P) (\<lambda>iid.
           pbind (turnID P) (\<lambda>tid.
           let input = admitted_input P compiled x iid now;
               turn = admitted_turn P s x iid tid now;
               kinds = (if active_turn s (ss_sessionID x) then [EventInputAccepted, EventTurnQueued]
                        else [EventInputAccepted, EventTurnStarted]);
               session = x\<lparr>ss_version := ss_version x + 1, ss_updatedAt := now\<rparr>
           in pbind (pput (s\<lparr>st_inputs := st_inputs s @ [input], st_turns := st_turns s @ [turn],
                             st_sessions := (st_sessions s)[i := session]\<rparr>)) (\<lambda>_.
              pbind (effects P b session turn zero_InvocationRecord kinds now) (\<lambda>eff.
              pure (zero_PlanResult\<lparr>pr_input := input, pr_turn := turn, pr_session := session\<rparr>, eff))))))"

text \<open>The settled or cancelled Turn is in the table already; promote the next one, and complete
  a closing Session when there is none (and, where \<open>drained\<close> asks for it, nothing is pending).\<close>

definition after_turn ::
    "RuntimeState \<Rightarrow> nat \<Rightarrow> SessionRecord \<Rightarrow> EventKind list \<Rightarrow> gtime \<Rightarrow> bool \<Rightarrow> (RuntimeState \<Rightarrow> bool)
     \<Rightarrow> RuntimeState \<times> SessionRecord \<times> EventKind list \<times> TurnRecord option" where
  "after_turn s i x kinds now promotes drained =
     (let (promoted, s1) = (if promotes then promote s (ss_sessionID x) now else (None, s));
          touched = x\<lparr>ss_version := ss_version x + 1, ss_updatedAt := now\<rparr>;
          (session, kinds) =
            (if promoted \<noteq> None then (touched, kinds @ [EventTurnStarted])
             else if ss_state x = SessionClosing \<and> drained s1
             then (x\<lparr>ss_state := SessionCompleted, ss_version := ss_version x + 1, ss_updatedAt := now\<rparr>,
                   kinds @ [EventSessionCompleted])
             else (touched, kinds))
      in (s1\<lparr>st_sessions := (st_sessions s1)[i := session]\<rparr>, session, kinds, promoted))"

definition settled_invocation :: "RuntimeState \<Rightarrow> MutationScope \<Rightarrow> SettleTurnCommand \<Rightarrow> InvocationRecord option" where
  "settled_invocation s scope command =
     map_option (\<lambda>k. st_invocations s ! k)
       (findInvocation s scope (stc_sessionID command) (stc_turnID command)
          (to_operationID (stc_outcome command)))"

definition settle ::
    "RuntimeStatePlanner \<Rightarrow> ReceiptBinding \<Rightarrow> SettleTurnCommand \<Rightarrow> gtime \<Rightarrow> (PlanResult \<times> EffectSet) pm" where
  "settle P b command now =
     pbind pget (\<lambda>s.
     if \<not> outboxLeaseFenceCurrent s (sc_tenant (rb_scope b)) (stc_leaseFence command) now
     then pfail ErrConflict
     else case (findSession s (rb_scope b) (stc_sessionID command),
                findTurn s (rb_scope b) (stc_sessionID command) (stc_turnID command)) of
       (Some i, Some j) \<Rightarrow>
         let x = st_sessions s ! i; t = st_turns s ! j; out = stc_outcome command;
             invocation = settled_invocation s (rb_scope b) command in
         if ss_version x \<noteq> stc_expectedSessionVersion command
            \<or> tu_version t \<noteq> stc_expectedTurnVersion command \<or> tu_state t \<noteq> TurnRunning
         then pfail ErrConflict
         else if to_operationID out \<noteq> [] \<and>
            (case invocation of None \<Rightarrow> True
             | Some v \<Rightarrow> iv_ordinal v \<noteq> to_ordinal out \<or> iv_fence v \<noteq> to_fence out
                 \<or> iv_state v \<notin> {InvocationSucceeded, InvocationFailed, InvocationUncertain})
         then pfail ErrConflict
         else
           let turn = t\<lparr>tu_state := to_state out, tu_failure := to_failure out,
                        tu_version := tu_version t + 1, tu_completedAt := Some now\<rparr>;
               kind = terminalEvent (tu_state turn);
               gap = to_operationID out \<noteq> []
                     \<and> (case invocation of None \<Rightarrow> False | Some v \<Rightarrow> iv_state v = InvocationUncertain);
               kinds = (if gap then [EventProducerGap, kind] else [kind]);
               (s', session, kinds', promoted) =
                 after_turn (s\<lparr>st_turns := (st_turns s)[j := turn]\<rparr>) i x kinds now True (\<lambda>_. True)
           in pbind (pput s') (\<lambda>_.
              pbind (effects P b session turn zero_InvocationRecord kinds' now) (\<lambda>eff.
              pure (zero_PlanResult\<lparr>pr_session := session, pr_turn := turn, pr_promoted := promoted\<rparr>, eff)))
     | _ \<Rightarrow> pfail ErrNotFoundOrDenied)"

text \<open>The pending approvals and the unused grants a cancellation withdraws.\<close>

definition withdrawn_approval :: "MutationScope \<Rightarrow> CancelTurnCommand \<Rightarrow> ApprovalRecord \<Rightarrow> bool" where
  "withdrawn_approval scope command a \<longleftrightarrow>
     ap_sessionID a = ctc_sessionID command \<and> ap_turnID a = ctc_turnID command
     \<and> ap_tenant a = sc_tenant scope \<and> ap_principal a = sc_principal scope \<and> ap_state a = ApprovalPending"

definition withdrawn_grant :: "MutationScope \<Rightarrow> CancelTurnCommand \<Rightarrow> CapabilityGrantRecord \<Rightarrow> bool" where
  "withdrawn_grant scope command g \<longleftrightarrow>
     gr_tenant g = sc_tenant scope \<and> gr_principal g = sc_principal scope
     \<and> gr_sessionID g = ctc_sessionID command \<and> gr_turnID g = ctc_turnID command
     \<and> gr_uses g = 0 \<and> gr_revokedAt g = None"

fun cancel_approvals ::
    "RuntimeStatePlanner \<Rightarrow> ReceiptBinding \<Rightarrow> SessionRecord \<Rightarrow> TurnRecord \<Rightarrow> gtime \<Rightarrow> ApprovalRecord list
     \<Rightarrow> EffectSet \<Rightarrow> EffectSet pm" where
  "cancel_approvals P b session turn now [] eff = pure eff"
| "cancel_approvals P b session turn now (a # as) eff =
     pbind (cancelledApprovalEffects P b session turn a now) (\<lambda>extra.
     cancel_approvals P b session turn now as (appendEffects eff extra))"

fun cancel_grants ::
    "RuntimeStatePlanner \<Rightarrow> ReceiptBinding \<Rightarrow> CancelTurnCommand \<Rightarrow> gtime \<Rightarrow> CapabilityGrantRecord list
     \<Rightarrow> EffectSet \<Rightarrow> EffectSet pm" where
  "cancel_grants P b command now [] eff = pure eff"
| "cancel_grants P b command now (g # gs) eff =
     pbind (auditOnly P b ''capability_grant.revoked'' (ctc_sessionID command) (ctc_turnID command) now) (\<lambda>extra.
     pbind (decorateToolAuditFacts extra (auditContextForGrant g)) (\<lambda>extra.
     cancel_grants P b command now gs
       (eff\<lparr>ef_audit := ef_audit eff @ ef_audit extra, ef_outbox := ef_outbox eff @ ef_outbox extra\<rparr>)))"

definition cancel ::
    "RuntimeStatePlanner \<Rightarrow> ReceiptBinding \<Rightarrow> CancelTurnCommand \<Rightarrow> gtime \<Rightarrow> (PlanResult \<times> EffectSet) pm" where
  "cancel P b command now =
     pbind pget (\<lambda>s.
     case (findSession s (rb_scope b) (ctc_sessionID command),
           findTurn s (rb_scope b) (ctc_sessionID command) (ctc_turnID command)) of
       (Some i, Some j) \<Rightarrow>
         let x = st_sessions s ! i; t = st_turns s ! j in
         if tu_state t \<noteq> TurnRunning \<and> tu_state t \<noteq> TurnWaitingForApproval \<and> tu_state t \<noteq> TurnQueued
         then pfail ErrConflict
         else
           let turn = t\<lparr>tu_state := TurnCancelled, tu_version := tu_version t + 1, tu_completedAt := Some now\<rparr>;
               withdraw = (\<lambda>a. a\<lparr>ap_state := ApprovalCancelled\<rparr>);
               revoke = (\<lambda>g. g\<lparr>gr_revokedAt := Some now\<rparr>);
               pending = withdrawn_approval (rb_scope b) command;
               unused = withdrawn_grant (rb_scope b) command;
               (s', session, kinds, promoted) =
                 after_turn (s\<lparr>st_turns := (st_turns s)[j := turn],
                               st_approvals := map (\<lambda>a. if pending a then withdraw a else a) (st_approvals s),
                               st_grants := map (\<lambda>g. if unused g then revoke g else g) (st_grants s)\<rparr>)
                   i x [EventTurnCancelled] now
                   (tu_state t = TurnRunning \<or> tu_state t = TurnWaitingForApproval)
                   (\<lambda>s. \<not> hasPending s (ss_sessionID x))
           in pbind (pput s') (\<lambda>_.
              pbind (effects P b session turn zero_InvocationRecord kinds now) (\<lambda>eff.
              pbind (cancel_approvals P b session turn now (map withdraw (filter pending (st_approvals s))) eff) (\<lambda>eff.
              pbind (cancel_grants P b command now (map revoke (filter unused (st_grants s))) eff) (\<lambda>eff.
              pure (zero_PlanResult\<lparr>pr_session := session, pr_turn := turn, pr_promoted := promoted\<rparr>, eff)))))
     | _ \<Rightarrow> pfail ErrNotFoundOrDenied)"

section \<open>Invocations\<close>

definition new_invocation ::
    "RuntimeStatePlanner \<Rightarrow> RuntimeState \<Rightarrow> SessionRecord \<Rightarrow> TurnRecord \<Rightarrow> OperationID \<Rightarrow> InvocationID \<Rightarrow> gtime
     \<Rightarrow> InvocationRecord" where
  "new_invocation P s x t operation iid now =
     \<lparr>iv_tenant = ss_tenant x, iv_principal = ss_principal x, iv_sessionID = ss_sessionID x,
      iv_turnID = tu_turnID t, iv_invocationID = iid, iv_operationID = operation,
      iv_ordinal = next_after (\<lambda>v. iv_turnID v = tu_turnID t) iv_ordinal 1 (st_invocations s),
      iv_fence = next_after (\<lambda>v. iv_turnID v = tu_turnID t) iv_fence 1 (st_invocations s),
      iv_state = InvocationIntent, iv_result = None, iv_failure = None, iv_usage = None,
      iv_createdAt = now, iv_updatedAt = now, iv_retentionUntil = retain P now DataClassInvocation\<rparr>"

definition begin_invocation ::
    "RuntimeStatePlanner \<Rightarrow> ReceiptBinding \<Rightarrow> BeginInvocationAttemptCommand \<Rightarrow> gtime
     \<Rightarrow> (PlanResult \<times> EffectSet) pm" where
  "begin_invocation P b command now =
     pbind pget (\<lambda>s.
     case (findSession s (rb_scope b) (bic_sessionID command),
           findTurn s (rb_scope b) (bic_sessionID command) (bic_turnID command)) of
       (Some i, Some j) \<Rightarrow>
         let x = st_sessions s ! i; t = st_turns s ! j in
         if ss_version x \<noteq> bic_expectedSessionVersion command
            \<or> tu_version t \<noteq> bic_expectedTurnVersion command \<or> tu_state t \<noteq> TurnRunning
         then pfail ErrConflict
         else if list_ex (\<lambda>v. iv_operationID v = bic_operationID command) (st_invocations s)
         then pfail ErrConflict
         else if bic_expectedFence command \<noteq> 0
              \<and> bic_expectedFence command
                  \<noteq> next_after (\<lambda>v. iv_turnID v = tu_turnID t) iv_fence 1 (st_invocations s) - 1
         then pfail ErrConflict
         else pbind (invocationID P) (\<lambda>iid.
           let invocation = new_invocation P s x t (bic_operationID command) iid now;
               turn = t\<lparr>tu_version := tu_version t + 1\<rparr>;
               session = x\<lparr>ss_version := ss_version x + 1, ss_updatedAt := now\<rparr>
           in pbind (pput (s\<lparr>st_invocations := st_invocations s @ [invocation],
                             st_turns := (st_turns s)[j := turn],
                             st_sessions := (st_sessions s)[i := session]\<rparr>)) (\<lambda>_.
              pbind (effects P b session turn invocation [] now) (\<lambda>eff.
              pure (zero_PlanResult\<lparr>pr_invocation := invocation, pr_session := session,
                                    pr_turn := turn\<rparr>, eff))))
     | _ \<Rightarrow> pfail ErrNotFoundOrDenied)"

definition recordOutcome ::
    "RuntimeStatePlanner \<Rightarrow> ReceiptBinding \<Rightarrow> RecordInvocationOutcomeCommand \<Rightarrow> gtime
     \<Rightarrow> (PlanResult \<times> EffectSet) pm" where
  "recordOutcome P b command now =
     pbind pget (\<lambda>s.
     case (findSession s (rb_scope b) (ioc_sessionID command),
           findTurn s (rb_scope b) (ioc_sessionID command) (ioc_turnID command),
           findInvocation s (rb_scope b) (ioc_sessionID command) (ioc_turnID command)
             (ioc_operationID command)) of
       (Some i, Some j, Some k) \<Rightarrow>
         let x = st_sessions s ! i; t = st_turns s ! j; v = st_invocations s ! k in
         if ss_version x \<noteq> ioc_expectedSessionVersion command
            \<or> tu_version t \<noteq> ioc_expectedTurnVersion command \<or> iv_ordinal v \<noteq> ioc_ordinal command
            \<or> iv_fence v \<noteq> ioc_fence command \<or> iv_state v \<noteq> InvocationIntent \<or> tu_state t \<noteq> TurnRunning
         then pfail ErrConflict
         else
           let invocation = v\<lparr>iv_state := ioc_outcome command, iv_result := ioc_result command,
                 iv_failure := ioc_failure command, iv_usage := ioc_usage command, iv_updatedAt := now\<rparr>
           in pbind (pput (s\<lparr>st_invocations := (st_invocations s)[k := invocation]\<rparr>)) (\<lambda>_.
              pbind (effects P b x t invocation [] now) (\<lambda>eff.
              pure (zero_PlanResult\<lparr>pr_invocation := invocation\<rparr>, eff)))
     | _ \<Rightarrow> pfail ErrNotFoundOrDenied)"


section \<open>Promotion\<close>

lemma lowest_queued_index:
  assumes "lowest_queued sid i best ts = Some k"
    and "\<And>k p. best = Some (k, p) \<Longrightarrow> k < i"
  shows "k < i + length ts \<and> (i \<le> k \<longrightarrow> tu_sessionID (ts ! (k - i)) = sid \<and> tu_state (ts ! (k - i)) = TurnQueued)
    \<and> (k < i \<longrightarrow> (\<exists>p. best = Some (k, p)))"
  using assms
proof (induction ts arbitrary: i best)
  case Nil
  then show ?case by auto
next
  case (Cons t ts)
  let ?best = "if tu_sessionID t = sid \<and> tu_state t = TurnQueued
           \<and> (case best of None \<Rightarrow> True | Some (_, position) \<Rightarrow> tu_position t < position)
        then Some (i, tu_position t) else best"
  from Cons.prems have "lowest_queued sid (Suc i) ?best ts = Some k" by simp
  moreover have "\<And>k p. ?best = Some (k, p) \<Longrightarrow> k < Suc i"
    using Cons.prems(2) by (auto split: if_splits intro: less_SucI)
  ultimately have *: "k < Suc i + length ts"
      "Suc i \<le> k \<longrightarrow> tu_sessionID (ts ! (k - Suc i)) = sid \<and> tu_state (ts ! (k - Suc i)) = TurnQueued"
      "k < Suc i \<longrightarrow> (\<exists>p. ?best = Some (k, p))"
    using Cons.IH [of "Suc i" ?best] by blast+
  show ?case
  proof (cases "Suc i \<le> k")
    case True
    with * have "tu_sessionID ((t # ts) ! (k - i)) = sid \<and> tu_state ((t # ts) ! (k - i)) = TurnQueued"
      by (simp add: nth_Cons' Suc_diff_Suc)
    with True * show ?thesis by auto
  next
    case False
    with * obtain p where p: "?best = Some (k, p)" by auto
    with False Cons.prems(2) show ?thesis
      by (cases "k = i") (auto split: if_splits)
  qed
qed

lemma lowest_queued_None:
  "lowest_queued sid i best ts = None \<longleftrightarrow>
     best = None \<and> (\<forall>t \<in> set ts. \<not> (tu_sessionID t = sid \<and> tu_state t = TurnQueued))"
  by (induction ts arbitrary: i best) auto

text \<open>The Turn found has the lowest position of the queued Turns of its Session.\<close>

lemma lowest_queued_least:
  assumes "lowest_queued sid i best ts = Some k"
  shows "(\<exists>p. best = Some (k, p) \<and> (\<forall>t \<in> set ts. tu_sessionID t = sid \<and> tu_state t = TurnQueued \<longrightarrow> p \<le> tu_position t))
    \<or> (i \<le> k \<and> k < i + length ts
        \<and> (\<forall>p j. best = Some (j, p) \<longrightarrow> tu_position (ts ! (k - i)) < p)
        \<and> (\<forall>t \<in> set ts. tu_sessionID t = sid \<and> tu_state t = TurnQueued \<longrightarrow> tu_position (ts ! (k - i)) \<le> tu_position t))"
  using assms
proof (induction ts arbitrary: i best)
  case Nil
  then show ?case by auto
next
  case (Cons t ts)
  let ?q = "tu_sessionID t = sid \<and> tu_state t = TurnQueued
           \<and> (case best of None \<Rightarrow> True | Some (_, position) \<Rightarrow> tu_position t < position)"
  let ?best = "if ?q then Some (i, tu_position t) else best"
  from Cons.prems have l: "lowest_queued sid (Suc i) ?best ts = Some k" by simp
  from Cons.IH [OF l] consider
      (kept) p where "?best = Some (k, p)"
        "\<forall>t \<in> set ts. tu_sessionID t = sid \<and> tu_state t = TurnQueued \<longrightarrow> p \<le> tu_position t"
    | (later) "Suc i \<le> k" "k < Suc i + length ts"
        "\<forall>p j. ?best = Some (j, p) \<longrightarrow> tu_position (ts ! (k - Suc i)) < p"
        "\<forall>t \<in> set ts. tu_sessionID t = sid \<and> tu_state t = TurnQueued \<longrightarrow> tu_position (ts ! (k - Suc i)) \<le> tu_position t"
    by blast
  then show ?case
  proof cases
    case kept
    show ?thesis
    proof (cases ?q)
      case True
      with kept have "k = i" "p = tu_position t" by auto
      with True kept show ?thesis by (auto split: option.splits)
    next
      case False
      with kept have "best = Some (k, p)" by auto
      with kept False show ?thesis by auto
    qed
  next
    case later
    have nth: "(t # ts) ! (k - i) = ts ! (k - Suc i)"
      using later(1) by (simp add: nth_Cons' Suc_diff_Suc)
    show ?thesis
      using later by (auto simp: nth split: if_splits option.splits)
  qed
qed

lemma promote_cases:
  assumes "promote s sid now = (p, s')"
  obtains (none) "p = None" "s' = s" "\<forall>t \<in> set (st_turns s). \<not> (tu_sessionID t = sid \<and> tu_state t = TurnQueued)"
  | (some) k where "k < length (st_turns s)" "tu_sessionID (st_turns s ! k) = sid"
      "tu_state (st_turns s ! k) = TurnQueued"
      "\<forall>t \<in> set (st_turns s). tu_sessionID t = sid \<and> tu_state t = TurnQueued \<longrightarrow> tu_position (st_turns s ! k) \<le> tu_position t"
      "p = Some ((st_turns s ! k)\<lparr>tu_state := TurnRunning, tu_version := tu_version (st_turns s ! k) + 1, tu_startedAt := Some now\<rparr>)"
      "s' = s\<lparr>st_turns := (st_turns s)[k := (st_turns s ! k)\<lparr>tu_state := TurnRunning, tu_version := tu_version (st_turns s ! k) + 1, tu_startedAt := Some now\<rparr>]\<rparr>"
proof (cases "lowest_queued sid 0 None (st_turns s)")
  case None
  with assms lowest_queued_None [of sid 0 None "st_turns s"] show ?thesis
    by (intro none) (auto simp: promote_def)
next
  case (Some k)
  with assms lowest_queued_index [OF Some] lowest_queued_least [OF Some] show ?thesis
    by (intro some [of k]) (auto simp: promote_def Let_def)
qed

lemma promote_lifecycle:
  assumes "promote s sid now = (p, s')" and "sid \<in> S"
  shows "lifecycle T S now s s'"
  using assms(1)
proof (cases rule: promote_cases)
  case none
  then show ?thesis by simp
next
  case (some k)
  with assms(2) show ?thesis by (auto intro!: lifecycle_update(2) turn_start)
qed

lemma promote_frame:
  assumes "promote s sid now = (p, s')"
  shows "st_sessions s' = st_sessions s" "st_events s' = st_events s" "st_audit s' = st_audit s"
    "st_outbox s' = st_outbox s"
  using assms by (auto simp: promote_def Let_def split: option.splits)

lemma after_turn_lifecycle:
  assumes a: "after_turn s i x kinds now promotes drained = (s', session, kinds', promoted)"
    and i: "i < length (st_sessions s)" "st_sessions s ! i = x" and S: "ss_sessionID x \<in> S"
  shows "lifecycle T S now s s'" and "st_events s' = st_events s" and "st_audit s' = st_audit s"
    and "st_outbox s' = st_outbox s" and "ss_tenant session = ss_tenant x"
    and "ss_sessionID session = ss_sessionID x"
proof -
  obtain p s1 where p: "(if promotes then promote s (ss_sessionID x) now else (None, s)) = (p, s1)"
    by (cases "if promotes then promote s (ss_sessionID x) now else (None, s)")
  have l1: "lifecycle T S now s s1"
    using p S promote_lifecycle [of s "ss_sessionID x" now p s1] by (auto split: if_splits)
  have f1: "st_sessions s1 = st_sessions s" "st_events s1 = st_events s" "st_audit s1 = st_audit s"
      "st_outbox s1 = st_outbox s"
    using p promote_frame [of s "ss_sessionID x" now p s1] by (auto split: if_splits)
  from a p have s': "s' = s1\<lparr>st_sessions := (st_sessions s1)[i := session]\<rparr>"
    and step: "session_step now x session"
    by (auto simp: after_turn_def Let_def split: if_splits
        intro: session_touch session_move [of x SessionCompleted now])
  have "lifecycle T S now s1 s'"
    unfolding s' using i S step by (intro lifecycle_update(1)) (auto simp: f1)
  with l1 show "lifecycle T S now s s'" by (rule lifecycle_trans)
  show "st_events s' = st_events s" "st_audit s' = st_audit s" "st_outbox s' = st_outbox s"
    by (simp_all add: s' f1)
  show "ss_tenant session = ss_tenant x" "ss_sessionID session = ss_sessionID x"
    using sessions.step_ident [OF step] by (simp_all add: session_ident_def)
qed


section \<open>The handlers refine the specification\<close>

lemma effects_emits:
  assumes "effects P b session turn invocation kinds now c = (Inr d, c')"
    and "ss_tenant session = sc_tenant (rb_scope b)"
  shows "emits {sc_tenant (rb_scope b)} (px_state c) d (px_state c')"
  using effects_Inr(1) [OF assms(1)] assms(2) by simp

lemma createSession_commits:
  assumes "createSession P b command now c = (Inr (r, d), c')"
  shows "commits False b now (px_state c) d (px_state c')"
proof -
  from assms obtain i c1 session where i: "sessionID P c = (Inr i, c1)"
    and eff: "effects P b session zero_TurnRecord zero_InvocationRecord [EventSessionCreated] now
                (c1\<lparr>px_state := (px_state c1)\<lparr>st_sessions := st_sessions (px_state c1) @ [session]\<rparr>\<rparr>) = (Inr d, c')"
    and s: "ss_tenant session = sc_tenant (rb_scope b)" "ss_state session = SessionOpen" "ss_version session = 1"
      "ss_sessionID session = i"
    by (auto simp: createSession_def Let_def split: option.splits)
  from i have c1: "px_state c1 = px_state c" and "i \<noteq> []" by (auto dest: drawsD)
  show ?thesis
    by (rule commitsI [OF _ _ _ _ effects_emits [OF eff s(1)]])
      (simp_all add: c1 lifecycle_append(1) session_fresh_def s \<open>i \<noteq> []\<close>)
qed

lemma close_commits:
  assumes "close P b command now c = (Inr (r, d), c')"
  shows "commits False b now (px_state c) d (px_state c')"
proof -
  let ?s = "px_state c"
  from assms obtain i session kinds where i: "findSession ?s (rb_scope b) (clc_sessionID command) = Some i"
    and eff: "effects P b session zero_TurnRecord zero_InvocationRecord kinds now
                (c\<lparr>px_state := ?s\<lparr>st_sessions := (st_sessions ?s)[i := session]\<rparr>\<rparr>) = (Inr d, c')"
    and step: "session_step now (st_sessions ?s ! i) session"
    by (auto simp: close_def Let_def split: option.splits if_splits intro: session_move)
  note f = findSessionD [OF i]
  have t: "ss_tenant session = sc_tenant (rb_scope b)"
    using sessions.step_ident [OF step] f by (simp add: session_ident_def)
  show ?thesis
    by (rule commitsI [OF _ _ _ _ effects_emits [OF eff t]]) (simp_all add: lifecycle_update(1) f step)
qed

lemma stop_session_commits:
  assumes "stop_session st kind sid P b now c = (Inr (r, d), c')" and "st = SessionCancelled \<or> st = SessionFailed"
  shows "commits False b now (px_state c) d (px_state c')"
proof -
  let ?s = "px_state c"
  from assms obtain i session where i: "findSession ?s (rb_scope b) sid = Some i"
    and eff: "effects P b session zero_TurnRecord zero_InvocationRecord [kind] now
                (c\<lparr>px_state := ?s\<lparr>st_sessions := (st_sessions ?s)[i := session]\<rparr>\<rparr>) = (Inr d, c')"
    and step: "session_step now (st_sessions ?s ! i) session"
    by (auto simp: stop_session_def Let_def split: option.splits if_splits intro: session_move)
  note f = findSessionD [OF i]
  have t: "ss_tenant session = sc_tenant (rb_scope b)"
    using sessions.step_ident [OF step] f by (simp add: session_ident_def)
  show ?thesis
    by (rule commitsI [OF _ _ _ _ effects_emits [OF eff t]]) (simp_all add: lifecycle_update(1) f step)
qed

lemma admit_Inr:
  assumes "admit P b compiled now c = (Inr (r, d), c')"
  obtains i iid c1 tid c2 x session kinds where
    "findSession (px_state c) (rb_scope b) (aic_sessionID (ca_command compiled)) = Some i"
    "x = st_sessions (px_state c) ! i" "ss_state x = SessionOpen"
    "inputID P c = (Inr iid, c1)" "turnID P c1 = (Inr tid, c2)"
    "session = x\<lparr>ss_version := Suc (ss_version x), ss_updatedAt := now\<rparr>"
    "effects P b session (admitted_turn P (px_state c) x iid tid now) zero_InvocationRecord kinds now
       (c2\<lparr>px_state := (px_state c)\<lparr>st_inputs := st_inputs (px_state c) @ [admitted_input P compiled x iid now],
          st_turns := st_turns (px_state c) @ [admitted_turn P (px_state c) x iid tid now],
          st_sessions := (st_sessions (px_state c))[i := session]\<rparr>\<rparr>) = (Inr d, c')"
    "r = zero_PlanResult\<lparr>pr_input := admitted_input P compiled x iid now,
           pr_turn := admitted_turn P (px_state c) x iid tid now, pr_session := session\<rparr>"
  using assms by (auto simp: admit_def Let_def split: option.splits if_splits)

lemma admit_commits:
  assumes "admit P b compiled now c = (Inr (r, d), c')"
  shows "commits False b now (px_state c) d (px_state c')"
  using assms
proof (rule admit_Inr)
  let ?s = "px_state c" and ?T = "sc_tenant (rb_scope b)"
  fix i iid tid x session kinds c2
  assume i: "findSession ?s (rb_scope b) (aic_sessionID (ca_command compiled)) = Some i"
    and x: "x = st_sessions ?s ! i"
    and session: "session = x\<lparr>ss_version := Suc (ss_version x), ss_updatedAt := now\<rparr>"
    and eff: "effects P b session (admitted_turn P ?s x iid tid now) zero_InvocationRecord kinds now
       (c2\<lparr>px_state := ?s\<lparr>st_inputs := st_inputs ?s @ [admitted_input P compiled x iid now],
          st_turns := st_turns ?s @ [admitted_turn P ?s x iid tid now],
          st_sessions := (st_sessions ?s)[i := session]\<rparr>\<rparr>) = (Inr d, c')"
  note f = findSessionD [OF i, folded x]
  note [trans] = lifecycle_trans
  let ?s1 = "?s\<lparr>st_inputs := st_inputs ?s @ [admitted_input P compiled x iid now]\<rparr>"
  let ?s2 = "?s1\<lparr>st_turns := st_turns ?s1 @ [admitted_turn P ?s x iid tid now]\<rparr>"
  let ?S = "actor_sessions False (rb_scope b) ?s"
  have "lifecycle ?T ?S now ?s ?s1"
    using f by (intro lifecycle_append(7)) (auto simp: input_fresh_def admitted_input_def)
  also have "lifecycle ?T ?S now ?s1 ?s2"
    using f by (intro lifecycle_append(2)) (auto simp: turn_fresh_def admitted_turn_def Let_def)
  also have "lifecycle ?T ?S now ?s2 (?s2\<lparr>st_sessions := (st_sessions ?s2)[i := session]\<rparr>)"
    using f by (intro lifecycle_update(1)) (auto simp: session x intro: session_touch)
  finally have l: "lifecycle ?T ?S now ?s (?s2\<lparr>st_sessions := (st_sessions ?s2)[i := session]\<rparr>)" .
  have t: "ss_tenant session = ?T" using f by (simp add: session)
  show ?thesis
    by (rule commitsI [OF _ _ _ _ effects_emits [OF eff t]]) (use l in simp_all)
qed


lemma settle_Inr:
  assumes "settle P b command now c = (Inr (r, d), c')"
  obtains i j x t turn s' session kinds kinds' promoted where
    "outboxLeaseFenceCurrent (px_state c) (sc_tenant (rb_scope b)) (stc_leaseFence command) now"
    "findSession (px_state c) (rb_scope b) (stc_sessionID command) = Some i"
    "findTurn (px_state c) (rb_scope b) (stc_sessionID command) (stc_turnID command) = Some j"
    "x = st_sessions (px_state c) ! i" "t = st_turns (px_state c) ! j"
    "ss_version x = stc_expectedSessionVersion command" "tu_version t = stc_expectedTurnVersion command"
    "tu_state t = TurnRunning"
    "turn = t\<lparr>tu_state := to_state (stc_outcome command), tu_failure := to_failure (stc_outcome command),
              tu_version := Suc (tu_version t), tu_completedAt := Some now\<rparr>"
    "after_turn ((px_state c)\<lparr>st_turns := (st_turns (px_state c))[j := turn]\<rparr>) i x kinds now True (\<lambda>_. True)
       = (s', session, kinds', promoted)"
    "effects P b session turn zero_InvocationRecord kinds' now (c\<lparr>px_state := s'\<rparr>) = (Inr d, c')"
    "r = zero_PlanResult\<lparr>pr_session := session, pr_turn := turn, pr_promoted := promoted\<rparr>"
  using assms
  by (auto simp: settle_def Let_def split: option.splits if_splits prod.splits)

lemma turn_then_after:
  assumes i: "findSession s scope sid = Some i" and j: "findTurn s scope sid tid = Some j"
    and step: "turn_step now (st_turns s ! j) turn"
    and a: "after_turn (s\<lparr>st_turns := (st_turns s)[j := turn]\<rparr>) i (st_sessions s ! i) kinds now promotes drained
              = (s', session, kinds', promoted)"
  shows "lifecycle T (actor_sessions admin scope s) now s s'" and "st_events s' = st_events s"
    and "st_audit s' = st_audit s" and "st_outbox s' = st_outbox s" and "ss_tenant session = sc_tenant scope"
proof -
  note f = findSessionD [OF i] and g = findTurnD [OF j]
  let ?S = "actor_sessions admin scope s"
  have l: "lifecycle T ?S now s (s\<lparr>st_turns := (st_turns s)[j := turn]\<rparr>)"
    using g step by (intro lifecycle_update(2)) auto
  have m: "i < length (st_sessions (s\<lparr>st_turns := (st_turns s)[j := turn]\<rparr>))"
      "st_sessions (s\<lparr>st_turns := (st_turns s)[j := turn]\<rparr>) ! i = st_sessions s ! i"
      "ss_sessionID (st_sessions s ! i) \<in> ?S"
    using f by auto
  from lifecycle_trans [OF l after_turn_lifecycle(1) [OF a m]] show "lifecycle T ?S now s s'" .
  show "st_events s' = st_events s" "st_audit s' = st_audit s" "st_outbox s' = st_outbox s"
      "ss_tenant session = sc_tenant scope"
    using after_turn_lifecycle(2-5) [OF a m] f by simp_all
qed

lemma settle_commits:
  assumes "settle P b command now c = (Inr (r, d), c')" and "terminal_turn (to_state (stc_outcome command))"
  shows "commits False b now (px_state c) d (px_state c')"
  using assms(1)
proof (rule settle_Inr)
  let ?s = "px_state c"
  fix i j x t turn s' session kinds kinds' promoted
  assume i: "findSession ?s (rb_scope b) (stc_sessionID command) = Some i"
    and j: "findTurn ?s (rb_scope b) (stc_sessionID command) (stc_turnID command) = Some j"
    and xt: "x = st_sessions ?s ! i" "t = st_turns ?s ! j" and run: "tu_state t = TurnRunning"
    and turn: "turn = t\<lparr>tu_state := to_state (stc_outcome command), tu_failure := to_failure (stc_outcome command),
              tu_version := Suc (tu_version t), tu_completedAt := Some now\<rparr>"
    and a: "after_turn (?s\<lparr>st_turns := (st_turns ?s)[j := turn]\<rparr>) i x kinds now True (\<lambda>_. True)
       = (s', session, kinds', promoted)"
    and eff: "effects P b session turn zero_InvocationRecord kinds' now (c\<lparr>px_state := s'\<rparr>) = (Inr d, c')"
  have step: "turn_step now (st_turns ?s ! j) turn"
    using run assms(2) unfolding turn xt by (rule turn_settle)
  note l = turn_then_after [OF i j step a [unfolded xt]]
  show ?thesis
    by (rule commitsI [OF l(1) l(2-4)]) (use effects_emits [OF eff l(5)] in simp)
qed

lemma begin_Inr:
  assumes "begin_invocation P b command now c = (Inr (r, d), c')"
  obtains i j x t iid c1 v turn session where
    "findSession (px_state c) (rb_scope b) (bic_sessionID command) = Some i"
    "findTurn (px_state c) (rb_scope b) (bic_sessionID command) (bic_turnID command) = Some j"
    "x = st_sessions (px_state c) ! i" "t = st_turns (px_state c) ! j"
    "ss_version x = bic_expectedSessionVersion command" "tu_version t = bic_expectedTurnVersion command"
    "tu_state t = TurnRunning"
    "\<forall>v \<in> set (st_invocations (px_state c)). iv_operationID v \<noteq> bic_operationID command"
    "invocationID P c = (Inr iid, c1)" "v = new_invocation P (px_state c) x t (bic_operationID command) iid now"
    "turn = t\<lparr>tu_version := Suc (tu_version t)\<rparr>"
    "session = x\<lparr>ss_version := Suc (ss_version x), ss_updatedAt := now\<rparr>"
    "effects P b session turn v [] now
       (c1\<lparr>px_state := (px_state c)\<lparr>st_invocations := st_invocations (px_state c) @ [v],
            st_turns := (st_turns (px_state c))[j := turn],
            st_sessions := (st_sessions (px_state c))[i := session]\<rparr>\<rparr>) = (Inr d, c')"
    "r = zero_PlanResult\<lparr>pr_invocation := v, pr_session := session, pr_turn := turn\<rparr>"
  using assms by (auto simp: begin_invocation_def Let_def list_ex_iff split: option.splits if_splits)

lemma begin_commits:
  assumes "begin_invocation P b command now c = (Inr (r, d), c')"
  shows "commits False b now (px_state c) d (px_state c')"
  using assms
proof (rule begin_Inr)
  let ?s = "px_state c" and ?T = "sc_tenant (rb_scope b)"
  let ?S = "actor_sessions False (rb_scope b) ?s"
  fix i j x t iid c1 v turn session
  assume i: "findSession ?s (rb_scope b) (bic_sessionID command) = Some i"
    and j: "findTurn ?s (rb_scope b) (bic_sessionID command) (bic_turnID command) = Some j"
    and xt: "x = st_sessions ?s ! i" "t = st_turns ?s ! j" "tu_state t = TurnRunning"
    and v: "v = new_invocation P ?s x t (bic_operationID command) iid now"
    and upd: "turn = t\<lparr>tu_version := Suc (tu_version t)\<rparr>"
      "session = x\<lparr>ss_version := Suc (ss_version x), ss_updatedAt := now\<rparr>"
    and eff: "effects P b session turn v [] now
       (c1\<lparr>px_state := ?s\<lparr>st_invocations := st_invocations ?s @ [v], st_turns := (st_turns ?s)[j := turn],
            st_sessions := (st_sessions ?s)[i := session]\<rparr>\<rparr>) = (Inr d, c')"
  note f = findSessionD [OF i, folded xt] and g = findTurnD [OF j, folded xt]
  note [trans] = lifecycle_trans
  let ?s1 = "?s\<lparr>st_invocations := st_invocations ?s @ [v]\<rparr>"
  let ?s2 = "?s1\<lparr>st_turns := (st_turns ?s1)[j := turn]\<rparr>"
  have "lifecycle ?T ?S now ?s ?s1"
    using f g by (intro lifecycle_append(6)) (auto simp: invocation_fresh_def v new_invocation_def)
  also have "lifecycle ?T ?S now ?s1 ?s2"
    using g xt by (intro lifecycle_update(2)) (auto simp: upd intro: turn_progress)
  also have "lifecycle ?T ?S now ?s2 (?s2\<lparr>st_sessions := (st_sessions ?s2)[i := session]\<rparr>)"
    using f xt by (intro lifecycle_update(1)) (auto simp: upd intro: session_touch)
  finally have l: "lifecycle ?T ?S now ?s (?s2\<lparr>st_sessions := (st_sessions ?s2)[i := session]\<rparr>)" .
  have "ss_tenant session = ?T" using f by (simp add: upd)
  note e = effects_emits [OF eff this]
  show ?thesis by (rule commitsI [OF _ _ _ _ e]) (use l in simp_all)
qed

lemma recordOutcome_commits:
  assumes "recordOutcome P b command now c = (Inr (r, d), c')"
    and "ioc_outcome command \<in> {InvocationSucceeded, InvocationFailed, InvocationUncertain, InvocationCancelled}"
  shows "commits False b now (px_state c) d (px_state c')"
proof -
  let ?s = "px_state c"
  from assms(1) obtain i j k v where
      i: "findSession ?s (rb_scope b) (ioc_sessionID command) = Some i"
    and k: "findInvocation ?s (rb_scope b) (ioc_sessionID command) (ioc_turnID command)
             (ioc_operationID command) = Some k"
    and intent: "iv_state (st_invocations ?s ! k) = InvocationIntent"
    and v: "v = (st_invocations ?s ! k)\<lparr>iv_state := ioc_outcome command, iv_result := ioc_result command,
                 iv_failure := ioc_failure command, iv_usage := ioc_usage command, iv_updatedAt := now\<rparr>"
    and eff: "effects P b (st_sessions ?s ! i) (st_turns ?s ! j) v [] now
       (c\<lparr>px_state := ?s\<lparr>st_invocations := (st_invocations ?s)[k := v]\<rparr>\<rparr>) = (Inr d, c')"
    by (auto simp: recordOutcome_def Let_def split: option.splits if_splits)
  note f = findSessionD [OF i]
  have step: "invocation_step now (st_invocations ?s ! k) v"
    unfolding v by (rule invocation_record [OF intent assms(2)])
  from k have k': "k < length (st_invocations ?s)" "iv_sessionID (st_invocations ?s ! k) = ioc_sessionID command"
    by (auto simp: findInvocation_def)
  show ?thesis
    by (rule commitsI [OF _ _ _ _ effects_emits [OF eff f(2)]]) (simp_all add: lifecycle_update(6) k' f step)
qed


section \<open>Cancellation\<close>

lemma terminalApprovalEffects_emits:
  assumes "terminalApprovalEffects P b session turn approval now kind c = (Inr d, c')"
    and T: "ss_tenant session \<in> T" "sc_tenant (rb_scope b) \<in> T"
  shows "emits T (px_state c) d (px_state c')"
proof -
  let ?s = "px_state c"
  from assms(1) obtain e c1 r c2 a c3 f a' where
      e: "event P session turn zero_InvocationRecord b EventApprovalCancelled now (retain P now DataClassEvent) c = (Inr e, c1)"
    and r: "outbox P session turn zero_InvocationRecord (ev_eventID e) (ev_kind e) (ev_sequence e) now
              (retain P now DataClassOutbox) (c1\<lparr>px_state := add_event e (px_state c1)\<rparr>) = (Inr r, c2)"
    and a: "auditOnly P b kind (ap_sessionID approval) (ap_turnID approval) now
              (c2\<lparr>px_state := add_outbox r (px_state c2)\<rparr>) = (Inr a, c3)"
    and f: "ef_audit a \<noteq> []" "f = hd (ef_audit a)"
    and dec: "decorateToolAuditFacts a (auditContextForApproval approval)
      (c3\<lparr>px_state := (px_state c3)\<lparr>st_outbox := link_at (length (st_outbox (add_outbox r (px_state c2))) - 1)
          (af_auditFactID f) (st_outbox (px_state c3))\<rparr>\<rparr>) = (Inr a', c')"
    and d: "d = \<lparr>ef_events = [e], ef_audit = ef_audit a',
      ef_outbox = (st_outbox (px_state c') ! (length (st_outbox (add_outbox r (px_state c2))) - 1)) # ef_outbox a'\<rparr>"
    by (auto simp: terminalApprovalEffects_def Let_def split: if_splits)
  note e' = event_Inr [OF e] and r' = route_Inr(1) [OF r] and a' = auditOnly_Inr [OF a]
  define r1 where "r1 = r\<lparr>ob_auditFactID := af_auditFactID f\<rparr>"
  let ?D = "\<lparr>ef_events = [e], ef_audit = ef_audit a, ef_outbox = [r1] @ ef_outbox a\<rparr>"
  let ?c = "c3\<lparr>px_state := extend_state ?s ?D\<rparr>"
  have s2: "px_state c2 = ?s\<lparr>st_events := st_events ?s @ [e]\<rparr>" using e' r' by (simp add: add_event_def)
  have lnk: "link_at (length (st_outbox ?s)) (af_auditFactID f) (st_outbox ?s @ r # ef_outbox a)
      = st_outbox ?s @ [r1] @ ef_outbox a"
    unfolding link_at_append by (simp add: link_at_def r1_def)
  have s3: "c3\<lparr>px_state := (px_state c3)\<lparr>st_outbox := link_at (length (st_outbox (add_outbox r (px_state c2))) - 1)
          (af_auditFactID f) (st_outbox (px_state c3))\<rparr>\<rparr> = ?c"
    using a'(1,3) lnk by (simp add: s2 extend_state_def add_outbox_def)
  have good: "good_delta T (st_events ?s) ?D"
  proof -
    have "gapless (st_events ?s) \<longrightarrow> gapless (st_events ?s @ [e])" using e' by (auto intro: gapless_snoc)
    moreover have "f \<in> set (ef_audit a)" using f by simp
    ultimately show ?thesis using a'(2,3) T e' r' by (auto simp: good_delta_def fresh_route_def r1_def)
  qed
  have len: "length (ef_audit a) \<le> length (st_audit (px_state ?c))" by simp
  note p = decorate_prefix(1) [OF dec [unfolded s3] f(1) len, of "[e]" "[r1]"]
    decorate_prefix(2) [OF dec [unfolded s3] f(1) len]
  have "emits T ?s ?D (px_state ?c)" using good by (simp add: emits_extend)
  from emits_decorate [OF this p(1)] show ?thesis
    by (simp add: d p(2) s2 add_outbox_def nth_append)
qed

interpretation approval_emitter: effect_producer "terminalApprovalEffects P b session turn approval now kind"
    "{ss_tenant session, sc_tenant (rb_scope b)}"
  for P b session turn approval now kind
  by unfold_locales (erule terminalApprovalEffects_emits; simp)

lemma cancel_approvals_emits:
  assumes "cancel_approvals P b session turn now as eff c = (Inr d, c')"
    and "emits T s eff (px_state c)" and T: "ss_tenant session \<in> T" "sc_tenant (rb_scope b) \<in> T"
  shows "emits T s d (px_state c')"
  using assms(1,2)
proof (induction "as" arbitrary: eff c)
  case Nil
  then show ?case by simp
next
  case (Cons a as)
  then obtain extra c1 where 1: "terminalApprovalEffects P b session turn a now ''approval.cancelled'' c = (Inr extra, c1)"
    and 2: "cancel_approvals P b session turn now as (appendEffects eff extra) c1 = (Inr d, c')"
    by (auto simp: cancelledApprovalEffects_def)
  show ?case by (rule Cons.IH [OF 2 approval_emitter.after [OF Cons.prems(2) 1]]) (use T in simp)
qed

lemma cancel_grants_emits:
  assumes "cancel_grants P b command now gs eff c = (Inr d, c')"
    and "emits T s eff (px_state c)" and T: "sc_tenant (rb_scope b) \<in> T"
  shows "emits T s d (px_state c')"
  using assms(1,2)
proof (induction gs arbitrary: eff c)
  case Nil
  then show ?case by simp
next
  case (Cons g gs)
  then obtain extra c1 extra' c2 where
      1: "auditOnly P b ''capability_grant.revoked'' (ctc_sessionID command) (ctc_turnID command) now c = (Inr extra, c1)"
    and 2: "decorateToolAuditFacts extra (auditContextForGrant g) c1 = (Inr extra', c2)"
    and 3: "cancel_grants P b command now gs
       (eff\<lparr>ef_audit := ef_audit eff @ ef_audit extra', ef_outbox := ef_outbox eff @ ef_outbox extra'\<rparr>) c2 = (Inr d, c')"
    by auto
  have "ef_events extra' = []"
    using auditOnly_Inr(1,3,4) [OF 1] decorate_prefix(3) [OF 2] by simp
  then have eq: "eff\<lparr>ef_audit := ef_audit eff @ ef_audit extra', ef_outbox := ef_outbox eff @ ef_outbox extra'\<rparr>
      = appendEffects eff extra'" by (simp add: appendEffects_def)
  have "emits T (px_state c) extra' (px_state c2)"
    using emits_mono [OF audit_only.decorated [OF 1 2]] T by simp
  from emits_trans [OF Cons.prems(2) this] show ?case using 3 unfolding eq by (rule Cons.IH [rotated])
qed

text \<open>Withdrawing approvals and revoking grants of one Turn.\<close>

lemma evolves_map_if:
  assumes "\<And>x. x \<in> set xs \<Longrightarrow> p x \<Longrightarrow> may x \<and> step x (f x)"
  shows "evolves may step fresh xs (map (\<lambda>x. if p x then f x else x) xs)"
  unfolding evolves_def
  by (intro exI [where x = "map (\<lambda>x. if p x then f x else x) xs"] exI [where x = "[]"])
    (use assms in \<open>auto simp: list_all2_conv_all_nth\<close>)

lemma cancel_withdraws:
  assumes "ctc_sessionID command \<in> S"
  shows "lifecycle T S now s (s\<lparr>
     st_approvals := map (\<lambda>a. if withdrawn_approval scope command a then a\<lparr>ap_state := ApprovalCancelled\<rparr> else a) (st_approvals s),
     st_grants := map (\<lambda>g. if withdrawn_grant scope command g then g\<lparr>gr_revokedAt := Some now\<rparr> else g) (st_grants s)\<rparr>)"
  using assms unfolding lifecycle_def
  by (auto intro!: evolves_map_if approval_withdraw grant_revoke simp: withdrawn_approval_def withdrawn_grant_def)

lemma cancel_Inr:
  assumes "cancel P b command now c = (Inr (r, d), c')"
  obtains i j x t turn s' session kinds promoted eff c1 eff1 c2 where
    "findSession (px_state c) (rb_scope b) (ctc_sessionID command) = Some i"
    "findTurn (px_state c) (rb_scope b) (ctc_sessionID command) (ctc_turnID command) = Some j"
    "x = st_sessions (px_state c) ! i" "t = st_turns (px_state c) ! j" "pending_turn (tu_state t)"
    "turn = t\<lparr>tu_state := TurnCancelled, tu_version := Suc (tu_version t), tu_completedAt := Some now\<rparr>"
    "after_turn ((px_state c)\<lparr>st_turns := (st_turns (px_state c))[j := turn],
       st_approvals := map (\<lambda>a. if withdrawn_approval (rb_scope b) command a then a\<lparr>ap_state := ApprovalCancelled\<rparr> else a)
         (st_approvals (px_state c)),
       st_grants := map (\<lambda>g. if withdrawn_grant (rb_scope b) command g then g\<lparr>gr_revokedAt := Some now\<rparr> else g)
         (st_grants (px_state c))\<rparr>) i x [EventTurnCancelled] now
       (tu_state t = TurnRunning \<or> tu_state t = TurnWaitingForApproval) (\<lambda>s. \<not> hasPending s (ss_sessionID x))
       = (s', session, kinds, promoted)"
    "effects P b session turn zero_InvocationRecord kinds now (c\<lparr>px_state := s'\<rparr>) = (Inr eff, c1)"
    "cancel_approvals P b session turn now
       (map (\<lambda>a. a\<lparr>ap_state := ApprovalCancelled\<rparr>) (filter (withdrawn_approval (rb_scope b) command) (st_approvals (px_state c))))
       eff c1 = (Inr eff1, c2)"
    "cancel_grants P b command now
       (map (\<lambda>g. g\<lparr>gr_revokedAt := Some now\<rparr>) (filter (withdrawn_grant (rb_scope b) command) (st_grants (px_state c))))
       eff1 c2 = (Inr d, c')"
    "r = zero_PlanResult\<lparr>pr_session := session, pr_turn := turn, pr_promoted := promoted\<rparr>"
  using assms
  by (auto simp: cancel_def Let_def pending_turn_def split: option.splits if_splits prod.splits)


lemma cancel_commits:
  assumes "cancel P b command now c = (Inr (r, d), c')"
  shows "commits False b now (px_state c) d (px_state c')"
  using assms
proof (rule cancel_Inr)
  let ?s = "px_state c" and ?T = "sc_tenant (rb_scope b)"
  let ?S = "actor_sessions False (rb_scope b) ?s"
  fix i j x t turn s' session kinds promoted eff c1 eff1 c2
  let ?as = "map (\<lambda>a. if withdrawn_approval (rb_scope b) command a then a\<lparr>ap_state := ApprovalCancelled\<rparr> else a) (st_approvals ?s)"
  let ?gs = "map (\<lambda>g. if withdrawn_grant (rb_scope b) command g then g\<lparr>gr_revokedAt := Some now\<rparr> else g) (st_grants ?s)"
  let ?s1 = "?s\<lparr>st_turns := (st_turns ?s)[j := turn]\<rparr>"
  let ?s2 = "?s1\<lparr>st_approvals := ?as, st_grants := ?gs\<rparr>"
  assume i: "findSession ?s (rb_scope b) (ctc_sessionID command) = Some i"
    and j: "findTurn ?s (rb_scope b) (ctc_sessionID command) (ctc_turnID command) = Some j"
    and xt: "x = st_sessions ?s ! i" "t = st_turns ?s ! j" and pend: "pending_turn (tu_state t)"
    and turn: "turn = t\<lparr>tu_state := TurnCancelled, tu_version := Suc (tu_version t), tu_completedAt := Some now\<rparr>"
    and a: "after_turn (?s\<lparr>st_turns := (st_turns ?s)[j := turn], st_approvals := ?as, st_grants := ?gs\<rparr>)
        i x [EventTurnCancelled] now (tu_state t = TurnRunning \<or> tu_state t = TurnWaitingForApproval)
        (\<lambda>s. \<not> hasPending s (ss_sessionID x)) = (s', session, kinds, promoted)"
    and eff: "effects P b session turn zero_InvocationRecord kinds now (c\<lparr>px_state := s'\<rparr>) = (Inr eff, c1)"
    and 1: "cancel_approvals P b session turn now (map (\<lambda>a. a\<lparr>ap_state := ApprovalCancelled\<rparr>)
              (filter (withdrawn_approval (rb_scope b) command) (st_approvals ?s))) eff c1 = (Inr eff1, c2)"
    and 2: "cancel_grants P b command now (map (\<lambda>g. g\<lparr>gr_revokedAt := Some now\<rparr>)
              (filter (withdrawn_grant (rb_scope b) command) (st_grants ?s))) eff1 c2 = (Inr d, c')"
  note f = findSessionD [OF i, folded xt(1)] and g = findTurnD [OF j, folded xt(2)]
  note [trans] = lifecycle_trans
  have m: "i < length (st_sessions ?s2)" "st_sessions ?s2 ! i = x" "ss_sessionID x \<in> ?S"
    using f xt by auto
  note l = after_turn_lifecycle [OF a m]
  have "lifecycle ?T ?S now ?s ?s1"
    using g pend xt by (intro lifecycle_update(2)) (auto simp: turn intro: turn_cancel)
  also have "lifecycle ?T ?S now ?s1 ?s2"
    using cancel_withdraws [OF g(7), where T = ?T and now = now and s = ?s1 and scope = "rb_scope b"] by simp
  also have "lifecycle ?T ?S now ?s2 s'" using l(1) .
  finally have life: "lifecycle ?T ?S now ?s s'" .
  have t: "ss_tenant session = ?T" using l(5) f by simp
  have "emits {?T} s' eff (px_state c1)" using effects_emits [OF eff t] by simp
  from cancel_grants_emits [OF 2 cancel_approvals_emits [OF 1 this]]
  have e: "emits {?T} s' d (px_state c')" using t by simp
  show ?thesis by (rule commitsI [OF life _ _ _ e]) (use l in simp_all)
qed

section \<open>Interpretations\<close>

interpretation create_session: command_handler "createSession P b command now" False "\<lambda>_. True" b now for P b command now
  by unfold_locales (rule createSession_commits)
interpretation close_session: command_handler "close P b command now" False "\<lambda>_. True" b now for P b command now
  by unfold_locales (rule close_commits)
interpretation cancel_session: command_handler "cancelSession P b command now" False "\<lambda>_. True" b now for P b command now
  by unfold_locales (auto simp: cancelSession_def intro: stop_session_commits)
interpretation fail_session: command_handler "failSession P b command now" False "\<lambda>_. True" b now for P b command now
  by unfold_locales (auto simp: failSession_def intro: stop_session_commits)
interpretation admit_input: command_handler "admit P b command now" False "\<lambda>_. True" b now for P b command now
  by unfold_locales (rule admit_commits)
interpretation settle_turn: command_handler "settle P b command now" False
    "\<lambda>_. terminal_turn (to_state (stc_outcome command))" b now for P b command now
  by unfold_locales (rule settle_commits)
interpretation cancel_turn: command_handler "cancel P b command now" False "\<lambda>_. True" b now for P b command now
  by unfold_locales (rule cancel_commits)
interpretation begin_attempt: command_handler "begin_invocation P b command now" False "\<lambda>_. True" b now for P b command now
  by unfold_locales (rule begin_commits)
interpretation record_outcome: command_handler "recordOutcome P b command now" False
    "\<lambda>_. ioc_outcome command \<in> {InvocationSucceeded, InvocationFailed, InvocationUncertain, InvocationCancelled}" b now
  for P b command now
  by unfold_locales (rule recordOutcome_commits)

end
