(* ===== verification/Planner_Tools.thy ===== *)
theory Planner_Tools
  imports Planner_Sessions
begin

text \<open>
  The tool handlers of \<^verbatim>\<open>internal/runtimestate/planner.go\<close>: intents, approvals, capability grants
  and tool executions.
\<close>

section \<open>Intents and approval requests\<close>

definition recorded_intent ::
    "RuntimeStatePlanner \<Rightarrow> ReceiptBinding \<Rightarrow> compiledToolIntent \<Rightarrow> gtime \<Rightarrow> ToolIntentRecord" where
  "recorded_intent P b compiled now =
     (let c = ct_command compiled in
      \<lparr>ti_tenant = sc_tenant (rb_scope b), ti_principal = sc_principal (rb_scope b),
       ti_sessionID = tic_sessionID c, ti_turnID = tic_turnID c, ti_toolCallID = tic_toolCallID c,
       ti_toolName = tic_toolName c, ti_actionDigest = tic_actionDigest c,
       ti_actionDescriptor = ct_descriptor compiled,
       ti_policyRevisionDigest = tic_policyRevisionDigest c, ti_createdAt = now,
       ti_retainUntil = retain P now DataClassAuthorization\<rparr>)"

definition recordToolIntent ::
    "RuntimeStatePlanner \<Rightarrow> ReceiptBinding \<Rightarrow> compiledToolIntent \<Rightarrow> gtime \<Rightarrow> (PlanResult \<times> EffectSet) pm" where
  "recordToolIntent P b compiled now =
     pbind pget (\<lambda>s.
     let c = ct_command compiled in
     case findTurn s (rb_scope b) (tic_sessionID c) (tic_turnID c) of
       None \<Rightarrow> pfail ErrNotFoundOrDenied
     | Some j \<Rightarrow>
         pbind (pput (s\<lparr>st_toolIntents := st_toolIntents s @ [recorded_intent P b compiled now]\<rparr>)) (\<lambda>_.
         pbind (auditOnly P b ''tool.intent_recorded'' (tic_sessionID c) (tic_turnID c) now) (\<lambda>eff.
         pure (zero_PlanResult, eff))))"

definition pause_turn :: "TurnRecord \<Rightarrow> TurnRecord" where
  "pause_turn t = t\<lparr>tu_state := TurnWaitingForApproval, tu_version := tu_version t + 1\<rparr>"

definition admitted_intent ::
    "RuntimeStatePlanner \<Rightarrow> ReceiptBinding \<Rightarrow> compiledToolApproval \<Rightarrow> gtime \<Rightarrow> ToolIntentRecord" where
  "admitted_intent P b compiled now =
     (let c = cp_command compiled in
      \<lparr>ti_tenant = sc_tenant (rb_scope b), ti_principal = sc_principal (rb_scope b),
       ti_sessionID = tac_sessionID c, ti_turnID = tac_turnID c, ti_toolCallID = tac_toolCallID c,
       ti_toolName = tac_toolName c, ti_actionDigest = tac_actionDigest c,
       ti_actionDescriptor = cp_descriptor compiled,
       ti_policyRevisionDigest = tac_policyRevisionDigest c, ti_createdAt = now,
       ti_retainUntil = retain P now DataClassAuthorization\<rparr>)"

definition admitted_approval ::
    "RuntimeStatePlanner \<Rightarrow> ReceiptBinding \<Rightarrow> AdmitToolApprovalCommand \<Rightarrow> gtime \<Rightarrow> ApprovalRecord" where
  "admitted_approval P b c now =
     \<lparr>ap_tenant = sc_tenant (rb_scope b), ap_principal = sc_principal (rb_scope b),
      ap_approvalID = tac_approvalID c, ap_sessionID = tac_sessionID c, ap_turnID = tac_turnID c,
      ap_toolCallID = tac_toolCallID c, ap_actionDigest = tac_actionDigest c,
      ap_policyRevisionDigest = tac_policyRevisionDigest c, ap_state = ApprovalPending,
      ap_capabilityDigest = tac_capabilityDigest c, ap_actionVerb = tac_actionVerb c,
      ap_actionTarget = tac_actionTarget c, ap_maximumUses = tac_maximumUses c,
      ap_expiresAt = tac_expiresAt c, ap_decision = ApprovalUnset, ap_decidedAt = None,
      ap_createdAt = now, ap_retainUntil = retain P now DataClassAuthorization\<rparr>"

definition admitToolApproval ::
    "RuntimeStatePlanner \<Rightarrow> ReceiptBinding \<Rightarrow> compiledToolApproval \<Rightarrow> gtime \<Rightarrow> (PlanResult \<times> EffectSet) pm" where
  "admitToolApproval P b compiled now =
     pbind pget (\<lambda>s.
     let c = cp_command compiled in
     if \<not> After (tac_expiresAt c) now then pfail ErrConflict
     else case findTurn s (rb_scope b) (tac_sessionID c) (tac_turnID c) of
       None \<Rightarrow> pfail ErrConflict
     | Some j \<Rightarrow>
         if tu_state (st_turns s ! j) \<noteq> TurnRunning then pfail ErrConflict
         else if list_ex (\<lambda>i. ti_toolCallID i = tac_toolCallID c \<and> ti_sessionID i = tac_sessionID c
                             \<and> ti_turnID i = tac_turnID c) (st_toolIntents s)
         then pfail ErrConflict
         else if list_ex (\<lambda>a. ap_approvalID a = tac_approvalID c) (st_approvals s)
         then pfail ErrConflict
         else
           let approval = admitted_approval P b c now
           in pbind (pput (s\<lparr>st_turns := (st_turns s)[j := pause_turn (st_turns s ! j)],
                             st_toolIntents := st_toolIntents s @ [admitted_intent P b compiled now],
                             st_approvals := st_approvals s @ [approval]\<rparr>)) (\<lambda>_.
              pbind (auditOnly P b ''tool.approval_requested'' (tac_sessionID c) (tac_turnID c) now) (\<lambda>eff.
              pbind (decorateToolAuditFacts eff (auditContextForApproval approval)) (\<lambda>eff.
              pure (zero_PlanResult, eff)))))"

definition requested_approval ::
    "RuntimeStatePlanner \<Rightarrow> ReceiptBinding \<Rightarrow> RequestApprovalCommand \<Rightarrow> gtime \<Rightarrow> ApprovalRecord" where
  "requested_approval P b c now =
     \<lparr>ap_tenant = sc_tenant (rb_scope b), ap_principal = sc_principal (rb_scope b),
      ap_approvalID = qac_approvalID c, ap_sessionID = qac_sessionID c, ap_turnID = qac_turnID c,
      ap_toolCallID = qac_toolCallID c, ap_actionDigest = qac_actionDigest c,
      ap_policyRevisionDigest = qac_policyRevisionDigest c, ap_state = ApprovalPending,
      ap_capabilityDigest = qac_capabilityDigest c, ap_actionVerb = qac_actionVerb c,
      ap_actionTarget = qac_actionTarget c, ap_maximumUses = qac_maximumUses c,
      ap_expiresAt = qac_expiresAt c, ap_decision = ApprovalUnset, ap_decidedAt = None,
      ap_createdAt = now, ap_retainUntil = retain P now DataClassAuthorization\<rparr>"

definition requestApproval ::
    "RuntimeStatePlanner \<Rightarrow> ReceiptBinding \<Rightarrow> RequestApprovalCommand \<Rightarrow> gtime \<Rightarrow> (PlanResult \<times> EffectSet) pm" where
  "requestApproval P b c now =
     pbind pget (\<lambda>s.
     if \<not> After (qac_expiresAt c) now then pfail ErrConflict
     else if \<not> list_ex (\<lambda>i. ti_toolCallID i = qac_toolCallID c \<and> ti_sessionID i = qac_sessionID c
                           \<and> ti_turnID i = qac_turnID c) (st_toolIntents s)
     then pfail ErrNotFoundOrDenied
     else case findTurn s (rb_scope b) (qac_sessionID c) (qac_turnID c) of
       None \<Rightarrow> pfail ErrConflict
     | Some j \<Rightarrow>
         if tu_state (st_turns s ! j) \<noteq> TurnRunning then pfail ErrConflict
         else if list_ex (\<lambda>a. ap_approvalID a = qac_approvalID c) (st_approvals s)
         then pfail ErrConflict
         else
           let r = requested_approval P b c now
           in pbind (pput (s\<lparr>st_turns := (st_turns s)[j := pause_turn (st_turns s ! j)],
                             st_approvals := st_approvals s @ [r]\<rparr>)) (\<lambda>_.
              pbind (auditOnly P b ''approval.requested'' (qac_sessionID c) (qac_turnID c) now) (\<lambda>eff.
              pbind (decorateToolAuditFacts eff (auditContextForApproval r)) (\<lambda>eff.
              pure (zero_PlanResult, eff)))))"

section \<open>Deciding an approval\<close>

text \<open>The first audit fact of the effects takes the approval's own kind, in the returned effects
  and in the state.\<close>

definition rename_fact :: "string \<Rightarrow> nat \<Rightarrow> AuditFactRecord list \<Rightarrow> AuditFactRecord list" where
  "rename_fact kind k fs = fs[k := (fs ! k)\<lparr>af_kind := kind\<rparr>]"

definition approvalEffects ::
    "RuntimeStatePlanner \<Rightarrow> ReceiptBinding \<Rightarrow> ApprovalRecord \<Rightarrow> gtime \<Rightarrow> EffectSet pm" where
  "approvalEffects P b approval now =
     pbind pget (\<lambda>s.
     case (findSession s (rb_scope b) (ap_sessionID approval),
           findTurn s (rb_scope b) (ap_sessionID approval) (ap_turnID approval)) of
       (Some i, Some j) \<Rightarrow>
         let eventKind = (if ap_state approval = ApprovalExpired then EventApprovalExpired
                          else EventApprovalResolved)
         in pbind (effects P b (st_sessions s ! i) (st_turns s ! j) zero_InvocationRecord [eventKind] now) (\<lambda>eff.
            pbind pget (\<lambda>s.
            if ef_audit eff = [] \<or> st_audit s = [] then pure eff
            else
              let kind = ''approval.'' @ approval_state_string (ap_state approval)
              in pbind (pput (s\<lparr>st_audit :=
                        rename_fact kind (length (st_audit s) - length (ef_audit eff)) (st_audit s)\<rparr>)) (\<lambda>_.
                 decorateToolAuditFacts (eff\<lparr>ef_audit := rename_fact kind 0 (ef_audit eff)\<rparr>)
                   (auditContextForApproval approval))))
     | _ \<Rightarrow> pfail ErrNotFoundOrDenied)"

definition approved_grant :: "ApprovalRecord \<Rightarrow> string \<Rightarrow> gtime \<Rightarrow> CapabilityGrantRecord" where
  "approved_grant a gid now =
     \<lparr>gr_tenant = ap_tenant a, gr_principal = ap_principal a, gr_sessionID = ap_sessionID a,
      gr_turnID = ap_turnID a, gr_grantID = gid, gr_toolCallID = ap_toolCallID a,
      gr_capabilityDigest = ap_capabilityDigest a, gr_maximumUses = ap_maximumUses a, gr_uses = 0,
      gr_expiresAt = ap_expiresAt a, gr_revokedAt = None,
      gr_policyRevisionDigest = ap_policyRevisionDigest a, gr_createdAt = now,
      gr_retainUntil = ap_retainUntil a\<rparr>"

definition resume_turn :: "TurnRecord \<Rightarrow> TurnRecord" where
  "resume_turn t = t\<lparr>tu_state := TurnRunning, tu_version := tu_version t + 1\<rparr>"

definition findApproval :: "RuntimeState \<Rightarrow> MutationScope \<Rightarrow> string \<Rightarrow> nat option" where
  "findApproval s scope i =
     find_index (\<lambda>a. ap_approvalID a = i \<and> ap_tenant a = sc_tenant scope \<and> ap_principal a = sc_principal scope)
       (st_approvals s)"

text \<open>Approval appends the bounded grant and resumes the paused Turn.\<close>

definition issue_grant ::
    "RuntimeStatePlanner \<Rightarrow> ReceiptBinding \<Rightarrow> ApprovalRecord \<Rightarrow> gtime \<Rightarrow> unit pm" where
  "issue_grant P b a now =
     pbind (grantID P) (\<lambda>gid.
     pbind (pmodify (\<lambda>s. s\<lparr>st_grants := st_grants s @ [approved_grant a gid now]\<rparr>)) (\<lambda>_.
     pbind pget (\<lambda>s.
     case findTurn s (rb_scope b) (ap_sessionID a) (ap_turnID a) of
       None \<Rightarrow> pfail ErrConflict
     | Some j \<Rightarrow>
         if tu_state (st_turns s ! j) \<noteq> TurnWaitingForApproval then pfail ErrConflict
         else pput (s\<lparr>st_turns := (st_turns s)[j := resume_turn (st_turns s ! j)]\<rparr>))))"

definition decideApproval ::
    "RuntimeStatePlanner \<Rightarrow> ReceiptBinding \<Rightarrow> DecideApprovalCommand \<Rightarrow> gtime \<Rightarrow> (PlanResult \<times> EffectSet) pm" where
  "decideApproval P b c now =
     pbind pget (\<lambda>s.
     case findApproval s (rb_scope b) (dac_approvalID c) of
       None \<Rightarrow> pfail ErrNotFoundOrDenied
     | Some n \<Rightarrow>
         let a = st_approvals s ! n in
         if ap_state a \<noteq> ApprovalPending then pfail ErrConflict
         else if \<not> Before now (ap_expiresAt a) then
           let a' = a\<lparr>ap_state := ApprovalExpired\<rparr>
           in pbind (pput (s\<lparr>st_approvals := (st_approvals s)[n := a']\<rparr>)) (\<lambda>_.
              pbind (approvalEffects P b a' now) (\<lambda>eff. pure (zero_PlanResult, eff)))
         else
           let a' = a\<lparr>ap_state := dac_decision c, ap_decision := dac_decision c, ap_decidedAt := Some now\<rparr>
           in pbind (pput (s\<lparr>st_approvals := (st_approvals s)[n := a']\<rparr>)) (\<lambda>_.
              pbind (if dac_decision c = ApprovalApproved then issue_grant P b a' now else pure ()) (\<lambda>_.
              pbind (approvalEffects P b a' now) (\<lambda>eff. pure (zero_PlanResult, eff)))))"

section \<open>Capability grants\<close>

definition findGrant :: "RuntimeState \<Rightarrow> MutationScope \<Rightarrow> string \<Rightarrow> nat option" where
  "findGrant s scope gid =
     find_index (\<lambda>g. gr_grantID g = gid \<and> gr_tenant g = sc_tenant scope \<and> gr_principal g = sc_principal scope)
       (st_grants s)"

definition consumeCapabilityGrant ::
    "RuntimeStatePlanner \<Rightarrow> ReceiptBinding \<Rightarrow> ConsumeCapabilityGrantCommand \<Rightarrow> gtime
     \<Rightarrow> (PlanResult \<times> EffectSet) pm" where
  "consumeCapabilityGrant P b c now =
     pbind pget (\<lambda>s.
     case findTurn s (rb_scope b) (cgc_sessionID c) (cgc_turnID c) of
       None \<Rightarrow> pfail ErrNotFoundOrDenied
     | Some j \<Rightarrow>
         if tu_state (st_turns s ! j) \<noteq> TurnRunning then pfail ErrConflict
         else case findGrant s (rb_scope b) (cgc_grantID c) of
           None \<Rightarrow> pfail ErrNotFoundOrDenied
         | Some n \<Rightarrow>
             let g = st_grants s ! n in
             if gr_sessionID g \<noteq> cgc_sessionID c \<or> gr_turnID g \<noteq> cgc_turnID c
                \<or> gr_toolCallID g \<noteq> cgc_toolCallID c \<or> gr_policyRevisionDigest g \<noteq> cgc_policyRevisionDigest c
                \<or> gr_revokedAt g \<noteq> None \<or> \<not> Before now (gr_expiresAt g) \<or> gr_maximumUses g \<le> gr_uses g
             then pfail ErrConflict
             else
               let grant = g\<lparr>gr_uses := gr_uses g + 1\<rparr>
               in pbind (pput (s\<lparr>st_grants := (st_grants s)[n := grant]\<rparr>)) (\<lambda>_.
                  pbind (auditOnly P b ''capability_grant.consumed'' (cgc_sessionID c) (cgc_turnID c) now) (\<lambda>eff.
                  pbind (decorateToolAuditFacts eff (auditContextForGrant grant)) (\<lambda>eff.
                  pure (zero_PlanResult, eff)))))"

definition revokeCapabilityGrant ::
    "RuntimeStatePlanner \<Rightarrow> ReceiptBinding \<Rightarrow> RevokeCapabilityGrantCommand \<Rightarrow> gtime
     \<Rightarrow> (PlanResult \<times> EffectSet) pm" where
  "revokeCapabilityGrant P b c now =
     pbind pget (\<lambda>s.
     case findTurn s (rb_scope b) (rgc_sessionID c) (rgc_turnID c) of
       None \<Rightarrow> pfail ErrNotFoundOrDenied
     | Some j \<Rightarrow>
         case findGrant s (rb_scope b) (rgc_grantID c) of
           None \<Rightarrow> pfail ErrNotFoundOrDenied
         | Some n \<Rightarrow>
             let g = st_grants s ! n in
             if gr_sessionID g \<noteq> rgc_sessionID c \<or> gr_turnID g \<noteq> rgc_turnID c
                \<or> gr_toolCallID g \<noteq> rgc_toolCallID c \<or> gr_uses g \<noteq> 0 \<or> gr_revokedAt g \<noteq> None
                \<or> \<not> Before now (gr_expiresAt g)
             then pfail ErrConflict
             else if list_ex (\<lambda>e. te_grantID e = gr_grantID g) (st_toolExecutions s) then pfail ErrConflict
             else
               let grant = g\<lparr>gr_revokedAt := Some now\<rparr>
               in pbind (pput (s\<lparr>st_grants := (st_grants s)[n := grant]\<rparr>)) (\<lambda>_.
                  pbind (auditOnly P b ''capability_grant.revoked'' (rgc_sessionID c) (rgc_turnID c) now) (\<lambda>eff.
                  pbind (decorateToolAuditFacts eff (auditContextForGrant grant)) (\<lambda>eff.
                  pure (zero_PlanResult, eff)))))"

definition expireCapabilityGrant ::
    "RuntimeStatePlanner \<Rightarrow> ReceiptBinding \<Rightarrow> ExpireCapabilityGrantCommand \<Rightarrow> gtime
     \<Rightarrow> (PlanResult \<times> EffectSet) pm" where
  "expireCapabilityGrant P b c now =
     pbind pget (\<lambda>s.
     case findTurn s (rb_scope b) (egc_sessionID c) (egc_turnID c) of
       None \<Rightarrow> pfail ErrNotFoundOrDenied
     | Some j \<Rightarrow>
         case findGrant s (rb_scope b) (egc_grantID c) of
           None \<Rightarrow> pfail ErrNotFoundOrDenied
         | Some n \<Rightarrow>
             let g = st_grants s ! n in
             if gr_sessionID g \<noteq> egc_sessionID c \<or> gr_turnID g \<noteq> egc_turnID c
                \<or> gr_toolCallID g \<noteq> egc_toolCallID c \<or> gr_revokedAt g \<noteq> None \<or> Before now (gr_expiresAt g)
             then pfail ErrConflict
             else
               let grant = g\<lparr>gr_revokedAt := Some now\<rparr>
               in pbind (pput (s\<lparr>st_grants := (st_grants s)[n := grant]\<rparr>)) (\<lambda>_.
                  pbind (auditOnly P b ''capability_grant.expired'' (egc_sessionID c) (egc_turnID c) now) (\<lambda>eff.
                  pbind (decorateToolAuditFacts eff (auditContextForGrant grant)) (\<lambda>eff.
                  pure (zero_PlanResult, eff)))))"

definition denyToolAdmission ::
    "RuntimeStatePlanner \<Rightarrow> ReceiptBinding \<Rightarrow> DenyToolAdmissionCommand \<Rightarrow> gtime
     \<Rightarrow> (PlanResult \<times> EffectSet) pm" where
  "denyToolAdmission P b c now =
     pbind pget (\<lambda>s.
     case findTurn s (rb_scope b) (dtc_sessionID c) (dtc_turnID c) of
       None \<Rightarrow> pfail ErrNotFoundOrDenied
     | Some j \<Rightarrow>
         pbind (auditOnly P b ''tool.admission_denied'' (dtc_sessionID c) (dtc_turnID c) now) (\<lambda>eff.
         pbind (decorateToolAuditFacts eff
                  \<lparr>tx_policyRevisionDigest = dtc_policyRevisionDigest c,
                   tx_capabilityScopeDigest = dtc_capabilityScopeDigest c,
                   tx_toolCallID = dtc_toolCallID c, tx_operationID = []\<rparr>) (\<lambda>eff.
         pure (zero_PlanResult, eff))))"

section \<open>Tool executions\<close>

definition new_execution ::
    "RuntimeStatePlanner \<Rightarrow> ReceiptBinding \<Rightarrow> BeginToolExecutionCommand \<Rightarrow> gtime \<Rightarrow> ToolExecutionRecord" where
  "new_execution P b c now =
     \<lparr>te_tenant = sc_tenant (rb_scope b), te_principal = sc_principal (rb_scope b),
      te_sessionID = btc_sessionID c, te_turnID = btc_turnID c, te_toolCallID = btc_toolCallID c,
      te_grantID = btc_grantID c, te_operationID = btc_operationID c, te_state = ToolExecutionIntent,
      te_result = None, te_failure = None, te_createdAt = now, te_updatedAt = now,
      te_retentionUntil = retain P now DataClassAuthorization\<rparr>"

definition beginToolExecution ::
    "RuntimeStatePlanner \<Rightarrow> ReceiptBinding \<Rightarrow> BeginToolExecutionCommand \<Rightarrow> gtime
     \<Rightarrow> (PlanResult \<times> EffectSet) pm" where
  "beginToolExecution P b c now =
     pbind pget (\<lambda>s.
     case findTurn s (rb_scope b) (btc_sessionID c) (btc_turnID c) of
       None \<Rightarrow> pfail ErrNotFoundOrDenied
     | Some j \<Rightarrow>
         if tu_state (st_turns s ! j) \<noteq> TurnRunning then pfail ErrConflict
         else if list_ex (\<lambda>e. te_operationID e = btc_operationID c) (st_toolExecutions s)
         then pfail ErrConflict
         else case findGrant s (rb_scope b) (btc_grantID c) of
           None \<Rightarrow> pfail ErrNotFoundOrDenied
         | Some n \<Rightarrow>
             let g = st_grants s ! n in
             if gr_sessionID g \<noteq> btc_sessionID c \<or> gr_turnID g \<noteq> btc_turnID c
                \<or> gr_toolCallID g \<noteq> btc_toolCallID c \<or> gr_uses g = 0 \<or> \<not> Before now (gr_expiresAt g)
             then pfail ErrConflict
             else
               let record = new_execution P b c now
               in pbind (pput (s\<lparr>st_toolExecutions := st_toolExecutions s @ [record]\<rparr>)) (\<lambda>_.
                  pbind (auditOnly P b ''tool.execution_intended'' (btc_sessionID c) (btc_turnID c) now) (\<lambda>eff.
                  pbind (decorateToolAuditFacts eff (auditContextForExecution record g)) (\<lambda>eff.
                  pbind (toolExecutionOutbox P record now (retain P now DataClassOutbox)) (\<lambda>r.
                  pbind (pmodify (add_outbox r)) (\<lambda>_.
                  pure (zero_PlanResult, eff_outbox r eff)))))))"

text \<open>The grant an execution used: the first with its identifier, revoked now unless it already is.\<close>

definition retire_grant :: "string \<Rightarrow> gtime \<Rightarrow> CapabilityGrantRecord list \<Rightarrow> CapabilityGrantRecord \<times> CapabilityGrantRecord list" where
  "retire_grant gid now gs =
     (case find_index (\<lambda>g. gr_grantID g = gid) gs of
        None \<Rightarrow> (zero_CapabilityGrantRecord, gs)
      | Some n \<Rightarrow>
          if gr_revokedAt (gs ! n) = None then
            let g = (gs ! n)\<lparr>gr_revokedAt := Some now\<rparr> in (g, gs[n := g])
          else (gs ! n, gs))"

definition findExecution :: "RuntimeState \<Rightarrow> MutationScope \<Rightarrow> RecordToolExecutionOutcomeCommand \<Rightarrow> nat option" where
  "findExecution s scope c =
     find_index (\<lambda>e. te_operationID e = toc_operationID c \<and> te_toolCallID e = toc_toolCallID c
        \<and> te_tenant e = sc_tenant scope \<and> te_principal e = sc_principal scope
        \<and> te_sessionID e = toc_sessionID c \<and> te_turnID e = toc_turnID c) (st_toolExecutions s)"

text \<open>A grant with no use left is reported exhausted by an audit fact of its own.\<close>

definition exhaustion ::
    "RuntimeStatePlanner \<Rightarrow> ReceiptBinding \<Rightarrow> RecordToolExecutionOutcomeCommand \<Rightarrow> ToolExecutionRecord
     \<Rightarrow> CapabilityGrantRecord list \<Rightarrow> EffectSet \<Rightarrow> gtime \<Rightarrow> EffectSet pm" where
  "exhaustion P b c e grants eff now =
     (case find (\<lambda>g. gr_grantID g = te_grantID e \<and> gr_maximumUses g \<le> gr_uses g) grants of
        None \<Rightarrow> pure eff
      | Some g \<Rightarrow>
          pbind (auditOnly P b ''capability_grant.exhausted'' (toc_sessionID c) (toc_turnID c) now) (\<lambda>extra.
          pbind (decorateToolAuditFacts extra (auditContextForExecution e g)) (\<lambda>extra.
          pure (eff\<lparr>ef_audit := ef_audit eff @ ef_audit extra, ef_outbox := ef_outbox eff @ ef_outbox extra\<rparr>))))"

definition recordToolExecutionOutcome ::
    "RuntimeStatePlanner \<Rightarrow> ReceiptBinding \<Rightarrow> RecordToolExecutionOutcomeCommand \<Rightarrow> gtime
     \<Rightarrow> (PlanResult \<times> EffectSet) pm" where
  "recordToolExecutionOutcome P b c now =
     pbind pget (\<lambda>s.
     if \<not> outboxLeaseFenceCurrent s (sc_tenant (rb_scope b)) (toc_leaseFence c) now then pfail ErrConflict
     else case (findSession s (rb_scope b) (toc_sessionID c),
                findTurn s (rb_scope b) (toc_sessionID c) (toc_turnID c)) of
       (Some i, Some j) \<Rightarrow>
         (case findExecution s (rb_scope b) c of
            None \<Rightarrow> pfail ErrNotFoundOrDenied
          | Some k \<Rightarrow>
              let e = st_toolExecutions s ! k in
              if te_state e \<noteq> ToolExecutionIntent then pfail ErrConflict
              else
                let e' = e\<lparr>te_state := toc_outcome c, te_result := toc_result c,
                           te_failure := toc_failure c, te_updatedAt := now\<rparr>;
                    (executionGrant, grants) = retire_grant (te_grantID e') now (st_grants s)
                in pbind (pput (s\<lparr>st_toolExecutions := (st_toolExecutions s)[k := e'],
                                  st_grants := grants\<rparr>)) (\<lambda>_.
                   pbind (effects P b (st_sessions s ! i) (st_turns s ! j)
                            (zero_InvocationRecord\<lparr>iv_operationID := te_operationID e'\<rparr>)
                            [EventSandboxOperationFinalized] now) (\<lambda>eff.
                   pbind (decorateToolAuditFacts eff (auditContextForExecution e' executionGrant)) (\<lambda>eff.
                   pbind (exhaustion P b c e' grants eff now) (\<lambda>eff.
                   pure (zero_PlanResult, eff))))))
     | _ \<Rightarrow> pfail ErrNotFoundOrDenied)"

section \<open>The handlers refine the specification\<close>

lemma audited_commits:
  assumes "auditOnly P b kind sid tid now c1 = (Inr eff, c2)" and "px_state c1 = m"
    and "decorateToolAuditFacts eff x c2 = (Inr d, c')"
    and "lifecycle (sc_tenant (rb_scope b)) (actor_sessions False (rb_scope b) s) now s m"
    and "st_events m = st_events s" and "st_audit m = st_audit s" and "st_outbox m = st_outbox s"
  shows "commits False b now s d (px_state c')"
  by (rule commitsI [OF assms(4-7)]) (use audit_only.decorated [OF assms(1,3)] assms(2) in simp)

lemma recordToolIntent_commits:
  assumes "recordToolIntent P b compiled now c = (Inr (r, d), c')"
  shows "commits False b now (px_state c) d (px_state c')"
proof -
  let ?s = "px_state c" and ?c = "ct_command compiled"
  from assms obtain j where
      j: "findTurn ?s (rb_scope b) (tic_sessionID ?c) (tic_turnID ?c) = Some j"
    and eff: "auditOnly P b ''tool.intent_recorded'' (tic_sessionID ?c) (tic_turnID ?c) now
       (c\<lparr>px_state := ?s\<lparr>st_toolIntents := st_toolIntents ?s @ [recorded_intent P b compiled now]\<rparr>\<rparr>) = (Inr d, c')"
    by (auto simp: recordToolIntent_def Let_def split: option.splits)
  show ?thesis
    by (rule commitsI [OF _ _ _ _ auditOnly_emits [OF eff]])
      (simp_all add: lifecycle_append(10) intent_fresh_def recorded_intent_def Let_def findTurnD [OF j])
qed

lemma pause_turn_step: "tu_state t = TurnRunning \<Longrightarrow> turn_step now t (pause_turn t)"
  unfolding pause_turn_def Suc_eq_plus1 [symmetric] by (rule turn_pause)

lemma resume_turn_step: "tu_state t = TurnWaitingForApproval \<Longrightarrow> turn_step now t (resume_turn t)"
  unfolding resume_turn_def Suc_eq_plus1 [symmetric] by (rule turn_resume)

lemma admitToolApproval_Inr:
  assumes "admitToolApproval P b compiled now c = (Inr (r, d), c')"
  obtains j eff c1 where
    "After (tac_expiresAt (cp_command compiled)) now"
    "findTurn (px_state c) (rb_scope b) (tac_sessionID (cp_command compiled)) (tac_turnID (cp_command compiled)) = Some j"
    "tu_state (st_turns (px_state c) ! j) = TurnRunning"
    "\<forall>a \<in> set (st_approvals (px_state c)). ap_approvalID a \<noteq> tac_approvalID (cp_command compiled)"
    "auditOnly P b ''tool.approval_requested'' (tac_sessionID (cp_command compiled)) (tac_turnID (cp_command compiled)) now
       (c\<lparr>px_state := (px_state c)\<lparr>st_turns := (st_turns (px_state c))[j := pause_turn (st_turns (px_state c) ! j)],
          st_toolIntents := st_toolIntents (px_state c) @ [admitted_intent P b compiled now],
          st_approvals := st_approvals (px_state c) @ [admitted_approval P b (cp_command compiled) now]\<rparr>\<rparr>) = (Inr eff, c1)"
    "decorateToolAuditFacts eff (auditContextForApproval (admitted_approval P b (cp_command compiled) now)) c1 = (Inr d, c')"
  using assms by (auto simp: admitToolApproval_def Let_def list_ex_iff split: option.splits if_splits)

lemma admitToolApproval_commits:
  assumes "admitToolApproval P b compiled now c = (Inr (r, d), c')"
  shows "commits False b now (px_state c) d (px_state c')"
  using assms
proof (rule admitToolApproval_Inr)
  let ?s = "px_state c" and ?T = "sc_tenant (rb_scope b)" and ?c = "cp_command compiled"
  let ?S = "actor_sessions False (rb_scope b) ?s"
  fix j eff c1
  let ?s1 = "?s\<lparr>st_turns := (st_turns ?s)[j := pause_turn (st_turns ?s ! j)]\<rparr>"
  let ?s2 = "?s1\<lparr>st_toolIntents := st_toolIntents ?s1 @ [admitted_intent P b compiled now]\<rparr>"
  let ?s3 = "?s2\<lparr>st_approvals := st_approvals ?s2 @ [admitted_approval P b ?c now]\<rparr>"
  assume j: "findTurn ?s (rb_scope b) (tac_sessionID ?c) (tac_turnID ?c) = Some j"
    and run: "tu_state (st_turns ?s ! j) = TurnRunning"
    and eff: "auditOnly P b ''tool.approval_requested'' (tac_sessionID ?c) (tac_turnID ?c) now
       (c\<lparr>px_state := ?s\<lparr>st_turns := (st_turns ?s)[j := pause_turn (st_turns ?s ! j)],
          st_toolIntents := st_toolIntents ?s @ [admitted_intent P b compiled now],
          st_approvals := st_approvals ?s @ [admitted_approval P b ?c now]\<rparr>\<rparr>) = (Inr eff, c1)"
    and dec: "decorateToolAuditFacts eff (auditContextForApproval (admitted_approval P b ?c now)) c1 = (Inr d, c')"
  note g = findTurnD [OF j]
  note [trans] = lifecycle_trans
  have 1: "lifecycle ?T ?S now ?s ?s1"
    using g run by (intro lifecycle_update(2)) (auto intro: pause_turn_step)
  note k = turn_keys_mono [OF 1, THEN subsetD, OF g(6)]
  note 1
  also have "lifecycle ?T ?S now ?s1 ?s2"
    using k by (intro lifecycle_append(10)) (simp add: intent_fresh_def admitted_intent_def Let_def)
  also have "lifecycle ?T ?S now ?s2 ?s3"
    using k by (intro lifecycle_append(4))
      (auto simp: approval_fresh_def admitted_approval_def approval_intent_def admitted_intent_def Let_def)
  finally have "lifecycle ?T ?S now ?s ?s3" .
  then show ?thesis by (intro audited_commits [OF eff refl dec]) simp_all
qed

lemma requestApproval_Inr:
  assumes "requestApproval P b q now c = (Inr (r, d), c')"
  obtains j i eff c1 where
    "After (qac_expiresAt q) now"
    "i \<in> set (st_toolIntents (px_state c))" "ti_toolCallID i = qac_toolCallID q"
    "ti_sessionID i = qac_sessionID q" "ti_turnID i = qac_turnID q"
    "findTurn (px_state c) (rb_scope b) (qac_sessionID q) (qac_turnID q) = Some j"
    "tu_state (st_turns (px_state c) ! j) = TurnRunning"
    "\<forall>a \<in> set (st_approvals (px_state c)). ap_approvalID a \<noteq> qac_approvalID q"
    "auditOnly P b ''approval.requested'' (qac_sessionID q) (qac_turnID q) now
       (c\<lparr>px_state := (px_state c)\<lparr>st_turns := (st_turns (px_state c))[j := pause_turn (st_turns (px_state c) ! j)],
          st_approvals := st_approvals (px_state c) @ [requested_approval P b q now]\<rparr>\<rparr>) = (Inr eff, c1)"
    "decorateToolAuditFacts eff (auditContextForApproval (requested_approval P b q now)) c1 = (Inr d, c')"
  using assms by (auto simp: requestApproval_def Let_def list_ex_iff split: option.splits if_splits)

lemma requestApproval_commits:
  assumes "requestApproval P b q now c = (Inr (r, d), c')"
  shows "commits False b now (px_state c) d (px_state c')"
  using assms
proof (rule requestApproval_Inr)
  let ?s = "px_state c" and ?T = "sc_tenant (rb_scope b)"
  let ?S = "actor_sessions False (rb_scope b) ?s"
  fix j i eff c1
  let ?s1 = "?s\<lparr>st_turns := (st_turns ?s)[j := pause_turn (st_turns ?s ! j)]\<rparr>"
  let ?s2 = "?s1\<lparr>st_approvals := st_approvals ?s1 @ [requested_approval P b q now]\<rparr>"
  assume i: "i \<in> set (st_toolIntents ?s)" "ti_toolCallID i = qac_toolCallID q"
      "ti_sessionID i = qac_sessionID q" "ti_turnID i = qac_turnID q"
    and j: "findTurn ?s (rb_scope b) (qac_sessionID q) (qac_turnID q) = Some j"
    and run: "tu_state (st_turns ?s ! j) = TurnRunning"
    and eff: "auditOnly P b ''approval.requested'' (qac_sessionID q) (qac_turnID q) now
       (c\<lparr>px_state := ?s\<lparr>st_turns := (st_turns ?s)[j := pause_turn (st_turns ?s ! j)],
          st_approvals := st_approvals ?s @ [requested_approval P b q now]\<rparr>\<rparr>) = (Inr eff, c1)"
    and dec: "decorateToolAuditFacts eff (auditContextForApproval (requested_approval P b q now)) c1 = (Inr d, c')"
  note g = findTurnD [OF j]
  have 1: "lifecycle ?T ?S now ?s ?s1"
    using g run by (intro lifecycle_update(2)) (auto intro: pause_turn_step)
  have "lifecycle ?T ?S now ?s1 ?s2"
    using turn_keys_mono [OF 1, THEN subsetD, OF g(6)] i
    by (intro lifecycle_append(4)) (auto simp: approval_fresh_def requested_approval_def approval_intent_def)
  from lifecycle_trans [OF 1 this] have "lifecycle ?T ?S now ?s ?s2" .
  then show ?thesis by (intro audited_commits [OF eff refl dec]) simp_all
qed

subsection \<open>Approval decisions\<close>

lemma emits_rename:
  assumes e: "emits T s d (px_state c)" and ne: "ef_audit d \<noteq> []"
  defines "s1 \<equiv> px_state c"
  shows "emits T s (d\<lparr>ef_audit := rename_fact kind 0 (ef_audit d)\<rparr>)
     (s1\<lparr>st_audit := rename_fact kind (length (st_audit s1) - length (ef_audit d)) (st_audit s1)\<rparr>)"
proof -
  from ne obtain f fs where f: "ef_audit d = f # fs" by (cases "ef_audit d") auto
  from e have a: "st_audit s1 = st_audit s @ ef_audit d" by (simp add: emits_def s1_def)
  have r: "rename_fact kind (length (st_audit s1) - length (ef_audit d)) (st_audit s1)
      = st_audit s @ rename_fact kind 0 (ef_audit d)"
    by (simp add: a f rename_fact_def list_update_append)
  have ids: "map af_auditFactID (rename_fact kind 0 (ef_audit d)) = map af_auditFactID (ef_audit d)"
    by (simp add: rename_fact_def f)
  then have set_ids: "af_auditFactID ` set (rename_fact kind 0 (ef_audit d)) = af_auditFactID ` set (ef_audit d)"
    by (metis image_set)
  have "good_delta T es (d\<lparr>ef_audit := rename_fact kind 0 (ef_audit d)\<rparr>) = good_delta T es d" for es
    unfolding good_delta_def using set_ids by (simp add: f rename_fact_def)
  moreover have "map af_auditFactID (st_audit s @ rename_fact kind 0 (ef_audit d)) = map af_auditFactID (st_audit s1)"
    by (simp add: a ids)
  ultimately show ?thesis
    using e unfolding emits_def r s1_def [symmetric] by (auto simp: core_def)
qed

lemma approvalEffects_emits:
  assumes "approvalEffects P b approval now c = (Inr d, c')"
  shows "emits {sc_tenant (rb_scope b)} (px_state c) d (px_state c')"
proof -
  let ?s = "px_state c" and ?T = "{sc_tenant (rb_scope b)}"
  from assms obtain i j ek eff c1 where i: "findSession ?s (rb_scope b) (ap_sessionID approval) = Some i"
    and eff: "effects P b (st_sessions ?s ! i) (st_turns ?s ! j) zero_InvocationRecord [ek] now c = (Inr eff, c1)"
    and rest: "(if ef_audit eff = [] \<or> st_audit (px_state c1) = [] then pure eff
            else
              let kind = ''approval.'' @ approval_state_string (ap_state approval)
              in pbind (pput ((px_state c1)\<lparr>st_audit :=
                   rename_fact kind (length (st_audit (px_state c1)) - length (ef_audit eff)) (st_audit (px_state c1))\<rparr>)) (\<lambda>_.
                 decorateToolAuditFacts (eff\<lparr>ef_audit := rename_fact kind 0 (ef_audit eff)\<rparr>)
                   (auditContextForApproval approval))) c1 = (Inr d, c')"
    by (auto simp: approvalEffects_def Let_def split: option.splits)
  note e = effects_emits [OF eff findSessionD(2) [OF i]]
  show ?thesis
  proof (cases "ef_audit eff = [] \<or> st_audit (px_state c1) = []")
    case True
    with rest e show ?thesis by simp
  next
    case False
    let ?kind = "''approval.'' @ approval_state_string (ap_state approval)"
    let ?s1 = "(px_state c1)\<lparr>st_audit := rename_fact ?kind (length (st_audit (px_state c1)) - length (ef_audit eff))
                  (st_audit (px_state c1))\<rparr>"
    from False rest have dec: "decorateToolAuditFacts (eff\<lparr>ef_audit := rename_fact ?kind 0 (ef_audit eff)\<rparr>)
          (auditContextForApproval approval) (c1\<lparr>px_state := ?s1\<rparr>) = (Inr d, c')"
      by (auto simp: Let_def)
    have "emits ?T ?s (eff\<lparr>ef_audit := rename_fact ?kind 0 (ef_audit eff)\<rparr>) (px_state (c1\<lparr>px_state := ?s1\<rparr>))"
      using emits_rename [OF e] False by simp
    from emits_decorate [OF this dec] show ?thesis .
  qed
qed

interpretation approval_decider: effect_producer "approvalEffects P b approval now" "{sc_tenant (rb_scope b)}"
  for P b approval now
  by unfold_locales (rule approvalEffects_emits)


lemma approvalEffects_found:
  assumes "approvalEffects P b approval now c = (Inr d, c')"
  obtains i j where "findSession (px_state c) (rb_scope b) (ap_sessionID approval) = Some i"
    and "findTurn (px_state c) (rb_scope b) (ap_sessionID approval) (ap_turnID approval) = Some j"
  using assms by (auto simp: approvalEffects_def split: option.splits)

lemma find_frame [simp]:
  "findSession (s\<lparr>st_approvals := x\<rparr>) = findSession s" "findTurn (s\<lparr>st_approvals := x\<rparr>) = findTurn s"
  "findSession (s\<lparr>st_grants := y\<rparr>) = findSession s" "findTurn (s\<lparr>st_grants := y\<rparr>) = findTurn s"
  "findSession (s\<lparr>st_turns := z\<rparr>) = findSession s"
  by (auto simp: findSession_def findTurn_def fun_eq_iff)

lemma issue_grant_Inr:
  assumes "issue_grant P b a now c = (Inr u, c')"
  obtains gid j where "gid \<noteq> []" "findTurn (px_state c) (rb_scope b) (ap_sessionID a) (ap_turnID a) = Some j"
    "tu_state (st_turns (px_state c) ! j) = TurnWaitingForApproval"
    "px_state c' = (px_state c)\<lparr>st_grants := st_grants (px_state c) @ [approved_grant a gid now],
       st_turns := (st_turns (px_state c))[j := resume_turn (st_turns (px_state c) ! j)]\<rparr>"
proof -
  from assms obtain gid c1 j where 1: "grantID P c = (Inr gid, c1)"
    and 2: "findTurn (px_state c1) (rb_scope b) (ap_sessionID a) (ap_turnID a) = Some j"
      "tu_state (st_turns (px_state c1) ! j) = TurnWaitingForApproval"
    and 3: "px_state c' = (px_state c1)\<lparr>st_grants := st_grants (px_state c1) @ [approved_grant a gid now],
       st_turns := (st_turns (px_state c1))[j := resume_turn (st_turns (px_state c1) ! j)]\<rparr>"
    by (auto simp: issue_grant_def split: option.splits if_splits)
  from 1 have "px_state c1 = px_state c" "gid \<noteq> []" by (auto dest: drawsD)
  with 2 3 that show thesis by simp
qed

lemma decideApproval_cases:
  assumes "decideApproval P b q now c = (Inr (r, d), c')"
  obtains (expired) n a a' where
      "findApproval (px_state c) (rb_scope b) (dac_approvalID q) = Some n"
      "a = st_approvals (px_state c) ! n" "ap_state a = ApprovalPending" "\<not> Before now (ap_expiresAt a)"
      "a' = a\<lparr>ap_state := ApprovalExpired\<rparr>"
      "approvalEffects P b a' now
         (c\<lparr>px_state := (px_state c)\<lparr>st_approvals := (st_approvals (px_state c))[n := a']\<rparr>\<rparr>) = (Inr d, c')"
    | (rejected) n a a' where
      "findApproval (px_state c) (rb_scope b) (dac_approvalID q) = Some n"
      "a = st_approvals (px_state c) ! n" "ap_state a = ApprovalPending" "Before now (ap_expiresAt a)"
      "a' = a\<lparr>ap_state := dac_decision q, ap_decision := dac_decision q, ap_decidedAt := Some now\<rparr>"
      "dac_decision q \<noteq> ApprovalApproved"
      "approvalEffects P b a' now
         (c\<lparr>px_state := (px_state c)\<lparr>st_approvals := (st_approvals (px_state c))[n := a']\<rparr>\<rparr>) = (Inr d, c')"
    | (approved) n a a' c1 where
      "findApproval (px_state c) (rb_scope b) (dac_approvalID q) = Some n"
      "a = st_approvals (px_state c) ! n" "ap_state a = ApprovalPending" "Before now (ap_expiresAt a)"
      "a' = a\<lparr>ap_state := ApprovalApproved, ap_decision := ApprovalApproved, ap_decidedAt := Some now\<rparr>"
      "dac_decision q = ApprovalApproved"
      "issue_grant P b a' now (c\<lparr>px_state := (px_state c)\<lparr>st_approvals := (st_approvals (px_state c))[n := a']\<rparr>\<rparr>) = (Inr (), c1)"
      "approvalEffects P b a' now c1 = (Inr d, c')"
proof -
  from assms obtain n where n: "findApproval (px_state c) (rb_scope b) (dac_approvalID q) = Some n"
    by (auto simp: decideApproval_def split: option.splits)
  let ?a = "st_approvals (px_state c) ! n"
  note u = assms [unfolded decideApproval_def]
  have pend: "ap_state ?a = ApprovalPending"
    using u n by (simp add: Let_def split: if_splits)
  consider (e) "\<not> Before now (ap_expiresAt ?a)" | (r) "Before now (ap_expiresAt ?a)" "dac_decision q \<noteq> ApprovalApproved"
    | (a) "Before now (ap_expiresAt ?a)" "dac_decision q = ApprovalApproved" by blast
  then show thesis
  proof cases
    case e
    with u n pend show thesis by (intro expired [of n ?a]) (auto simp: Let_def)
  next
    case r
    with u n pend show thesis by (intro rejected [of n ?a]) (auto simp: Let_def)
  next
    case a
    with u n pend obtain c1 where "issue_grant P b (?a\<lparr>ap_state := ApprovalApproved, ap_decision := ApprovalApproved,
        ap_decidedAt := Some now\<rparr>) now (c\<lparr>px_state := (px_state c)\<lparr>st_approvals := (st_approvals (px_state c))
          [n := ?a\<lparr>ap_state := ApprovalApproved, ap_decision := ApprovalApproved, ap_decidedAt := Some now\<rparr>]\<rparr>\<rparr>) = (Inr (), c1)"
      "approvalEffects P b (?a\<lparr>ap_state := ApprovalApproved, ap_decision := ApprovalApproved,
        ap_decidedAt := Some now\<rparr>) now c1 = (Inr d, c')"
      by (auto simp: Let_def)
    with n pend a show thesis by (intro approved [of n ?a]) simp_all
  qed
qed

lemma findApprovalD:
  assumes "findApproval s scope i = Some n"
  shows "n < length (st_approvals s)" "ap_approvalID (st_approvals s ! n) = i"
    "ap_tenant (st_approvals s ! n) = sc_tenant scope" "ap_principal (st_approvals s ! n) = sc_principal scope"
  using assms by (auto simp: findApproval_def)

lemma decideApproval_commits:
  assumes "decideApproval P b q now c = (Inr (r, d), c')"
    and q: "dac_decision q = ApprovalApproved \<or> dac_decision q = ApprovalDenied"
  shows "commits False b now (px_state c) d (px_state c')"
  using assms(1)
proof (cases rule: decideApproval_cases)
  case (expired n a a')
  have S: "ap_sessionID a \<in> actor_sessions False (rb_scope b) (px_state c)"
    by (rule approvalEffects_found [OF expired(6)]) (use expired(5) in \<open>auto dest: findSessionD(6)\<close>)
  have step: "approval_step now a a'" using expired(3-5) by (auto intro: approval_expire)
  show ?thesis
    by (rule commitsI [OF _ _ _ _ approvalEffects_emits [OF expired(6)]])
      (use findApprovalD [OF expired(1)] S step expired(2) in \<open>simp_all add: lifecycle_update(4)\<close>)
next
  case (rejected n a a')
  have S: "ap_sessionID a \<in> actor_sessions False (rb_scope b) (px_state c)"
    by (rule approvalEffects_found [OF rejected(7)]) (use rejected(5) in \<open>auto dest: findSessionD(6)\<close>)
  have step: "approval_step now a a'" unfolding rejected(5) by (rule approval_decide [OF rejected(3,4) q])
  show ?thesis
    by (rule commitsI [OF _ _ _ _ approvalEffects_emits [OF rejected(7)]])
      (use findApprovalD [OF rejected(1)] S step rejected(2) in \<open>simp_all add: lifecycle_update(4)\<close>)
next
  case (approved n a a' c1)
  let ?s = "px_state c" and ?T = "sc_tenant (rb_scope b)"
  let ?S = "actor_sessions False (rb_scope b) ?s"
  let ?s1 = "?s\<lparr>st_approvals := (st_approvals ?s)[n := a']\<rparr>"
  note n = findApprovalD [OF approved(1), folded approved(2)]
  obtain gid j where gid: "gid \<noteq> []"
    and j: "findTurn ?s (rb_scope b) (ap_sessionID a) (ap_turnID a) = Some j"
    and wait: "tu_state (st_turns ?s ! j) = TurnWaitingForApproval"
    and c1: "px_state c1 = ?s1\<lparr>st_grants := st_grants ?s @ [approved_grant a' gid now],
       st_turns := (st_turns ?s)[j := resume_turn (st_turns ?s ! j)]\<rparr>"
    by (rule issue_grant_Inr [OF approved(7)]) (auto simp: approved(5) intro: that)
  let ?s2 = "?s1\<lparr>st_grants := st_grants ?s1 @ [approved_grant a' gid now]\<rparr>"
  let ?s3 = "?s2\<lparr>st_turns := (st_turns ?s2)[j := resume_turn (st_turns ?s2 ! j)]\<rparr>"
  note g = findTurnD [OF j]
  note [trans] = lifecycle_trans
  have step: "approval_step now a a'" unfolding approved(5) by (rule approval_decide [OF approved(3,4)]) simp
  have "lifecycle ?T ?S now ?s ?s1"
    using n g step approved(2) by (intro lifecycle_update(4)) auto
  also have "lifecycle ?T ?S now ?s1 ?s2"
    using g n gid approved(5) by (intro lifecycle_append(3))
      (auto simp: grant_fresh_def grant_approval_def approved_grant_def intro!: bexI [of _ a'] set_update_memI)
  also have "lifecycle ?T ?S now ?s2 ?s3"
    using g wait by (intro lifecycle_update(2)) (auto intro: resume_turn_step)
  finally have l: "lifecycle ?T ?S now ?s (px_state c1)" by (simp add: c1)
  show ?thesis
    by (rule commitsI [OF l _ _ _ approvalEffects_emits [OF approved(8)]]) (simp_all add: c1)
qed


subsection \<open>Grants and executions\<close>

lemma findGrantD:
  assumes "findGrant s scope gid = Some n"
  shows "n < length (st_grants s)" "gr_grantID (st_grants s ! n) = gid"
    "gr_tenant (st_grants s ! n) = sc_tenant scope" "gr_principal (st_grants s ! n) = sc_principal scope"
  using assms by (auto simp: findGrant_def)

lemma grant_updated_commits:
  assumes "findTurn s (rb_scope b) sid tid = Some j" and "findGrant s (rb_scope b) gid = Some n"
    and "gr_sessionID (st_grants s ! n) = sid" and "grant_step now (st_grants s ! n) g"
    and "auditOnly P b kind sid tid now (c\<lparr>px_state := s\<lparr>st_grants := (st_grants s)[n := g]\<rparr>\<rparr>) = (Inr eff, c1)"
    and "decorateToolAuditFacts eff x c1 = (Inr d, c')"
  shows "commits False b now s d (px_state c')"
  by (rule audited_commits [OF assms(5) refl assms(6)])
    (use assms findGrantD [OF assms(2)] findTurnD [OF assms(1)] in \<open>simp_all add: lifecycle_update(3)\<close>)

lemma consumeCapabilityGrant_Inr:
  assumes "consumeCapabilityGrant P b q now c = (Inr (r, d), c')"
  obtains j n g eff c1 where
    "findTurn (px_state c) (rb_scope b) (cgc_sessionID q) (cgc_turnID q) = Some j"
    "tu_state (st_turns (px_state c) ! j) = TurnRunning"
    "findGrant (px_state c) (rb_scope b) (cgc_grantID q) = Some n" "g = st_grants (px_state c) ! n"
    "gr_sessionID g = cgc_sessionID q" "gr_turnID g = cgc_turnID q" "gr_toolCallID g = cgc_toolCallID q"
    "gr_policyRevisionDigest g = cgc_policyRevisionDigest q" "gr_revokedAt g = None"
    "Before now (gr_expiresAt g)" "gr_uses g < gr_maximumUses g"
    "auditOnly P b ''capability_grant.consumed'' (cgc_sessionID q) (cgc_turnID q) now
       (c\<lparr>px_state := (px_state c)\<lparr>st_grants := (st_grants (px_state c))[n := g\<lparr>gr_uses := Suc (gr_uses g)\<rparr>]\<rparr>\<rparr>) = (Inr eff, c1)"
    "decorateToolAuditFacts eff (auditContextForGrant (g\<lparr>gr_uses := Suc (gr_uses g)\<rparr>)) c1 = (Inr d, c')"
  using assms by (auto simp: consumeCapabilityGrant_def Let_def split: option.splits if_splits)

lemma consumeCapabilityGrant_commits:
  assumes "consumeCapabilityGrant P b q now c = (Inr (r, d), c')"
  shows "commits False b now (px_state c) d (px_state c')"
  by (rule consumeCapabilityGrant_Inr [OF assms]) (auto intro: grant_updated_commits grant_consume)

lemma revokeCapabilityGrant_Inr:
  assumes "revokeCapabilityGrant P b q now c = (Inr (r, d), c')"
  obtains j n g eff c1 where
    "findTurn (px_state c) (rb_scope b) (rgc_sessionID q) (rgc_turnID q) = Some j"
    "findGrant (px_state c) (rb_scope b) (rgc_grantID q) = Some n" "g = st_grants (px_state c) ! n"
    "gr_sessionID g = rgc_sessionID q" "gr_uses g = 0" "gr_revokedAt g = None"
    "\<forall>e \<in> set (st_toolExecutions (px_state c)). te_grantID e \<noteq> gr_grantID g"
    "auditOnly P b ''capability_grant.revoked'' (rgc_sessionID q) (rgc_turnID q) now
       (c\<lparr>px_state := (px_state c)\<lparr>st_grants := (st_grants (px_state c))[n := g\<lparr>gr_revokedAt := Some now\<rparr>]\<rparr>\<rparr>) = (Inr eff, c1)"
    "decorateToolAuditFacts eff (auditContextForGrant (g\<lparr>gr_revokedAt := Some now\<rparr>)) c1 = (Inr d, c')"
  using assms by (auto simp: revokeCapabilityGrant_def Let_def list_ex_iff split: option.splits if_splits)

lemma revokeCapabilityGrant_commits:
  assumes "revokeCapabilityGrant P b q now c = (Inr (r, d), c')"
  shows "commits False b now (px_state c) d (px_state c')"
  by (rule revokeCapabilityGrant_Inr [OF assms]) (auto intro: grant_updated_commits grant_revoke)

lemma expireCapabilityGrant_Inr:
  assumes "expireCapabilityGrant P b q now c = (Inr (r, d), c')"
  obtains j n g eff c1 where
    "findTurn (px_state c) (rb_scope b) (egc_sessionID q) (egc_turnID q) = Some j"
    "findGrant (px_state c) (rb_scope b) (egc_grantID q) = Some n" "g = st_grants (px_state c) ! n"
    "gr_sessionID g = egc_sessionID q" "gr_revokedAt g = None" "\<not> Before now (gr_expiresAt g)"
    "auditOnly P b ''capability_grant.expired'' (egc_sessionID q) (egc_turnID q) now
       (c\<lparr>px_state := (px_state c)\<lparr>st_grants := (st_grants (px_state c))[n := g\<lparr>gr_revokedAt := Some now\<rparr>]\<rparr>\<rparr>) = (Inr eff, c1)"
    "decorateToolAuditFacts eff (auditContextForGrant (g\<lparr>gr_revokedAt := Some now\<rparr>)) c1 = (Inr d, c')"
  using assms by (auto simp: expireCapabilityGrant_def Let_def split: option.splits if_splits)

lemma expireCapabilityGrant_commits:
  assumes "expireCapabilityGrant P b q now c = (Inr (r, d), c')"
  shows "commits False b now (px_state c) d (px_state c')"
  by (rule expireCapabilityGrant_Inr [OF assms]) (auto intro: grant_updated_commits grant_revoke)

lemma denyToolAdmission_commits:
  assumes "denyToolAdmission P b q now c = (Inr (r, d), c')"
  shows "commits False b now (px_state c) d (px_state c')"
proof -
  from assms obtain eff c1 x where "auditOnly P b ''tool.admission_denied'' (dtc_sessionID q) (dtc_turnID q) now c = (Inr eff, c1)"
    and "decorateToolAuditFacts eff x c1 = (Inr d, c')"
    by (auto simp: denyToolAdmission_def split: option.splits)
  then show ?thesis by (rule audited_commits [OF _ refl]) simp_all
qed

lemma beginToolExecution_Inr:
  assumes "beginToolExecution P b q now c = (Inr (r, d), c')"
  obtains j n g eff c1 eff1 c2 route c3 where
    "findTurn (px_state c) (rb_scope b) (btc_sessionID q) (btc_turnID q) = Some j"
    "tu_state (st_turns (px_state c) ! j) = TurnRunning"
    "findGrant (px_state c) (rb_scope b) (btc_grantID q) = Some n" "g = st_grants (px_state c) ! n"
    "gr_sessionID g = btc_sessionID q" "gr_turnID g = btc_turnID q" "gr_toolCallID g = btc_toolCallID q"
    "0 < gr_uses g" "Before now (gr_expiresAt g)"
    "auditOnly P b ''tool.execution_intended'' (btc_sessionID q) (btc_turnID q) now
       (c\<lparr>px_state := (px_state c)\<lparr>st_toolExecutions := st_toolExecutions (px_state c) @ [new_execution P b q now]\<rparr>\<rparr>) = (Inr eff, c1)"
    "decorateToolAuditFacts eff (auditContextForExecution (new_execution P b q now) g) c1 = (Inr eff1, c2)"
    "toolExecutionOutbox P (new_execution P b q now) now (retain P now DataClassOutbox) c2 = (Inr route, c3)"
    "c' = c3\<lparr>px_state := add_outbox route (px_state c3)\<rparr>" "d = eff_outbox route eff1"
  using assms by (auto simp: beginToolExecution_def Let_def split: option.splits if_splits)

text \<open>A route of the actor's tenant may follow the effects.\<close>

lemma emits_route:
  assumes "emits {T} s d (px_state c)" and "px_state c' = px_state c" and "fresh_route {T} r" and "ob_auditFactID r = []"
  shows "emits {T} s (eff_outbox r d) (add_outbox r (px_state c'))"
proof -
  have "emits {T} (px_state c) \<lparr>ef_events = [], ef_audit = [], ef_outbox = [r]\<rparr> (add_outbox r (px_state c'))"
    using emits_extend [of "{T}" "px_state c" "\<lparr>ef_events = [], ef_audit = [], ef_outbox = [r]\<rparr>"] assms(2-4)
    by (simp add: extend_state_def add_outbox_def good_delta_def)
  moreover have "appendEffects d \<lparr>ef_events = [], ef_audit = [], ef_outbox = [r]\<rparr> = eff_outbox r d"
    by (simp add: eff_outbox_def appendEffects_def)
  ultimately show ?thesis using emits_trans [OF assms(1)] by metis
qed

lemma beginToolExecution_commits:
  assumes "beginToolExecution P b q now c = (Inr (r, d), c')"
  shows "commits False b now (px_state c) d (px_state c')"
  using assms
proof (rule beginToolExecution_Inr)
  let ?s = "px_state c" and ?T = "sc_tenant (rb_scope b)"
  let ?S = "actor_sessions False (rb_scope b) ?s"
  let ?s1 = "?s\<lparr>st_toolExecutions := st_toolExecutions ?s @ [new_execution P b q now]\<rparr>"
  fix j n g eff c1 eff1 c2 route c3
  assume j: "findTurn ?s (rb_scope b) (btc_sessionID q) (btc_turnID q) = Some j"
    and n: "findGrant ?s (rb_scope b) (btc_grantID q) = Some n" and g: "g = st_grants ?s ! n"
      "gr_sessionID g = btc_sessionID q" "gr_turnID g = btc_turnID q" "gr_toolCallID g = btc_toolCallID q" "0 < gr_uses g"
    and eff: "auditOnly P b ''tool.execution_intended'' (btc_sessionID q) (btc_turnID q) now (c\<lparr>px_state := ?s1\<rparr>) = (Inr eff, c1)"
    and dec: "decorateToolAuditFacts eff (auditContextForExecution (new_execution P b q now) g) c1 = (Inr eff1, c2)"
    and route: "toolExecutionOutbox P (new_execution P b q now) now (retain P now DataClassOutbox) c2 = (Inr route, c3)"
    and out: "c' = c3\<lparr>px_state := add_outbox route (px_state c3)\<rparr>" "d = eff_outbox route eff1"
  have "execution_grant ?s (new_execution P b q now)"
    unfolding execution_grant_def using g findGrantD [OF n]
    by (intro bexI [of _ g]) (auto simp: new_execution_def)
  then have l: "lifecycle ?T ?S now ?s ?s1"
    using findTurnD [OF j] by (intro lifecycle_append(5)) (auto simp: execution_fresh_def new_execution_def)
  have "emits {?T} ?s1 eff1 (px_state c2)" using audit_only.decorated [OF eff dec] by simp
  from emits_route [OF this, of c3 route] route_Inr(5) [OF route]
  have "emits {?T} ?s1 d (px_state c')" by (simp add: out new_execution_def)
  then show ?thesis by (intro commitsI [OF l]) simp_all
qed


lemma retire_grant_cases:
  assumes "retire_grant gid now gs = (g, gs')"
  obtains "gs' = gs" | n where "n < length gs" "gr_grantID (gs ! n) = gid" "gr_revokedAt (gs ! n) = None"
    "gs' = gs[n := (gs ! n)\<lparr>gr_revokedAt := Some now\<rparr>]"
proof (cases "find_index (\<lambda>g. gr_grantID g = gid) gs")
  case None
  with assms have "gs' = gs" by (simp add: retire_grant_def del: find_index_None)
  then show thesis by (rule that(1))
next
  case (Some n)
  note n = find_index_SomeD [OF Some]
  show thesis
  proof (cases "gr_revokedAt (gs ! n) = None")
    case True
    with assms Some n show thesis by (intro that(2) [of n]) (auto simp: retire_grant_def Let_def)
  next
    case False
    with assms Some have "gs' = gs" by (simp add: retire_grant_def)
    then show thesis by (rule that(1))
  qed
qed

text \<open>The grants of executions belong to the execution's Session.\<close>

definition grants_keyed :: "RuntimeState \<Rightarrow> bool" where
  "grants_keyed s \<longleftrightarrow> (\<forall>e \<in> set (st_toolExecutions s). \<forall>g \<in> set (st_grants s).
     gr_grantID g = te_grantID e \<longrightarrow> gr_sessionID g = te_sessionID e)"

definition execution_outcome :: "ToolExecutionState \<Rightarrow> bool" where
  "execution_outcome st \<longleftrightarrow> st = ToolExecutionSucceeded \<or> st = ToolExecutionFailed \<or> st = ToolExecutionUncertain"

lemma outcome_grants_lifecycle:
  assumes r: "retire_grant gid now (st_grants s) = (g, gs')"
    and S: "\<forall>g \<in> set (st_grants s). gr_grantID g = gid \<longrightarrow> gr_sessionID g \<in> S"
  shows "lifecycle T S now s (s\<lparr>st_grants := gs'\<rparr>)"
  using r
proof (cases rule: retire_grant_cases)
  case 1
  then show ?thesis by simp
next
  case (2 n)
  with S show ?thesis by (auto intro!: lifecycle_update(3) grant_revoke)
qed

lemma exhaustion_emits:
  assumes "exhaustion P b q e gs eff now c = (Inr d, c')" and "emits {sc_tenant (rb_scope b)} s eff (px_state c)"
  shows "emits {sc_tenant (rb_scope b)} s d (px_state c')"
proof (cases "find (\<lambda>g. gr_grantID g = te_grantID e \<and> gr_maximumUses g \<le> gr_uses g) gs")
  case None
  with assms show ?thesis by (simp add: exhaustion_def)
next
  case (Some g)
  with assms(1) obtain extra c1 extra' where
      1: "auditOnly P b ''capability_grant.exhausted'' (toc_sessionID q) (toc_turnID q) now c = (Inr extra, c1)"
    and 2: "decorateToolAuditFacts extra (auditContextForExecution e g) c1 = (Inr extra', c')"
    and d: "d = eff\<lparr>ef_audit := ef_audit eff @ ef_audit extra', ef_outbox := ef_outbox eff @ ef_outbox extra'\<rparr>"
    by (auto simp: exhaustion_def)
  have "ef_events extra' = []"
    using auditOnly_Inr(1,3,4) [OF 1] decorate_prefix(3) [OF 2] by simp
  then have "d = appendEffects eff extra'" by (simp add: d appendEffects_def)
  with emits_trans [OF assms(2) audit_only.decorated [OF 1 2]] show ?thesis by simp
qed

lemma recordToolExecutionOutcome_Inr:
  assumes "recordToolExecutionOutcome P b q now c = (Inr (r, d), c')"
  obtains i j k e e' g gs' eff c1 eff1 c2 where
    "outboxLeaseFenceCurrent (px_state c) (sc_tenant (rb_scope b)) (toc_leaseFence q) now"
    "findSession (px_state c) (rb_scope b) (toc_sessionID q) = Some i"
    "findExecution (px_state c) (rb_scope b) q = Some k" "e = st_toolExecutions (px_state c) ! k"
    "te_state e = ToolExecutionIntent"
    "e' = e\<lparr>te_state := toc_outcome q, te_result := toc_result q, te_failure := toc_failure q, te_updatedAt := now\<rparr>"
    "retire_grant (te_grantID e) now (st_grants (px_state c)) = (g, gs')"
    "effects P b (st_sessions (px_state c) ! i) (st_turns (px_state c) ! j)
       (zero_InvocationRecord\<lparr>iv_operationID := te_operationID e\<rparr>) [EventSandboxOperationFinalized] now
       (c\<lparr>px_state := (px_state c)\<lparr>st_toolExecutions := (st_toolExecutions (px_state c))[k := e'], st_grants := gs'\<rparr>\<rparr>)
       = (Inr eff, c1)"
    "decorateToolAuditFacts eff (auditContextForExecution e' g) c1 = (Inr eff1, c2)"
    "exhaustion P b q e' gs' eff1 now c2 = (Inr d, c')"
proof -
  from assms obtain i j k where 1: "outboxLeaseFenceCurrent (px_state c) (sc_tenant (rb_scope b)) (toc_leaseFence q) now"
      "findSession (px_state c) (rb_scope b) (toc_sessionID q) = Some i"
      "findTurn (px_state c) (rb_scope b) (toc_sessionID q) (toc_turnID q) = Some j"
      "findExecution (px_state c) (rb_scope b) q = Some k"
    unfolding recordToolExecutionOutcome_def by (auto split: option.splits if_splits)
  obtain g gs' where 2: "retire_grant (te_grantID (st_toolExecutions (px_state c) ! k)) now (st_grants (px_state c)) = (g, gs')"
    by fastforce
  from assms 1 2 show thesis
    by (auto simp: recordToolExecutionOutcome_def Let_def split: if_splits intro: that)
qed

lemma recordToolExecutionOutcome_commits:
  assumes "recordToolExecutionOutcome P b q now c = (Inr (r, d), c')"
    and outcome: "execution_outcome (toc_outcome q)" and keyed: "grants_keyed (px_state c)"
  shows "commits False b now (px_state c) d (px_state c')"
  using assms(1)
proof (rule recordToolExecutionOutcome_Inr)
  let ?s = "px_state c" and ?T = "sc_tenant (rb_scope b)"
  let ?S = "actor_sessions False (rb_scope b) ?s"
  fix i j k e e' g gs' eff c1 eff1 c2
  let ?s1 = "?s\<lparr>st_toolExecutions := (st_toolExecutions ?s)[k := e']\<rparr>"
  assume i: "findSession ?s (rb_scope b) (toc_sessionID q) = Some i"
    and k: "findExecution ?s (rb_scope b) q = Some k" and e: "e = st_toolExecutions ?s ! k" "te_state e = ToolExecutionIntent"
    and e': "e' = e\<lparr>te_state := toc_outcome q, te_result := toc_result q, te_failure := toc_failure q, te_updatedAt := now\<rparr>"
    and g: "retire_grant (te_grantID e) now (st_grants ?s) = (g, gs')"
    and eff: "effects P b (st_sessions ?s ! i) (st_turns ?s ! j)
       (zero_InvocationRecord\<lparr>iv_operationID := te_operationID e\<rparr>) [EventSandboxOperationFinalized] now
       (c\<lparr>px_state := ?s\<lparr>st_toolExecutions := (st_toolExecutions ?s)[k := e'], st_grants := gs'\<rparr>\<rparr>) = (Inr eff, c1)"
    and dec: "decorateToolAuditFacts eff (auditContextForExecution e' g) c1 = (Inr eff1, c2)"
    and ex: "exhaustion P b q e' gs' eff1 now c2 = (Inr d, c')"
  note f = findSessionD [OF i]
  from k e have k': "k < length (st_toolExecutions ?s)" "te_sessionID e = toc_sessionID q" "e \<in> set (st_toolExecutions ?s)"
    by (auto simp: findExecution_def)
  have step: "execution_step now e e'"
    unfolding e' by (rule execution_record [OF e(2)]) (use outcome in \<open>simp add: execution_outcome_def\<close>)
  have S: "\<forall>g \<in> set (st_grants ?s1). gr_grantID g = te_grantID e \<longrightarrow> gr_sessionID g \<in> ?S"
    using keyed k' f(6) by (auto simp: grants_keyed_def)
  note [trans] = lifecycle_trans
  have "lifecycle ?T ?S now ?s ?s1" using k' f step e by (intro lifecycle_update(5)) auto
  also have "lifecycle ?T ?S now ?s1 (?s1\<lparr>st_grants := gs'\<rparr>)"
    using g by (intro outcome_grants_lifecycle [OF _ S]) simp
  finally have l: "lifecycle ?T ?S now ?s (?s1\<lparr>st_grants := gs'\<rparr>)" .
  have "emits {?T} (?s1\<lparr>st_grants := gs'\<rparr>) eff1 (px_state c2)"
    using emits_decorate [OF effects_emits [OF eff f(2)] dec] by simp
  from exhaustion_emits [OF ex this] show ?thesis by (intro commitsI [OF l]) simp_all
qed

section \<open>Interpretations\<close>

interpretation tool_intent: command_handler "recordToolIntent P b command now" False "\<lambda>_. True" b now for P b command now
  by unfold_locales (rule recordToolIntent_commits)
interpretation tool_approval: command_handler "admitToolApproval P b command now" False "\<lambda>_. True" b now for P b command now
  by unfold_locales (rule admitToolApproval_commits)
interpretation approval_request: command_handler "requestApproval P b command now" False "\<lambda>_. True" b now for P b command now
  by unfold_locales (rule requestApproval_commits)
interpretation approval_decision: command_handler "decideApproval P b command now" False
    "\<lambda>_. dac_decision command = ApprovalApproved \<or> dac_decision command = ApprovalDenied" b now for P b command now
  by unfold_locales (rule decideApproval_commits)
interpretation grant_use: command_handler "consumeCapabilityGrant P b command now" False "\<lambda>_. True" b now for P b command now
  by unfold_locales (rule consumeCapabilityGrant_commits)
interpretation grant_revocation: command_handler "revokeCapabilityGrant P b command now" False "\<lambda>_. True" b now for P b command now
  by unfold_locales (rule revokeCapabilityGrant_commits)
interpretation grant_expiry: command_handler "expireCapabilityGrant P b command now" False "\<lambda>_. True" b now for P b command now
  by unfold_locales (rule expireCapabilityGrant_commits)
interpretation tool_denial: command_handler "denyToolAdmission P b command now" False "\<lambda>_. True" b now for P b command now
  by unfold_locales (rule denyToolAdmission_commits)
interpretation execution_intent: command_handler "beginToolExecution P b command now" False "\<lambda>_. True" b now for P b command now
  by unfold_locales (rule beginToolExecution_commits)
interpretation execution_outcome: command_handler "recordToolExecutionOutcome P b command now" False
    "\<lambda>s. execution_outcome (toc_outcome command) \<and> grants_keyed s" b now for P b command now
  by unfold_locales (auto intro: recordToolExecutionOutcome_commits)

end
