(* ===== verification/Go_Sha256.thy ===== *)
theory Go_Sha256
  imports Go_Text "HOL-Library.Word"
begin

unbundle bit_operations_syntax

text \<open>
  SHA-256 (\<^verbatim>\<open>crypto/sha256.Sum256\<close>) over byte strings and \<^verbatim>\<open>encoding/hex.EncodeToString\<close> of
  the digest, as the repository uses them for content, policy and request commitments:
  \<open>sha256_digest\<close> is the text \<^verbatim>\<open>"sha256:" + hex.EncodeToString(sum[:])\<close>.
  The only fact the proofs use is that this text always has the shape the digest
  checks of the sources accept.
\<close>

type_synonym u32 = "32 word"

definition rotr :: "nat \<Rightarrow> u32 \<Rightarrow> u32" where
  "rotr n w = (drop_bit n w) OR (push_bit (32 - n) w)"

text \<open>
  The round constants are the first 32 bits of the fractional parts of the cube roots of the first
  64 primes, the initial state those of the square roots of the first eight; they are computed
  here from that definition, by bitwise integer roots.
\<close>

primrec root_bits :: "nat \<Rightarrow> int \<Rightarrow> nat \<Rightarrow> int \<Rightarrow> int" where
  "root_bits k n 0 acc = acc"
| "root_bits k n (Suc i) acc =
     root_bits k n i (if (acc + 2 ^ i) ^ k \<le> n then acc + 2 ^ i else acc)"

definition root_fraction :: "nat \<Rightarrow> int \<Rightarrow> u32" where
  "root_fraction k p = of_int (root_bits k (p * 2 ^ (32 * k)) 40 0)"

definition sha_primes :: "nat list" where
  "sha_primes = filter (\<lambda>n. list_all (\<lambda>d. n mod d \<noteq> 0) [2..<n]) [2..<312]"

definition sha_k :: "u32 list" where
  "sha_k = map (\<lambda>p. root_fraction 3 (int p)) sha_primes"

datatype sha_state = ShaState u32 u32 u32 u32 u32 u32 u32 u32

definition sha_init :: sha_state where
  "sha_init =
     ShaState (root_fraction 2 2) (root_fraction 2 3) (root_fraction 2 5) (root_fraction 2 7)
       (root_fraction 2 11) (root_fraction 2 13) (root_fraction 2 17) (root_fraction 2 19)"

text \<open>The message schedule, newest word first: word \<open>t\<close> from words \<open>t-2\<close>, \<open>t-7\<close>, \<open>t-15\<close>, \<open>t-16\<close>.\<close>

definition sha_next :: "u32 list \<Rightarrow> u32" where
  "sha_next ws =
     (let w2 = ws ! 1; w15 = ws ! 14
      in ((rotr 17 w2) XOR (rotr 19 w2) XOR (drop_bit 10 w2)) + ws ! 6
         + ((rotr 7 w15) XOR (rotr 18 w15) XOR (drop_bit 3 w15)) + ws ! 15)"

primrec sha_expand :: "nat \<Rightarrow> u32 list \<Rightarrow> u32 list" where
  "sha_expand 0 ws = ws"
| "sha_expand (Suc n) ws = sha_expand n (sha_next ws # ws)"

fun sha_round :: "sha_state \<Rightarrow> u32 \<times> u32 \<Rightarrow> sha_state" where
  "sha_round (ShaState a b c d e f g h) (k, w) =
     (let t1 = h + ((rotr 6 e) XOR (rotr 11 e) XOR (rotr 25 e)) + ((e AND f) XOR ((NOT e) AND g)) + k + w;
          t2 = ((rotr 2 a) XOR (rotr 13 a) XOR (rotr 22 a)) + ((a AND b) XOR (a AND c) XOR (b AND c))
      in ShaState (t1 + t2) a b c (d + t1) e f g)"

fun sha_add :: "sha_state \<Rightarrow> sha_state \<Rightarrow> sha_state" where
  "sha_add (ShaState a b c d e f g h) (ShaState a' b' c' d' e' f' g' h') =
     ShaState (a + a') (b + b') (c + c') (d + d') (e + e') (f + f') (g + g') (h + h')"

fun be_words :: "nat list \<Rightarrow> u32 list" where
  "be_words (a # b # c # d # r) =
     of_nat (a * 16777216 + b * 65536 + c * 256 + d) # be_words r"
| "be_words _ = []"

definition sha_block :: "sha_state \<Rightarrow> nat list \<Rightarrow> sha_state" where
  "sha_block st bs =
     sha_add st (foldl sha_round st (zip sha_k (rev (sha_expand 48 (rev (be_words bs))))))"

fun sha_blocks :: "sha_state \<Rightarrow> nat list \<Rightarrow> sha_state" where
  "sha_blocks st bs =
     (if length bs < 64 then st else sha_blocks (sha_block st (take 64 bs)) (drop 64 bs))"

declare sha_blocks.simps [simp del]

definition be_bytes8 :: "nat \<Rightarrow> nat list" where
  "be_bytes8 n = map (\<lambda>i. n div 256 ^ (7 - i) mod 256) [0..<8]"

definition sha_pad :: "nat list \<Rightarrow> nat list" where
  "sha_pad bs =
     bs @ 128 # replicate ((119 - length bs mod 64) mod 64) 0 @ be_bytes8 (8 * length bs)"

fun sha_words :: "sha_state \<Rightarrow> u32 list" where
  "sha_words (ShaState a b c d e f g h) = [a, b, c, d, e, f, g, h]"

definition word_hex :: "u32 \<Rightarrow> string" where
  "word_hex w = map (\<lambda>i. hex_digit (unat w div 16 ^ (7 - i) mod 16)) [0..<8]"

definition sha256_hex :: "string \<Rightarrow> string" where
  "sha256_hex s = concat (map word_hex (sha_words (sha_blocks sha_init (sha_pad (map of_char s)))))"

definition sha256_digest :: "string \<Rightarrow> string" where
  "sha256_digest s = ''sha256:'' @ sha256_hex s"

lemma length_word_hex [simp]: "length (word_hex w) = 8"
  by (simp add: word_hex_def)

lemma length_sha256_hex [simp]: "length (sha256_hex s) = 64"
  by (cases "sha_blocks sha_init (sha_pad (map of_char s))") (simp add: sha256_hex_def)

lemma length_sha256_digest [simp]: "length (sha256_digest s) = 71"
  by (simp add: sha256_digest_def)

lemma hex_digit_set: "d < 16 \<Longrightarrow> hex_digit d \<in> set ''0123456789abcdef''"
proof -
  assume "d < 16"
  then have "d \<in> set [0..<16]" by simp
  moreover have "\<forall>d \<in> set [0..<16]. hex_digit d \<in> set ''0123456789abcdef''"
    by code_simp
  ultimately show ?thesis by blast
qed

lemma set_word_hex: "set (word_hex w) \<subseteq> set ''0123456789abcdef''"
proof
  fix c assume "c \<in> set (word_hex w)"
  then obtain n where "c = hex_digit (n mod 16)" by (auto simp: word_hex_def)
  then show "c \<in> set ''0123456789abcdef''" using hex_digit_set [of "n mod 16"] by simp
qed

lemma set_sha256_hex: "set (sha256_hex s) \<subseteq> set ''0123456789abcdef''"
  unfolding sha256_hex_def
  by (cases "sha_blocks sha_init (sha_pad (map of_char s))") (use set_word_hex in fastforce)

end
