(* ===== verification/Go_Json.thy ===== *)
theory Go_Json
  imports Go_Sha256
begin

text \<open>
  What the repository uses of \<^verbatim>\<open>encoding/json\<close>: the compact encoding of structs (fields in
  declaration order), slices, strings and integers, with the string escapes of \<open>Go_Text\<close>; a
  nil slice, map or pointer is \<open>null\<close>. \<open>digest_json\<close> is the SHA-256 commitment the sources write over
  such an encoding.
\<close>

datatype json =
    JNull
  | JBool bool
  | JString string
  | JNumber int
  | JArray "json list"
  | JObject "(string \<times> json) list"

definition itoa_int :: "int \<Rightarrow> string" where
  "itoa_int i = (if i < 0 then CHR ''-'' # itoa (nat (- i)) else itoa (nat i))"

fun commas :: "string list \<Rightarrow> string" where
  "commas [] = []"
| "commas [x] = x"
| "commas (x # y # xs) = x @ CHR '','' # commas (y # xs)"

fun marshal :: "json \<Rightarrow> string" where
  "marshal JNull = ''null''"
| "marshal (JBool b) = (if b then ''true'' else ''false'')"
| "marshal (JString s) = json_string s"
| "marshal (JNumber i) = itoa_int i"
| "marshal (JArray xs) = CHR ''['' # commas (map marshal xs) @ '']''"
| "marshal (JObject fs) = CHR ''{'' # commas (map (\<lambda>(k, v). json_string k @ CHR '':'' # marshal v) fs) @ ''}''"

definition digest_json :: "json \<Rightarrow> string" where
  "digest_json j = sha256_digest (marshal j)"

end
