(* ===== verification/Planner_Catalog.thy ===== *)
theory Planner_Catalog
  imports Planner_Tools Go_Json
begin

text \<open>
  The catalog handlers of \<^verbatim>\<open>internal/runtimestate/planner.go\<close>: agent revisions, policy revisions
  (with the invalidation of the approvals they supersede), artifacts and conversations, and the
  outbox leases.
\<close>

section \<open>Policy digests\<close>

definition rule_json :: "PolicyRule \<Rightarrow> json" where
  "rule_json r = JObject [(''tool_name'', JString (rule_toolName r)),
                          (''decision'', JString (policy_decision_string (rule_decision r)))]"

definition policyDigest :: "string \<Rightarrow> nat \<Rightarrow> PolicyRule list \<Rightarrow> string" where
  "policyDigest name revision rules =
     digest_json (JObject [(''version'', JString ''runtime-policy/v1''), (''name'', JString name),
       (''revision'', JNumber (int revision)),
       (''rules'', if rules = [] then JNull else JArray (map rule_json rules))])"

definition policyDigestBelongsTo :: "PolicyRevisionRecord list \<Rightarrow> string \<Rightarrow> string \<Rightarrow> bool" where
  "policyDigestBelongsTo policies name digest \<longleftrightarrow>
     list_ex (\<lambda>p. po_name p = name \<and> po_digest p = digest) policies"

section \<open>Agent revisions\<close>

text \<open>The highest revision of a table, with zero for none.\<close>

definition latest :: "('a \<Rightarrow> bool) \<Rightarrow> ('a \<Rightarrow> nat) \<Rightarrow> 'a list \<Rightarrow> nat" where
  "latest p f = foldl (\<lambda>n x. if p x \<and> n < f x then f x else n) 0"

definition new_revision ::
    "RuntimeStatePlanner \<Rightarrow> ReceiptBinding \<Rightarrow> compiledRegister \<Rightarrow> AgentID \<Rightarrow> AgentRevisionID \<Rightarrow> nat \<Rightarrow> gtime
     \<Rightarrow> AgentRevisionRecord" where
  "new_revision P b compiled aid rid revision now =
     \<lparr>ar_tenant = sc_tenant (rb_scope b), ar_agentID = aid, ar_revisionID = rid, ar_revision = revision,
      ar_name = asc_name (cr_commitment compiled), ar_modelProfile = asc_modelProfile (cr_commitment compiled),
      ar_specification = asc_reference (cr_commitment compiled), ar_createdAt = now,
      ar_retainUntil = retain P now DataClassAgentRevision\<rparr>"

definition register ::
    "RuntimeStatePlanner \<Rightarrow> ReceiptBinding \<Rightarrow> compiledRegister \<Rightarrow> gtime \<Rightarrow> (PlanResult \<times> EffectSet) pm" where
  "register P b compiled now =
     pbind pget (\<lambda>s.
     let command = cr_command compiled;
         known = latest (\<lambda>r. ar_tenant r = sc_tenant (rb_scope b) \<and> ar_agentID r = rac_agentID command)
                   ar_revision (st_revisions s)
     in pbind (if rac_agentID command = [] then pbind (agentID P) (\<lambda>aid. pure (aid, 1))
               else if known \<noteq> rac_expectedRevision command then pfail ErrConflict
               else pure (rac_agentID command, known + 1)) (\<lambda>(aid, revision).
        pbind (revisionID P) (\<lambda>rid.
        let r = new_revision P b compiled aid rid revision now
        in pbind (pmodify (\<lambda>s. s\<lparr>st_revisions := st_revisions s @ [r]\<rparr>)) (\<lambda>_.
           pbind (auditOnly P b ''agent_revision.registered'' [] [] now) (\<lambda>eff.
           pbind (catalogOutbox P b r now (retain P now DataClassOutbox)) (\<lambda>route.
           pbind (pmodify (add_outbox route)) (\<lambda>_.
           pure (zero_PlanResult\<lparr>pr_revision := r\<rparr>, eff_outbox route eff))))))))"

section \<open>Policy revisions\<close>

definition invalidatePendingApproval ::
    "RuntimeStatePlanner \<Rightarrow> ReceiptBinding \<Rightarrow> nat \<Rightarrow> gtime \<Rightarrow> EffectSet pm" where
  "invalidatePendingApproval P b n now =
     pbind pget (\<lambda>s.
     let a = st_approvals s ! n;
         scope = \<lparr>sc_tenant = ap_tenant a, sc_principal = ap_principal a, sc_authority = AuthorityUnset\<rparr>
     in case (findSession s scope (ap_sessionID a), findTurn s scope (ap_sessionID a) (ap_turnID a)) of
          (Some i, Some j) \<Rightarrow>
            let x = st_sessions s ! i; t = st_turns s ! j in
            if tu_state t \<noteq> TurnWaitingForApproval then pfail ErrConflict
            else
              let approval = a\<lparr>ap_state := ApprovalCancelled\<rparr>;
                  turn = t\<lparr>tu_state := TurnCancelled, tu_version := tu_version t + 1, tu_completedAt := Some now\<rparr>;
                  session = x\<lparr>ss_version := ss_version x + 1, ss_updatedAt := now\<rparr>;
                  (promoted, s1) = promote (s\<lparr>st_approvals := (st_approvals s)[n := approval],
                                             st_turns := (st_turns s)[j := turn]\<rparr>) (ss_sessionID x) now;
                  kinds = (if promoted = None then [EventTurnCancelled] else [EventTurnCancelled, EventTurnStarted])
              in pbind (pput (s1\<lparr>st_sessions := (st_sessions s1)[i := session]\<rparr>)) (\<lambda>_.
                 pbind (effects P b session turn zero_InvocationRecord kinds now) (\<lambda>eff.
                 pbind (invalidatedApprovalEffects P b session turn approval now) (\<lambda>extra.
                 pure (appendEffects eff extra))))
        | _ \<Rightarrow> pfail ErrConflict)"

text \<open>The loop over the approvals table by index: only this handler changes the table meanwhile, in
  place, so its length stays.\<close>

fun invalidate_from ::
    "RuntimeStatePlanner \<Rightarrow> ReceiptBinding \<Rightarrow> string \<Rightarrow> gtime \<Rightarrow> nat list \<Rightarrow> EffectSet \<Rightarrow> EffectSet pm" where
  "invalidate_from P b name now [] eff = pure eff"
| "invalidate_from P b name now (n # ns) eff =
     pbind pget (\<lambda>s.
     let a = st_approvals s ! n in
     if ap_tenant a \<noteq> sc_tenant (rb_scope b) \<or> ap_state a \<noteq> ApprovalPending
        \<or> \<not> policyDigestBelongsTo (st_policies s) name (ap_policyRevisionDigest a)
     then invalidate_from P b name now ns eff
     else pbind (invalidatePendingApproval P b n now) (\<lambda>extra.
          invalidate_from P b name now ns (appendEffects eff extra)))"

definition registerPolicy ::
    "RuntimeStatePlanner \<Rightarrow> ReceiptBinding \<Rightarrow> RegisterPolicyRevisionCommand \<Rightarrow> gtime
     \<Rightarrow> (PlanResult \<times> EffectSet) pm" where
  "registerPolicy P b command now =
     pbind pget (\<lambda>s.
     let known = latest (\<lambda>p. po_tenant p = sc_tenant (rb_scope b) \<and> po_name p = rpc_name command)
                   po_revision (st_policies s)
     in if known \<noteq> rpc_expectedRevision command then pfail ErrConflict
        else
          let r = \<lparr>po_tenant = sc_tenant (rb_scope b), po_name = rpc_name command, po_revision = known + 1,
                po_digest = policyDigest (rpc_name command) (known + 1) (rpc_rules command),
                po_rules = rpc_rules command, po_createdAt = now,
                po_retainUntil = retain P now DataClassPolicy\<rparr>
          in pbind (pput (s\<lparr>st_policies := st_policies s @ [r]\<rparr>)) (\<lambda>_.
             pbind (auditOnly P b ''policy_revision.registered'' [] [] now) (\<lambda>eff.
             pbind (invalidate_from P b (rpc_name command) now [0..<length (st_approvals s)] eff) (\<lambda>eff.
             pure (zero_PlanResult\<lparr>pr_policy := r\<rparr>, eff)))))"

section \<open>Artifacts and conversations\<close>

definition new_artifact ::
    "RuntimeStatePlanner \<Rightarrow> ReceiptBinding \<Rightarrow> compiledArtifact \<Rightarrow> ArtifactID \<Rightarrow> gtime \<Rightarrow> ArtifactRecord" where
  "new_artifact P b compiled aid now =
     \<lparr>at_tenant = sc_tenant (rb_scope b), at_principal = sc_principal (rb_scope b), at_artifactID = aid,
      at_sessionID = arc_sessionID (cf_command compiled), at_turnID = arc_turnID (cf_command compiled),
      at_reference = cc_reference (cf_commitment compiled), at_createdAt = now,
      at_retainUntil = retain P now DataClassArtifact\<rparr>"

definition registerArtifact ::
    "RuntimeStatePlanner \<Rightarrow> ReceiptBinding \<Rightarrow> compiledArtifact \<Rightarrow> gtime \<Rightarrow> (PlanResult \<times> EffectSet) pm" where
  "registerArtifact P b compiled now =
     pbind pget (\<lambda>s.
     let command = cf_command compiled in
     if \<not> outboxLeaseFenceCurrent s (sc_tenant (rb_scope b)) (arc_leaseFence command) now
     then pfail ErrConflict
     else case findTurn s (rb_scope b) (arc_sessionID command) (arc_turnID command) of
       None \<Rightarrow> pfail ErrNotFoundOrDenied
     | Some j \<Rightarrow>
         pbind (artifactID P) (\<lambda>aid.
         let r = new_artifact P b compiled aid now
         in pbind (pmodify (\<lambda>s. s\<lparr>st_artifacts := st_artifacts s @ [r]\<rparr>)) (\<lambda>_.
            pbind (auditOnly P b ''artifact.registered'' (arc_sessionID command) (arc_turnID command) now) (\<lambda>eff.
            pbind (artifactOutbox P b r now (retain P now DataClassOutbox)) (\<lambda>route.
            pbind (pmodify (add_outbox route)) (\<lambda>_.
            pure (zero_PlanResult\<lparr>pr_artifact := r\<rparr>, eff_outbox route eff)))))))"

definition new_conversation ::
    "RuntimeStatePlanner \<Rightarrow> ReceiptBinding \<Rightarrow> compiledConversation \<Rightarrow> nat \<Rightarrow> gtime \<Rightarrow> ConversationRecord" where
  "new_conversation P b compiled version now =
     \<lparr>cv_tenant = sc_tenant (rb_scope b), cv_principal = sc_principal (rb_scope b),
      cv_sessionID = acc_sessionID (cn_command compiled), cv_version = version,
      cv_reference = cc_reference (cn_commitment compiled), cv_createdAt = now,
      cv_retainUntil = retain P now DataClassConversation\<rparr>"

definition appendConversation ::
    "RuntimeStatePlanner \<Rightarrow> ReceiptBinding \<Rightarrow> compiledConversation \<Rightarrow> gtime \<Rightarrow> (PlanResult \<times> EffectSet) pm" where
  "appendConversation P b compiled now =
     pbind pget (\<lambda>s.
     let command = cn_command compiled in
     case findSession s (rb_scope b) (acc_sessionID command) of
       None \<Rightarrow> pfail ErrNotFoundOrDenied
     | Some i \<Rightarrow>
         let version = latest (\<lambda>v. cv_sessionID v = acc_sessionID command) cv_version (st_conversations s) in
         if acc_expectedVersion command \<noteq> version then pfail ErrConflict
         else
           let r = new_conversation P b compiled (version + 1) now
           in pbind (pput (s\<lparr>st_conversations := st_conversations s @ [r]\<rparr>)) (\<lambda>_.
              pbind (auditOnly P b ''conversation.appended'' (acc_sessionID command) [] now) (\<lambda>eff.
              pbind (conversationOutbox P b r now (retain P now DataClassOutbox)) (\<lambda>route.
              pbind (pmodify (add_outbox route)) (\<lambda>_.
              pure (zero_PlanResult\<lparr>pr_conversation := r\<rparr>, eff_outbox route eff))))))"

section \<open>Outbox leases\<close>

text \<open>Every lease command but the ones on audit routes leaves an audit fact of its own.\<close>

definition lease_effects ::
    "RuntimeStatePlanner \<Rightarrow> ReceiptBinding \<Rightarrow> OutboxRecord \<Rightarrow> string \<Rightarrow> gtime \<Rightarrow> (PlanResult \<times> EffectSet) pm" where
  "lease_effects P b r kind now =
     (if ob_aggregate r = ''audit_fact'' then pure (zero_PlanResult\<lparr>pr_outbox := r\<rparr>, zero_EffectSet)
      else pbind (auditOnly P b kind (ob_sessionID r) (ob_turnID r) now) (\<lambda>eff.
           pure (zero_PlanResult\<lparr>pr_outbox := r\<rparr>, eff)))"

definition claim ::
    "RuntimeStatePlanner \<Rightarrow> ReceiptBinding \<Rightarrow> ClaimOutboxCommand \<Rightarrow> gtime \<Rightarrow> (PlanResult \<times> EffectSet) pm" where
  "claim P b command now =
     pbind pget (\<lambda>s.
     case findOutbox s (sc_tenant (rb_scope b)) (coc_outboxID command) of
       None \<Rightarrow> pfail ErrNotFoundOrDenied
     | Some k \<Rightarrow>
         let r = st_outbox s ! k;
             free = ob_state r = OutboxPending
               \<or> ob_state r = OutboxClaimed \<and> (case ob_claimUntil r of None \<Rightarrow> False | Some u \<Rightarrow> \<not> After u now)
         in if ob_version r \<noteq> coc_expectedVersion command \<or> \<not> free \<or> \<not> After (coc_claimUntil command) now
            then pfail ErrConflict
            else
              let r' = r\<lparr>ob_state := OutboxClaimed, ob_claimedBy := coc_claimer command,
                         ob_claimUntil := Some (coc_claimUntil command), ob_version := ob_version r + 1\<rparr>
              in pbind (pput (s\<lparr>st_outbox := (st_outbox s)[k := r']\<rparr>)) (\<lambda>_.
                 lease_effects P b r' ''outbox.claimed'' now))"

definition renew ::
    "RuntimeStatePlanner \<Rightarrow> ReceiptBinding \<Rightarrow> RenewOutboxCommand \<Rightarrow> gtime \<Rightarrow> (PlanResult \<times> EffectSet) pm" where
  "renew P b command now =
     pbind pget (\<lambda>s.
     case findOutbox s (sc_tenant (rb_scope b)) (roc_outboxID command) of
       None \<Rightarrow> pfail ErrNotFoundOrDenied
     | Some k \<Rightarrow>
         let r = st_outbox s ! k in
         if ob_version r \<noteq> roc_expectedVersion command \<or> ob_state r \<noteq> OutboxClaimed
            \<or> ob_claimedBy r \<noteq> roc_claimer command
            \<or> (case ob_claimUntil r of None \<Rightarrow> True
               | Some u \<Rightarrow> \<not> After u now \<or> \<not> After (roc_claimUntil command) u)
         then pfail ErrConflict
         else
           let r' = r\<lparr>ob_claimUntil := Some (roc_claimUntil command), ob_version := ob_version r + 1\<rparr>
           in pbind (pput (s\<lparr>st_outbox := (st_outbox s)[k := r']\<rparr>)) (\<lambda>_.
              lease_effects P b r' ''outbox.renewed'' now))"

definition acknowledge ::
    "RuntimeStatePlanner \<Rightarrow> ReceiptBinding \<Rightarrow> AcknowledgeOutboxCommand \<Rightarrow> gtime
     \<Rightarrow> (PlanResult \<times> EffectSet) pm" where
  "acknowledge P b command now =
     pbind pget (\<lambda>s.
     case findOutbox s (sc_tenant (rb_scope b)) (aoc_outboxID command) of
       None \<Rightarrow> pfail ErrNotFoundOrDenied
     | Some k \<Rightarrow>
         let r = st_outbox s ! k in
         if ob_version r \<noteq> aoc_expectedVersion command \<or> ob_state r \<noteq> OutboxClaimed
            \<or> ob_claimedBy r \<noteq> aoc_claimer command
            \<or> (case ob_claimUntil r of None \<Rightarrow> True | Some u \<Rightarrow> \<not> After u now)
         then pfail ErrConflict
         else
           let r' = r\<lparr>ob_state := OutboxPublished, ob_version := ob_version r + 1, ob_claimUntil := None\<rparr>
           in pbind (pput (s\<lparr>st_outbox := (st_outbox s)[k := r']\<rparr>)) (\<lambda>_.
              lease_effects P b r' ''outbox.published'' now))"


section \<open>The handlers refine the specification\<close>

lemma register_commits:
  assumes "register P b compiled now c = (Inr (r, d), c')"
  shows "commits False b now (px_state c) d (px_state c')"
proof -
  let ?s = "px_state c" and ?T = "sc_tenant (rb_scope b)"
  from assms obtain aid revision c1 rid c2 eff c3 route c4 where
      a: "(if rac_agentID (cr_command compiled) = [] then pbind (agentID P) (\<lambda>aid. pure (aid, 1))
           else if latest (\<lambda>r. ar_tenant r = ?T \<and> ar_agentID r = rac_agentID (cr_command compiled)) ar_revision (st_revisions ?s)
                     \<noteq> rac_expectedRevision (cr_command compiled) then pfail ErrConflict
           else pure (rac_agentID (cr_command compiled),
             latest (\<lambda>r. ar_tenant r = ?T \<and> ar_agentID r = rac_agentID (cr_command compiled)) ar_revision (st_revisions ?s) + 1)) c
          = (Inr (aid, revision), c1)"
    and rid: "revisionID P c1 = (Inr rid, c2)"
    and eff: "auditOnly P b ''agent_revision.registered'' [] [] now
       (c2\<lparr>px_state := (px_state c2)\<lparr>st_revisions := st_revisions (px_state c2) @ [new_revision P b compiled aid rid revision now]\<rparr>\<rparr>) = (Inr eff, c3)"
    and route: "catalogOutbox P b (new_revision P b compiled aid rid revision now) now (retain P now DataClassOutbox) c3 = (Inr route, c4)"
    and out: "c' = c4\<lparr>px_state := add_outbox route (px_state c4)\<rparr>" "d = eff_outbox route eff"
    by (auto simp: register_def Let_def)
  have "px_state c1 = ?s" using a by (auto split: if_splits dest: drawsD)
  moreover have "px_state c2 = px_state c1" using rid by (auto dest: drawsD)
  ultimately have c2: "px_state c2 = ?s" by simp
  from emits_route [OF auditOnly_emits [OF eff], of c4 route] route_Inr(3) [OF route]
  have e: "emits {?T} (?s\<lparr>st_revisions := st_revisions ?s @ [new_revision P b compiled aid rid revision now]\<rparr>) d (px_state c')"
    by (simp add: out c2)
  show ?thesis
    by (rule commitsI [OF _ _ _ _ e]) (simp_all add: lifecycle_append(11) new_revision_def)
qed

lemma registerArtifact_commits:
  assumes "registerArtifact P b compiled now c = (Inr (r, d), c')"
  shows "commits False b now (px_state c) d (px_state c')"
proof -
  let ?s = "px_state c" and ?T = "sc_tenant (rb_scope b)" and ?q = "cf_command compiled"
  from assms obtain j aid c1 eff c2 route c3 where
      j: "findTurn ?s (rb_scope b) (arc_sessionID ?q) (arc_turnID ?q) = Some j"
    and aid: "artifactID P c = (Inr aid, c1)"
    and eff: "auditOnly P b ''artifact.registered'' (arc_sessionID ?q) (arc_turnID ?q) now
       (c1\<lparr>px_state := (px_state c1)\<lparr>st_artifacts := st_artifacts (px_state c1) @ [new_artifact P b compiled aid now]\<rparr>\<rparr>) = (Inr eff, c2)"
    and route: "artifactOutbox P b (new_artifact P b compiled aid now) now (retain P now DataClassOutbox) c2 = (Inr route, c3)"
    and out: "c' = c3\<lparr>px_state := add_outbox route (px_state c3)\<rparr>" "d = eff_outbox route eff"
    by (auto simp: registerArtifact_def Let_def split: option.splits if_splits)
  have c1: "px_state c1 = ?s" using aid by (auto dest: drawsD)
  from emits_route [OF auditOnly_emits [OF eff], of c3 route] route_Inr(4) [OF route]
  have e: "emits {?T} (?s\<lparr>st_artifacts := st_artifacts ?s @ [new_artifact P b compiled aid now]\<rparr>) d (px_state c')"
    by (simp add: out c1 new_artifact_def)
  show ?thesis
    by (rule commitsI [OF _ _ _ _ e])
      (simp_all add: lifecycle_append(8) artifact_fresh_def new_artifact_def findTurnD [OF j])
qed

lemma appendConversation_commits:
  assumes "appendConversation P b compiled now c = (Inr (r, d), c')"
  shows "commits False b now (px_state c) d (px_state c')"
proof -
  let ?s = "px_state c" and ?T = "sc_tenant (rb_scope b)" and ?q = "cn_command compiled"
  from assms obtain i v eff c2 route c3 where
      i: "findSession ?s (rb_scope b) (acc_sessionID ?q) = Some i"
    and eff: "auditOnly P b ''conversation.appended'' (acc_sessionID ?q) [] now
       (c\<lparr>px_state := ?s\<lparr>st_conversations := st_conversations ?s @ [new_conversation P b compiled v now]\<rparr>\<rparr>) = (Inr eff, c2)"
    and route: "conversationOutbox P b (new_conversation P b compiled v now) now (retain P now DataClassOutbox) c2 = (Inr route, c3)"
    and out: "c' = c3\<lparr>px_state := add_outbox route (px_state c3)\<rparr>" "d = eff_outbox route eff"
    by (auto simp: appendConversation_def Let_def split: option.splits if_splits)
  from emits_route [OF auditOnly_emits [OF eff], of c3 route] route_Inr(6) [OF route]
  have e: "emits {?T} (?s\<lparr>st_conversations := st_conversations ?s @ [new_conversation P b compiled v now]\<rparr>) d (px_state c')"
    by (simp add: out new_conversation_def)
  show ?thesis
    by (rule commitsI [OF _ _ _ _ e])
      (simp_all add: lifecycle_append(9) conversation_fresh_def new_conversation_def findSessionD [OF i])
qed

subsection \<open>Outbox leases\<close>

lemma lease_effects_emits:
  assumes "lease_effects P b r kind now c = (Inr (x, d), c')"
  shows "emits {sc_tenant (rb_scope b)} (px_state c) d (px_state c')"
  using assms by (auto simp: lease_effects_def split: if_splits intro: auditOnly_emits)

lemma findOutboxD:
  assumes "findOutbox s tenant i = Some k"
  shows "k < length (st_outbox s)" "ob_tenant (st_outbox s ! k) = tenant" "ob_outboxID (st_outbox s ! k) = i"
  using assms by (auto simp: findOutbox_def)

lemma leased_commits:
  assumes k: "findOutbox s (sc_tenant (rb_scope b)) i = Some k" and step: "outbox_step now (st_outbox s ! k) r"
    and eff: "lease_effects P b r kind now (c\<lparr>px_state := s\<lparr>st_outbox := (st_outbox s)[k := r]\<rparr>\<rparr>) = (Inr (x, d), c')"
  shows "commits False b now s d (px_state c')"
  unfolding commits_def
  using lease_effects_emits [OF eff] findOutboxD [OF k] step
  by (intro exI [of _ "s\<lparr>st_outbox := (st_outbox s)[k := r]\<rparr>"]) (auto simp: lifecycle_def intro!: evolves_update)

lemma claim_Inr:
  assumes "claim P b command now c = (Inr (x, d), c')"
  obtains k r r' where "findOutbox (px_state c) (sc_tenant (rb_scope b)) (coc_outboxID command) = Some k"
    "r = st_outbox (px_state c) ! k" "ob_version r = coc_expectedVersion command" "claimable now r"
    "After (coc_claimUntil command) now"
    "r' = r\<lparr>ob_state := OutboxClaimed, ob_claimedBy := coc_claimer command,
            ob_claimUntil := Some (coc_claimUntil command), ob_version := Suc (ob_version r)\<rparr>"
    "lease_effects P b r' ''outbox.claimed'' now
       (c\<lparr>px_state := (px_state c)\<lparr>st_outbox := (st_outbox (px_state c))[k := r']\<rparr>\<rparr>) = (Inr (x, d), c')"
  using assms by (auto simp: claim_def Let_def claimable_def split: option.splits if_splits)

lemma claim_commits:
  assumes "claim P b command now c = (Inr (x, d), c')"
  shows "commits False b now (px_state c) d (px_state c')"
  by (rule claim_Inr [OF assms]) (auto intro: leased_commits outbox_claim)

lemma renew_Inr:
  assumes "renew P b command now c = (Inr (x, d), c')"
  obtains k r r' where "findOutbox (px_state c) (sc_tenant (rb_scope b)) (roc_outboxID command) = Some k"
    "r = st_outbox (px_state c) ! k" "ob_version r = roc_expectedVersion command" "live_claim now r"
    "ob_claimedBy r = roc_claimer command" "After (roc_claimUntil command) (the (ob_claimUntil r))"
    "r' = r\<lparr>ob_claimUntil := Some (roc_claimUntil command), ob_version := Suc (ob_version r)\<rparr>"
    "lease_effects P b r' ''outbox.renewed'' now
       (c\<lparr>px_state := (px_state c)\<lparr>st_outbox := (st_outbox (px_state c))[k := r']\<rparr>\<rparr>) = (Inr (x, d), c')"
  using assms by (auto simp: renew_def Let_def live_claim_def split: option.splits if_splits)

lemma renew_commits:
  assumes "renew P b command now c = (Inr (x, d), c')"
  shows "commits False b now (px_state c) d (px_state c')"
  by (rule renew_Inr [OF assms]) (auto intro: leased_commits outbox_renew)

lemma acknowledge_Inr:
  assumes "acknowledge P b command now c = (Inr (x, d), c')"
  obtains k r r' where "findOutbox (px_state c) (sc_tenant (rb_scope b)) (aoc_outboxID command) = Some k"
    "r = st_outbox (px_state c) ! k" "ob_version r = aoc_expectedVersion command" "live_claim now r"
    "ob_claimedBy r = aoc_claimer command"
    "r' = r\<lparr>ob_state := OutboxPublished, ob_version := Suc (ob_version r), ob_claimUntil := None\<rparr>"
    "lease_effects P b r' ''outbox.published'' now
       (c\<lparr>px_state := (px_state c)\<lparr>st_outbox := (st_outbox (px_state c))[k := r']\<rparr>\<rparr>) = (Inr (x, d), c')"
  using assms by (auto simp: acknowledge_def Let_def live_claim_def split: option.splits if_splits)

lemma acknowledge_commits:
  assumes "acknowledge P b command now c = (Inr (x, d), c')"
  shows "commits False b now (px_state c) d (px_state c')"
  by (rule acknowledge_Inr [OF assms]) (auto intro: leased_commits outbox_publish)


subsection \<open>Policy revisions\<close>

text \<open>The effects of a step do not depend on the tables they leave alone.\<close>

lemma emits_recore:
  assumes "emits T a d b" and "st_events b' = st_events b" "st_audit b' = st_audit b" "st_outbox b' = st_outbox b"
  shows "emits T (b'\<lparr>st_events := st_events a, st_audit := st_audit a, st_outbox := st_outbox a\<rparr>) d b'"
  using assms by (simp add: emits_def core_def links_def)

lemma lifecycle_core:
  assumes "lifecycle T S now s m" and "core m' = core m"
  shows "lifecycle T S now s m'"
proof -
  note f = core_eq_fields [OF assms(2)]
  have "session_keys m' = session_keys m" "turn_keys m' = turn_keys m" "grant_approval m' = grant_approval m"
      "approval_intent m' = approval_intent m" "execution_grant m' = execution_grant m"
    by (auto simp: session_keys_def turn_keys_def grant_approval_def approval_intent_def execution_grant_def fun_eq_iff f)
  with assms(1) show ?thesis unfolding lifecycle_def fresh_defs f by simp
qed

lemma commits_then:
  assumes 1: "commits admin b now s d1 s1"
    and 2: "lifecycle (sc_tenant (rb_scope b)) (actor_sessions admin (rb_scope b) s) now s1 m2"
      "st_events m2 = st_events s1" "st_audit m2 = st_audit s1" "st_outbox m2 = st_outbox s1"
    and 3: "emits {sc_tenant (rb_scope b)} m2 d2 s2"
  shows "commits admin b now s (appendEffects d1 d2) s2"
proof -
  let ?T = "sc_tenant (rb_scope b)" and ?S = "actor_sessions admin (rb_scope b) s"
  from 1 obtain m1 where m1: "lifecycle ?T ?S now s m1" "st_events m1 = st_events s" "st_audit m1 = st_audit s"
      "evolves (\<lambda>r. ob_tenant r = ?T) (outbox_step now) (\<lambda>_. False) (st_outbox s) (st_outbox m1)"
      "emits {?T} m1 d1 s1"
    by (auto simp: commits_def)
  let ?m = "m2\<lparr>st_events := st_events m1, st_audit := st_audit m1, st_outbox := st_outbox m1\<rparr>"
  have "lifecycle ?T ?S now s s1" by (rule lifecycle_core [OF m1(1) emits_core [OF m1(5)]])
  from lifecycle_trans [OF this 2(1)] have "lifecycle ?T ?S now s ?m"
    by (rule lifecycle_core) (simp add: core_def)
  moreover from emits_trans [OF emits_recore [OF m1(5) 2(2-4)] 3] have "emits {?T} ?m (appendEffects d1 d2) s2" .
  ultimately show ?thesis unfolding commits_def using m1 by (intro exI [of _ ?m]) simp
qed

lemma keys_update:
  "i < length (st_sessions s) \<Longrightarrow> session_ident x = session_ident (st_sessions s ! i) \<Longrightarrow>
     session_keys (s\<lparr>st_sessions := (st_sessions s)[i := x]\<rparr>) = session_keys s"
  "j < length (st_turns s) \<Longrightarrow> turn_key t = turn_key (st_turns s ! j) \<Longrightarrow>
     turn_keys (s\<lparr>st_turns := (st_turns s)[j := t]\<rparr>) = turn_keys s"
  by (simp_all only: session_keys_def turn_keys_def set_map [symmetric]) (simp_all add: map_list_update_same)

lemma promote_keys:
  assumes "promote s sid now = (p, s')"
  shows "session_keys s' = session_keys s" "turn_keys s' = turn_keys s"
  using assms by (auto elim!: promote_cases simp: keys_update(2) turn_key_def)

lemma invalidate_Inr:
  assumes "invalidatePendingApproval P b n now c = (Inr d, c')"
  defines "a \<equiv> st_approvals (px_state c) ! n"
  obtains i j x t turn p s1 session kinds eff c1 extra where
    "findSession (px_state c) \<lparr>sc_tenant = ap_tenant a, sc_principal = ap_principal a, sc_authority = AuthorityUnset\<rparr>
       (ap_sessionID a) = Some i"
    "findTurn (px_state c) \<lparr>sc_tenant = ap_tenant a, sc_principal = ap_principal a, sc_authority = AuthorityUnset\<rparr>
       (ap_sessionID a) (ap_turnID a) = Some j"
    "x = st_sessions (px_state c) ! i" "t = st_turns (px_state c) ! j" "tu_state t = TurnWaitingForApproval"
    "turn = t\<lparr>tu_state := TurnCancelled, tu_version := Suc (tu_version t), tu_completedAt := Some now\<rparr>"
    "promote ((px_state c)\<lparr>st_approvals := (st_approvals (px_state c))[n := a\<lparr>ap_state := ApprovalCancelled\<rparr>],
       st_turns := (st_turns (px_state c))[j := turn]\<rparr>) (ss_sessionID x) now = (p, s1)"
    "session = x\<lparr>ss_version := Suc (ss_version x), ss_updatedAt := now\<rparr>"
    "effects P b session turn zero_InvocationRecord kinds now
       (c\<lparr>px_state := s1\<lparr>st_sessions := (st_sessions s1)[i := session]\<rparr>\<rparr>) = (Inr eff, c1)"
    "terminalApprovalEffects P b session turn (a\<lparr>ap_state := ApprovalCancelled\<rparr>) now ''approval.policy_invalidated'' c1 = (Inr extra, c')"
    "d = appendEffects eff extra"
  using assms(1) unfolding a_def
  by (auto simp: invalidatePendingApproval_def invalidatedApprovalEffects_def Let_def
      split: option.splits if_splits prod.splits)

lemma invalidate_step:
  assumes d: "invalidatePendingApproval P b n now c = (Inr d, c')"
    and n: "n < length (st_approvals (px_state c))" "ap_tenant (st_approvals (px_state c) ! n) = sc_tenant (rb_scope b)"
      "ap_state (st_approvals (px_state c) ! n) = ApprovalPending"
  obtains m where "lifecycle (sc_tenant (rb_scope b)) (actor_sessions True (rb_scope b) (px_state c)) now (px_state c) m"
    "st_events m = st_events (px_state c)" "st_audit m = st_audit (px_state c)" "st_outbox m = st_outbox (px_state c)"
    "emits {sc_tenant (rb_scope b)} m d (px_state c')" "session_keys m = session_keys (px_state c)"
    "turn_keys m = turn_keys (px_state c)" "length (st_approvals m) = length (st_approvals (px_state c))"
proof (rule invalidate_Inr [OF d])
  let ?s = "px_state c" and ?a = "st_approvals (px_state c) ! n" and ?T = "sc_tenant (rb_scope b)"
  let ?scope = "\<lparr>sc_tenant = ap_tenant ?a, sc_principal = ap_principal ?a, sc_authority = AuthorityUnset\<rparr>"
  let ?S = "actor_sessions True (rb_scope b) ?s"
  fix i j x t turn p session kinds eff c1 extra and s1 :: RuntimeState
  let ?u = "?s\<lparr>st_approvals := (st_approvals ?s)[n := ?a\<lparr>ap_state := ApprovalCancelled\<rparr>]\<rparr>"
  let ?v = "?u\<lparr>st_turns := (st_turns ?u)[j := turn]\<rparr>"
  let ?m = "s1\<lparr>st_sessions := (st_sessions s1)[i := session]\<rparr>"
  assume i: "findSession ?s ?scope (ap_sessionID ?a) = Some i" and j: "findTurn ?s ?scope (ap_sessionID ?a) (ap_turnID ?a) = Some j"
    and xt: "x = st_sessions ?s ! i" "t = st_turns ?s ! j" "tu_state t = TurnWaitingForApproval"
    and turn: "turn = t\<lparr>tu_state := TurnCancelled, tu_version := Suc (tu_version t), tu_completedAt := Some now\<rparr>"
    and p: "promote (?s\<lparr>st_approvals := (st_approvals ?s)[n := ?a\<lparr>ap_state := ApprovalCancelled\<rparr>],
       st_turns := (st_turns ?s)[j := turn]\<rparr>) (ss_sessionID x) now = (p, s1)"
    and session: "session = x\<lparr>ss_version := Suc (ss_version x), ss_updatedAt := now\<rparr>"
    and eff: "effects P b session turn zero_InvocationRecord kinds now (c\<lparr>px_state := ?m\<rparr>) = (Inr eff, c1)"
    and ex: "terminalApprovalEffects P b session turn (?a\<lparr>ap_state := ApprovalCancelled\<rparr>) now ''approval.policy_invalidated'' c1 = (Inr extra, c')"
    and dd: "d = appendEffects eff extra"
  note f = findSessionD [OF i, folded xt] and g = findTurnD [OF j, folded xt]
  from findSessionD(5) [OF i] have "(sc_tenant (rb_scope b), ap_principal ?a, ap_sessionID ?a) \<in> session_keys ?s"
    using n(2) by simp
  then have S: "ap_sessionID ?a \<in> ?S" by (auto simp: actor_sessions_def)
  from p have p': "promote ?v (ss_sessionID x) now = (p, s1)" by simp
  note fr = promote_frame [OF p'] and ks = promote_keys [OF p']
  note [trans] = lifecycle_trans
  have "lifecycle ?T ?S now ?s ?u" using n S by (intro lifecycle_update(4)) (auto intro: approval_withdraw)
  also have "lifecycle ?T ?S now ?u ?v"
    using g S xt by (intro lifecycle_update(2)) (auto simp: turn pending_turn_def intro: turn_cancel)
  also have "lifecycle ?T ?S now ?v s1" using promote_lifecycle [OF p'] S f by simp
  also have "lifecycle ?T ?S now s1 ?m"
    using f S xt fr by (intro lifecycle_update(1)) (auto simp: session intro: session_touch)
  finally have l: "lifecycle ?T ?S now ?s ?m" .
  have t: "ss_tenant session = ?T" using f n by (simp add: session)
  have e: "emits {?T} ?m d (px_state c')"
    unfolding dd using approval_emitter.after [OF effects_emits [OF eff t] ex] t by simp
  have sk: "session_keys ?m = session_keys s1"
    using f xt fr by (intro keys_update(1)) (auto simp: session session_ident_def)
  have tk: "turn_keys ?v = turn_keys ?u"
    using g xt by (intro keys_update(2)) (auto simp: turn turn_key_def)
  have "length (st_approvals s1) = length (st_approvals ?s)"
    using p' by (auto elim!: promote_cases)
  with l e sk tk ks fr show thesis
    by (intro that [of ?m]) (simp_all add: session_keys_def turn_keys_def)
qed

lemma invalidate_from_commits:
  assumes "invalidate_from P b name now ns eff c = (Inr d, c')"
    and "commits True b now s eff (px_state c)"
    and "session_keys (px_state c) = session_keys s" "turn_keys (px_state c) = turn_keys s"
    and "\<forall>n \<in> set ns. n < length (st_approvals (px_state c))"
  shows "commits True b now s d (px_state c')"
  using assms
proof (induction ns arbitrary: eff c)
  case Nil
  then show ?case by simp
next
  case (Cons n ns)
  let ?a = "st_approvals (px_state c) ! n"
  show ?case
  proof (cases "ap_tenant ?a \<noteq> sc_tenant (rb_scope b) \<or> ap_state ?a \<noteq> ApprovalPending
        \<or> \<not> policyDigestBelongsTo (st_policies (px_state c)) name (ap_policyRevisionDigest ?a)")
    case True
    with Cons.prems show ?thesis by (intro Cons.IH) (auto simp: Let_def)
  next
    case False
    with Cons.prems(1) obtain extra c1 where ex: "invalidatePendingApproval P b n now c = (Inr extra, c1)"
      and rest: "invalidate_from P b name now ns (appendEffects eff extra) c1 = (Inr d, c')"
      by (auto simp: Let_def)
    have S: "actor_sessions True (rb_scope b) (px_state c) = actor_sessions True (rb_scope b) s"
      using Cons.prems by (simp add: actor_sessions_def)
    obtain m where m: "lifecycle (sc_tenant (rb_scope b)) (actor_sessions True (rb_scope b) (px_state c)) now (px_state c) m"
        "st_events m = st_events (px_state c)" "st_audit m = st_audit (px_state c)" "st_outbox m = st_outbox (px_state c)"
        "emits {sc_tenant (rb_scope b)} m extra (px_state c1)" "session_keys m = session_keys (px_state c)"
        "turn_keys m = turn_keys (px_state c)" "length (st_approvals m) = length (st_approvals (px_state c))"
      by (rule invalidate_step [OF ex]) (use Cons.prems(5) False in auto)
    note same = emits_fields [OF m(5)]
    have "session_keys (px_state c1) = session_keys s" "turn_keys (px_state c1) = turn_keys s"
      using m(6,7) Cons.prems(3,4) by (simp_all add: session_keys_def turn_keys_def same)
    with commits_then [OF Cons.prems(2) m(1) [unfolded S] m(2-5)] rest Cons.prems(5) m(8) show ?thesis
      by (intro Cons.IH) (auto simp: same)
  qed
qed

lemma registerPolicy_commits:
  assumes "registerPolicy P b command now c = (Inr (r, d), c')"
  shows "commits True b now (px_state c) d (px_state c')"
proof -
  let ?s = "px_state c"
  from assms obtain po eff c1 where
      eff: "auditOnly P b ''policy_revision.registered'' [] [] now
         (c\<lparr>px_state := ?s\<lparr>st_policies := st_policies ?s @ [po]\<rparr>\<rparr>) = (Inr eff, c1)"
    and rest: "invalidate_from P b (rpc_name command) now [0..<length (st_approvals ?s)] eff c1 = (Inr d, c')"
    and po: "po_tenant po = sc_tenant (rb_scope b)"
    by (fastforce simp: registerPolicy_def Let_def split: if_splits)
  note same = emits_fields [OF auditOnly_emits [OF eff]]
  have c: "commits True b now ?s eff (px_state c1)"
    by (rule commitsI [OF _ _ _ _ auditOnly_emits [OF eff]]) (simp_all add: lifecycle_append(12) po)
  show ?thesis
    by (rule invalidate_from_commits [OF rest c]) (simp_all add: same session_keys_def turn_keys_def)
qed

section \<open>Interpretations\<close>

interpretation agent_revision: command_handler "register P b command now" False "\<lambda>_. True" b now for P b command now
  by unfold_locales (rule register_commits)
interpretation policy_revision: command_handler "registerPolicy P b command now" True "\<lambda>_. True" b now for P b command now
  by unfold_locales (rule registerPolicy_commits)
interpretation artifact: command_handler "registerArtifact P b command now" False "\<lambda>_. True" b now for P b command now
  by unfold_locales (rule registerArtifact_commits)
interpretation conversation: command_handler "appendConversation P b command now" False "\<lambda>_. True" b now for P b command now
  by unfold_locales (rule appendConversation_commits)
interpretation lease_claim: command_handler "claim P b command now" False "\<lambda>_. True" b now for P b command now
  by unfold_locales (rule claim_commits)
interpretation lease_renewal: command_handler "renew P b command now" False "\<lambda>_. True" b now for P b command now
  by unfold_locales (rule renew_commits)
interpretation lease_publication: command_handler "acknowledge P b command now" False "\<lambda>_. True" b now for P b command now
  by unfold_locales (rule acknowledge_commits)

end
