(* ===== verification/Planner.thy ===== *)
theory Planner
  imports Planner_Catalog
begin

text \<open>
  \<^verbatim>\<open>RuntimeStatePlanner.Plan\<close> of \<^verbatim>\<open>internal/runtimestate/planner.go\<close>: validation of the tenant
  state, idempotent replay, dispatch to the handlers, and the sealed transition plan.
\<close>

section \<open>State validation\<close>

text \<open>\<^verbatim>\<open>duplicate\<close> over the keys of a table, with the keys seen so far; empty keys are not recorded.\<close>

fun unique_keys :: "string list \<Rightarrow> string list \<Rightarrow> bool" where
  "unique_keys seen [] \<longleftrightarrow> True"
| "unique_keys seen (k # ks) \<longleftrightarrow>
     (if k = [] then unique_keys seen ks
      else if k \<in> set seen then False
      else unique_keys (k # seen) ks)"

definition validName :: "string \<Rightarrow> bool" where
  "validName value = validOpaque value 128"

fun distinct_tools :: "string list \<Rightarrow> PolicyRule list \<Rightarrow> bool" where
  "distinct_tools seen [] \<longleftrightarrow> True"
| "distinct_tools seen (r # rs) \<longleftrightarrow>
     validName (rule_toolName r) \<and> (rule_decision r = PolicyDenied \<or> rule_decision r = PolicyRequiresApproval)
     \<and> rule_toolName r \<notin> set seen \<and> distinct_tools (rule_toolName r # seen) rs"

definition validPolicyRules :: "PolicyRule list \<Rightarrow> bool" where
  "validPolicyRules rules \<longleftrightarrow> rules \<noteq> [] \<and> length rules \<le> 64 \<and> distinct_tools [] rules"

definition validSession :: "SessionID \<Rightarrow> bool" where
  "validSession i \<longleftrightarrow> ParseSessionID i \<noteq> None"
definition validTurn :: "TurnID \<Rightarrow> bool" where
  "validTurn i \<longleftrightarrow> ParseTurnID i \<noteq> None"

definition policy_key :: "PolicyRevisionRecord \<Rightarrow> string" where
  "policy_key r = po_tenant r @ ''/'' @ po_name r @ ''/'' @ itoa (po_revision r)"

definition valid_policy :: "PolicyRevisionRecord \<Rightarrow> bool" where
  "valid_policy r \<longleftrightarrow> validName (po_name r) \<and> validPolicyRules (po_rules r) \<and> validDigest (po_digest r)
     \<and> po_revision r \<noteq> 0 \<and> \<not> IsZero (po_createdAt r) \<and> utc (po_createdAt r)
     \<and> policyDigest (po_name r) (po_revision r) (po_rules r) = po_digest r"

definition valid_grant :: "CapabilityGrantRecord \<Rightarrow> bool" where
  "valid_grant g \<longleftrightarrow> validSession (gr_sessionID g) \<and> validTurn (gr_turnID g) \<and> gr_maximumUses g \<noteq> 0
     \<and> gr_uses g \<le> gr_maximumUses g \<and> \<not> IsZero (gr_expiresAt g)
     \<and> (case gr_revokedAt g of None \<Rightarrow> True | Some t \<Rightarrow> \<not> IsZero t \<and> utc t)"

fun one_active :: "SessionID list \<Rightarrow> TurnRecord list \<Rightarrow> bool" where
  "one_active seen [] \<longleftrightarrow> True"
| "one_active seen (t # ts) \<longleftrightarrow>
     (if tu_state t = TurnRunning then tu_sessionID t \<notin> set seen \<and> one_active (tu_sessionID t # seen) ts
      else one_active seen ts)"

definition receipt_key :: "MutationReceipt \<Rightarrow> string" where
  "receipt_key r = sc_tenant (rc_scope r) @ ''/'' @ sc_principal (rc_scope r) @ ''/''
     @ authority_string (sc_authority (rc_scope r)) @ ''/'' @ rc_idempotencyKey r"

definition validateState :: "RuntimeState \<Rightarrow> bool" where
  "validateState s \<longleftrightarrow>
     unique_keys [] (map ar_revisionID (st_revisions s))
     \<and> unique_keys [] (map policy_key (st_policies s)) \<and> list_all valid_policy (st_policies s)
     \<and> list_all (\<lambda>x. IsZero (ss_createdAt x) \<or> utc (ss_createdAt x)) (st_sessions s)
     \<and> unique_keys [] (map ss_sessionID (st_sessions s))
     \<and> unique_keys [] (map in_inputID (st_inputs s))
     \<and> unique_keys [] (map at_artifactID (st_artifacts s))
     \<and> unique_keys [] (map (\<lambda>v. cv_sessionID v @ ''/'' @ itoa (cv_version v)) (st_conversations s))
     \<and> unique_keys [] (map ap_approvalID (st_approvals s))
     \<and> unique_keys [] (map gr_grantID (st_grants s)) \<and> list_all valid_grant (st_grants s)
     \<and> unique_keys [] (map tu_turnID (st_turns s))
     \<and> unique_keys [] (map (\<lambda>t. tu_sessionID t @ ''/'' @ itoa (tu_position t)) (st_turns s))
     \<and> one_active [] (st_turns s)
     \<and> unique_keys [] (map iv_operationID (st_invocations s) @ map te_operationID (st_toolExecutions s))
     \<and> unique_keys [] (map ev_eventID (st_events s)) \<and> unique_keys [] (map ev_cursor (st_events s))
     \<and> unique_keys [] (map af_auditFactID (st_audit s))
     \<and> unique_keys [] (map ob_outboxID (st_outbox s))
     \<and> unique_keys [] (map receipt_key (st_receipts s))"

section \<open>Transition plans\<close>

record TransitionPlan =
  tp_base :: RuntimeState
  tp_kind :: CommandKind
  tp_state :: RuntimeState
  tp_effects :: EffectSet
  tp_result :: PlanResult

definition containsReceipt :: "RuntimeState \<Rightarrow> MutationReceipt \<Rightarrow> bool" where
  "containsReceipt s r \<longleftrightarrow> list_ex (\<lambda>x. rc_scope x = rc_scope r \<and> rc_idempotencyKey x = rc_idempotencyKey r
     \<and> rc_requestDigest x = rc_requestDigest r) (st_receipts s)"
definition containsEvent :: "RuntimeState \<Rightarrow> ProductEventRecord \<Rightarrow> bool" where
  "containsEvent s e \<longleftrightarrow> list_ex (\<lambda>x. ev_eventID x = ev_eventID e) (st_events s)"
definition containsAudit :: "RuntimeState \<Rightarrow> AuditFactRecord \<Rightarrow> bool" where
  "containsAudit s f \<longleftrightarrow> list_ex (\<lambda>x. af_auditFactID x = af_auditFactID f) (st_audit s)"
definition containsOutbox :: "RuntimeState \<Rightarrow> OutboxRecord \<Rightarrow> bool" where
  "containsOutbox s r \<longleftrightarrow> list_ex (\<lambda>x. ob_outboxID x = ob_outboxID r) (st_outbox s)"

definition plan_Validate :: "TransitionPlan \<Rightarrow> bool" where
  "plan_Validate p \<longleftrightarrow> tp_kind p \<noteq> CommandUnset \<and> pr_kind (tp_result p) = tp_kind p
     \<and> rc_command (pr_receipt (tp_result p)) = command_string (tp_kind p)
     \<and> containsReceipt (tp_state p) (pr_receipt (tp_result p))
     \<and> list_all (containsEvent (tp_state p)) (ef_events (tp_effects p))
     \<and> list_all (containsAudit (tp_state p)) (ef_audit (tp_effects p))
     \<and> list_all (containsOutbox (tp_state p)) (ef_outbox (tp_effects p))"

section \<open>Receipts and replay\<close>

definition firstID :: "string \<Rightarrow> string \<Rightarrow> string" where
  "firstID l r = (if l \<noteq> [] then l else r)"

definition receipt :: "RuntimeStatePlanner \<Rightarrow> ReceiptBinding \<Rightarrow> PlanResult \<Rightarrow> gtime \<Rightarrow> MutationReceipt" where
  "receipt P b result now =
     \<lparr>rc_scope = rb_scope b, rc_idempotencyKey = rb_idempotencyKey b, rc_operationID = rb_idempotencyKey b,
      rc_command = command_string (rb_command b), rc_requestDigest = rb_requestDigest b,
      rc_agentID = ar_agentID (pr_revision result), rc_revisionID = ar_revisionID (pr_revision result),
      rc_sessionID = firstID (firstID (firstID (ss_sessionID (pr_session result)) (tu_sessionID (pr_turn result)))
        (at_sessionID (pr_artifact result))) (cv_sessionID (pr_conversation result)),
      rc_inputID = in_inputID (pr_input result),
      rc_turnID = firstID (tu_turnID (pr_turn result)) (at_turnID (pr_artifact result)),
      rc_artifactID = at_artifactID (pr_artifact result), rc_policyName = po_name (pr_policy result),
      rc_policyRevision = po_revision (pr_policy result),
      rc_conversationVersion = cv_version (pr_conversation result), rc_acceptedAt = now,
      rc_retentionUntil = retain P now DataClassReceipt\<rparr>"

definition receiptExpired :: "MutationReceipt \<Rightarrow> gtime \<Rightarrow> bool" where
  "receiptExpired r now \<longleftrightarrow> \<not> IsZero (rc_retentionUntil r) \<and> \<not> After (rc_retentionUntil r) now"

definition last_match :: "('a \<Rightarrow> bool) \<Rightarrow> 'a \<Rightarrow> 'a list \<Rightarrow> 'a" where
  "last_match p = foldl (\<lambda>r x. if p x then x else r)"

definition replayPlan :: "RuntimeState \<Rightarrow> CommandKind \<Rightarrow> MutationReceipt \<Rightarrow> TransitionPlan" where
  "replayPlan s kind r =
     \<lparr>tp_base = s, tp_kind = kind, tp_state = s, tp_effects = zero_EffectSet,
      tp_result = zero_PlanResult
        \<lparr>pr_kind := kind, pr_receipt := r,
         pr_revision := last_match (\<lambda>x. ar_revisionID x = rc_revisionID r) zero_AgentRevisionRecord (st_revisions s),
         pr_policy := last_match (\<lambda>x. po_name x = rc_policyName r \<and> po_revision x = rc_policyRevision r)
                        zero_PolicyRevisionRecord (st_policies s),
         pr_session := last_match (\<lambda>x. ss_sessionID x = rc_sessionID r) zero_SessionRecord (st_sessions s),
         pr_input := last_match (\<lambda>x. in_inputID x = rc_inputID r) zero_InputRecord (st_inputs s),
         pr_artifact := last_match (\<lambda>x. at_artifactID x = rc_artifactID r) zero_ArtifactRecord (st_artifacts s),
         pr_conversation := last_match (\<lambda>x. cv_sessionID x = rc_sessionID r \<and> cv_version x = rc_conversationVersion r)
                              zero_ConversationRecord (st_conversations s),
         pr_turn := last_match (\<lambda>x. tu_turnID x = rc_turnID r) zero_TurnRecord (st_turns s)\<rparr>\<rparr>"

section \<open>Plan\<close>

definition dispatch ::
    "RuntimeStatePlanner \<Rightarrow> ReceiptBinding \<Rightarrow> compiled_command \<Rightarrow> gtime \<Rightarrow> (PlanResult \<times> EffectSet) pm" where
  "dispatch P b command now =
     (case command of
        C_register x \<Rightarrow> register P b x now
      | C_registerPolicy x \<Rightarrow> registerPolicy P b x now
      | C_createSession x \<Rightarrow> createSession P b x now
      | C_admit x \<Rightarrow> admit P b x now
      | C_registerArtifact x \<Rightarrow> registerArtifact P b x now
      | C_appendConversation x \<Rightarrow> appendConversation P b x now
      | C_admitToolApproval x \<Rightarrow> admitToolApproval P b x now
      | C_recordToolIntent x \<Rightarrow> recordToolIntent P b x now
      | C_requestApproval x \<Rightarrow> requestApproval P b x now
      | C_decideApproval x \<Rightarrow> decideApproval P b x now
      | C_consumeCapabilityGrant x \<Rightarrow> consumeCapabilityGrant P b x now
      | C_revokeCapabilityGrant x \<Rightarrow> revokeCapabilityGrant P b x now
      | C_expireCapabilityGrant x \<Rightarrow> expireCapabilityGrant P b x now
      | C_denyToolAdmission x \<Rightarrow> denyToolAdmission P b x now
      | C_beginToolExecution x \<Rightarrow> beginToolExecution P b x now
      | C_recordToolExecutionOutcome x \<Rightarrow> recordToolExecutionOutcome P b x now
      | C_begin x \<Rightarrow> begin_invocation P b x now
      | C_recordOutcome x \<Rightarrow> recordOutcome P b x now
      | C_settle x \<Rightarrow> settle P b x now
      | C_cancel x \<Rightarrow> cancel P b x now
      | C_close x \<Rightarrow> close P b x now
      | C_cancelSession x \<Rightarrow> cancelSession P b x now
      | C_failSession x \<Rightarrow> failSession P b x now
      | C_claim x \<Rightarrow> claim P b x now
      | C_renew x \<Rightarrow> renew P b x now
      | C_acknowledge x \<Rightarrow> acknowledge P b x now)"

text \<open>\<open>expired_ctx\<close> is a cancelled or expired context, \<open>reading\<close> the clock reading, \<open>n\<close> the number of
  identifiers drawn so far. The nil checks of the source have no counterpart: the model's planner
  has its three collaborators.\<close>

definition Plan ::
    "RuntimeStatePlanner \<Rightarrow> bool \<Rightarrow> gtime \<Rightarrow> nat \<Rightarrow> RuntimeState \<Rightarrow> CompiledMutation
     \<Rightarrow> (store_error + TransitionPlan) \<times> nat" where
  "Plan P expired_ctx reading n prior m =
     (let b = cm_receipt m; now = normalizeTime reading in
      if expired_ctx then (Inl ErrContext, n)
      else if cm_kind m = CommandUnset \<or> rb_command b \<noteq> cm_kind m then (Inl ErrIntegrity, n)
      else if IsZero now then (Inl ErrIntegrity, n)
      else if \<not> validateState prior then (Inl ErrIntegrity, n)
      else case findReceipt prior b of
        Some r \<Rightarrow>
          if receiptExpired r now then (Inl ErrReceiptExpired, n)
          else if rc_command r \<noteq> command_string (cm_kind m) \<or> rc_requestDigest r \<noteq> rb_requestDigest b
          then (Inl ErrConflict, n)
          else (Inr (replayPlan prior (cm_kind m) r), n)
      | None \<Rightarrow>
          (case dispatch P b (cm_command m) now \<lparr>px_state = prior, px_next = n\<rparr> of
             (Inl e, c) \<Rightarrow> (Inl e, px_next c)
           | (Inr (result, eff), c) \<Rightarrow>
               let result = result\<lparr>pr_kind := cm_kind m\<rparr>;
                   result = result\<lparr>pr_receipt := receipt P b result now\<rparr>;
                   s = (px_state c)\<lparr>st_receipts := st_receipts (px_state c) @ [pr_receipt result]\<rparr>;
                   plan = \<lparr>tp_base = prior, tp_kind = cm_kind m, tp_state = s, tp_effects = eff, tp_result = result\<rparr>
               in if \<not> validateState s then (Inl ErrIntegrity, px_next c)
                  else if \<not> plan_Validate plan then (Inl ErrIntegrity, px_next c)
                  else (Inr plan, px_next c)))"


section \<open>What validation establishes\<close>

lemma unique_keys_iff:
  "unique_keys seen ks \<longleftrightarrow> distinct (filter (\<lambda>k. k \<noteq> []) ks) \<and> set (filter (\<lambda>k. k \<noteq> []) ks) \<inter> set seen = {}"
  by (induction ks arbitrary: seen) auto

lemma unique_keys_distinct:
  assumes "unique_keys [] (map f xs)" and "\<And>x. x \<in> set xs \<Longrightarrow> f x \<noteq> []"
  shows "distinct (map f xs)"
proof -
  have "filter (\<lambda>k. k \<noteq> []) (map f xs) = map f xs" using assms(2) by (auto simp: filter_id_conv)
  with assms(1) show ?thesis by (simp add: unique_keys_iff)
qed

lemma unique_keys_eq:
  assumes "unique_keys [] (map f xs)" and "x \<in> set xs" "y \<in> set xs" and "f x = f y" "f x \<noteq> []"
  shows "x = y"
proof -
  have "distinct (map f (filter (\<lambda>x. f x \<noteq> []) xs))"
    using assms(1) by (simp add: unique_keys_iff filter_map comp_def)
  then show ?thesis by (rule distinct_map_mem_eq) (use assms in auto)
qed

lemma one_active_iff:
  "one_active seen ts \<longleftrightarrow>
     distinct (map tu_sessionID (filter (\<lambda>t. tu_state t = TurnRunning) ts))
     \<and> tu_sessionID ` set (filter (\<lambda>t. tu_state t = TurnRunning) ts) \<inter> set seen = {}"
  by (induction ts arbitrary: seen) auto

lemma validateState_running:
  assumes "validateState s" and "t \<in> set (st_turns s)" "u \<in> set (st_turns s)"
    and "tu_state t = TurnRunning" "tu_state u = TurnRunning" "tu_sessionID t = tu_sessionID u"
  shows "t = u"
proof -
  have "distinct (map tu_sessionID (filter (\<lambda>t. tu_state t = TurnRunning) (st_turns s)))"
    using assms(1) by (simp add: validateState_def one_active_iff)
  then show ?thesis by (rule distinct_map_mem_eq) (use assms in auto)
qed

lemma validateState_sessions:
  assumes "validateState s" and "x \<in> set (st_sessions s)" "y \<in> set (st_sessions s)"
    and "ss_sessionID x = ss_sessionID y" "ss_sessionID x \<noteq> []"
  shows "x = y"
  using assms by (auto simp: validateState_def intro: unique_keys_eq [of ss_sessionID])

section \<open>Dispatch\<close>

text \<open>What the compiler guarantees of a command's outcome, on which the handlers rely.\<close>

fun sealed_command :: "compiled_command \<Rightarrow> bool" where
  "sealed_command (C_settle x) \<longleftrightarrow> terminal_turn (to_state (stc_outcome x))"
| "sealed_command (C_recordOutcome x) \<longleftrightarrow>
     ioc_outcome x \<in> {InvocationSucceeded, InvocationFailed, InvocationUncertain, InvocationCancelled}"
| "sealed_command (C_decideApproval x) \<longleftrightarrow> dac_decision x = ApprovalApproved \<or> dac_decision x = ApprovalDenied"
| "sealed_command (C_recordToolExecutionOutcome x) \<longleftrightarrow> execution_outcome (toc_outcome x)"
| "sealed_command _ \<longleftrightarrow> True"

definition policy_command :: "compiled_command \<Rightarrow> bool" where
  "policy_command m = (case m of C_registerPolicy _ \<Rightarrow> True | _ \<Rightarrow> False)"

lemma dispatch_commits:
  assumes "dispatch P b m now c = (Inr (r, d), c')" and "sealed_command m" and "grants_keyed (px_state c)"
  shows "commits (policy_command m) b now (px_state c) d (px_state c')"
  using assms
  by (cases m)
    (auto simp: dispatch_def policy_command_def
      intro: agent_revision.refines policy_revision.refines create_session.refines admit_input.refines
        artifact.refines conversation.refines tool_approval.refines tool_intent.refines
        approval_request.refines approval_decision.refines grant_use.refines grant_revocation.refines
        grant_expiry.refines tool_denial.refines execution_intent.refines execution_outcome.refines
        begin_attempt.refines record_outcome.refines settle_turn.refines cancel_turn.refines
        close_session.refines cancel_session.refines fail_session.refines lease_claim.refines
        lease_renewal.refines lease_publication.refines)

interpretation dispatcher: command_handler "dispatch P b m now" "policy_command m"
    "\<lambda>s. sealed_command m \<and> grants_keyed s" b now for P b m now
  by unfold_locales (auto intro: dispatch_commits)

section \<open>Outcomes of Plan\<close>

lemma Plan_Inr_cases:
  assumes "Plan P x reading n prior m = (Inr p, n')"
  obtains (replay) r where "findReceipt prior (cm_receipt m) = Some r"
      "\<not> receiptExpired r (normalizeTime reading)" "rc_command r = command_string (cm_kind m)"
      "rc_requestDigest r = rb_requestDigest (cm_receipt m)" "p = replayPlan prior (cm_kind m) r" "n' = n"
      "validateState prior" "cm_kind m \<noteq> CommandUnset"
    | (commit) result c where "findReceipt prior (cm_receipt m) = None"
      "dispatch P (cm_receipt m) (cm_command m) (normalizeTime reading) \<lparr>px_state = prior, px_next = n\<rparr>
         = (Inr (result, tp_effects p), c)"
      "tp_base p = prior" "tp_kind p = cm_kind m"
      "tp_state p = (px_state c)\<lparr>st_receipts := st_receipts (px_state c) @ [pr_receipt (tp_result p)]\<rparr>"
      "pr_receipt (tp_result p) = receipt P (cm_receipt m) (result\<lparr>pr_kind := cm_kind m\<rparr>) (normalizeTime reading)"
      "tp_result p = result\<lparr>pr_kind := cm_kind m, pr_receipt := pr_receipt (tp_result p)\<rparr>"
      "validateState prior" "validateState (tp_state p)" "plan_Validate p" "n' = px_next c"
      "rb_command (cm_receipt m) = cm_kind m" "\<not> IsZero (normalizeTime reading)"
proof -
  from assms have pre: "cm_kind m \<noteq> CommandUnset" "rb_command (cm_receipt m) = cm_kind m"
      "\<not> IsZero (normalizeTime reading)" "validateState prior"
    by (auto simp: Plan_def Let_def split: if_splits)
  show thesis
  proof (cases "findReceipt prior (cm_receipt m)")
    case (Some r)
    with assms pre show thesis by (intro replay [of r]) (auto simp: Plan_def Let_def split: if_splits)
  next
    case None
    with assms pre show thesis
      by (auto simp: Plan_def Let_def split: if_splits prod.splits sum.splits intro!: commit)
  qed
qed

lemma containsI:
  "r \<in> set (st_receipts s) \<Longrightarrow> containsReceipt s r"
  by (auto simp: containsReceipt_def list_ex_iff)

lemma findReceipt_SomeD:
  assumes "findReceipt s b = Some r"
  shows "r \<in> set (st_receipts s)" "rc_scope r = rb_scope b" "rc_idempotencyKey r = rb_idempotencyKey b"
  using assms by (auto simp: findReceipt_def find_Some_iff in_set_conv_nth)

end
