(* ===== verification/Partition.thy ===== *)
theory Partition
  imports Planner
begin

text \<open>
  The invariant of a tenant partition and the states the planner can reach. \<open>partition_ok T s\<close> says
  that every record of \<open>s\<close> belongs to tenant \<open>T\<close>, that references between records resolve, that each
  record is in a state of its machine, that every route's audit link resolves and that the events
  of every Session are numbered without gaps. \<open>reachable\<close> closes the empty state under the plans
  of sealed commands.
\<close>

section \<open>The invariant\<close>

definition session_ok :: "TenantID \<Rightarrow> SessionRecord \<Rightarrow> bool" where
  "session_ok T x \<longleftrightarrow> ss_tenant x = T \<and> 0 < ss_version x \<and> ss_state x \<noteq> SessionUnset \<and> ss_sessionID x \<noteq> []"

definition turn_shape :: "TurnRecord \<Rightarrow> bool" where
  "turn_shape t \<longleftrightarrow> 0 < tu_version t \<and>
     (case tu_state t of
        TurnQueued \<Rightarrow> tu_startedAt t = None \<and> tu_completedAt t = None
      | TurnRunning \<Rightarrow> tu_startedAt t \<noteq> None \<and> tu_completedAt t = None
      | TurnWaitingForApproval \<Rightarrow> tu_startedAt t \<noteq> None \<and> tu_completedAt t = None
      | TurnUnset \<Rightarrow> False
      | _ \<Rightarrow> tu_completedAt t \<noteq> None)"

definition turn_ok :: "TenantID \<Rightarrow> RuntimeState \<Rightarrow> TurnRecord \<Rightarrow> bool" where
  "turn_ok T s t \<longleftrightarrow> tu_tenant t = T \<and> turn_shape t
     \<and> (tu_tenant t, tu_principal t, tu_sessionID t) \<in> session_keys s"

definition grant_ok :: "TenantID \<Rightarrow> RuntimeState \<Rightarrow> CapabilityGrantRecord \<Rightarrow> bool" where
  "grant_ok T s g \<longleftrightarrow> gr_tenant g = T \<and> gr_grantID g \<noteq> [] \<and> gr_uses g \<le> gr_maximumUses g \<and> grant_approval s g
     \<and> (gr_tenant g, gr_principal g, gr_sessionID g, gr_turnID g) \<in> turn_keys s"

definition approval_ok :: "TenantID \<Rightarrow> RuntimeState \<Rightarrow> ApprovalRecord \<Rightarrow> bool" where
  "approval_ok T s a \<longleftrightarrow> ap_tenant a = T \<and> approval_intent s a
     \<and> (ap_tenant a, ap_principal a, ap_sessionID a, ap_turnID a) \<in> turn_keys s"

definition execution_ok :: "TenantID \<Rightarrow> RuntimeState \<Rightarrow> ToolExecutionRecord \<Rightarrow> bool" where
  "execution_ok T s e \<longleftrightarrow> te_tenant e = T \<and> te_state e \<noteq> ToolExecutionUnset \<and> execution_grant s e
     \<and> (te_tenant e, te_principal e, te_sessionID e, te_turnID e) \<in> turn_keys s"

definition invocation_ok :: "TenantID \<Rightarrow> RuntimeState \<Rightarrow> InvocationRecord \<Rightarrow> bool" where
  "invocation_ok T s i \<longleftrightarrow> iv_tenant i = T \<and> iv_state i \<noteq> InvocationUnset
     \<and> (iv_tenant i, iv_principal i, iv_sessionID i, iv_turnID i) \<in> turn_keys s"

definition route_ok :: "TenantID \<Rightarrow> OutboxRecord \<Rightarrow> bool" where
  "route_ok T r \<longleftrightarrow> ob_tenant r = T \<and> 0 < ob_version r
     \<and> (ob_state r = OutboxPending \<and> ob_claimUntil r = None \<or> ob_state r = OutboxClaimed \<and> ob_claimUntil r \<noteq> None
        \<or> ob_state r = OutboxPublished \<and> ob_claimUntil r = None)"

definition core_ok :: "TenantID \<Rightarrow> RuntimeState \<Rightarrow> bool" where
  "core_ok T s \<longleftrightarrow>
     (\<forall>r \<in> set (st_revisions s). ar_tenant r = T) \<and> (\<forall>p \<in> set (st_policies s). po_tenant p = T)
     \<and> (\<forall>x \<in> set (st_sessions s). session_ok T x) \<and> (\<forall>i \<in> set (st_inputs s). input_fresh T s i)
     \<and> (\<forall>a \<in> set (st_artifacts s). artifact_fresh T s a)
     \<and> (\<forall>v \<in> set (st_conversations s). conversation_fresh T s v)
     \<and> (\<forall>i \<in> set (st_toolIntents s). intent_fresh T s i) \<and> (\<forall>g \<in> set (st_grants s). grant_ok T s g)
     \<and> (\<forall>e \<in> set (st_toolExecutions s). execution_ok T s e)
     \<and> (\<forall>a \<in> set (st_approvals s). approval_ok T s a) \<and> (\<forall>t \<in> set (st_turns s). turn_ok T s t)
     \<and> (\<forall>i \<in> set (st_invocations s). invocation_ok T s i)"

definition log_ok :: "TenantID \<Rightarrow> RuntimeState \<Rightarrow> bool" where
  "log_ok T s \<longleftrightarrow> (\<forall>e \<in> set (st_events s). ev_tenant e = T) \<and> (\<forall>f \<in> set (st_audit s). af_tenant f = T \<and> af_auditFactID f \<noteq> [])
     \<and> (\<forall>r \<in> set (st_outbox s). route_ok T r) \<and> links s \<and> gapless (st_events s)"

definition partition_ok :: "TenantID \<Rightarrow> RuntimeState \<Rightarrow> bool" where
  "partition_ok T s \<longleftrightarrow> core_ok T s \<and> log_ok T s \<and> (\<forall>r \<in> set (st_receipts s). sc_tenant (rc_scope r) = T)"

section \<open>Preservation\<close>

lemma turn_shape_step: "turn_step now t t' \<Longrightarrow> turn_shape t \<Longrightarrow> turn_shape t'"
  by (erule turn_step.cases) (auto simp: turn_shape_def terminal_turn_def pending_turn_def)

lemma turn_ok_step: "turn_step now t t' \<Longrightarrow> turn_ok T s t \<Longrightarrow> turn_ok T s t'"
  using turns.step_ident [of now t t'] turn_shape_step [of now t t'] by (auto simp: turn_ok_def turn_ident_def)

lemma session_ok_step: "session_step now x x' \<Longrightarrow> session_ok T x \<Longrightarrow> session_ok T x'"
  by (auto simp: session_ok_def elim!: session_step.cases)

lemma grant_ok_step: "grant_step now g g' \<Longrightarrow> grant_ok T s g \<Longrightarrow> grant_ok T s g'"
  by (auto simp: grant_ok_def grant_approval_def elim!: grant_step.cases)

lemma approval_ok_step: "approval_step now a a' \<Longrightarrow> approval_ok T s a \<Longrightarrow> approval_ok T s a'"
  by (auto simp: approval_ok_def approval_intent_def elim!: approval_step.cases)

lemma execution_ok_step: "execution_step now e e' \<Longrightarrow> execution_ok T s e \<Longrightarrow> execution_ok T s e'"
  by (auto simp: execution_ok_def execution_grant_def elim!: execution_step.cases)

lemma invocation_ok_step: "invocation_step now i i' \<Longrightarrow> invocation_ok T s i \<Longrightarrow> invocation_ok T s i'"
  by (auto simp: invocation_ok_def elim!: invocation_step.cases)

lemma route_ok_step: "outbox_step now r r' \<Longrightarrow> route_ok T r \<Longrightarrow> route_ok T r'"
  by (auto simp: route_ok_def live_claim_def elim!: outbox_step.cases)

lemmas ok_defs = session_ok_def turn_ok_def grant_ok_def approval_ok_def execution_ok_def invocation_ok_def

lemma fresh_ok:
  shows "session_fresh T x \<Longrightarrow> session_ok T x" and "turn_fresh T s t \<Longrightarrow> turn_ok T s t"
    and "grant_fresh T s g \<Longrightarrow> grant_ok T s g" and "approval_fresh T s a \<Longrightarrow> approval_ok T s a"
    and "execution_fresh T s e \<Longrightarrow> execution_ok T s e" and "invocation_fresh T s i \<Longrightarrow> invocation_ok T s i"
  by (auto simp: ok_defs fresh_defs turn_shape_def)

lemma lifecycle_core_ok:
  assumes l: "lifecycle T S now s m" and ok: "core_ok T s"
  shows "core_ok T m"
proof -
  note D = lifecycleD [OF l]
  note keys = session_keys_mono [OF l, THEN subsetD] turn_keys_mono [OF l, THEN subsetD] authority_mono [OF l]
  note o = ok [unfolded core_ok_def]
  show ?thesis
    unfolding core_ok_def
  proof (intro conjI)
    show "\<forall>r \<in> set (st_revisions m). ar_tenant r = T" by (rule appended_inv [OF D(1)]) (use o in auto)
    show "\<forall>p \<in> set (st_policies m). po_tenant p = T" by (rule appended_inv [OF D(2)]) (use o in auto)
    show "\<forall>x \<in> set (st_sessions m). session_ok T x"
      by (rule evolves_inv [OF D(3)]) (use o in \<open>auto intro: fresh_ok session_ok_step\<close>)
    show "\<forall>i \<in> set (st_inputs m). input_fresh T m i"
      by (rule appended_inv [OF D(4)]) (use o in \<open>auto simp: fresh_defs intro: keys\<close>)
    show "\<forall>a \<in> set (st_artifacts m). artifact_fresh T m a"
      by (rule appended_inv [OF D(5)]) (use o in \<open>auto simp: fresh_defs intro: keys\<close>)
    show "\<forall>v \<in> set (st_conversations m). conversation_fresh T m v"
      by (rule appended_inv [OF D(6)]) (use o in \<open>auto simp: fresh_defs intro: keys\<close>)
    show "\<forall>i \<in> set (st_toolIntents m). intent_fresh T m i"
      by (rule appended_inv [OF D(7)]) (use o in \<open>auto simp: fresh_defs intro: keys\<close>)
    have "\<forall>g \<in> set (st_grants s). grant_ok T m g" using o by (auto simp: grant_ok_def intro: keys)
    then show "\<forall>g \<in> set (st_grants m). grant_ok T m g"
      by (rule evolves_inv [OF D(8)]) (auto intro: fresh_ok grant_ok_step)
    have "\<forall>e \<in> set (st_toolExecutions s). execution_ok T m e" using o by (auto simp: execution_ok_def intro: keys)
    then show "\<forall>e \<in> set (st_toolExecutions m). execution_ok T m e"
      by (rule evolves_inv [OF D(9)]) (auto intro: fresh_ok execution_ok_step)
    have "\<forall>a \<in> set (st_approvals s). approval_ok T m a" using o by (auto simp: approval_ok_def intro: keys)
    then show "\<forall>a \<in> set (st_approvals m). approval_ok T m a"
      by (rule evolves_inv [OF D(10)]) (auto intro: fresh_ok approval_ok_step)
    have "\<forall>t \<in> set (st_turns s). turn_ok T m t" using o by (auto simp: turn_ok_def intro: keys)
    then show "\<forall>t \<in> set (st_turns m). turn_ok T m t"
      by (rule evolves_inv [OF D(11)]) (auto intro: fresh_ok turn_ok_step)
    have "\<forall>i \<in> set (st_invocations s). invocation_ok T m i" using o by (auto simp: invocation_ok_def intro: keys)
    then show "\<forall>i \<in> set (st_invocations m). invocation_ok T m i"
      by (rule evolves_inv [OF D(12)]) (auto intro: fresh_ok invocation_ok_step)
  qed
qed

lemma core_ok_core:
  assumes "core s' = core s" shows "core_ok T s' = core_ok T s"
proof -
  note f = core_eq_fields [OF assms]
  have "session_keys s' = session_keys s" "turn_keys s' = turn_keys s" "grant_approval s' = grant_approval s"
      "approval_intent s' = approval_intent s" "execution_grant s' = execution_grant s"
    by (auto simp: session_keys_def turn_keys_def grant_approval_def approval_intent_def execution_grant_def fun_eq_iff f)
  then show ?thesis unfolding core_ok_def ok_defs fresh_defs f by simp
qed

lemma emits_log_ok:
  assumes e: "emits {T} m d s'" and ok: "log_ok T m"
  shows "log_ok T s'"
proof -
  have "\<forall>r \<in> set (st_outbox s'). route_ok T r"
  proof
    fix r' assume "r' \<in> set (st_outbox s')"
    with e obtain r where r: "r \<in> set (st_outbox m @ ef_outbox d)" "same_route r r'"
      unfolding emits_def by (blast dest: list_all2_mem2)
    have "route_ok T x" if "x \<in> set (st_outbox m)" for x using ok that by (simp add: log_ok_def)
    moreover have "route_ok T x" if "x \<in> set (ef_outbox d)" for x
    proof -
      from e that have "fresh_route {T} x" by (simp add: emits_def good_delta_def)
      then show ?thesis by (simp add: fresh_route_def route_ok_def)
    qed
    ultimately have "route_ok T r" using r(1) by auto
    then show "route_ok T r'" using same_route_fields [OF r(2)] by (simp add: route_ok_def)
  qed
  moreover have "links s'" using emits_links [OF e] ok by (simp add: log_ok_def)
  ultimately show ?thesis using e ok by (auto simp: log_ok_def emits_def good_delta_def)
qed

theorem commits_partition_ok:
  assumes c: "commits admin b now s d s'" and ok: "partition_ok (sc_tenant (rb_scope b)) s"
  shows "partition_ok (sc_tenant (rb_scope b)) s'"
proof -
  let ?T = "sc_tenant (rb_scope b)"
  from c obtain m where l: "lifecycle ?T (actor_sessions admin (rb_scope b) s) now s m"
    and same: "st_events m = st_events s" "st_audit m = st_audit s"
    and out: "evolves (\<lambda>r. ob_tenant r = ?T) (outbox_step now) (\<lambda>_. False) (st_outbox s) (st_outbox m)"
    and e: "emits {?T} m d s'"
    by (auto simp: commits_def)
  note f = emits_fields [OF e]
  have core: "core_ok ?T s'"
    using lifecycle_core_ok [OF l] ok core_ok_core [OF emits_core [OF e]] by (simp add: partition_ok_def)
  have "\<forall>r \<in> set (st_outbox m). route_ok ?T r"
    by (rule evolves_inv [OF out]) (use ok in \<open>auto simp: partition_ok_def log_ok_def intro: route_ok_step\<close>)
  moreover have "links m"
  proof -
    have "\<forall>r \<in> set (st_outbox m). ob_auditFactID r \<noteq> [] \<longrightarrow> ob_auditFactID r \<in> af_auditFactID ` set (st_audit s)"
      by (rule evolves_inv [OF out]) (use ok in \<open>auto simp: partition_ok_def log_ok_def links_def elim!: outbox_step.cases\<close>)
    then show ?thesis by (simp add: links_def same)
  qed
  ultimately have "log_ok ?T m" using ok by (auto simp: partition_ok_def log_ok_def same)
  with e have log: "log_ok ?T s'" by (rule emits_log_ok)
  have "st_receipts s' = st_receipts s" using lifecycleD(13) [OF l] f by simp
  with core log ok show ?thesis by (simp add: partition_ok_def)
qed

end
