(* ===== verification/Reachability.thy ===== *)
theory Reachability
  imports Partition
begin

text \<open>
  The planner as a transition system on one tenant partition: a step is a successful \<open>Plan\<close> of a
  sealed mutation whose scope names the tenant, and the next state is the plan's state. Every
  reachable state satisfies \<open>partition_ok\<close>, every step is a replay or a \<open>commits\<close> followed by one
  receipt, and the record machines of \<open>Lifecycle\<close> hold along whole runs.
\<close>

section \<open>Runs of the planner\<close>

definition sealed_mutation :: "CompiledMutation \<Rightarrow> bool" where
  "sealed_mutation m \<longleftrightarrow> sealed_command (cm_command m)"

definition add_receipt :: "RuntimeState \<Rightarrow> MutationReceipt \<Rightarrow> RuntimeState" where
  "add_receipt s r = s\<lparr>st_receipts := st_receipts s @ [r]\<rparr>"

inductive plans :: "RuntimeStatePlanner \<Rightarrow> TenantID \<Rightarrow> RuntimeState \<Rightarrow> RuntimeState \<Rightarrow> bool" for P T where
  plans_step: "sealed_mutation m \<Longrightarrow> sc_tenant (rb_scope (cm_receipt m)) = T \<Longrightarrow>
    Plan P expired_ctx reading n s m = (Inr p, n') \<Longrightarrow> plans P T s (tp_state p)"

inductive reachable :: "RuntimeStatePlanner \<Rightarrow> TenantID \<Rightarrow> RuntimeState \<Rightarrow> bool" for P T where
  reachable_empty: "reachable P T zero_RuntimeState"
| reachable_plan: "reachable P T s \<Longrightarrow> plans P T s s' \<Longrightarrow> reachable P T s'"

lemma reachable_steps: "(plans P T)\<^sup>*\<^sup>* s s' \<Longrightarrow> reachable P T s \<Longrightarrow> reachable P T s'"
  by (induction rule: rtranclp_induct) (auto intro: reachable_plan)

section \<open>One plan\<close>

lemma core_ok_receipt [simp]: "core_ok T (add_receipt s r) = core_ok T s"
proof -
  have "session_keys (add_receipt s r) = session_keys s" "turn_keys (add_receipt s r) = turn_keys s"
      "grant_approval (add_receipt s r) = grant_approval s" "approval_intent (add_receipt s r) = approval_intent s"
      "execution_grant (add_receipt s r) = execution_grant s"
    by (auto simp: add_receipt_def session_keys_def turn_keys_def grant_approval_def approval_intent_def
        execution_grant_def fun_eq_iff)
  then show ?thesis unfolding core_ok_def ok_defs fresh_defs by (simp add: add_receipt_def)
qed

lemma partition_ok_receipt:
  "partition_ok T (add_receipt s r) \<longleftrightarrow> partition_ok T s \<and> sc_tenant (rc_scope r) = T"
proof -
  have "log_ok T (add_receipt s r) = log_ok T s" by (simp add: log_ok_def links_def add_receipt_def)
  then show ?thesis by (auto simp: partition_ok_def) (auto simp: add_receipt_def)
qed

lemma partition_ok_keyed:
  assumes ok: "partition_ok T s" and v: "validateState s"
  shows "grants_keyed s"
  unfolding grants_keyed_def
proof (intro ballI impI)
  fix e g assume e: "e \<in> set (st_toolExecutions s)" and g: "g \<in> set (st_grants s)" "gr_grantID g = te_grantID e"
  from ok e have "execution_grant s e" by (auto simp: partition_ok_def core_ok_def execution_ok_def)
  then obtain h where h: "h \<in> set (st_grants s)" "gr_grantID h = te_grantID e" "gr_sessionID h = te_sessionID e"
    by (auto simp: execution_grant_def)
  from ok h(1) have "gr_grantID h \<noteq> []" by (auto simp: partition_ok_def core_ok_def grant_ok_def)
  then have "g = h"
    using v g h by (intro unique_keys_eq [of gr_grantID "st_grants s"]) (auto simp: validateState_def)
  with h(3) show "gr_sessionID g = te_sessionID e" by simp
qed

lemma plan_outcome:
  assumes p: "Plan P x reading n s m = (Inr p, n')" and m: "sealed_mutation m"
    and ok: "partition_ok (sc_tenant (rb_scope (cm_receipt m))) s"
  obtains (replayed) r where "findReceipt s (cm_receipt m) = Some r" "p = replayPlan s (cm_kind m) r" "validateState s"
    | (committed) mid where "findReceipt s (cm_receipt m) = None" "validateState s" "validateState (tp_state p)"
      "commits (policy_command (cm_command m)) (cm_receipt m) (normalizeTime reading) s (tp_effects p) mid"
      "tp_state p = add_receipt mid (pr_receipt (tp_result p))"
      "rc_scope (pr_receipt (tp_result p)) = rb_scope (cm_receipt m)"
      "rc_idempotencyKey (pr_receipt (tp_result p)) = rb_idempotencyKey (cm_receipt m)"
  using p
proof (cases rule: Plan_Inr_cases)
  case (replay r)
  then show thesis by (intro replayed) auto
next
  case (commit result c)
  have "commits (policy_command (cm_command m)) (cm_receipt m) (normalizeTime reading) s (tp_effects p) (px_state c)"
    using dispatch_commits [OF commit(2)] m partition_ok_keyed [OF ok commit(8)] by (simp add: sealed_mutation_def)
  with commit show thesis
    by (intro committed [of "px_state c"]) (auto simp: add_receipt_def receipt_def)
qed

text \<open>A plan is bound to its mutation and valid, and its state stores its receipt, on either path.\<close>

lemma plan_binding:
  assumes "Plan P x reading n s m = (Inr p, n')"
  shows "tp_base p = s" "rc_scope (pr_receipt (tp_result p)) = rb_scope (cm_receipt m)"
    "rc_idempotencyKey (pr_receipt (tp_result p)) = rb_idempotencyKey (cm_receipt m)"
    "rc_requestDigest (pr_receipt (tp_result p)) = rb_requestDigest (cm_receipt m)"
    "rc_command (pr_receipt (tp_result p)) = command_string (cm_kind m)"
  using assms
  by (cases rule: Plan_Inr_cases;
      auto simp: replayPlan_def receipt_def dest: findReceipt_SomeD)+

lemma plan_valid:
  assumes "Plan P x reading n s m = (Inr p, n')"
  shows "plan_Validate p \<and> \<not> x"
  using assms
proof (cases rule: Plan_Inr_cases)
  case (replay r)
  have "containsReceipt s r" using findReceipt_SomeD(1) [OF replay(1)] by (rule containsI)
  with replay assms show ?thesis
    by (auto simp: replayPlan_def plan_Validate_def zero_EffectSet_def Plan_def)
next
  case (commit result c)
  with assms show ?thesis by (auto simp: Plan_def Let_def split: if_splits)
qed

lemma find_append: "find p (xs @ ys) = (case find p xs of None \<Rightarrow> find p ys | Some x \<Rightarrow> Some x)"
  by (induction xs) auto

lemma findReceipt_snoc:
  "findReceipt s b = None \<Longrightarrow> st_receipts s' = st_receipts s @ [r] \<Longrightarrow> rc_scope r = rb_scope b \<Longrightarrow>
   rc_idempotencyKey r = rb_idempotencyKey b \<Longrightarrow> findReceipt s' b = Some r"
  by (simp add: findReceipt_def find_append)

lemma findReceipt_after:
  assumes plan: "Plan P x reading n s m = (Inr p, n')" and sealed: "sealed_mutation m"
    and ok: "partition_ok (sc_tenant (rb_scope (cm_receipt m))) s"
  shows "findReceipt (tp_state p) (cm_receipt m) = Some (pr_receipt (tp_result p))"
  using plan
proof (cases rule: Plan_Inr_cases)
  case (replay r)
  then show ?thesis by (simp add: replayPlan_def)
next
  case (commit result c)
  have "st_receipts (px_state c) = st_receipts s"
    using dispatcher.keeps_receipts [OF commit(2)] partition_ok_keyed [OF ok commit(8)] sealed
    by (simp add: sealed_mutation_def)
  with commit plan_binding [OF plan] show ?thesis by (auto intro!: findReceipt_snoc)
qed

lemma plan_again:
  assumes plan: "Plan P x reading n s m = (Inr p, n')" and "sealed_mutation m"
    and "partition_ok (sc_tenant (rb_scope (cm_receipt m))) s" and "rb_command (cm_receipt m) = cm_kind m"
    and "\<not> receiptExpired (pr_receipt (tp_result p)) (normalizeTime again)" and "\<not> IsZero again"
  shows "Plan P False again k (tp_state p) m = (Inr (replayPlan (tp_state p) (cm_kind m) (pr_receipt (tp_result p))), k)"
proof -
  have "cm_kind m \<noteq> CommandUnset" "validateState (tp_state p)"
    using plan by (auto elim!: Plan_Inr_cases simp: replayPlan_def plan_Validate_def)
  with assms(4-) findReceipt_after [OF assms(1-3)] plan_binding [OF plan] show ?thesis by (simp add: Plan_def Let_def)
qed

lemma plan_partition_ok:
  assumes "Plan P x reading n s m = (Inr p, n')" and "sealed_mutation m"
    and ok: "partition_ok (sc_tenant (rb_scope (cm_receipt m))) s"
  shows "partition_ok (sc_tenant (rb_scope (cm_receipt m))) (tp_state p)"
  using assms
proof (cases rule: plan_outcome)
  case (replayed r)
  with ok show ?thesis by (simp add: replayPlan_def)
next
  case (committed mid)
  with commits_partition_ok [OF committed(4) ok] show ?thesis by (simp add: partition_ok_receipt)
qed

lemma partition_ok_empty [simp]: "partition_ok T zero_RuntimeState"
  by (simp add: partition_ok_def core_ok_def log_ok_def links_def zero_RuntimeState_def)

lemma reachable_partition_ok: "reachable P T s \<Longrightarrow> partition_ok T s"
proof (induction rule: reachable.induct)
  case reachable_empty
  show ?case by simp
next
  case (reachable_plan s s')
  from reachable_plan(2,3) show ?case by (auto elim!: plans.cases dest: plan_partition_ok)
qed

lemma reachable_valid: "reachable P T s \<Longrightarrow> validateState s"
proof (induction rule: reachable.induct)
  case reachable_empty
  show ?case by (simp add: validateState_def zero_RuntimeState_def)
next
  case (reachable_plan s s')
  from reachable_plan(2) obtain x reading n m p n' where "Plan P x reading n s m = (Inr p, n')" "s' = tp_state p"
    by (auto elim!: plans.cases)
  then show ?case by (auto elim!: Plan_Inr_cases simp: replayPlan_def)
qed

section \<open>Along a run\<close>

text \<open>A step of a reachable partition moves every record along its machine, whoever the actor is.\<close>

lemma plans_lifecycle:
  assumes "plans P T s s'" and "partition_ok T s"
  obtains "s' = s" | mid now d admin b r where "sc_tenant (rb_scope b) = T"
    "commits admin b now s d mid" "s' = add_receipt mid r"
  using assms
proof (cases rule: plans.cases)
  case (plans_step m x reading n p n')
  have "partition_ok (sc_tenant (rb_scope (cm_receipt m))) s" using assms(2) plans_step by simp
  with plans_step(4,2) show thesis
  proof (cases rule: plan_outcome)
    case (replayed r)
    with plans_step that(1) show thesis by (simp add: replayPlan_def)
  next
    case (committed mid)
    with plans_step that(2) show thesis by blast
  qed
qed

lemma plans_tables:
  assumes "plans P T s s'" and "partition_ok T s"
  obtains "s' = s" | m S now where "lifecycle T S now s m"
    "st_turns s' = st_turns m" "st_sessions s' = st_sessions m" "st_grants s' = st_grants m"
    "st_approvals s' = st_approvals m" "st_toolExecutions s' = st_toolExecutions m"
    "st_invocations s' = st_invocations m"
    "prefix (st_events s) (st_events s')" "prefix (st_audit s) (st_audit s')"
    "prefix (st_receipts s) (st_receipts s')"
    "evolves (\<lambda>r. ob_tenant r = T) (outbox_step now) (\<lambda>_. False) (st_outbox s) (st_outbox m)"
    "list_all2 same_route (st_outbox m) (take (length (st_outbox m)) (st_outbox s'))"
  using assms
proof (cases rule: plans_lifecycle)
  case 1
  with that(1) show thesis by simp
next
  case (2 mid now d admin b r)
  then obtain m where m: "lifecycle T (actor_sessions admin (rb_scope b) s) now s m"
      "st_events m = st_events s" "st_audit m = st_audit s" "emits {T} m d mid"
      "evolves (\<lambda>r. ob_tenant r = T) (outbox_step now) (\<lambda>_. False) (st_outbox s) (st_outbox m)"
    by (auto simp: commits_def)
  note f = emits_fields [OF m(4)]
  have "list_all2 same_route (st_outbox m) (take (length (st_outbox m)) (st_outbox mid))"
    using m(4) by (auto simp: emits_def list_all2_append1)
  with 2 m f lifecycleD(13) [OF m(1)] show thesis
    by (intro that(2) [OF m(1)]) (auto simp: add_receipt_def emits_def)
qed

lemma plans_partition_ok: "plans P T s s' \<Longrightarrow> partition_ok T s \<Longrightarrow> partition_ok T s'"
  by (auto elim!: plans.cases dest: plan_partition_ok)

lemma run_partition_ok: "(plans P T)\<^sup>*\<^sup>* s s' \<Longrightarrow> partition_ok T s \<Longrightarrow> partition_ok T s'"
  by (induction rule: rtranclp_induct) (auto intro: plans_partition_ok)

text \<open>The interface of a table along a run: a record keeps its index and moves along its machine.
  A relation that contains the machine's steps then holds between the first and the last state.\<close>

locale run_table =
  fixes tab :: "RuntimeState \<Rightarrow> 'r list" and step :: "gtime \<Rightarrow> 'r \<Rightarrow> 'r \<Rightarrow> bool"
  assumes moves: "plans P T s s' \<Longrightarrow> partition_ok T s \<Longrightarrow> i < length (tab s) \<Longrightarrow>
    i < length (tab s') \<and> (\<exists>now. (step now)\<^sup>*\<^sup>* (tab s ! i) (tab s' ! i))"
begin

lemma run_relates:
  assumes run: "(plans P T)\<^sup>*\<^sup>* s s'" and ok: "partition_ok T s" and i: "i < length (tab s)"
    and R: "reflp R" "transp R" and step: "\<And>now x y. step now x y \<Longrightarrow> R x y"
  shows "i < length (tab s') \<and> R (tab s ! i) (tab s' ! i)"
  using run
proof (induction rule: rtranclp_induct)
  case base
  show ?case using i R(1) by (simp add: reflpD)
next
  case (step u v)
  have steps: "R x y" if "(step now)\<^sup>*\<^sup>* x y" for now x y
    using that by (induction rule: rtranclp_induct) (auto intro: assms(6) reflpD [OF R(1)] transpD [OF R(2)])
  from run_partition_ok [OF step(1) ok] moves [OF step(2)] step(3)
  show ?case by (auto dest!: steps intro: transpD [OF R(2)])
qed

lemma run_keeps:
  assumes "(plans P T)\<^sup>*\<^sup>* s s'" "partition_ok T s" and "x \<in> set (tab s)" and final: "\<And>now y. \<not> step now x y"
  shows "x \<in> set (tab s')"
proof -
  from assms(3) obtain i where i: "i < length (tab s)" "x = tab s ! i" by (auto simp: in_set_conv_nth)
  have "i < length (tab s') \<and> (\<lambda>a b. a = b \<or> a \<noteq> x) (tab s ! i) (tab s' ! i)"
    by (rule run_relates [OF assms(1,2) i(1)]) (use final in \<open>auto simp: reflp_def transp_def\<close>)
  with i show ?thesis by auto
qed

end

lemma evolves_moves:
  assumes "evolves may step fresh xs ys" "i < length xs"
  shows "i < length ys \<and> step\<^sup>*\<^sup>* (xs ! i) (ys ! i)"
proof -
  from assms(1) obtain zs ws where "ys = zs @ ws" "list_all2 (\<lambda>x y. x = y \<or> may x \<and> step\<^sup>*\<^sup>* x y) xs zs"
    by (auto simp: evolves_def)
  with assms(2) show ?thesis by (auto simp: list_all2_conv_all_nth nth_append)
qed

definition route_step :: "gtime \<Rightarrow> OutboxRecord \<Rightarrow> OutboxRecord \<Rightarrow> bool" where
  "route_step now r r' \<longleftrightarrow> outbox_step now r r' \<or> same_route r r'"

interpretation turn_table: run_table st_turns turn_step
  by unfold_locales (auto elim!: plans_tables dest!: lifecycleD(11) evolves_moves)
interpretation session_table: run_table st_sessions session_step
  by unfold_locales (auto elim!: plans_tables dest!: lifecycleD(3) evolves_moves)
interpretation grant_table: run_table st_grants grant_step
  by unfold_locales (auto elim!: plans_tables dest!: lifecycleD(8) evolves_moves)
interpretation approval_table: run_table st_approvals approval_step
  by unfold_locales (auto elim!: plans_tables dest!: lifecycleD(10) evolves_moves)
interpretation execution_table: run_table st_toolExecutions execution_step
  by unfold_locales (auto elim!: plans_tables dest!: lifecycleD(9) evolves_moves)
interpretation invocation_table: run_table st_invocations invocation_step
  by unfold_locales (auto elim!: plans_tables dest!: lifecycleD(12) evolves_moves)

lemma plans_routes:
  assumes "plans P T s s'" "partition_ok T s" "i < length (st_outbox s)"
  shows "i < length (st_outbox s') \<and> (\<exists>now. (route_step now)\<^sup>*\<^sup>* (st_outbox s ! i) (st_outbox s' ! i))"
  using assms(1,2)
proof (cases rule: plans_tables)
  case 1
  with assms(3) show ?thesis by auto
next
  case (2 m S now)
  from evolves_moves [OF 2(11) assms(3)] have m: "i < length (st_outbox m)"
      "(outbox_step now)\<^sup>*\<^sup>* (st_outbox s ! i) (st_outbox m ! i)" by auto
  from 2(12) m(1) have r: "i < length (st_outbox s')" "same_route (st_outbox m ! i) (st_outbox s' ! i)"
    by (auto simp: list_all2_conv_all_nth)
  have "(route_step now)\<^sup>*\<^sup>* (st_outbox s ! i) (st_outbox m ! i)"
    using m(2) by (rule mono_rtranclp [rule_format, rotated]) (simp add: route_step_def)
  moreover have "route_step now (st_outbox m ! i) (st_outbox s' ! i)" using r(2) by (simp add: route_step_def)
  ultimately show ?thesis using r(1) by (blast intro: rtranclp.rtrancl_into_rtrancl)
qed

interpretation route_table: run_table st_outbox route_step
  by unfold_locales (rule plans_routes)

lemma run_logs:
  assumes "(plans P T)\<^sup>*\<^sup>* s s'" "partition_ok T s"
  shows "prefix (st_events s) (st_events s') \<and> prefix (st_audit s) (st_audit s') \<and> prefix (st_receipts s) (st_receipts s')"
  using assms
proof (induction rule: rtranclp_induct)
  case base
  show ?case by simp
next
  case (step u v)
  have "partition_ok T u" using run_partition_ok [OF step(1) step(4)] .
  with step(2) have "prefix (st_events u) (st_events v) \<and> prefix (st_audit u) (st_audit v) \<and> prefix (st_receipts u) (st_receipts v)"
    by (auto elim!: plans_tables)
  with step(3,4) show ?case by (meson prefix_order.trans)
qed

end
