(* ===== verification/Example_Run.thy ===== *)
theory Example_Run
  imports Reachability
begin

text \<open>
  One concrete run of the planner, on which the statements about reachable partitions are
  exercised: a revision and a Session, two inputs, a tool approval with its grant, a consumed use, an
  execution, and the settlement that promotes the second Turn. The identifier source numbers its answers; the rules
  below evaluate \<open>Plan\<close> by rewriting, with congruences that keep the simplifier out of the continuations.
\<close>

section \<open>An identifier source\<close>

definition example_payload :: "nat \<Rightarrow> string" where
  "example_payload n = replicate 13 (CHR ''0'') @ [digit (n div 100 mod 10), digit (n div 10 mod 10), digit (n mod 10)]"

definition example_id :: "nat \<Rightarrow> IdentifierKind \<Rightarrow> string" where
  "example_id n k =
     (case k of IdentifierAgent \<Rightarrow> agentPrefix | IdentifierRevision \<Rightarrow> agentRevisionPrefix
      | IdentifierSession \<Rightarrow> sessionPrefix | IdentifierInput \<Rightarrow> inputPrefix | IdentifierArtifact \<Rightarrow> artifactPrefix
      | IdentifierTurn \<Rightarrow> turnPrefix | IdentifierEvent \<Rightarrow> eventPrefix | IdentifierCursor \<Rightarrow> cursorPrefix
      | _ \<Rightarrow> ''id_'') @ example_payload n"

definition example_planner :: RuntimeStatePlanner where
  "example_planner = \<lparr>pl_ids = \<lambda>n k. Some (example_id n k), pl_retention = defaultRetention\<rparr>"

lemma digit_eq: "m < 10 \<Longrightarrow> n < 10 \<Longrightarrow> digit m = digit n \<longleftrightarrow> m = n"
  by (auto simp: digit_def dest!: arg_cong [where f = of_char])

lemma three_digits:
  fixes n :: nat
  assumes "n < 1000" shows "n = 100 * (n div 100 mod 10) + 10 * (n div 10 mod 10) + n mod 10"
proof -
  have "n div 100 mod 10 = n div 10 div 10" using assms by (simp add: div_mult2_eq [symmetric])
  then show ?thesis using mult_div_mod_eq [of 10 n] mult_div_mod_eq [of 10 "n div 10"] by linarith
qed

lemma example_id_eq [simp]:
  assumes "m < 1000" "n < 1000" shows "example_id m k = example_id n k \<longleftrightarrow> m = n"
proof
  assume "example_id m k = example_id n k"
  then have "m div 100 mod 10 = n div 100 mod 10" "m div 10 mod 10 = n div 10 mod 10" "m mod 10 = n mod 10"
    by (simp_all add: example_id_def example_payload_def digit_eq)
  then show "m = n" using three_digits [OF assms(1)] three_digits [OF assms(2)] by linarith
qed simp

lemma digit_alpha: "n < 10 \<Longrightarrow> asciiAlphaNumeric (digit n)"
  by (auto simp: digit_def asciiAlphaNumeric_def)

lemma zero_alpha: "asciiAlphaNumeric (CHR ''0'')"
  by (simp add: asciiAlphaNumeric_def)

lemma example_payload_ok: "validPayload (example_payload n)"
  by (simp add: validPayload_def example_payload_def list_all_iff digit_alpha zero_alpha)

lemma example_parse [simp]:
  "ParseAgentID (example_id n IdentifierAgent) = Some (example_id n IdentifierAgent)"
  "ParseAgentRevisionID (example_id n IdentifierRevision) = Some (example_id n IdentifierRevision)"
  "ParseSessionID (example_id n IdentifierSession) = Some (example_id n IdentifierSession)"
  "ParseInputID (example_id n IdentifierInput) = Some (example_id n IdentifierInput)"
  "ParseTurnID (example_id n IdentifierTurn) = Some (example_id n IdentifierTurn)"
  "ParseEventID (example_id n IdentifierEvent) = Some (example_id n IdentifierEvent)"
  "ParseCursor (example_id n IdentifierCursor) = Some (example_id n IdentifierCursor)"
  by (simp_all add: parse_defs example_id_def parseID_append example_payload_ok)

lemma example_id_nonempty [simp]: "example_id n k \<noteq> []"
  by (simp add: example_id_def example_payload_def)

section \<open>A partition and two commands\<close>

definition example_scope :: "Authority \<Rightarrow> MutationScope" where
  "example_scope a = \<lparr>sc_tenant = ''acme'', sc_principal = ''ada'', sc_authority = a\<rparr>"

definition example_mutation :: "Authority \<Rightarrow> string \<Rightarrow> CommandKind \<Rightarrow> compiled_command \<Rightarrow> CompiledMutation" where
  "example_mutation a key kind c =
     \<lparr>cm_kind = kind, cm_receipt = \<lparr>rb_scope = example_scope a, rb_idempotencyKey = key, rb_command = kind,
        rb_requestDigest = ''d''\<rparr>, cm_command = c\<rparr>"

definition example_reference :: Reference where
  "example_reference = \<lparr>ref_digest = ''r'', ref_mediaType = ''m'', ref_sizeBytes = 1\<rparr>"

definition example_register :: CompiledMutation where
  "example_register = example_mutation AuthorityTenantAdministrator ''k1'' CommandRegisterAgentRevision
     (C_register
       \<lparr>cr_command = \<lparr>rac_scope = example_scope AuthorityTenantAdministrator, rac_idempotencyKey = ''k1'',
          rac_agentID = [], rac_expectedRevision = 0,
          rac_specification = \<lparr>ch_issuer = Some 0, ch_tenant = ''acme'', ch_reference = example_reference,
            ch_kind = contentKindAgentSpecificationBody, ch_name = ''a'', ch_modelProfile = ''p''\<rparr>\<rparr>,
        cr_commitment = \<lparr>asc_tenant = ''acme'', asc_reference = example_reference, asc_name = ''a'',
          asc_modelProfile = ''p''\<rparr>\<rparr>)"

definition example_session :: SessionID where
  "example_session = example_id 1 IdentifierSession"

definition example_turn :: "nat \<Rightarrow> TurnState \<Rightarrow> TurnRecord" where
  "example_turn n st = \<lparr>tu_tenant = ''acme'', tu_principal = ''ada'', tu_sessionID = example_session,
     tu_turnID = example_id n IdentifierTurn, tu_inputID = example_id n IdentifierInput, tu_position = n, tu_state = st,
     tu_version = 1, tu_startedAt = (if st = TurnQueued then None else Some (GTime 10 True)),
     tu_completedAt = (if terminal_turn st then Some (GTime 20 True) else None), tu_failure = None,
     tu_retentionUntil = GTime 5000 True\<rparr>"

text \<open>One Session with a settled, a running and a queued Turn; the running Turn holds a consumed grant.\<close>

definition example_state :: RuntimeState where
  "example_state = zero_RuntimeState
     \<lparr>st_sessions := [\<lparr>ss_tenant = ''acme'', ss_principal = ''ada'', ss_sessionID = example_session, ss_agentID = ''ag'',
        ss_revisionID = ''rv'', ss_state = SessionOpen, ss_version = 4, ss_createdAt = GTime 5 True,
        ss_updatedAt = GTime 20 True, ss_retainUntil = GTime 5000 True\<rparr>],
      st_toolIntents := [\<lparr>ti_tenant = ''acme'', ti_principal = ''ada'', ti_sessionID = example_session,
        ti_turnID = example_id 2 IdentifierTurn, ti_toolCallID = ''call'', ti_toolName = ''tool'', ti_actionDigest = ''x'',
        ti_actionDescriptor = example_reference, ti_policyRevisionDigest = ''y'', ti_createdAt = GTime 15 True,
        ti_retainUntil = GTime 5000 True\<rparr>],
      st_approvals := [\<lparr>ap_tenant = ''acme'', ap_principal = ''ada'', ap_approvalID = ''appr'', ap_sessionID = example_session,
        ap_turnID = example_id 2 IdentifierTurn, ap_toolCallID = ''call'', ap_actionDigest = ''x'',
        ap_policyRevisionDigest = ''y'', ap_state = ApprovalApproved, ap_capabilityDigest = ''z'', ap_actionVerb = ''read'',
        ap_actionTarget = ''file'', ap_maximumUses = 2, ap_expiresAt = GTime 2000 True, ap_decision = ApprovalApproved,
        ap_decidedAt = Some (GTime 16 True), ap_createdAt = GTime 15 True, ap_retainUntil = GTime 5000 True\<rparr>],
      st_grants := [\<lparr>gr_tenant = ''acme'', gr_principal = ''ada'', gr_sessionID = example_session,
        gr_turnID = example_id 2 IdentifierTurn, gr_grantID = ''grant'', gr_toolCallID = ''call'', gr_capabilityDigest = ''z'',
        gr_maximumUses = 2, gr_uses = 1, gr_expiresAt = GTime 2000 True, gr_revokedAt = None,
        gr_policyRevisionDigest = ''y'', gr_createdAt = GTime 16 True, gr_retainUntil = GTime 5000 True\<rparr>],
      st_turns := [example_turn 1 TurnSucceeded, example_turn 2 TurnRunning, example_turn 3 TurnQueued]\<rparr>"

text \<open>The same partition with a running Turn of another principal.\<close>

definition example_foreign_turn :: TurnRecord where
  "example_foreign_turn = (example_turn 4 TurnRunning)
     \<lparr>tu_principal := ''bob'', tu_sessionID := example_id 2 IdentifierSession\<rparr>"

definition example_shared :: RuntimeState where
  "example_shared = example_state
     \<lparr>st_sessions := st_sessions example_state @ [(hd (st_sessions example_state))
        \<lparr>ss_principal := ''bob'', ss_sessionID := example_id 2 IdentifierSession\<rparr>],
      st_turns := st_turns example_state @ [example_foreign_turn]\<rparr>"

definition example_settle :: CompiledMutation where
  "example_settle = example_mutation AuthorityRuntimeWorker ''k9'' CommandSettleTurn
     (C_settle \<lparr>stc_scope = example_scope AuthorityRuntimeWorker, stc_idempotencyKey = ''k9'',
       stc_sessionID = example_session, stc_turnID = example_id 2 IdentifierTurn, stc_expectedSessionVersion = 4,
       stc_expectedTurnVersion = 1,
       stc_outcome = \<lparr>to_operationID = [], to_ordinal = 0, to_fence = 0, to_state = TurnSucceeded, to_failure = None\<rparr>,
       stc_leaseFence = None\<rparr>)"

definition example_execute :: CompiledMutation where
  "example_execute = example_mutation AuthorityRuntimeWorker ''k8'' CommandBeginToolExecution
     (C_beginToolExecution \<lparr>btc_scope = example_scope AuthorityRuntimeWorker, btc_idempotencyKey = ''k8'',
       btc_toolCallID = ''call'', btc_grantID = ''grant'', btc_sessionID = example_session,
       btc_turnID = example_id 2 IdentifierTurn, btc_operationID = ''op''\<rparr>)"

definition example_plan :: "RuntimeState \<Rightarrow> CompiledMutation \<Rightarrow> TransitionPlan" where
  "example_plan s m = projr (fst (Plan example_planner False (GTime 1000 True) 100 s m))"

section \<open>Evaluation\<close>

lemma pbind_apply: "pbind m f c = (case m c of (r, c') \<Rightarrow> case r of Inl e \<Rightarrow> (Inl e, c') | Inr a \<Rightarrow> f a c')"
  by (simp add: pbind_def split: prod.splits sum.splits)

lemma pbind_cong: "c = c' \<Longrightarrow> pbind m f c = pbind m f c'"
  by simp

lemma raw_example: "raw example_planner kind c = (Inr (example_id (px_next c) kind), c\<lparr>px_next := Suc (px_next c)\<rparr>)"
  by (simp add: raw_def example_planner_def)

lemma retain_example: "retain example_planner t k = normalizeTime (add_duration t (24 * hour))"
  by (simp add: retain_def example_planner_def defaultRetention_def)

lemmas run_congs = pbind_cong prod.case_cong_weak sum.case_cong_weak option.case_cong_weak let_weak_cong if_weak_cong

lemmas run_monad = pbind_apply raw_example retain_example pure_def pget_def pmodify_def pput_def pfail_def parsed_def
  agentID_def revisionID_def sessionID_def inputID_def turnID_def eventID_def cursor_def invocationID_def
  auditID_def outboxID_def grantID_def Let_def normalizeTime_def IsZero_def add_duration_def hour_def
  After_def Before_def

lemmas run_effects = route_fact_def auditOnly_def appendAuditLifecycle_def auditLifecycleKinds_def
  factKind_def fact_def event_def outbox_def effects_def link_route_def link_at_def appendEffects_def next_after_def
  auditOutbox_def catalogOutbox_def toolExecutionOutbox_def add_audit_def add_outbox_def add_event_def
  eff_audit_def eff_outbox_def eff_event_def auditAgentRevisionID_def
  decorateToolAuditFacts_def decorate_fact_def decorate_route_def facts_by_id_def
  auditContextForApproval_def auditContextForGrant_def auditContextForExecution_def

lemmas run_zero = zero_RuntimeState_def zero_EffectSet_def zero_OutboxRecord_def zero_PlanResult_def
  zero_AgentRevisionRecord_def zero_PolicyRevisionRecord_def zero_SessionRecord_def zero_InputRecord_def
  zero_ArtifactRecord_def zero_ConversationRecord_def zero_TurnRecord_def zero_InvocationRecord_def
  zero_MutationReceipt_def zero_Reference_def

lemmas run_find = findReceipt_def findSession_def findTurn_def findApproval_def findGrant_def

lemmas run_plan = Plan_def dispatch_def receipt_def firstID_def receiptExpired_def validateState_def valid_grant_def
  receipt_key_def validSession_def validTurn_def plan_Validate_def containsReceipt_def containsEvent_def
  containsAudit_def containsOutbox_def

lemmas run_handlers = register_def new_revision_def latest_def createSession_def admit_def admitted_input_def
  admitted_turn_def active_turn_def admitToolApproval_def admitted_approval_def admitted_intent_def pause_turn_def
  decideApproval_def issue_grant_def approved_grant_def resume_turn_def approvalEffects_def rename_fact_def
  consumeCapabilityGrant_def beginToolExecution_def new_execution_def settle_def settled_invocation_def
  outboxLeaseFenceCurrent_def after_turn_def promote_def

lemmas run_commands = example_mutation_def example_scope_def example_register_def example_execute_def
  example_settle_def example_reference_def example_session_def example_turn_def example_state_def

lemmas run_simps = run_monad run_effects run_zero run_find run_plan run_handlers run_commands

lemma itoa_small: "n < 10 \<Longrightarrow> itoa n = [digit n]"
  by (simp add: itoa.simps)

lemma example_register_plans: "\<not> isl (fst (Plan example_planner False (GTime 1000 True) 100 zero_RuntimeState example_register))"
  by (simp add: run_simps cong: run_congs)

lemma example_settle_plans: "\<not> isl (fst (Plan example_planner False (GTime 1000 True) 100 example_state example_settle))"
  by (simp add: run_simps terminal_turn_def itoa_small digit_eq cong: run_congs)

lemma example_state_ok: "partition_ok ''acme'' example_state"
  by (simp add: partition_ok_def core_ok_def log_ok_def ok_defs fresh_defs turn_shape_def links_def session_keys_def
   session_ident_def turn_keys_def turn_key_def grant_approval_def approval_intent_def terminal_turn_def
  run_zero run_commands)

lemma example_execute_plans: "\<not> isl (fst (Plan example_planner False (GTime 1000 True) 100 example_state example_execute))"
  by (simp add: run_simps terminal_turn_def itoa_small digit_eq cong: run_congs)

lemma example_execution:
  "\<exists>e \<in> set (st_toolExecutions (tp_state (example_plan example_state example_execute))). te_grantID e = ''grant''"
  by (simp add: example_plan_def run_simps terminal_turn_def itoa_small digit_eq cong: run_congs)

lemma example_planned:
  assumes "\<not> isl (fst (Plan example_planner False (GTime 1000 True) 100 s m))"
  obtains n where "Plan example_planner False (GTime 1000 True) 100 s m = (Inr (example_plan s m), n)"
  using assms by (cases "Plan example_planner False (GTime 1000 True) 100 s m"; cases "fst (Plan example_planner False (GTime 1000 True) 100 s m)")
    (auto simp: example_plan_def)

lemma example_steps:
  assumes "\<not> isl (fst (Plan example_planner False (GTime 1000 True) 100 s m))" "sealed_mutation m"
    and "sc_tenant (rb_scope (cm_receipt m)) = ''acme''"
  shows "plans example_planner ''acme'' s (tp_state (example_plan s m))"
  using example_planned [OF assms(1)] assms(2,3) by (metis plans_step)

lemma example_sealed [simp]:
  "sealed_mutation example_register" "sealed_mutation example_settle" "sealed_mutation example_execute"
  "sc_tenant (rb_scope (cm_receipt example_register)) = ''acme''"
  "sc_tenant (rb_scope (cm_receipt example_settle)) = ''acme''"
  "sc_tenant (rb_scope (cm_receipt example_execute)) = ''acme''"
  by (simp_all add: sealed_mutation_def terminal_turn_def run_commands)

lemma example_register_reachable:
  "reachable example_planner ''acme'' (tp_state (example_plan zero_RuntimeState example_register))"
  by (rule reachable_plan [OF reachable_empty example_steps [OF example_register_plans]]) simp_all

lemma example_settle_step: "plans example_planner ''acme'' example_state (tp_state (example_plan example_state example_settle))"
  by (rule example_steps [OF example_settle_plans]) simp_all

lemma example_execute_step: "plans example_planner ''acme'' example_state (tp_state (example_plan example_state example_execute))"
  by (rule example_steps [OF example_execute_plans]) simp_all

lemma example_promoted:
  "\<exists>t \<in> set (st_turns (tp_state (example_plan example_state example_settle))). tu_state t = TurnRunning"
  by (simp add: example_plan_def run_simps terminal_turn_def itoa_small digit_eq cong: run_congs)

lemma example_session_distinct [simp]: "m < 1000 \<Longrightarrow> n < 1000 \<Longrightarrow> m \<noteq> n \<Longrightarrow>
  example_id m IdentifierSession @ xs \<noteq> example_id n IdentifierSession @ ys"
  using example_id_eq [of m n IdentifierSession] by (auto simp: append_eq_append_conv example_id_def example_payload_def)

lemma example_shared_plans: "\<not> isl (fst (Plan example_planner False (GTime 1000 True) 100 example_shared example_settle))"
  by (simp add: example_shared_def example_foreign_turn_def run_simps terminal_turn_def itoa_small digit_eq cong: run_congs)

lemma example_shared_ok: "partition_ok ''acme'' example_shared"
  by (simp add: partition_ok_def core_ok_def log_ok_def ok_defs fresh_defs turn_shape_def links_def session_keys_def
   session_ident_def turn_keys_def turn_key_def grant_approval_def approval_intent_def terminal_turn_def
  example_shared_def example_foreign_turn_def run_zero run_commands)

end
