(* ===== verification/Run_Properties.thy ===== *)
theory Run_Properties
  imports Example_Run
begin

text \<open>
  The properties of whole runs of the planner on one tenant partition: the invariant, the monotone
  record machines, the append-only logs, the authority behind tool executions, and the isolation of
  principals.
\<close>

section \<open>Properties\<close>

text \<open>C1: every state the planner can reach from the empty tenant partition is valid for
  \<open>validateState\<close> and satisfies the partition invariant: all records belong to the tenant, references
  resolve, each record is in a state of its machine, no grant is used beyond its maximum, audit
  links resolve and the events of each Session are numbered without gaps.\<close>

theorem reachable_invariant:
  assumes "reachable P T s"
  shows "partition_ok T s \<and> validateState s"
  using assms by (simp add: reachable_partition_ok reachable_valid)

theorem reachable_invariant_witness:
  "partition_ok ''acme'' (tp_state (example_plan zero_RuntimeState example_register))
   \<and> validateState (tp_state (example_plan zero_RuntimeState example_register))"
  by (rule reachable_invariant [OF example_register_reachable])

text \<open>C23: a settled Turn never changes again, whatever sealed commands of the tenant are planned
  afterwards.\<close>

theorem settled_turn_final:
  assumes "partition_ok T s" and "(plans P T)\<^sup>*\<^sup>* s s'"
    and "t \<in> set (st_turns s)" and "terminal_turn (tu_state t)"
  shows "t \<in> set (st_turns s')"
proof (rule turn_table.run_keeps [OF assms(2,1,3)])
  show "\<not> turn_step now t y" for now y
    using assms(4) by (auto simp: terminal_turn_def pending_turn_def elim!: turn_step.cases)
qed

theorem settled_turn_final_witness:
  "example_turn 1 TurnSucceeded \<in> set (st_turns (tp_state (example_plan example_state example_settle)))"
proof (rule settled_turn_final [OF example_state_ok r_into_rtranclp, OF example_settle_step])
  show "example_turn 1 TurnSucceeded \<in> set (st_turns example_state)" by (simp add: example_state_def)
  show "terminal_turn (tu_state (example_turn 1 TurnSucceeded))" by (simp add: terminal_turn_def example_turn_def)
qed

text \<open>C37: along a run the version of a Turn never decreases, and a Turn whose version is unchanged
  is unchanged as a whole, so the version comparisons of \<open>begin\<close>, \<open>recordOutcome\<close> and \<open>settle\<close> detect
  every intervening change. Its identity, Session and queue position never change.\<close>

theorem turn_versions:
  assumes "partition_ok T s" and "(plans P T)\<^sup>*\<^sup>* s s'" and "i < length (st_turns s)"
  shows "i < length (st_turns s') \<and> tu_version (st_turns s ! i) \<le> tu_version (st_turns s' ! i)
    \<and> (tu_version (st_turns s' ! i) = tu_version (st_turns s ! i) \<longrightarrow> st_turns s' ! i = st_turns s ! i)
    \<and> turn_ident (st_turns s' ! i) = turn_ident (st_turns s ! i)"
proof -
  let ?R = "\<lambda>x y. tu_version x \<le> tu_version y \<and> (tu_version y = tu_version x \<longrightarrow> y = x) \<and> turn_ident y = turn_ident x"
  have "i < length (st_turns s') \<and> ?R (st_turns s ! i) (st_turns s' ! i)"
  proof (rule turn_table.run_relates [OF assms(2,1,3)])
    show "reflp ?R" by (simp add: reflp_def)
    show "transp ?R" by (force simp: transp_def)
    show "?R x y" if "turn_step now x y" for now x y
      using that turns.step_ident [OF that] by (auto elim!: turn_step.cases)
  qed
  then show ?thesis by blast
qed

theorem turn_versions_witness:
  "1 \<le> tu_version (st_turns (tp_state (example_plan example_state example_settle)) ! 1)"
  using turn_versions [OF example_state_ok r_into_rtranclp, OF example_settle_step, of 1]
  by (simp add: run_commands)

text \<open>C22: a run only ever appends to the product events, the audit facts and the mutation receipts.\<close>

theorem logs_append_only:
  assumes "partition_ok T s" and "(plans P T)\<^sup>*\<^sup>* s s'"
  shows "prefix (st_events s) (st_events s') \<and> prefix (st_audit s) (st_audit s') \<and> prefix (st_receipts s) (st_receipts s')"
  using run_logs [OF assms(2,1)] .

theorem logs_append_only_witness:
  "prefix (st_events example_state) (st_events (tp_state (example_plan example_state example_settle)))"
  using logs_append_only [OF example_state_ok r_into_rtranclp, OF example_settle_step] by simp

text \<open>C7: an approval that was approved, denied, expired or cancelled keeps that decision for ever,
  and a grant keeps its scope and maximum while its uses only grow, up to the maximum; once revoked it
  stays revoked and is never used again.\<close>

theorem authority_final:
  assumes "partition_ok T s" and "(plans P T)\<^sup>*\<^sup>* s s'"
  shows "(\<forall>a \<in> set (st_approvals s). ap_state a \<noteq> ApprovalPending \<longrightarrow> a \<in> set (st_approvals s'))
    \<and> (\<forall>i < length (st_grants s). i < length (st_grants s')
         \<and> grant_ident (st_grants s' ! i) = grant_ident (st_grants s ! i)
         \<and> gr_uses (st_grants s ! i) \<le> gr_uses (st_grants s' ! i)
         \<and> gr_uses (st_grants s' ! i) \<le> gr_maximumUses (st_grants s' ! i)
         \<and> (gr_revokedAt (st_grants s ! i) \<noteq> None \<longrightarrow> st_grants s' ! i = st_grants s ! i))"
proof (intro conjI allI impI ballI)
  fix a assume a: "a \<in> set (st_approvals s)" "ap_state a \<noteq> ApprovalPending"
  show "a \<in> set (st_approvals s')"
    by (rule approval_table.run_keeps [OF assms(2,1) a(1)]) (use a(2) in \<open>auto elim!: approval_step.cases\<close>)
next
  fix i assume i: "i < length (st_grants s)"
  let ?R = "\<lambda>x y. grant_ident y = grant_ident x \<and> gr_uses x \<le> gr_uses y \<and> (gr_revokedAt x \<noteq> None \<longrightarrow> y = x)"
  have R: "i < length (st_grants s') \<and> ?R (st_grants s ! i) (st_grants s' ! i)"
  proof (rule grant_table.run_relates [OF assms(2,1) i])
    show "reflp ?R" by (simp add: reflp_def)
    show "transp ?R" by (auto simp: transp_def)
    show "?R x y" if "grant_step now x y" for now x y
      using that grants.step_ident [OF that] by (auto elim!: grant_step.cases)
  qed
  then show "i < length (st_grants s')" "grant_ident (st_grants s' ! i) = grant_ident (st_grants s ! i)"
    "gr_uses (st_grants s ! i) \<le> gr_uses (st_grants s' ! i)"
    "gr_revokedAt (st_grants s ! i) \<noteq> None \<Longrightarrow> st_grants s' ! i = st_grants s ! i" by auto
  have "grant_ok T s' (st_grants s' ! i)"
    using run_partition_ok [OF assms(2,1)] R by (auto simp: partition_ok_def core_ok_def)
  then show "gr_uses (st_grants s' ! i) \<le> gr_maximumUses (st_grants s' ! i)" by (simp add: grant_ok_def)
qed

theorem authority_final_witness:
  "1 \<le> gr_uses (st_grants (tp_state (example_plan example_state example_settle)) ! 0)"
proof -
  from authority_final [OF example_state_ok r_into_rtranclp, OF example_settle_step]
  have "gr_uses (st_grants example_state ! 0) \<le> gr_uses (st_grants (tp_state (example_plan example_state example_settle)) ! 0)"
    by (auto simp: example_state_def)
  then show ?thesis by (simp add: example_state_def)
qed

text \<open>C6: behind every tool execution a run records stand a grant of the same Turn and tool call with at
  least one consumed use and no more than its maximum, an approved approval with the same bounds, and a recorded intent: no
  execution is recorded without that chain of authority.\<close>

theorem execution_authority:
  assumes "partition_ok T s" and "(plans P T)\<^sup>*\<^sup>* s s'" and "e \<in> set (st_toolExecutions s')"
  shows "\<exists>g \<in> set (st_grants s'). \<exists>a \<in> set (st_approvals s'). \<exists>i \<in> set (st_toolIntents s').
    gr_grantID g = te_grantID e \<and> 0 < gr_uses g \<and> gr_uses g \<le> gr_maximumUses g
    \<and> gr_sessionID g = te_sessionID e \<and> gr_turnID g = te_turnID e \<and> gr_toolCallID g = te_toolCallID e
    \<and> ap_state a = ApprovalApproved \<and> ap_turnID a = te_turnID e \<and> ap_toolCallID a = te_toolCallID e
    \<and> ap_maximumUses a = gr_maximumUses g \<and> ap_expiresAt a = gr_expiresAt g
    \<and> ti_turnID i = te_turnID e \<and> ti_toolCallID i = te_toolCallID e"
proof -
  have ok: "core_ok T s'" using run_partition_ok [OF assms(2,1)] by (simp add: partition_ok_def)
  with assms(3) have "execution_grant s' e" by (simp add: core_ok_def execution_ok_def)
  then obtain g where g: "g \<in> set (st_grants s')" "0 < gr_uses g" "gr_grantID g = te_grantID e"
      "gr_sessionID g = te_sessionID e" "gr_turnID g = te_turnID e" "gr_toolCallID g = te_toolCallID e"
    by (auto simp: execution_grant_def)
  from ok g(1) have "grant_ok T s' g" by (simp add: core_ok_def)
  then obtain a where a: "a \<in> set (st_approvals s')" "ap_state a = ApprovalApproved" "ap_turnID a = gr_turnID g"
      "ap_toolCallID a = gr_toolCallID g" "ap_maximumUses a = gr_maximumUses g" "ap_expiresAt a = gr_expiresAt g"
      "gr_uses g \<le> gr_maximumUses g"
    by (auto simp: grant_ok_def grant_approval_def)
  from ok a(1) have "approval_ok T s' a" by (simp add: core_ok_def)
  then obtain i where "i \<in> set (st_toolIntents s')" "ti_toolCallID i = ap_toolCallID a" "ti_turnID i = ap_turnID a"
    by (auto simp: approval_ok_def approval_intent_def)
  with g a show ?thesis by (intro bexI [of _ g] bexI [of _ a] bexI [of _ i]) auto
qed

theorem execution_authority_witness:
  "\<exists>g \<in> set (st_grants (tp_state (example_plan example_state example_execute))). gr_grantID g = ''grant'' \<and> 0 < gr_uses g"
proof -
  obtain e where e: "e \<in> set (st_toolExecutions (tp_state (example_plan example_state example_execute)))"
      "te_grantID e = ''grant''" using example_execution by blast
  show ?thesis
    using execution_authority [OF example_state_ok r_into_rtranclp, OF example_execute_step e(1)] e(2) by auto
qed

text \<open>C9: after any successful plan at most one Turn of a Session is running.\<close>

theorem one_running_turn:
  assumes "Plan P x reading n s m = (Inr p, n')"
    and "t \<in> set (st_turns (tp_state p))" "u \<in> set (st_turns (tp_state p))"
    and "tu_state t = TurnRunning" "tu_state u = TurnRunning" "tu_sessionID t = tu_sessionID u"
  shows "t = u"
proof (rule validateState_running [OF _ assms(2-6)])
  from assms(1) show "validateState (tp_state p)" by (rule Plan_Inr_cases) (simp_all add: replayPlan_def)
qed

theorem one_running_turn_witness:
  "\<exists>t \<in> set (st_turns (tp_state (example_plan example_state example_settle))).
     tu_state t = TurnRunning \<and> (\<forall>u \<in> set (st_turns (tp_state (example_plan example_state example_settle))).
       tu_state u = TurnRunning \<and> tu_sessionID u = tu_sessionID t \<longrightarrow> u = t)"
proof -
  obtain n where n: "Plan example_planner False (GTime 1000 True) 100 example_state example_settle
      = (Inr (example_plan example_state example_settle), n)"
    using example_settle_plans by (rule example_planned)
  from example_promoted show ?thesis
  proof (elim bexE conjE, intro bexI conjI ballI impI)
    fix t u assume "t \<in> set (st_turns (tp_state (example_plan example_state example_settle)))" "tu_state t = TurnRunning"
      and "u \<in> set (st_turns (tp_state (example_plan example_state example_settle)))"
      and "tu_state u = TurnRunning \<and> tu_sessionID u = tu_sessionID t"
    then show "u = t" using one_running_turn [OF n, of u t] by simp
  qed
qed

section \<open>Isolation of principals\<close>

lemma foreign_session:
  assumes ok: "partition_ok (sc_tenant scope) s" and v: "validateState s"
    and k: "(sc_tenant scope, p, sid) \<in> session_keys s" and p: "p \<noteq> sc_principal scope"
  shows "sid \<notin> actor_sessions False scope s"
proof
  assume "sid \<in> actor_sessions False scope s"
  then have "(sc_tenant scope, sc_principal scope, sid) \<in> session_keys s"
    using ok by (auto simp: actor_sessions_def turn_keys_def turn_key_def partition_ok_def core_ok_def turn_ok_def)
  then obtain x where x: "x \<in> set (st_sessions s)" "ss_principal x = sc_principal scope" "ss_sessionID x = sid"
    by (auto simp: session_keys_def session_ident_def)
  from k obtain y where y: "y \<in> set (st_sessions s)" "ss_principal y = p" "ss_sessionID y = sid"
    by (auto simp: session_keys_def session_ident_def)
  from ok x have "sid \<noteq> []" by (auto simp: partition_ok_def core_ok_def session_ok_def)
  then have "x = y" using x y by (intro validateState_sessions [OF v]) auto
  with x y p show False by simp
qed

lemma evolves_untouched:
  assumes "evolves may step fresh xs ys" and "x \<in> set xs" and "\<not> may x"
  shows "x \<in> set ys"
proof -
  from assms(1) obtain zs ws where "ys = zs @ ws" "list_all2 (\<lambda>x y. x = y \<or> may x \<and> step\<^sup>*\<^sup>* x y) xs zs"
    by (auto simp: evolves_def)
  with assms(2,3) show ?thesis by (auto dest!: list_all2_mem1 [where x = x])
qed

text \<open>C24: a command of one principal leaves the Sessions, Turns, approvals, grants, tool executions and
  invocations of every other principal of the tenant exactly as they were. The only exception is the
  registration of a policy revision, an administrator's command that withdraws pending approvals
  across the tenant.\<close>

theorem other_principals_untouched:
  assumes plan: "Plan P x reading n s m = (Inr p, n')" and sealed: "sealed_mutation m"
    and ok: "partition_ok (sc_tenant (rb_scope (cm_receipt m))) s" and policy: "\<not> policy_command (cm_command m)"
    and q: "q \<noteq> sc_principal (rb_scope (cm_receipt m))"
  shows "{y \<in> set (st_sessions s). ss_principal y = q} \<subseteq> set (st_sessions (tp_state p))
    \<and> {t \<in> set (st_turns s). tu_principal t = q} \<subseteq> set (st_turns (tp_state p))
    \<and> {a \<in> set (st_approvals s). ap_principal a = q} \<subseteq> set (st_approvals (tp_state p))
    \<and> {g \<in> set (st_grants s). gr_principal g = q} \<subseteq> set (st_grants (tp_state p))
    \<and> {e \<in> set (st_toolExecutions s). te_principal e = q} \<subseteq> set (st_toolExecutions (tp_state p))
    \<and> {i \<in> set (st_invocations s). iv_principal i = q} \<subseteq> set (st_invocations (tp_state p))"
  using plan sealed ok
proof (cases rule: plan_outcome)
  case (replayed r)
  then show ?thesis by (auto simp: replayPlan_def)
next
  case (committed mid)
  let ?T = "sc_tenant (rb_scope (cm_receipt m))" and ?S = "actor_sessions False (rb_scope (cm_receipt m)) s"
  from committed(4) policy obtain w where l: "lifecycle ?T ?S (normalizeTime reading) s w" and e: "emits {?T} w (tp_effects p) mid"
    by (auto simp: commits_def)
  note f = emits_fields [OF e]
  have sid: "sid \<notin> ?S" if "(?T, q, sid) \<in> session_keys s" for sid
    using foreign_session [OF ok committed(2) that q] .
  have tid: "(?T, q, sid) \<in> session_keys s" if "(?T, q, sid, tid) \<in> turn_keys s" for sid tid
    using ok that by (auto simp: turn_keys_def turn_key_def partition_ok_def core_ok_def turn_ok_def)
  note o = ok [unfolded partition_ok_def core_ok_def ok_defs]
  have "y \<in> set (st_sessions w)" if "y \<in> set (st_sessions s)" "ss_principal y = q" for y
    using o that by (intro evolves_untouched [OF lifecycleD(3) [OF l]] sid)
      (auto simp: session_keys_def session_ident_def intro!: image_eqI [where x = y])
  moreover have "t \<in> set (st_turns w)" if "t \<in> set (st_turns s)" "tu_principal t = q" for t
    using o that by (intro evolves_untouched [OF lifecycleD(11) [OF l]] sid) auto
  moreover have "a \<in> set (st_approvals w)" if "a \<in> set (st_approvals s)" "ap_principal a = q" for a
    using o that by (intro evolves_untouched [OF lifecycleD(10) [OF l]] sid tid) auto
  moreover have "g \<in> set (st_grants w)" if "g \<in> set (st_grants s)" "gr_principal g = q" for g
    using o that by (intro evolves_untouched [OF lifecycleD(8) [OF l]] sid tid) auto
  moreover have "t \<in> set (st_toolExecutions w)" if "t \<in> set (st_toolExecutions s)" "te_principal t = q" for t
    using o that by (intro evolves_untouched [OF lifecycleD(9) [OF l]] sid tid) auto
  moreover have "i \<in> set (st_invocations w)" if "i \<in> set (st_invocations s)" "iv_principal i = q" for i
    using o that by (intro evolves_untouched [OF lifecycleD(12) [OF l]] sid tid) auto
  ultimately show ?thesis using committed(5) f by (auto simp: add_receipt_def)
qed

theorem other_principals_untouched_witness:
  "example_foreign_turn \<in> set (st_turns (tp_state (example_plan example_shared example_settle)))"
proof -
  obtain n where n: "Plan example_planner False (GTime 1000 True) 100 example_shared example_settle
      = (Inr (example_plan example_shared example_settle), n)"
    using example_shared_plans by (rule example_planned)
  have ok: "partition_ok (sc_tenant (rb_scope (cm_receipt example_settle))) example_shared"
    using example_shared_ok by simp
  have q: "\<not> policy_command (cm_command example_settle)" "''bob'' \<noteq> sc_principal (rb_scope (cm_receipt example_settle))"
    by (simp_all add: policy_command_def run_commands)
  have "example_foreign_turn \<in> {t \<in> set (st_turns example_shared). tu_principal t = ''bob''}"
    by (simp add: example_shared_def example_foreign_turn_def)
  with other_principals_untouched [OF n example_sealed(2) ok q] show ?thesis by blast
qed

end
