(* ===== verification/Plan_Properties.thy ===== *)
theory Plan_Properties
  imports Run_Properties
begin

text \<open>
  The properties of one call of \<open>Plan\<close>: it refines the abstract specification, its effects are
  exactly what it appends, replays are idempotent and reuse of a key for another request is refused,
  queued Turns are promoted in order, and grants, fences and claims are enforced.
\<close>

section \<open>Commit and replay\<close>

text \<open>C2: a successful plan is based on the state it was given and internally consistent, and it is one of two
  things: a replay, which returns the stored receipt with the state unchanged and no effects, or the commit
  of a transition that the abstract specification \<open>commits\<close> allows, followed by exactly one new
  receipt.\<close>

theorem plan_refines:
  assumes plan: "Plan P x reading n s m = (Inr p, n')" and sealed: "sealed_mutation m"
    and ok: "partition_ok (sc_tenant (rb_scope (cm_receipt m))) s"
  shows "tp_base p = s \<and> plan_Validate p \<and> validateState (tp_state p)
    \<and> (findReceipt s (cm_receipt m) = Some (pr_receipt (tp_result p)) \<and> tp_state p = s \<and> tp_effects p = zero_EffectSet
       \<or> findReceipt s (cm_receipt m) = None \<and>
         (\<exists>mid. commits (policy_command (cm_command m)) (cm_receipt m) (normalizeTime reading) s (tp_effects p) mid
            \<and> tp_state p = add_receipt mid (pr_receipt (tp_result p))))"
  using plan
proof (cases rule: Plan_Inr_cases)
  case (replay r)
  with plan_valid [OF plan] show ?thesis by (simp add: replayPlan_def)
next
  case (commit result c)
  from plan sealed ok show ?thesis
    by (cases rule: plan_outcome) (use commit in auto)
qed

theorem plan_refines_witness:
  "tp_base (example_plan example_state example_settle) = example_state
   \<and> plan_Validate (example_plan example_state example_settle)"
proof -
  obtain n where n: "Plan example_planner False (GTime 1000 True) 100 example_state example_settle
      = (Inr (example_plan example_state example_settle), n)"
    using example_settle_plans by (rule example_planned)
  show ?thesis using plan_refines [OF n] example_state_ok by simp
qed

lemma evolves_length: "evolves may step (\<lambda>_. False) xs ys \<Longrightarrow> length ys = length xs"
  by (auto simp: evolves_def dest: list_all2_lengthD)

text \<open>C21: the effects a plan reports are exactly the delta of its state: the product events and audit
  facts are the old ones followed by the reported ones, and the outbox is the old one, each route in its
  place, followed by the reported routes.\<close>

theorem plan_effects_exact:
  assumes plan: "Plan P x reading n s m = (Inr p, n')" and sealed: "sealed_mutation m"
    and ok: "partition_ok (sc_tenant (rb_scope (cm_receipt m))) s"
  shows "st_events (tp_state p) = st_events s @ ef_events (tp_effects p)
    \<and> st_audit (tp_state p) = st_audit s @ ef_audit (tp_effects p)
    \<and> drop (length (st_outbox s)) (st_outbox (tp_state p)) = ef_outbox (tp_effects p)
    \<and> map ob_outboxID (st_outbox (tp_state p)) = map ob_outboxID (st_outbox s) @ map ob_outboxID (ef_outbox (tp_effects p))"
  using plan sealed ok
proof (cases rule: plan_outcome)
  case (replayed r)
  then show ?thesis by (simp add: replayPlan_def zero_EffectSet_def)
next
  case (committed mid)
  let ?T = "sc_tenant (rb_scope (cm_receipt m))"
  from committed(4) obtain w where same: "st_events w = st_events s" "st_audit w = st_audit s"
    and out: "evolves (\<lambda>r. ob_tenant r = ?T) (outbox_step (normalizeTime reading)) (\<lambda>_. False) (st_outbox s) (st_outbox w)"
    and e: "emits {?T} w (tp_effects p) mid"
    by (auto simp: commits_def)
  have mid: "partition_ok ?T mid" using commits_partition_ok [OF committed(4) ok] .
  have "distinct (map af_auditFactID (st_audit mid))"
    using mid committed(3,5)
    by (intro unique_keys_distinct) (auto simp: validateState_def add_receipt_def partition_ok_def log_ok_def)
  moreover have "links w"
  proof -
    have "\<forall>r \<in> set (st_outbox w). ob_auditFactID r \<noteq> [] \<longrightarrow> ob_auditFactID r \<in> af_auditFactID ` set (st_audit s)"
      by (rule evolves_inv [OF out]) (use ok in \<open>auto simp: partition_ok_def log_ok_def links_def elim!: outbox_step.cases\<close>)
    then show ?thesis by (simp add: links_def same)
  qed
  ultimately have "st_outbox mid = st_outbox w @ ef_outbox (tp_effects p)" using e by (simp add: emits_def)
  moreover have "map ob_outboxID (st_outbox w) = map ob_outboxID (st_outbox s)"
  proof -
    have "map outbox_ident (st_outbox w) = map outbox_ident (st_outbox s)"
      using routes.evolves_idents [OF out] evolves_length [OF out]
      by (metis append_Nil2 append_eq_append_conv length_map prefix_def)
    then have "map snd (map outbox_ident (st_outbox w)) = map snd (map outbox_ident (st_outbox s))" by simp
    then show ?thesis by (simp add: outbox_ident_def comp_def)
  qed
  ultimately show ?thesis
    using e committed(5) same evolves_length [OF out] by (simp add: emits_def add_receipt_def)
qed

theorem plan_effects_exact_witness:
  "st_events (tp_state (example_plan example_state example_settle))
     = st_events example_state @ ef_events (tp_effects (example_plan example_state example_settle))"
proof -
  obtain n where n: "Plan example_planner False (GTime 1000 True) 100 example_state example_settle
      = (Inr (example_plan example_state example_settle), n)"
    using example_settle_plans by (rule example_planned)
  show ?thesis using plan_effects_exact [OF n] example_state_ok by simp
qed

text \<open>Retrying a committed mutation is idempotent. Planning the same mutation again on the state the
  first plan left, at any later reading before the receipt expires, draws no identifier, changes nothing,
  emits nothing and returns the original receipt.\<close>

theorem replay_idempotent:
  assumes plan: "Plan P x reading n s m = (Inr p, n')" and sealed: "sealed_mutation m"
    and ok: "partition_ok (sc_tenant (rb_scope (cm_receipt m))) s"
    and fresh: "\<not> receiptExpired (pr_receipt (tp_result p)) (normalizeTime again)" "\<not> IsZero again"
    and bound: "rb_command (cm_receipt m) = cm_kind m"
  shows "\<exists>q. Plan P False again k (tp_state p) m = (Inr q, k) \<and> tp_state q = tp_state p
    \<and> tp_effects q = zero_EffectSet \<and> pr_receipt (tp_result q) = pr_receipt (tp_result p)"
  using plan_again [OF plan sealed ok bound fresh] by (simp add: replayPlan_def)

lemma example_settle_receipt:
  assumes "Plan example_planner False (GTime 1000 True) 100 example_state example_settle = (Inr p, n)"
  shows "rc_retentionUntil (pr_receipt (tp_result p)) = GTime 86400000001000 True"
  using assms
proof (cases rule: Plan_Inr_cases)
  case (replay r)
  then show ?thesis by (simp add: findReceipt_def example_state_def zero_RuntimeState_def)
next
  case (commit result c)
  then show ?thesis by (simp add: receipt_def retain_example add_duration_def hour_def normalizeTime_def IsZero_def)
qed

theorem replay_idempotent_witness:
  "\<exists>q. Plan example_planner False (GTime 1001 True) 7 (tp_state (example_plan example_state example_settle)) example_settle = (Inr q, 7)
     \<and> tp_state q = tp_state (example_plan example_state example_settle) \<and> tp_effects q = zero_EffectSet"
proof -
  obtain n where n: "Plan example_planner False (GTime 1000 True) 100 example_state example_settle
      = (Inr (example_plan example_state example_settle), n)"
    using example_settle_plans by (rule example_planned)
  have "\<not> receiptExpired (pr_receipt (tp_result (example_plan example_state example_settle))) (normalizeTime (GTime 1001 True))"
    using example_settle_receipt [OF n] by (simp add: receiptExpired_def After_def)
  moreover have "rb_command (cm_receipt example_settle) = cm_kind example_settle"
    by (simp add: example_settle_def example_mutation_def)
  ultimately show ?thesis
    using replay_idempotent [OF n, of "GTime 1001 True" 7] example_state_ok by (auto simp: IsZero_def)
qed

text \<open>C25: reusing an idempotency key is refused. If a receipt is stored for the scope and key of a command,
  then a command of another kind or with another request digest gets \<open>ErrConflict\<close>, and any command gets
  \<open>ErrReceiptExpired\<close> once the receipt's retention has passed; in both cases no identifier is drawn.\<close>

theorem key_reuse_refused:
  assumes valid: "validateState s" "\<not> IsZero reading" "cm_kind m \<noteq> CommandUnset" "rb_command (cm_receipt m) = cm_kind m"
    and found: "findReceipt s (cm_receipt m) = Some r"
  shows "(receiptExpired r (normalizeTime reading) \<longrightarrow> Plan P False reading n s m = (Inl ErrReceiptExpired, n))
    \<and> (\<not> receiptExpired r (normalizeTime reading)
        \<and> (rc_command r \<noteq> command_string (cm_kind m) \<or> rc_requestDigest r \<noteq> rb_requestDigest (cm_receipt m))
        \<longrightarrow> Plan P False reading n s m = (Inl ErrConflict, n))"
  using assms by (simp add: Plan_def Let_def)

theorem key_reuse_refused_witness:
  "Plan example_planner False (GTime 1000 True) 5 (zero_RuntimeState\<lparr>st_receipts := [zero_MutationReceipt
     \<lparr>rc_scope := example_scope AuthorityRuntimeWorker, rc_idempotencyKey := ''k9'',
      rc_command := ''settle_turn'', rc_requestDigest := ''other''\<rparr>]\<rparr>) example_settle = (Inl ErrConflict, 5)"
proof -
  let ?r = "zero_MutationReceipt\<lparr>rc_scope := example_scope AuthorityRuntimeWorker, rc_idempotencyKey := ''k9'',
      rc_command := ''settle_turn'', rc_requestDigest := ''other''\<rparr>"
  let ?s = "zero_RuntimeState\<lparr>st_receipts := [?r]\<rparr>"
  have "validateState ?s" by (simp add: validateState_def zero_RuntimeState_def)
  moreover have "findReceipt ?s (cm_receipt example_settle) = Some ?r"
    by (simp add: findReceipt_def example_settle_def example_mutation_def)
  moreover have "\<not> receiptExpired ?r (normalizeTime (GTime 1000 True))"
    by (simp add: receiptExpired_def zero_MutationReceipt_def zero_time_def IsZero_def)
  ultimately show ?thesis
    using key_reuse_refused [of ?s "GTime 1000 True" example_settle ?r example_planner 5]
    by (simp add: IsZero_def example_settle_def example_mutation_def)
qed

section \<open>Queues\<close>

definition example_input :: compiledAdmit where
  "example_input = \<lparr>ca_command = \<lparr>aic_scope = example_scope AuthoritySessionOwner, aic_idempotencyKey = ''k3'',
     aic_sessionID = example_session, aic_input = \<lparr>ch_issuer = Some 0, ch_tenant = ''acme'', ch_reference = example_reference,
       ch_kind = contentKindInputEnvelope, ch_name = [], ch_modelProfile = []\<rparr>\<rparr>,
     ca_commitment = \<lparr>cc_tenant = ''acme'', cc_reference = example_reference\<rparr>\<rparr>"

definition example_admitted :: pctx where
  "example_admitted = snd (admit example_planner (cm_receipt example_settle) example_input (GTime 1000 True)
      \<lparr>px_state = example_state, px_next = 100\<rparr>)"

lemma example_admits:
  "\<exists>r d. admit example_planner (cm_receipt example_settle) example_input (GTime 1000 True)
      \<lparr>px_state = example_state, px_next = 100\<rparr> = (Inr (r, d), example_admitted)"
proof -
  let ?a = "admit example_planner (cm_receipt example_settle) example_input (GTime 1000 True)
      \<lparr>px_state = example_state, px_next = 100\<rparr>"
  have "\<not> isl (fst ?a)"
    by (simp add: example_input_def run_simps terminal_turn_def cong: run_congs)
  then show ?thesis by (cases ?a; cases "fst ?a") (auto simp: example_admitted_def)
qed

text \<open>C38: promotion is first-in first-out within a Session. It starts the queued Turn with the lowest position,
  leaves every other Turn alone, and does nothing exactly when no Turn of the Session is queued.\<close>

theorem promote_fifo:
  "case promote s sid now of
     (None, s') \<Rightarrow> s' = s \<and> (\<forall>t \<in> set (st_turns s). \<not> (tu_sessionID t = sid \<and> tu_state t = TurnQueued))
   | (Some t', s') \<Rightarrow> \<exists>k < length (st_turns s).
       tu_sessionID (st_turns s ! k) = sid \<and> tu_state (st_turns s ! k) = TurnQueued
       \<and> (\<forall>t \<in> set (st_turns s). tu_sessionID t = sid \<and> tu_state t = TurnQueued
            \<longrightarrow> tu_position (st_turns s ! k) \<le> tu_position t)
       \<and> t' = (st_turns s ! k)\<lparr>tu_state := TurnRunning, tu_version := Suc (tu_version (st_turns s ! k)), tu_startedAt := Some now\<rparr>
       \<and> s' = s\<lparr>st_turns := (st_turns s)[k := t']\<rparr>"
proof (cases "lowest_queued sid 0 None (st_turns s)")
  case None
  then have "\<forall>t \<in> set (st_turns s). \<not> (tu_sessionID t = sid \<and> tu_state t = TurnQueued)"
    by (simp add: lowest_queued_None)
  with None show ?thesis by (simp add: promote_def)
next
  case (Some k)
  from lowest_queued_index [OF Some] lowest_queued_least [OF Some] Some show ?thesis
    by (auto simp: promote_def Let_def)
qed

theorem promote_fifo_witness:
  "\<exists>t. fst (promote example_state example_session (GTime 1000 True)) = Some t \<and> tu_state t = TurnRunning"
proof -
  obtain t s' where p: "promote example_state example_session (GTime 1000 True) = (t, s')" by fastforce
  have "example_turn 3 TurnQueued \<in> set (st_turns example_state)" by (simp add: example_state_def)
  moreover have "tu_sessionID (example_turn 3 TurnQueued) = example_session" "tu_state (example_turn 3 TurnQueued) = TurnQueued"
    by (simp_all add: example_turn_def)
  ultimately show ?thesis
    using promote_fifo [of example_state example_session "GTime 1000 True"] by (cases t) (auto simp: p)
qed

text \<open>admitting an input appends one Turn behind every earlier Turn of the Session. The Turn runs at once when
  no Turn of the Session is running and is queued otherwise; the Session's version grows by one and no other
  Turn is touched.\<close>

theorem admit_appends:
  assumes "admit P b compiled now c = (Inr (r, d), c')"
  shows "\<exists>t. st_turns (px_state c') = st_turns (px_state c) @ [t] \<and> pr_turn r = t
    \<and> tu_sessionID t = aic_sessionID (ca_command compiled) \<and> tu_principal t = sc_principal (rb_scope b)
    \<and> (\<forall>u \<in> set (st_turns (px_state c)). tu_sessionID u = tu_sessionID t \<longrightarrow> tu_position u < tu_position t)
    \<and> tu_state t = (if \<exists>u \<in> set (st_turns (px_state c)). tu_sessionID u = tu_sessionID t \<and> tu_state u = TurnRunning
                   then TurnQueued else TurnRunning)"
  using assms
proof (rule admit_Inr)
  let ?s = "px_state c"
  fix i iid tid x session kinds c2
  let ?t = "admitted_turn P ?s x iid tid now"
  assume i: "findSession ?s (rb_scope b) (aic_sessionID (ca_command compiled)) = Some i"
    and x: "x = st_sessions ?s ! i"
    and session: "session = x\<lparr>ss_version := Suc (ss_version x), ss_updatedAt := now\<rparr>"
    and eff: "effects P b session ?t zero_InvocationRecord kinds now
       (c2\<lparr>px_state := ?s\<lparr>st_inputs := st_inputs ?s @ [admitted_input P compiled x iid now],
          st_turns := st_turns ?s @ [?t], st_sessions := (st_sessions ?s)[i := session]\<rparr>\<rparr>) = (Inr d, c')"
    and r: "r = zero_PlanResult\<lparr>pr_input := admitted_input P compiled x iid now, pr_turn := ?t, pr_session := session\<rparr>"
  note f = findSessionD [OF i, folded x]
  have "ss_tenant session = sc_tenant (rb_scope b)" using f by (simp add: session)
  from emits_fields [OF effects_emits [OF eff this]] have "st_turns (px_state c') = st_turns ?s @ [?t]" by simp
  with f r show ?thesis
    by (intro exI [of _ ?t])
      (auto simp: admitted_turn_def Let_def active_turn_def list_ex_iff intro!: next_after_greater)
qed

theorem admit_appends_witness:
  "\<exists>t. st_turns (px_state example_admitted) = st_turns example_state @ [t] \<and> tu_state t = TurnQueued"
proof -
  obtain r d where a: "admit example_planner (cm_receipt example_settle) example_input (GTime 1000 True)
      \<lparr>px_state = example_state, px_next = 100\<rparr> = (Inr (r, d), example_admitted)"
    using example_admits by blast
  from admit_appends [OF a] show ?thesis
    by (auto simp: example_state_def example_turn_def example_input_def)
qed

section \<open>Grants, fences and claims\<close>

text \<open>C8: a capability grant is enforced. Consuming a use fails and changes nothing when the grant is revoked,
  expired or exhausted, or belongs to another Turn, Session or tool call; a success adds exactly one use to
  exactly that grant, which stays within its maximum.\<close>

theorem consume_enforced:
  assumes "findGrant (px_state c) (rb_scope b) (cgc_grantID command) = Some k"
  shows "(gr_revokedAt (st_grants (px_state c) ! k) \<noteq> None \<or> \<not> Before now (gr_expiresAt (st_grants (px_state c) ! k))
      \<or> gr_maximumUses (st_grants (px_state c) ! k) \<le> gr_uses (st_grants (px_state c) ! k)
      \<or> gr_turnID (st_grants (px_state c) ! k) \<noteq> cgc_turnID command
      \<or> gr_sessionID (st_grants (px_state c) ! k) \<noteq> cgc_sessionID command
      \<or> gr_toolCallID (st_grants (px_state c) ! k) \<noteq> cgc_toolCallID command
      \<longrightarrow> consumeCapabilityGrant P b command now c \<in> {(Inl ErrConflict, c), (Inl ErrNotFoundOrDenied, c)})
    \<and> (\<forall>r d c'. consumeCapabilityGrant P b command now c = (Inr (r, d), c') \<longrightarrow>
        st_grants (px_state c') = (st_grants (px_state c))
          [k := (st_grants (px_state c) ! k)\<lparr>gr_uses := Suc (gr_uses (st_grants (px_state c) ! k))\<rparr>]
        \<and> Suc (gr_uses (st_grants (px_state c) ! k)) \<le> gr_maximumUses (st_grants (px_state c) ! k))"
proof (intro conjI allI impI)
  show "consumeCapabilityGrant P b command now c \<in> {(Inl ErrConflict, c), (Inl ErrNotFoundOrDenied, c)}"
    if "gr_revokedAt (st_grants (px_state c) ! k) \<noteq> None \<or> \<not> Before now (gr_expiresAt (st_grants (px_state c) ! k))
      \<or> gr_maximumUses (st_grants (px_state c) ! k) \<le> gr_uses (st_grants (px_state c) ! k)
      \<or> gr_turnID (st_grants (px_state c) ! k) \<noteq> cgc_turnID command
      \<or> gr_sessionID (st_grants (px_state c) ! k) \<noteq> cgc_sessionID command
      \<or> gr_toolCallID (st_grants (px_state c) ! k) \<noteq> cgc_toolCallID command"
    using assms that by (auto simp: consumeCapabilityGrant_def pbind_def pget_def pfail_def Let_def split: option.splits)
next
  fix r d c' assume "consumeCapabilityGrant P b command now c = (Inr (r, d), c')"
  then show "st_grants (px_state c') = (st_grants (px_state c))
          [k := (st_grants (px_state c) ! k)\<lparr>gr_uses := Suc (gr_uses (st_grants (px_state c) ! k))\<rparr>]"
    and "Suc (gr_uses (st_grants (px_state c) ! k)) \<le> gr_maximumUses (st_grants (px_state c) ! k)"
    using assms by (auto elim!: consumeCapabilityGrant_Inr dest!: audit_only.decorated dest: emits_fields)
qed

theorem consume_enforced_witness:
  "consumeCapabilityGrant example_planner (cm_receipt example_settle)
     \<lparr>cgc_scope = example_scope AuthorityRuntimeWorker, cgc_idempotencyKey = ''k9'', cgc_grantID = ''grant'',
      cgc_toolCallID = ''call'', cgc_policyRevisionDigest = ''y'', cgc_sessionID = example_session,
      cgc_turnID = example_id 2 IdentifierTurn\<rparr> (GTime 3000 True) \<lparr>px_state = example_state, px_next = 0\<rparr>
   \<in> {(Inl ErrConflict, \<lparr>px_state = example_state, px_next = 0\<rparr>),
      (Inl ErrNotFoundOrDenied, \<lparr>px_state = example_state, px_next = 0\<rparr>)}"
proof -
  let ?c = "\<lparr>px_state = example_state, px_next = 0\<rparr>"
  let ?q = "\<lparr>cgc_scope = example_scope AuthorityRuntimeWorker, cgc_idempotencyKey = ''k9'', cgc_grantID = ''grant'',
      cgc_toolCallID = ''call'', cgc_policyRevisionDigest = ''y'', cgc_sessionID = example_session,
      cgc_turnID = example_id 2 IdentifierTurn\<rparr>"
  have "findGrant (px_state ?c) (rb_scope (cm_receipt example_settle)) (cgc_grantID ?q) = Some 0"
    by (simp add: findGrant_def example_state_def example_settle_def example_mutation_def example_scope_def)
  moreover have "\<not> Before (GTime 3000 True) (gr_expiresAt (st_grants (px_state ?c) ! 0))"
    by (simp add: Before_def example_state_def)
  ultimately show ?thesis
    using consume_enforced [of ?c "cm_receipt example_settle" ?q 0 "GTime 3000 True" example_planner] by blast
qed

end
