(* ===== verification/Lease_Properties.thy ===== *)
theory Lease_Properties
  imports Plan_Properties
begin

text \<open>
  Outbox leases: who may hold one, what holding it allows, and what a stale one refuses.
\<close>

lemma find_index_find: "find_index p xs = Some k \<Longrightarrow> find p xs = Some (xs ! k)"
  by (induction xs arbitrary: k) (auto split: if_splits)

lemma find_index_update: "find_index p xs = Some k \<Longrightarrow> p x \<Longrightarrow> find_index p (xs[k := x]) = Some k"
  by (induction xs arbitrary: k) (auto split: if_splits)

lemma find_index_list_all2:
  "list_all2 R xs ys \<Longrightarrow> (\<And>x y. R x y \<Longrightarrow> p x = p y) \<Longrightarrow> find_index p xs = find_index p ys"
  by (induction rule: list_all2_induct) auto

text \<open>C19: a lease has one holder. While a route is claimed and the claim has not run out, nobody can claim it
  again, and only its holder, quoting the current version, can renew or acknowledge it; every
  other attempt fails with \<open>ErrConflict\<close> and changes nothing.\<close>

theorem lease_exclusive:
  assumes "findOutbox (px_state c) (sc_tenant (rb_scope b)) oid = Some k"
    and "live_claim now (st_outbox (px_state c) ! k)"
  shows "(coc_outboxID q = oid \<longrightarrow> claim P b q now c = (Inl ErrConflict, c))
    \<and> (roc_outboxID w = oid \<and> (roc_claimer w \<noteq> ob_claimedBy (st_outbox (px_state c) ! k)
          \<or> roc_expectedVersion w \<noteq> ob_version (st_outbox (px_state c) ! k)) \<longrightarrow> renew P b w now c = (Inl ErrConflict, c))
    \<and> (aoc_outboxID a = oid \<and> (aoc_claimer a \<noteq> ob_claimedBy (st_outbox (px_state c) ! k)
          \<or> aoc_expectedVersion a \<noteq> ob_version (st_outbox (px_state c) ! k)) \<longrightarrow> acknowledge P b a now c = (Inl ErrConflict, c))"
  using assms
  by (auto simp: claim_def renew_def acknowledge_def live_claim_def pbind_def pget_def pfail_def Let_def split: option.splits)

definition example_claimed :: RuntimeState where
  "example_claimed = example_state\<lparr>st_outbox := [zero_OutboxRecord\<lparr>ob_tenant := ''acme'', ob_outboxID := ''route'',
     ob_aggregate := ''session'', ob_version := 2, ob_state := OutboxClaimed, ob_claimedBy := ''w1'',
     ob_claimUntil := Some (GTime 2000 True)\<rparr>]\<rparr>"

theorem lease_exclusive_witness:
  "claim example_planner (cm_receipt example_settle) \<lparr>coc_scope = example_scope AuthorityRuntimeWorker,
     coc_idempotencyKey = ''k9'', coc_outboxID = ''route'', coc_expectedVersion = 2, coc_claimer = ''w2'',
     coc_claimUntil = GTime 3000 True\<rparr> (GTime 1000 True) \<lparr>px_state = example_claimed, px_next = 0\<rparr>
   = (Inl ErrConflict, \<lparr>px_state = example_claimed, px_next = 0\<rparr>)"
proof -
  let ?c = "\<lparr>px_state = example_claimed, px_next = 0\<rparr>"
  have "findOutbox (px_state ?c) (sc_tenant (rb_scope (cm_receipt example_settle))) ''route'' = Some 0"
    by (simp add: findOutbox_def example_claimed_def example_settle_def example_mutation_def example_scope_def)
  moreover have "live_claim (GTime 1000 True) (st_outbox (px_state ?c) ! 0)"
    by (simp add: live_claim_def After_def example_claimed_def)
  ultimately show ?thesis by (simp add: lease_exclusive)
qed

text \<open>C39: a successful claim gives its holder a current fence. From the state the claim leaves, and until the
  claim runs out, \<open>outboxLeaseFenceCurrent\<close> accepts the fence made of the route, its new version and
  the claimer, and refuses any other claimer or version.\<close>

theorem claim_opens_fence:
  assumes "claim P b q now c = (Inr (r, d), c')"
  shows "outboxLeaseFenceCurrent (px_state c') (sc_tenant (rb_scope b))
      (Some \<lparr>lf_outboxID = coc_outboxID q, lf_expectedVersion = v, lf_claimer = who\<rparr>) later
    \<longleftrightarrow> v = Suc (coc_expectedVersion q) \<and> who = coc_claimer q \<and> After (coc_claimUntil q) later"
  using assms
proof (rule claim_Inr)
  fix k r0 r' assume k: "findOutbox (px_state c) (sc_tenant (rb_scope b)) (coc_outboxID q) = Some k"
    and r0: "r0 = st_outbox (px_state c) ! k" "ob_version r0 = coc_expectedVersion q"
    and r': "r' = r0\<lparr>ob_state := OutboxClaimed, ob_claimedBy := coc_claimer q,
            ob_claimUntil := Some (coc_claimUntil q), ob_version := Suc (ob_version r0)\<rparr>"
    and eff: "lease_effects P b r' ''outbox.claimed'' now
       (c\<lparr>px_state := (px_state c)\<lparr>st_outbox := (st_outbox (px_state c))[k := r']\<rparr>\<rparr>) = (Inr (r, d), c')"
  let ?p = "\<lambda>x. ob_tenant x = sc_tenant (rb_scope b) \<and> ob_outboxID x = coc_outboxID q"
  from k have K: "find_index ?p (st_outbox (px_state c)) = Some k" by (simp add: findOutbox_def)
  from findOutboxD [OF k] have kl: "k < length (st_outbox (px_state c))" and "?p r'" by (auto simp: r' r0)
  with K have "find_index ?p ((st_outbox (px_state c))[k := r'] @ ef_outbox d) = Some k"
    by (simp add: find_index_append find_index_update)
  moreover have l: "list_all2 same_route ((st_outbox (px_state c))[k := r'] @ ef_outbox d) (st_outbox (px_state c'))"
    using lease_effects_emits [OF eff] by (simp add: emits_def)
  ultimately have "find_index ?p (st_outbox (px_state c')) = Some k"
    using find_index_list_all2 [OF l, of ?p] same_route_fields by (metis (no_types, lifting))
  then have f: "find ?p (st_outbox (px_state c')) = Some (st_outbox (px_state c') ! k)" by (rule find_index_find)
  have "same_route r' (st_outbox (px_state c') ! k)"
    using l kl by (auto simp: list_all2_conv_all_nth nth_append dest!: spec [of _ k])
  note g = same_route_fields [OF this]
  show ?thesis using f g r0 r' by (auto simp: outboxLeaseFenceCurrent_def)
qed

definition example_claim :: ClaimOutboxCommand where
  "example_claim = \<lparr>coc_scope = example_scope AuthorityRuntimeWorker, coc_idempotencyKey = ''k9'', coc_outboxID = ''route'',
     coc_expectedVersion = 2, coc_claimer = ''w2'', coc_claimUntil = GTime 4000 True\<rparr>"

definition example_reclaimed :: pctx where
  "example_reclaimed = snd (claim example_planner (cm_receipt example_settle) example_claim (GTime 3000 True)
     \<lparr>px_state = example_claimed, px_next = 0\<rparr>)"

theorem claim_opens_fence_witness:
  "outboxLeaseFenceCurrent (px_state example_reclaimed) ''acme''
     (Some \<lparr>lf_outboxID = ''route'', lf_expectedVersion = 3, lf_claimer = ''w2''\<rparr>) (GTime 3500 True)
   \<and> \<not> outboxLeaseFenceCurrent (px_state example_reclaimed) ''acme''
     (Some \<lparr>lf_outboxID = ''route'', lf_expectedVersion = 2, lf_claimer = ''w1''\<rparr>) (GTime 3500 True)"
proof -
  let ?r = "claim example_planner (cm_receipt example_settle) example_claim (GTime 3000 True)
     \<lparr>px_state = example_claimed, px_next = 0\<rparr>"
  have "\<not> isl (fst ?r)"
    by (simp add: example_claimed_def example_claim_def claim_def findOutbox_def lease_effects_def run_simps cong: run_congs)
  then obtain x d where "?r = (Inr (x, d), example_reclaimed)"
    by (cases ?r; cases "fst ?r") (auto simp: example_reclaimed_def)
  from claim_opens_fence [OF this] show ?thesis
    by (simp add: example_settle_def example_mutation_def example_scope_def example_claim_def After_def)
qed

text \<open>C26: a terminal mutation that carries a stale fence is refused. If the fence names no route, or a route at
  another version, unclaimed, claimed by someone else or past its claim, then settling a Turn,
  registering an artifact and recording a tool outcome fail with \<open>ErrConflict\<close> and change nothing.\<close>

theorem stale_fence_refused:
  assumes "\<And>r. find (\<lambda>r. ob_tenant r = sc_tenant (rb_scope b) \<and> ob_outboxID r = lf_outboxID f) (st_outbox (px_state c)) = Some r
      \<Longrightarrow> ob_version r \<noteq> lf_expectedVersion f \<or> ob_claimedBy r \<noteq> lf_claimer f \<or> \<not> live_claim now r"
  shows "(stc_leaseFence t = Some f \<longrightarrow> settle P b t now c = (Inl ErrConflict, c))
    \<and> (arc_leaseFence (cf_command a) = Some f \<longrightarrow> registerArtifact P b a now c = (Inl ErrConflict, c))
    \<and> (toc_leaseFence e = Some f \<longrightarrow> recordToolExecutionOutcome P b e now c = (Inl ErrConflict, c))"
proof -
  have "\<not> outboxLeaseFenceCurrent (px_state c) (sc_tenant (rb_scope b)) (Some f) now"
    using assms by (auto simp: outboxLeaseFenceCurrent_def live_claim_def split: option.splits)
  then show ?thesis
    by (simp add: settle_def registerArtifact_def recordToolExecutionOutcome_def pbind_def pget_def pfail_def Let_def)
qed

theorem stale_fence_refused_witness:
  "settle example_planner (cm_receipt example_settle)
     \<lparr>stc_scope = example_scope AuthorityRuntimeWorker, stc_idempotencyKey = ''k9'', stc_sessionID = example_session,
      stc_turnID = example_id 2 IdentifierTurn, stc_expectedSessionVersion = 4, stc_expectedTurnVersion = 1,
      stc_outcome = \<lparr>to_operationID = [], to_ordinal = 0, to_fence = 0, to_state = TurnSucceeded, to_failure = None\<rparr>,
      stc_leaseFence = Some \<lparr>lf_outboxID = ''route'', lf_expectedVersion = 2, lf_claimer = ''w1''\<rparr>\<rparr>
     (GTime 3000 True) \<lparr>px_state = example_claimed, px_next = 0\<rparr>
   = (Inl ErrConflict, \<lparr>px_state = example_claimed, px_next = 0\<rparr>)"
proof -
  let ?f = "\<lparr>lf_outboxID = ''route'', lf_expectedVersion = 2, lf_claimer = ''w1''\<rparr>"
  have "\<not> live_claim (GTime 3000 True) r"
    if "find (\<lambda>r. ob_tenant r = sc_tenant (rb_scope (cm_receipt example_settle)) \<and> ob_outboxID r = lf_outboxID ?f)
          (st_outbox (px_state \<lparr>px_state = example_claimed, px_next = 0\<rparr>)) = Some r" for r
    using that by (auto simp: example_claimed_def live_claim_def After_def split: if_splits)
  then show ?thesis
    using stale_fence_refused [of "cm_receipt example_settle" ?f "\<lparr>px_state = example_claimed, px_next = 0\<rparr>" "GTime 3000 True"]
    by simp
qed

end
