(* ===== verification/Turn_Serialization.thy ===== *)
theory Turn_Serialization
  imports Lease_Properties
begin

text \<open>
  Approvals and the serialization of Turns: what a decision does, and how admission, approval and
  settlement treat a Turn that waits for approval. The lemmas on such Turns record where the planner departs from its contract.
\<close>

section \<open>Decisions\<close>

text \<open>C27: deciding a pending approval issues at most one grant. After an approval before the expiry, the grants are the
  old ones and one unused grant with exactly the approval's scope, bound and expiry, and the paused
  Turn runs again. After a denial, and after any decision past the expiry, no grant and no Turn changes.\<close>

theorem decision_grants:
  assumes "decideApproval P b q now c = (Inr (r, d), c')"
    and "findApproval (px_state c) (rb_scope b) (dac_approvalID q) = Some k" and "a = st_approvals (px_state c) ! k"
  shows "ap_state a = ApprovalPending \<and>
    (if Before now (ap_expiresAt a) \<and> dac_decision q = ApprovalApproved
     then \<exists>gid j. st_grants (px_state c') = st_grants (px_state c) @
              [\<lparr>gr_tenant = ap_tenant a, gr_principal = ap_principal a, gr_sessionID = ap_sessionID a,
                gr_turnID = ap_turnID a, gr_grantID = gid, gr_toolCallID = ap_toolCallID a,
                gr_capabilityDigest = ap_capabilityDigest a, gr_maximumUses = ap_maximumUses a, gr_uses = 0,
                gr_expiresAt = ap_expiresAt a, gr_revokedAt = None,
                gr_policyRevisionDigest = ap_policyRevisionDigest a, gr_createdAt = now, gr_retainUntil = ap_retainUntil a\<rparr>]
            \<and> j < length (st_turns (px_state c)) \<and> tu_turnID (st_turns (px_state c) ! j) = ap_turnID a
            \<and> tu_state (st_turns (px_state c) ! j) = TurnWaitingForApproval
            \<and> st_turns (px_state c') = (st_turns (px_state c))[j := resume_turn (st_turns (px_state c) ! j)]
     else st_grants (px_state c') = st_grants (px_state c) \<and> st_turns (px_state c') = st_turns (px_state c))"
  using assms(1)
proof (cases rule: decideApproval_cases)
  case (expired n a0 a')
  then show ?thesis using assms(2,3) emits_fields [OF approvalEffects_emits [OF expired(6)]] by auto
next
  case (rejected n a0 a')
  then show ?thesis using assms(2,3) emits_fields [OF approvalEffects_emits [OF rejected(7)]] by auto
next
  case (approved n a0 a' c1)
  note f = emits_fields [OF approvalEffects_emits [OF approved(8)]]
  from approved(7) obtain gid j where g: "findTurn (px_state c) (rb_scope b) (ap_sessionID a') (ap_turnID a') = Some j"
      "tu_state (st_turns (px_state c) ! j) = TurnWaitingForApproval"
      "px_state c1 = (px_state c)\<lparr>st_approvals := (st_approvals (px_state c))[n := a'],
         st_grants := st_grants (px_state c) @ [approved_grant a' gid now],
         st_turns := (st_turns (px_state c))[j := resume_turn (st_turns (px_state c) ! j)]\<rparr>"
    by (rule issue_grant_Inr) simp
  from assms(2,3) approved have "a0 = a" by simp
  with approved(3-6) f g findTurnD [OF g(1)] show ?thesis
    by (auto simp: approved_grant_def intro!: exI [of _ gid] exI [of _ j])
qed

section \<open>A Turn that waits for approval\<close>

text \<open>A departure from the requirement that input during active work is queued: admission only looks at running Turns. When the Session has no running Turn, an admitted input runs at
  once, in front of every Turn of the Session that is queued or waits for approval, although all of
  them have lower positions.\<close>

theorem admit_overtakes:
  assumes "admit P b compiled now c = (Inr (r, d), c')"
    and "\<forall>u \<in> set (st_turns (px_state c)). tu_sessionID u = aic_sessionID (ca_command compiled) \<longrightarrow> tu_state u \<noteq> TurnRunning"
    and "t \<in> set (st_turns (px_state c))" "tu_sessionID t = aic_sessionID (ca_command compiled)"
    and "tu_state t = TurnQueued \<or> tu_state t = TurnWaitingForApproval"
  shows "tu_state (pr_turn r) = TurnRunning \<and> tu_position t < tu_position (pr_turn r) \<and> t \<in> set (st_turns (px_state c'))"
proof -
  obtain i x iid tid session kinds c2 where i: "findSession (px_state c) (rb_scope b) (aic_sessionID (ca_command compiled)) = Some i"
    and x: "x = st_sessions (px_state c) ! i"
    and session: "session = x\<lparr>ss_version := Suc (ss_version x), ss_updatedAt := now\<rparr>"
    and eff: "effects P b session (admitted_turn P (px_state c) x iid tid now) zero_InvocationRecord kinds now
       (c2\<lparr>px_state := (px_state c)\<lparr>st_inputs := st_inputs (px_state c) @ [admitted_input P compiled x iid now],
          st_turns := st_turns (px_state c) @ [admitted_turn P (px_state c) x iid tid now],
          st_sessions := (st_sessions (px_state c))[i := session]\<rparr>\<rparr>) = (Inr d, c')"
    and r: "pr_turn r = admitted_turn P (px_state c) x iid tid now"
    using assms(1) by (rule admit_Inr) simp
  note f = findSessionD [OF i, folded x]
  have "ss_tenant session = sc_tenant (rb_scope b)" using f by (simp add: session)
  from emits_fields [OF effects_emits [OF eff this]] have "t \<in> set (st_turns (px_state c'))" using assms(3) by simp
  moreover have "\<not> active_turn (px_state c) (ss_sessionID x)" using assms(2) f by (auto simp: active_turn_def list_ex_iff)
  moreover have "tu_position t < tu_position (pr_turn r)"
    using assms(3,4) f by (auto simp: r admitted_turn_def Let_def intro!: next_after_greater)
  ultimately show ?thesis by (simp add: r admitted_turn_def Let_def)
qed

definition example_waiting :: RuntimeState where
  "example_waiting = example_state\<lparr>st_turns :=
     [example_turn 1 TurnSucceeded, example_turn 2 TurnWaitingForApproval, example_turn 3 TurnQueued]\<rparr>"

definition example_overtaken :: "PlanResult \<times> EffectSet" where
  "example_overtaken = projr (fst (admit example_planner (cm_receipt example_settle) example_input (GTime 1000 True)
      \<lparr>px_state = example_waiting, px_next = 100\<rparr>))"

theorem admit_overtakes_witness:
  "tu_state (pr_turn (fst example_overtaken)) = TurnRunning \<and> 3 < tu_position (pr_turn (fst example_overtaken))"
proof -
  let ?a = "admit example_planner (cm_receipt example_settle) example_input (GTime 1000 True)
      \<lparr>px_state = example_waiting, px_next = 100\<rparr>"
  have "\<not> isl (fst ?a)"
    by (simp add: example_input_def example_waiting_def run_simps terminal_turn_def cong: run_congs)
  then obtain c' where a: "?a = (Inr (fst example_overtaken, snd example_overtaken), c')"
    by (cases ?a; cases "fst ?a") (auto simp: example_overtaken_def)
  have t: "example_turn 3 TurnQueued \<in> set (st_turns example_waiting)" by (simp add: example_waiting_def)
  have "\<forall>u \<in> set (st_turns example_waiting). tu_state u \<noteq> TurnRunning"
    by (simp add: example_waiting_def example_turn_def)
  then show ?thesis
    using admit_overtakes [OF a, of "example_turn 3 TurnQueued"] t by (simp add: example_turn_def example_input_def)
qed

lemma filter_distinct_nth:
  "distinct (map f (filter p xs)) \<Longrightarrow> i < length xs \<Longrightarrow> j < length xs \<Longrightarrow> p (xs ! i) \<Longrightarrow> p (xs ! j) \<Longrightarrow>
   f (xs ! i) = f (xs ! j) \<Longrightarrow> i = j"
proof (induction xs arbitrary: i j)
  case Nil
  then show ?case by simp
next
  case (Cons x xs)
  have *: "f x \<noteq> f (xs ! k)" if "k < length xs" "p x" "p (xs ! k)" for k
    using Cons.prems(1) that by auto
  from Cons.prems Cons.IH * show ?case by (cases i; cases j) (auto split: if_splits dest: *)
qed

lemma validateState_running_index:
  assumes "validateState s" "i < length (st_turns s)" "j < length (st_turns s)"
    and "tu_state (st_turns s ! i) = TurnRunning" "tu_state (st_turns s ! j) = TurnRunning"
    and "tu_sessionID (st_turns s ! i) = tu_sessionID (st_turns s ! j)"
  shows "i = j"
  by (rule filter_distinct_nth [of tu_sessionID "\<lambda>t. tu_state t = TurnRunning" "st_turns s"])
    (use assms in \<open>simp_all add: validateState_def one_active_iff\<close>)

text \<open>an approval cannot take effect while another Turn of its Session is running: whenever a plan commits an
  approval before its expiry, no Turn of that Session was running. A Session in which
  admission has overtaken a waiting Turn therefore refuses the approval.\<close>

theorem approval_needs_idle_session:
  assumes plan: "Plan P x reading n s m = (Inr p, n')" and new: "findReceipt s (cm_receipt m) = None"
    and m: "cm_command m = C_decideApproval q" "dac_decision q = ApprovalApproved"
    and k: "findApproval s (rb_scope (cm_receipt m)) (dac_approvalID q) = Some k"
    and live: "Before (normalizeTime reading) (ap_expiresAt (st_approvals s ! k))"
    and u: "u \<in> set (st_turns s)" "tu_sessionID u = ap_sessionID (st_approvals s ! k)"
  shows "tu_state u \<noteq> TurnRunning"
proof
  assume run: "tu_state u = TurnRunning"
  from plan new obtain result c where c: "dispatch P (cm_receipt m) (cm_command m) (normalizeTime reading)
        \<lparr>px_state = s, px_next = n\<rparr> = (Inr (result, tp_effects p), c)"
    and s': "tp_state p = (px_state c)\<lparr>st_receipts := st_receipts (px_state c) @ [pr_receipt (tp_result p)]\<rparr>"
    and v: "validateState (tp_state p)"
    by (cases rule: Plan_Inr_cases) auto
  from c m have "decideApproval P (cm_receipt m) q (normalizeTime reading) \<lparr>px_state = s, px_next = n\<rparr> = (Inr (result, tp_effects p), c)"
    by (simp add: dispatch_def)
  then show False
  proof (cases rule: decideApproval_cases)
    case (expired n a a')
    with k live show False by simp
  next
    case (rejected n a a')
    with m show False by simp
  next
    case (approved i a a' c1)
    note f = emits_fields [OF approvalEffects_emits [OF approved(8)]]
    from approved(7) obtain gid j where g: "findTurn s (rb_scope (cm_receipt m)) (ap_sessionID a') (ap_turnID a') = Some j"
        "tu_state (st_turns s ! j) = TurnWaitingForApproval"
        "st_turns (px_state c1) = (st_turns s)[j := resume_turn (st_turns s ! j)]"
      by (rule issue_grant_Inr) simp
    let ?t = "resume_turn (st_turns s ! j)"
    note j = findTurnD [OF g(1)]
    have turns: "st_turns (tp_state p) = (st_turns s)[j := ?t]" using f s' g(3) by simp
    obtain l where l: "l < length (st_turns s)" "u = st_turns s ! l" using u(1) by (auto simp: in_set_conv_nth)
    with run g(2) have "l \<noteq> j" by auto
    moreover have "l = j"
      using v l run u(2) k approved j \<open>l \<noteq> j\<close>
      by (intro validateState_running_index [of "tp_state p"]) (auto simp: turns resume_turn_def)
    ultimately show False by simp
  qed
qed

text \<open>A decision on the pending approval of the waiting Turn, alone in its Session and after an
  overtaking Turn was admitted.\<close>

lemma byte_digit: "k < 10 \<Longrightarrow> byte (digit k) = 48 + k"
  by (simp add: digit_def)

lemma example_id_opaque: "validOpaque (example_id n IdentifierGrant) 128"
proof -
  have "33 \<le> byte (digit (k mod 10)) \<and> byte (digit (k mod 10)) < 127" for k
    using mod_less_divisor [of 10 k] by (simp add: byte_digit)
  then have "trimmed_utf8 (example_id n IdentifierGrant)"
    by (intro trimmed_graphic) (simp add: example_id_def example_payload_def ball_Un)
  then show ?thesis by (simp add: validOpaque_def example_id_def example_payload_def)
qed

definition example_pending :: RuntimeState where
  "example_pending = example_waiting\<lparr>st_grants := [],
     st_approvals := [(hd (st_approvals example_state))\<lparr>ap_state := ApprovalPending, ap_decision := ApprovalUnset,
       ap_decidedAt := None\<rparr>]\<rparr>"

definition example_decision :: DecideApprovalCommand where
  "example_decision = \<lparr>dac_scope = example_scope AuthoritySessionOwner, dac_idempotencyKey = ''k6'',
     dac_approvalID = ''appr'', dac_decision = ApprovalApproved\<rparr>"

definition example_approve :: CompiledMutation where
  "example_approve = example_mutation AuthoritySessionOwner ''k6'' CommandDecideApproval
     (C_decideApproval example_decision)"

lemma example_approve_plans: "\<not> isl (fst (Plan example_planner False (GTime 1000 True) 100 example_pending example_approve))"
  by (simp add: example_pending_def example_waiting_def example_approve_def example_decision_def example_id_opaque run_simps terminal_turn_def
      itoa_small digit_eq cong: run_congs)

theorem approval_needs_idle_session_witness:
  "filter (\<lambda>u. tu_sessionID u = example_session \<and> tu_state u = TurnRunning) (st_turns example_pending) = []"
proof -
  obtain n where n: "Plan example_planner False (GTime 1000 True) 100 example_pending example_approve
      = (Inr (example_plan example_pending example_approve), n)"
    using example_approve_plans by (rule example_planned)
  have "tu_state u \<noteq> TurnRunning" if u: "u \<in> set (st_turns example_pending)" "tu_sessionID u = example_session" for u
    by (rule approval_needs_idle_session [OF n, where k = 0 and q = example_decision])
      (use u in \<open>simp_all add: example_approve_def example_decision_def example_mutation_def example_scope_def findReceipt_def findApproval_def
         Before_def example_pending_def example_waiting_def example_state_def zero_RuntimeState_def normalizeTime_def IsZero_def\<close>)
  then show ?thesis by (auto simp: filter_empty_conv)
qed

theorem decision_grants_witness:
  "\<exists>gid. map gr_grantID (st_grants (px_state (snd (decideApproval example_planner (cm_receipt example_approve)
     example_decision (GTime 1000 True) \<lparr>px_state = example_pending, px_next = 100\<rparr>)))) = [gid]"
proof -
  let ?q = example_decision and ?c = "\<lparr>px_state = example_pending, px_next = 100\<rparr>"
  let ?r = "decideApproval example_planner (cm_receipt example_approve) ?q (GTime 1000 True) ?c"
  have "\<not> isl (fst ?r)"
    by (simp add: example_pending_def example_waiting_def example_approve_def example_decision_def example_id_opaque run_simps terminal_turn_def
      cong: run_congs)
  then obtain r d where d: "?r = (Inr (r, d), snd ?r)"
    by (cases ?r; cases "fst ?r") auto
  have k: "findApproval (px_state ?c) (rb_scope (cm_receipt example_approve)) (dac_approvalID ?q) = Some 0"
    by (simp add: findApproval_def example_pending_def example_state_def example_approve_def example_decision_def example_mutation_def example_scope_def)
  from decision_grants [OF d k refl] show ?thesis
    by (auto simp: example_decision_def example_pending_def example_waiting_def example_state_def Before_def)
qed

text \<open>Once admission has overtaken a waiting Turn, approving that Turn's tool call fails. On a partition that differs
  from one where the approval commits only by a running Turn admitted later, the same approval is
  refused with \<open>ErrIntegrity\<close>.\<close>

theorem overtaken_approval_refused:
  "(\<exists>p n. Plan example_planner False (GTime 1000 True) 100 example_pending example_approve = (Inr p, n))
   \<and> fst (Plan example_planner False (GTime 1000 True) 100
       (example_pending\<lparr>st_turns := st_turns example_pending @ [example_turn 4 TurnRunning]\<rparr>) example_approve)
     = Inl ErrIntegrity"
proof
  show "\<exists>p n. Plan example_planner False (GTime 1000 True) 100 example_pending example_approve = (Inr p, n)"
    by (rule example_planned [OF example_approve_plans]) blast
  show "fst (Plan example_planner False (GTime 1000 True) 100
       (example_pending\<lparr>st_turns := st_turns example_pending @ [example_turn 4 TurnRunning]\<rparr>) example_approve)
     = Inl ErrIntegrity"
    by (simp add: example_pending_def example_waiting_def example_approve_def example_decision_def example_id_opaque run_simps terminal_turn_def
      itoa_small digit_eq cong: run_congs)
qed

text \<open>A departure from the requirement that a closing Session completes once it is drained: settling the running Turn of a closing Session completes the Session when no Turn is queued, whatever
  else is pending: a Turn that still waits for approval stays unsettled in the completed Session.\<close>

theorem settle_completes_undrained:
  assumes "settle P b q now c = (Inr (r, d), c')"
    and "findSession (px_state c) (rb_scope b) (stc_sessionID q) = Some i"
    and "ss_state (st_sessions (px_state c) ! i) = SessionClosing"
    and "\<forall>t \<in> set (st_turns (px_state c)). tu_sessionID t = stc_sessionID q \<longrightarrow> tu_state t \<noteq> TurnQueued"
    and "terminal_turn (to_state (stc_outcome q))"
    and "w \<in> set (st_turns (px_state c))" "tu_sessionID w = stc_sessionID q" "tu_state w = TurnWaitingForApproval"
  shows "ss_state (pr_session r) = SessionCompleted \<and> pr_session r \<in> set (st_sessions (px_state c'))
    \<and> w \<in> set (st_turns (px_state c'))"
proof -
  let ?s = "px_state c"
  obtain j turn s' session kinds kinds' promoted where
      j: "findTurn ?s (rb_scope b) (stc_sessionID q) (stc_turnID q) = Some j" "tu_state (st_turns ?s ! j) = TurnRunning"
    and turn: "tu_state turn = to_state (stc_outcome q)"
    and a: "after_turn (?s\<lparr>st_turns := (st_turns ?s)[j := turn]\<rparr>) i (st_sessions ?s ! i) kinds now True (\<lambda>_. True)
       = (s', session, kinds', promoted)"
    and eff: "effects P b session turn zero_InvocationRecord kinds' now (c\<lparr>px_state := s'\<rparr>) = (Inr d, c')"
    and r: "pr_session r = session"
    using assms(1)
  proof (rule settle_Inr)
    fix i' j x t turn s' session kinds kinds' promoted
    assume "findSession ?s (rb_scope b) (stc_sessionID q) = Some i'"
      "findTurn ?s (rb_scope b) (stc_sessionID q) (stc_turnID q) = Some j"
      "x = st_sessions ?s ! i'" "t = st_turns ?s ! j" "tu_state t = TurnRunning"
      "turn = t\<lparr>tu_state := to_state (stc_outcome q), tu_failure := to_failure (stc_outcome q),
              tu_version := Suc (tu_version t), tu_completedAt := Some now\<rparr>"
      "after_turn (?s\<lparr>st_turns := (st_turns ?s)[j := turn]\<rparr>) i' x kinds now True (\<lambda>_. True)
       = (s', session, kinds', promoted)"
      "effects P b session turn zero_InvocationRecord kinds' now (c\<lparr>px_state := s'\<rparr>) = (Inr d, c')"
      "r = zero_PlanResult\<lparr>pr_session := session, pr_turn := turn, pr_promoted := promoted\<rparr>"
    with assms(2) show thesis by (intro that) auto
  qed
  note f = findSessionD [OF assms(2)] and g = findTurnD [OF j(1)]
  have "\<forall>t \<in> set ((st_turns ?s)[j := turn]). \<not> (tu_sessionID t = stc_sessionID q \<and> tu_state t = TurnQueued)"
    using assms(4,5) turn set_update_subset_insert [of "st_turns ?s" j turn] by (auto simp: terminal_turn_def)
  then have "promote (?s\<lparr>st_turns := (st_turns ?s)[j := turn]\<rparr>) (stc_sessionID q) now
      = (None, ?s\<lparr>st_turns := (st_turns ?s)[j := turn]\<rparr>)"
    using lowest_queued_None [of "stc_sessionID q" 0 None "(st_turns ?s)[j := turn]"] by (simp add: promote_def)
  with a f assms(3) have s: "ss_state session = SessionCompleted" "ss_tenant session = sc_tenant (rb_scope b)"
      "s' = ?s\<lparr>st_turns := (st_turns ?s)[j := turn], st_sessions := (st_sessions ?s)[i := session]\<rparr>"
    by (auto simp: after_turn_def Let_def)
  note e = emits_fields [OF effects_emits [OF eff s(2)]]
  obtain l where l: "l < length (st_turns ?s)" "w = st_turns ?s ! l" using assms(6) by (auto simp: in_set_conv_nth)
  with assms(8) j(2) have "l \<noteq> j" by auto
  with l have "w \<in> set ((st_turns ?s)[j := turn])" by (metis length_list_update nth_list_update_neq nth_mem)
  with e s r f(1) show ?thesis by (simp add: set_update_memI)
qed

definition example_closing :: RuntimeState where
  "example_closing = example_state\<lparr>st_sessions := [(hd (st_sessions example_state))\<lparr>ss_state := SessionClosing\<rparr>],
     st_turns := [example_turn 1 TurnWaitingForApproval, example_turn 2 TurnRunning]\<rparr>"

definition example_settlement :: SettleTurnCommand where
  "example_settlement = \<lparr>stc_scope = example_scope AuthorityRuntimeWorker, stc_idempotencyKey = ''k9'',
     stc_sessionID = example_session, stc_turnID = example_id 2 IdentifierTurn, stc_expectedSessionVersion = 4,
     stc_expectedTurnVersion = 1,
     stc_outcome = \<lparr>to_operationID = [], to_ordinal = 0, to_fence = 0, to_state = TurnSucceeded, to_failure = None\<rparr>,
     stc_leaseFence = None\<rparr>"

theorem settle_completes_undrained_witness:
  "\<exists>r d c'. settle example_planner (cm_receipt example_settle) example_settlement (GTime 1000 True)
      \<lparr>px_state = example_closing, px_next = 100\<rparr> = (Inr (r, d), c')
    \<and> ss_state (pr_session r) = SessionCompleted \<and> example_turn 1 TurnWaitingForApproval \<in> set (st_turns (px_state c'))"
proof -
  let ?c = "\<lparr>px_state = example_closing, px_next = 100\<rparr>"
  let ?r = "settle example_planner (cm_receipt example_settle) example_settlement (GTime 1000 True) ?c"
  have "\<not> isl (fst ?r)"
    by (simp add: example_closing_def example_settlement_def run_simps terminal_turn_def cong: run_congs)
  then obtain r d c' where d: "?r = (Inr (r, d), c')"
    by (cases ?r; cases "fst ?r") auto
  have i: "findSession (px_state ?c) (rb_scope (cm_receipt example_settle)) (stc_sessionID example_settlement) = Some 0"
    by (simp add: findSession_def example_closing_def example_settlement_def run_commands)
  have "ss_state (st_sessions (px_state ?c) ! 0) = SessionClosing"
      "\<forall>t \<in> set (st_turns (px_state ?c)). tu_sessionID t = stc_sessionID example_settlement \<longrightarrow> tu_state t \<noteq> TurnQueued"
      "terminal_turn (to_state (stc_outcome example_settlement))"
      "example_turn 1 TurnWaitingForApproval \<in> set (st_turns (px_state ?c))"
      "tu_sessionID (example_turn 1 TurnWaitingForApproval) = stc_sessionID example_settlement"
      "tu_state (example_turn 1 TurnWaitingForApproval) = TurnWaitingForApproval"
    by (simp_all add: example_closing_def example_settlement_def example_turn_def terminal_turn_def)
  from settle_completes_undrained [OF d i this] d show ?thesis by blast
qed

end
