(* ===== verification/Go_Rfc3339.thy ===== *)
theory Go_Rfc3339
  imports Go_Json Go_Time
begin

text \<open>
  How \<^verbatim>\<open>encoding/json\<close> writes a \<^verbatim>\<open>time.Time\<close>: RFC 3339 with nanoseconds, an error for years outside
  0 to 9999. Only UTC times are written by the repository. The civil date of a day number is the proleptic
  Gregorian calendar, counted from 1 March of the year 0; trailing zeros of the fraction are dropped.
\<close>

definition nanos_per_day :: int where "nanos_per_day = 86400000000000"

definition civil :: "int \<Rightarrow> int \<times> int \<times> int" where
  "civil days =
     (let z = days + 306; era = z div 146097; doe = z mod 146097;
          yoe = (doe - doe div 1460 + doe div 36524 - doe div 146096) div 365;
          doy = doe - (365 * yoe + yoe div 4 - yoe div 100);
          mp = (5 * doy + 2) div 153;
          d = doy - (153 * mp + 2) div 5 + 1;
          m = (if mp < 10 then mp + 3 else mp - 9);
          y = yoe + era * 400 + (if m \<le> 2 then 1 else 0)
      in (y, m, d))"

definition pad :: "nat \<Rightarrow> int \<Rightarrow> string" where
  "pad n i = (let s = itoa (nat i) in replicate (n - length s) (CHR ''0'') @ s)"

definition fraction :: "int \<Rightarrow> string" where
  "fraction ns =
     (if ns = 0 then [] else CHR ''.'' # rev (dropWhile (\<lambda>c. c = CHR ''0'') (rev (pad 9 ns))))"

definition rfc3339 :: "gtime \<Rightarrow> string" where
  "rfc3339 t =
     (let (y, m, d) = civil (instant t div nanos_per_day);
          rest = instant t mod nanos_per_day; secs = rest div 1000000000
      in pad 4 y @ ''-'' @ pad 2 m @ ''-'' @ pad 2 d @ ''T'' @ pad 2 (secs div 3600) @ '':''
         @ pad 2 (secs div 60 mod 60) @ '':'' @ pad 2 (secs mod 60) @ fraction (rest mod 1000000000) @ ''Z'')"

definition json_time :: "gtime \<Rightarrow> json option" where
  "json_time t =
     (let (y, m, d) = civil (instant t div nanos_per_day)
      in if y < 0 \<or> 9999 < y then None else Some (JString (rfc3339 t)))"

end
