(* ===== verification/Sdk_Json.thy ===== *)
theory Sdk_Json
  imports Sdk_Types Go_Json "HOL-Library.List_Lexorder" "HOL-Library.Char_ord"
begin

text \<open>
  The JSON form of \<^verbatim>\<open>Failure\<close> of \<^verbatim>\<open>sdk/go/types.go\<close>. A map is marshalled with its keys sorted, and left out when
  it is empty.
\<close>

definition json_failure :: "Failure \<Rightarrow> json" where
  "json_failure f =
     JObject ([(''code'', JString (fl_code f)), (''message'', JString (fl_message f)),
               (''retryable'', JBool (fl_retryable f))]
              @ (if fl_details f = [] then []
                 else [(''details'', JObject (map (\<lambda>(k, v). (k, JString v)) (sort_key fst (fl_details f))))]))"

end
