(* ===== verification/Compiler.thy ===== *)
theory Compiler
  imports Planner Go_Rfc3339 Sdk_Json "HOL-Library.List_Lexorder" "HOL-Library.Char_ord"
begin

text \<open>
  The command boundary \<^verbatim>\<open>internal/runtimestate/compiler.go\<close>: validation of scope, authority and content
  commitments, and the canonical request digest of every command kind. A \<^verbatim>\<open>Compiler\<close> is the number of
  the content store it validates handoffs with. The shape that a command commits to is written as the
  JSON value \<^verbatim>\<open>json.Marshal\<close> sees: a struct lists its fields in declaration order, a nil pointer is
  null; \<open>None\<close> is a value that cannot be marshalled (a time beyond the year 9999). Identifiers are
  marshalled only after they were parsed, so their \<^verbatim>\<open>MarshalJSON\<close> succeeds (\<open>marshalID_parsed\<close>).
  The generic errors of the compiler are \<open>ErrInvalidCommand\<close>.
\<close>

section \<open>Shapes\<close>

definition json_opt :: "('a \<Rightarrow> json) \<Rightarrow> 'a option \<Rightarrow> json" where
  "json_opt f x = (case x of None \<Rightarrow> JNull | Some y \<Rightarrow> f y)"

definition json_nat :: "nat \<Rightarrow> json" where
  "json_nat n = JNumber (int n)"

definition json_scope :: "MutationScope \<Rightarrow> json" where
  "json_scope s = JObject [(''Tenant'', JString (sc_tenant s)), (''Principal'', JString (sc_principal s)),
                           (''Authority'', JString (authority_string (sc_authority s)))]"

definition json_reference :: "Reference \<Rightarrow> json" where
  "json_reference r = JObject [(''Digest'', JString (ref_digest r)), (''MediaType'', JString (ref_mediaType r)),
                               (''SizeBytes'', JNumber (ref_sizeBytes r))]"

definition json_usage :: "ModelUsage \<Rightarrow> json" where
  "json_usage u = JObject [(''InputTokens'', json_opt json_nat (mu_inputTokens u)),
                           (''OutputTokens'', json_opt json_nat (mu_outputTokens u))]"

definition json_fence :: "OutboxLeaseFence \<Rightarrow> json" where
  "json_fence f = JObject [(''OutboxID'', JString (lf_outboxID f)),
                           (''ExpectedVersion'', json_nat (lf_expectedVersion f)),
                           (''Claimer'', JString (lf_claimer f))]"

definition json_rule :: "PolicyRule \<Rightarrow> json" where
  "json_rule r = JObject [(''tool_name'', JString (rule_toolName r)),
                          (''decision'', JString (policy_decision_string (rule_decision r)))]"

fun invocation_string :: "InvocationState \<Rightarrow> string" where
  "invocation_string InvocationUnset = ''''"
| "invocation_string InvocationIntent = ''intent''"
| "invocation_string InvocationSucceeded = ''succeeded''"
| "invocation_string InvocationFailed = ''failed''"
| "invocation_string InvocationUncertain = ''uncertain''"
| "invocation_string InvocationCancelled = ''cancelled''"

fun execution_string :: "ToolExecutionState \<Rightarrow> string" where
  "execution_string ToolExecutionUnset = ''''"
| "execution_string ToolExecutionIntent = ''intent''"
| "execution_string ToolExecutionSucceeded = ''succeeded''"
| "execution_string ToolExecutionFailed = ''failed''"
| "execution_string ToolExecutionUncertain = ''uncertain''"

fun turn_string :: "TurnState \<Rightarrow> string" where
  "turn_string TurnUnset = ''''"
| "turn_string TurnQueued = ''queued''"
| "turn_string TurnRunning = ''running''"
| "turn_string TurnWaitingForApproval = ''waiting_for_approval''"
| "turn_string TurnSucceeded = ''succeeded''"
| "turn_string TurnFailed = ''failed''"
| "turn_string TurnCancelled = ''cancelled''"

definition json_terminal :: "TerminalOutcome \<Rightarrow> json" where
  "json_terminal t =
     JObject [(''OperationID'', JString (to_operationID t)), (''Ordinal'', json_nat (to_ordinal t)),
              (''Fence'', json_nat (to_fence t)), (''State'', JString (turn_string (to_state t))),
              (''Failure'', json_opt json_failure (to_failure t))]"

text \<open>The fields every command struct starts with, and the members most of them end with.\<close>

definition json_command :: "MutationScope \<Rightarrow> string \<Rightarrow> (string \<times> json) list \<Rightarrow> json" where
  "json_command s key fs = JObject ((''Scope'', json_scope s) # (''IdempotencyKey'', JString key) # fs)"

definition json_target :: "SessionID \<Rightarrow> TurnID \<Rightarrow> (string \<times> json) list" where
  "json_target i t = [(''SessionID'', JString i), (''TurnID'', JString t)]"

definition outcomeDigestShape :: "RecordInvocationOutcomeCommand \<Rightarrow> json" where
  "outcomeDigestShape q =
     JObject [(''Session'', JString (ioc_sessionID q)), (''Turn'', JString (ioc_turnID q)),
              (''Operation'', JString (ioc_operationID q)), (''Ordinal'', json_nat (ioc_ordinal q)),
              (''Fence'', json_nat (ioc_fence q)), (''SessionVersion'', json_nat (ioc_expectedSessionVersion q)),
              (''TurnVersion'', json_nat (ioc_expectedTurnVersion q)),
              (''Outcome'', JString (invocation_string (ioc_outcome q))),
              (''Result'', json_reference (case ioc_result q of None \<Rightarrow> zero_Reference | Some r \<Rightarrow> r)),
              (''Failure'', json_opt json_failure (ioc_failure q)), (''Usage'', json_opt json_usage (ioc_usage q))]"

section \<open>Validators\<close>

definition validateScope :: "MutationScope \<Rightarrow> Authority \<Rightarrow> bool \<Rightarrow> bool" where
  "validateScope s authority requirePrincipal \<longleftrightarrow>
     \<not> (sc_authority s \<noteq> authority \<or> \<not> validOpaque (sc_tenant s) 128
        \<or> (requirePrincipal \<and> \<not> validOpaque (sc_principal s) 128))
     \<and> \<not> (\<not> requirePrincipal \<and> sc_principal s \<noteq> [] \<and> \<not> validOpaque (sc_principal s) 128)"

definition validateWorkerCommand :: "MutationScope \<Rightarrow> SessionID \<Rightarrow> TurnID \<Rightarrow> OperationID \<Rightarrow> bool" where
  "validateWorkerCommand s session turn operation \<longleftrightarrow>
     validateScope s AuthorityRuntimeWorker True \<and> validSession session \<and> validTurn turn \<and> validOpaque operation 128"

definition validReference :: "Reference \<Rightarrow> bool" where
  "validReference r \<longleftrightarrow> 0 < ref_sizeBytes r \<and> ref_sizeBytes r \<le> 2101248
     \<and> validOpaque (ref_digest r) 128 \<and> validOpaque (ref_mediaType r) 256"

definition validArtifactReference :: "Reference \<Rightarrow> bool" where
  "validArtifactReference r \<longleftrightarrow> 0 < ref_sizeBytes r \<and> ref_sizeBytes r \<le> 8388608
     \<and> validOpaque (ref_digest r) 128 \<and> validOpaque (ref_mediaType r) 256"

definition validConversationReference :: "Reference \<Rightarrow> bool" where
  "validConversationReference r \<longleftrightarrow> ref_mediaType r = ConversationEntryMediaTypeV1
     \<and> 0 < ref_sizeBytes r \<and> ref_sizeBytes r \<le> 2097152 \<and> validOpaque (ref_digest r) 128"

definition validAgent :: "AgentID \<Rightarrow> bool" where
  "validAgent i \<longleftrightarrow> ParseAgentID i \<noteq> None"
definition validRevision :: "AgentRevisionID \<Rightarrow> bool" where
  "validRevision i \<longleftrightarrow> ParseAgentRevisionID i \<noteq> None"
definition validInput :: "InputID \<Rightarrow> bool" where
  "validInput i \<longleftrightarrow> ParseInputID i \<noteq> None"
definition validArtifact :: "ArtifactID \<Rightarrow> bool" where
  "validArtifact i \<longleftrightarrow> ParseArtifactID i \<noteq> None"

definition validApprovalSummary :: "string \<Rightarrow> string \<Rightarrow> bool" where
  "validApprovalSummary verb target \<longleftrightarrow>
     (verb = ''execute'' \<or> verb = ''restart'' \<or> verb = ''write'' \<or> verb = ''delete'')
     \<and> (target = ''workspace-service'' \<or> target = ''sandbox-process'' \<or> target = ''artifact''
        \<or> target = ''network-request'')"

definition validFailure :: "Failure option \<Rightarrow> bool" where
  "validFailure failure \<longleftrightarrow>
     (case failure of None \<Rightarrow> False
      | Some f \<Rightarrow> validOpaque (fl_code f) 64 \<and> length (fl_message f) \<le> 1024 \<and> length (fl_details f) \<le> 16)"

definition validOutcome :: "InvocationState \<Rightarrow> Reference option \<Rightarrow> Failure option \<Rightarrow> bool" where
  "validOutcome outcome result failure \<longleftrightarrow>
     (outcome = InvocationSucceeded \<and> failure = None \<and> (case result of None \<Rightarrow> False | Some r \<Rightarrow> validReference r))
     \<or> ((outcome = InvocationFailed \<or> outcome = InvocationUncertain) \<and> result = None \<and> validFailure failure)
     \<or> (outcome = InvocationCancelled \<and> result = None \<and> failure = None)"

definition validTerminal :: "TerminalOutcome \<Rightarrow> bool" where
  "validTerminal t \<longleftrightarrow>
     (if to_state t \<noteq> TurnSucceeded \<and> to_state t \<noteq> TurnFailed \<and> to_state t \<noteq> TurnCancelled then False
      else if to_state t = TurnSucceeded
      then (to_operationID t = [] \<and> to_ordinal t = 0 \<and> to_fence t = 0 \<and> to_failure t = None)
           \<or> (validOpaque (to_operationID t) 128 \<and> 0 < to_ordinal t \<and> 0 < to_fence t \<and> to_failure t = None)
      else to_failure t = None \<or> validFailure (to_failure t))"

definition validOutboxLeaseFence :: "OutboxLeaseFence option \<Rightarrow> bool" where
  "validOutboxLeaseFence fence \<longleftrightarrow>
     (case fence of None \<Rightarrow> True
      | Some f \<Rightarrow> validOpaque (lf_outboxID f) 128 \<and> 0 < lf_expectedVersion f \<and> validOpaque (lf_claimer f) 128)"

definition valid_tool_outcome :: "RecordToolExecutionOutcomeCommand \<Rightarrow> bool" where
  "valid_tool_outcome q \<longleftrightarrow>
     (toc_outcome q = ToolExecutionSucceeded \<and> toc_failure q = None
      \<and> (case toc_result q of None \<Rightarrow> False | Some r \<Rightarrow> validReference r))
     \<or> ((toc_outcome q = ToolExecutionFailed \<or> toc_outcome q = ToolExecutionUncertain)
        \<and> toc_result q = None \<and> validFailure (toc_failure q))"

section \<open>The canonical digest\<close>

definition canonical :: "CommandKind \<Rightarrow> MutationScope \<Rightarrow> string \<Rightarrow> json \<Rightarrow> json" where
  "canonical kind scope key shape =
     JObject [(''version'', JString ''runtime-state-command/v1''), (''kind'', JString (command_string kind)),
              (''scope'', json_scope scope), (''key'', JString key), (''shape'', shape)]"

definition compile ::
    "CommandKind \<Rightarrow> MutationScope \<Rightarrow> string \<Rightarrow> json option \<Rightarrow> compiled_command
     \<Rightarrow> store_error + CompiledMutation" where
  "compile kind scope key shape command =
     (if \<not> validOpaque key 256 then Inl ErrInvalidCommand
      else case shape of
        None \<Rightarrow> Inl ErrInvalidCommand
      | Some j \<Rightarrow> Inr \<lparr>cm_kind = kind,
          cm_receipt = \<lparr>rb_scope = scope, rb_idempotencyKey = key, rb_command = kind,
                        rb_requestDigest = digest_json (canonical kind scope key j)\<rparr>,
          cm_command = command\<rparr>)"

section \<open>Administrator and owner commands\<close>

definition CompileRegisterAgentRevision ::
    "nat \<Rightarrow> RegisterAgentRevisionCommand \<Rightarrow> store_error + CompiledMutation" where
  "CompileRegisterAgentRevision store q =
     (if \<not> validateScope (rac_scope q) AuthorityTenantAdministrator False then Inl ErrInvalidCommand
      else if rac_agentID q = [] \<and> rac_expectedRevision q \<noteq> 0 then Inl ErrInvalidCommand
      else if rac_agentID q \<noteq> [] \<and> (\<not> validAgent (rac_agentID q) \<or> rac_expectedRevision q = 0)
      then Inl ErrInvalidCommand
      else case ValidateAgentSpecificationBodyHandoff store (rac_specification q) of
        None \<Rightarrow> Inl ErrIntegrity
      | Some h \<Rightarrow>
          if asc_tenant h \<noteq> sc_tenant (rac_scope q) \<or> \<not> validReference (asc_reference h)
             \<or> \<not> validName (asc_name h) \<or> \<not> validName (asc_modelProfile h)
          then Inl ErrIntegrity
          else compile CommandRegisterAgentRevision (rac_scope q) (rac_idempotencyKey q)
            (Some (JObject [(''AgentID'', JString (rac_agentID q)), (''Reference'', json_reference (asc_reference h)),
                            (''Name'', JString (asc_name h)), (''Profile'', JString (asc_modelProfile h))]))
            (C_register \<lparr>cr_command = q, cr_commitment = h\<rparr>))"

definition CompileRegisterPolicyRevision :: "RegisterPolicyRevisionCommand \<Rightarrow> store_error + CompiledMutation" where
  "CompileRegisterPolicyRevision q =
     (if \<not> validateScope (rpc_scope q) AuthorityTenantAdministrator False \<or> \<not> validName (rpc_name q)
         \<or> \<not> validPolicyRules (rpc_rules q)
      then Inl ErrInvalidCommand
      else compile CommandRegisterPolicyRevision (rpc_scope q) (rpc_idempotencyKey q)
        (Some (JObject [(''Name'', JString (rpc_name q)), (''ExpectedRevision'', json_nat (rpc_expectedRevision q)),
                        (''Rules'', JArray (map json_rule (rpc_rules q)))]))
        (C_registerPolicy q))"

definition CompileCreateSession :: "CreateSessionCommand \<Rightarrow> store_error + CompiledMutation" where
  "CompileCreateSession q =
     (if \<not> validateScope (csc_scope q) AuthoritySessionOwner True \<or> \<not> validRevision (csc_revisionID q)
      then Inl ErrInvalidCommand
      else compile CommandCreateSession (csc_scope q) (csc_idempotencyKey q)
        (Some (JObject [(''Revision'', JString (csc_revisionID q))])) (C_createSession q))"

definition CompileAdmitInput :: "nat \<Rightarrow> AdmitInputCommand \<Rightarrow> store_error + CompiledMutation" where
  "CompileAdmitInput store q =
     (if \<not> validateScope (aic_scope q) AuthoritySessionOwner True \<or> \<not> validSession (aic_sessionID q)
      then Inl ErrInvalidCommand
      else case ValidateInputEnvelopeHandoff store (aic_input q) of
        None \<Rightarrow> Inl ErrIntegrity
      | Some h \<Rightarrow>
          if cc_tenant h \<noteq> sc_tenant (aic_scope q) \<or> \<not> validReference (cc_reference h) then Inl ErrIntegrity
          else compile CommandAdmitInput (aic_scope q) (aic_idempotencyKey q)
            (Some (JObject [(''Session'', JString (aic_sessionID q)),
                            (''Reference'', json_reference (cc_reference h))]))
            (C_admit \<lparr>ca_command = q, ca_commitment = h\<rparr>))"

definition CompileDecideApproval :: "DecideApprovalCommand \<Rightarrow> store_error + CompiledMutation" where
  "CompileDecideApproval q =
     (if ParseApprovalID (dac_approvalID q) = None \<or> \<not> validateScope (dac_scope q) AuthoritySessionOwner True
         \<or> (dac_decision q \<noteq> ApprovalApproved \<and> dac_decision q \<noteq> ApprovalDenied)
      then Inl ErrInvalidCommand
      else compile CommandDecideApproval (dac_scope q) (dac_idempotencyKey q)
        (Some (json_command (dac_scope q) (dac_idempotencyKey q)
           [(''ApprovalID'', JString (dac_approvalID q)),
            (''Decision'', JString (approval_state_string (dac_decision q)))]))
        (C_decideApproval q))"

definition CompileRevokeCapabilityGrant :: "RevokeCapabilityGrantCommand \<Rightarrow> store_error + CompiledMutation" where
  "CompileRevokeCapabilityGrant q =
     (if \<not> validateScope (rgc_scope q) AuthoritySessionOwner True \<or> \<not> validSession (rgc_sessionID q)
         \<or> \<not> validTurn (rgc_turnID q) \<or> \<not> validOpaque (rgc_toolCallID q) 128 \<or> \<not> validOpaque (rgc_grantID q) 128
      then Inl ErrInvalidCommand
      else compile CommandRevokeCapabilityGrant (rgc_scope q) (rgc_idempotencyKey q)
        (Some (json_command (rgc_scope q) (rgc_idempotencyKey q)
           ([(''GrantID'', JString (rgc_grantID q)), (''ToolCallID'', JString (rgc_toolCallID q))]
            @ json_target (rgc_sessionID q) (rgc_turnID q))))
        (C_revokeCapabilityGrant q))"

definition CompileCancelTurn :: "CancelTurnCommand \<Rightarrow> store_error + CompiledMutation" where
  "CompileCancelTurn q =
     (if \<not> validateScope (ctc_scope q) AuthoritySessionOwner True \<or> \<not> validSession (ctc_sessionID q)
         \<or> \<not> validTurn (ctc_turnID q)
      then Inl ErrInvalidCommand
      else compile CommandCancelTurn (ctc_scope q) (ctc_idempotencyKey q)
        (Some (json_command (ctc_scope q) (ctc_idempotencyKey q) (json_target (ctc_sessionID q) (ctc_turnID q))))
        (C_cancel q))"

definition CompileCloseSession :: "CloseSessionCommand \<Rightarrow> store_error + CompiledMutation" where
  "CompileCloseSession q =
     (if \<not> validateScope (clc_scope q) AuthoritySessionOwner True \<or> \<not> validSession (clc_sessionID q)
      then Inl ErrInvalidCommand
      else compile CommandCloseSession (clc_scope q) (clc_idempotencyKey q)
        (Some (json_command (clc_scope q) (clc_idempotencyKey q) [(''SessionID'', JString (clc_sessionID q))]))
        (C_close q))"

definition CompileCancelSession :: "CancelSessionCommand \<Rightarrow> store_error + CompiledMutation" where
  "CompileCancelSession q =
     (if \<not> validateScope (xsc_scope q) AuthoritySessionOwner True \<or> \<not> validSession (xsc_sessionID q)
      then Inl ErrInvalidCommand
      else compile CommandCancelSession (xsc_scope q) (xsc_idempotencyKey q)
        (Some (json_command (xsc_scope q) (xsc_idempotencyKey q) [(''SessionID'', JString (xsc_sessionID q))]))
        (C_cancelSession q))"

section \<open>Worker commands\<close>

definition CompileRegisterArtifact :: "nat \<Rightarrow> RegisterArtifactCommand \<Rightarrow> store_error + CompiledMutation" where
  "CompileRegisterArtifact store q =
     (if \<not> validateScope (arc_scope q) AuthorityRuntimeWorker True \<or> \<not> validSession (arc_sessionID q)
         \<or> \<not> validTurn (arc_turnID q) \<or> \<not> validOutboxLeaseFence (arc_leaseFence q)
      then Inl ErrInvalidCommand
      else case ValidateArtifactHandoff store (arc_artifact q) of
        None \<Rightarrow> Inl ErrIntegrity
      | Some h \<Rightarrow>
          if cc_tenant h \<noteq> sc_tenant (arc_scope q) \<or> \<not> validArtifactReference (cc_reference h) then Inl ErrIntegrity
          else compile CommandRegisterArtifact (arc_scope q) (arc_idempotencyKey q)
            (Some (JObject [(''Session'', JString (arc_sessionID q)), (''Turn'', JString (arc_turnID q)),
                            (''Reference'', json_reference (cc_reference h))]))
            (C_registerArtifact \<lparr>cf_command = q, cf_commitment = h\<rparr>))"

definition CompileAppendConversation :: "nat \<Rightarrow> AppendConversationCommand \<Rightarrow> store_error + CompiledMutation" where
  "CompileAppendConversation store q =
     (if \<not> validateScope (acc_scope q) AuthorityRuntimeWorker True \<or> \<not> validSession (acc_sessionID q)
      then Inl ErrInvalidCommand
      else case ValidateConversationEntryHandoff store (acc_entry q) of
        None \<Rightarrow> Inl ErrIntegrity
      | Some h \<Rightarrow>
          if cc_tenant h \<noteq> sc_tenant (acc_scope q) \<or> \<not> validConversationReference (cc_reference h)
          then Inl ErrIntegrity
          else compile CommandAppendConversation (acc_scope q) (acc_idempotencyKey q)
            (Some (JObject [(''Session'', JString (acc_sessionID q)),
                            (''Expected'', json_nat (acc_expectedVersion q)),
                            (''Reference'', json_reference (cc_reference h))]))
            (C_appendConversation \<lparr>cn_command = q, cn_commitment = h\<rparr>))"

definition CompileRecordToolIntent :: "nat \<Rightarrow> RecordToolIntentCommand \<Rightarrow> store_error + CompiledMutation" where
  "CompileRecordToolIntent store q =
     (case ValidateToolActionDescriptorHandoff store (tic_descriptor q) of
        None \<Rightarrow> Inl ErrInvalidCommand
      | Some h \<Rightarrow>
          if \<not> validateWorkerCommand (tic_scope q) (tic_sessionID q) (tic_turnID q) (tic_toolCallID q)
             \<or> cc_tenant h \<noteq> sc_tenant (tic_scope q) \<or> \<not> validOpaque (tic_toolName q) 128
             \<or> \<not> validDigest (tic_actionDigest q) \<or> \<not> validDigest (tic_policyRevisionDigest q)
          then Inl ErrInvalidCommand
          else compile CommandRecordToolIntent (tic_scope q) (tic_idempotencyKey q)
            (Some (json_reference (cc_reference h)))
            (C_recordToolIntent \<lparr>ct_command = q, ct_descriptor = cc_reference h\<rparr>))"

definition Owned_AdmitToolApproval :: "AdmitToolApprovalCommand \<Rightarrow> AdmitToolApprovalCommand" where
  "Owned_AdmitToolApproval q = q\<lparr>tac_expiresAt := normalizeTime (tac_expiresAt q)\<rparr>"

definition CompileAdmitToolApproval :: "nat \<Rightarrow> AdmitToolApprovalCommand \<Rightarrow> store_error + CompiledMutation" where
  "CompileAdmitToolApproval store command =
     (let q = Owned_AdmitToolApproval command in
      case ValidateToolActionDescriptorHandoff store (tac_descriptor q) of
        None \<Rightarrow> Inl ErrInvalidCommand
      | Some h \<Rightarrow>
          if ParseApprovalID (tac_approvalID q) = None
             \<or> \<not> validateWorkerCommand (tac_scope q) (tac_sessionID q) (tac_turnID q) (tac_toolCallID q)
             \<or> cc_tenant h \<noteq> sc_tenant (tac_scope q) \<or> \<not> validOpaque (tac_toolName q) 128
             \<or> \<not> validDigest (tac_actionDigest q) \<or> \<not> validDigest (tac_policyRevisionDigest q)
             \<or> \<not> validDigest (tac_capabilityDigest q)
             \<or> \<not> validApprovalSummary (tac_actionVerb q) (tac_actionTarget q)
             \<or> tac_maximumUses q = 0 \<or> 32 < tac_maximumUses q \<or> IsZero (tac_expiresAt q)
          then Inl ErrInvalidCommand
          else compile CommandAdmitToolApproval (tac_scope q) (tac_idempotencyKey q)
            (Some (json_reference (cc_reference h)))
            (C_admitToolApproval \<lparr>cp_command = q, cp_descriptor = cc_reference h\<rparr>))"

definition Owned_RequestApproval :: "RequestApprovalCommand \<Rightarrow> RequestApprovalCommand" where
  "Owned_RequestApproval q = q\<lparr>qac_expiresAt := normalizeTime (qac_expiresAt q)\<rparr>"

definition CompileRequestApproval :: "RequestApprovalCommand \<Rightarrow> store_error + CompiledMutation" where
  "CompileRequestApproval command =
     (let q = Owned_RequestApproval command in
      if ParseApprovalID (qac_approvalID q) = None
         \<or> \<not> validateWorkerCommand (qac_scope q) (qac_sessionID q) (qac_turnID q) (qac_toolCallID q)
         \<or> \<not> validDigest (qac_actionDigest q) \<or> \<not> validDigest (qac_policyRevisionDigest q)
         \<or> \<not> validDigest (qac_capabilityDigest q) \<or> \<not> validApprovalSummary (qac_actionVerb q) (qac_actionTarget q)
         \<or> qac_maximumUses q = 0 \<or> 32 < qac_maximumUses q \<or> IsZero (qac_expiresAt q)
      then Inl ErrInvalidCommand
      else compile CommandRequestApproval (qac_scope q) (qac_idempotencyKey q)
        (map_option (\<lambda>expires. json_command (qac_scope q) (qac_idempotencyKey q)
           (json_target (qac_sessionID q) (qac_turnID q)
            @ [(''ToolCallID'', JString (qac_toolCallID q)), (''ApprovalID'', JString (qac_approvalID q)),
               (''ActionDigest'', JString (qac_actionDigest q)),
               (''PolicyRevisionDigest'', JString (qac_policyRevisionDigest q)),
               (''CapabilityDigest'', JString (qac_capabilityDigest q)),
               (''ActionVerb'', JString (qac_actionVerb q)), (''ActionTarget'', JString (qac_actionTarget q)),
               (''MaximumUses'', json_nat (qac_maximumUses q)), (''ExpiresAt'', expires)]))
           (json_time (qac_expiresAt q)))
        (C_requestApproval q))"

definition CompileConsumeCapabilityGrant :: "ConsumeCapabilityGrantCommand \<Rightarrow> store_error + CompiledMutation" where
  "CompileConsumeCapabilityGrant q =
     (if \<not> validateWorkerCommand (cgc_scope q) (cgc_sessionID q) (cgc_turnID q) (cgc_toolCallID q)
         \<or> \<not> validOpaque (cgc_grantID q) 128 \<or> \<not> validDigest (cgc_policyRevisionDigest q)
      then Inl ErrInvalidCommand
      else compile CommandConsumeCapabilityGrant (cgc_scope q) (cgc_idempotencyKey q)
        (Some (json_command (cgc_scope q) (cgc_idempotencyKey q)
           ([(''GrantID'', JString (cgc_grantID q)), (''ToolCallID'', JString (cgc_toolCallID q)),
             (''PolicyRevisionDigest'', JString (cgc_policyRevisionDigest q))]
            @ json_target (cgc_sessionID q) (cgc_turnID q))))
        (C_consumeCapabilityGrant q))"

definition CompileExpireCapabilityGrant :: "ExpireCapabilityGrantCommand \<Rightarrow> store_error + CompiledMutation" where
  "CompileExpireCapabilityGrant q =
     (if \<not> validateScope (egc_scope q) AuthorityRuntimeWorker True \<or> \<not> validSession (egc_sessionID q)
         \<or> \<not> validTurn (egc_turnID q) \<or> \<not> validOpaque (egc_toolCallID q) 128 \<or> \<not> validOpaque (egc_grantID q) 128
      then Inl ErrInvalidCommand
      else compile CommandExpireCapabilityGrant (egc_scope q) (egc_idempotencyKey q)
        (Some (json_command (egc_scope q) (egc_idempotencyKey q)
           ([(''GrantID'', JString (egc_grantID q)), (''ToolCallID'', JString (egc_toolCallID q))]
            @ json_target (egc_sessionID q) (egc_turnID q))))
        (C_expireCapabilityGrant q))"

definition CompileDenyToolAdmission :: "DenyToolAdmissionCommand \<Rightarrow> store_error + CompiledMutation" where
  "CompileDenyToolAdmission q =
     (if \<not> validateWorkerCommand (dtc_scope q) (dtc_sessionID q) (dtc_turnID q) (dtc_toolCallID q)
         \<or> \<not> validOpaque (dtc_toolCallID q) 128 \<or> \<not> validDigest (dtc_capabilityScopeDigest q)
         \<or> (dtc_policyRevisionDigest q \<noteq> [] \<and> \<not> validDigest (dtc_policyRevisionDigest q))
         \<or> (dtc_decision q \<noteq> ''denied'' \<and> dtc_decision q \<noteq> ''exhausted'')
      then Inl ErrInvalidCommand
      else compile CommandDenyToolAdmission (dtc_scope q) (dtc_idempotencyKey q)
        (Some (json_command (dtc_scope q) (dtc_idempotencyKey q)
           ([(''ToolCallID'', JString (dtc_toolCallID q)), (''Decision'', JString (dtc_decision q)),
             (''PolicyRevisionDigest'', JString (dtc_policyRevisionDigest q)),
             (''CapabilityScopeDigest'', JString (dtc_capabilityScopeDigest q))]
            @ json_target (dtc_sessionID q) (dtc_turnID q))))
        (C_denyToolAdmission q))"

definition CompileBeginToolExecution :: "BeginToolExecutionCommand \<Rightarrow> store_error + CompiledMutation" where
  "CompileBeginToolExecution q =
     (if \<not> validateWorkerCommand (btc_scope q) (btc_sessionID q) (btc_turnID q) (btc_operationID q)
         \<or> \<not> validOpaque (btc_grantID q) 128 \<or> \<not> validOpaque (btc_toolCallID q) 128
      then Inl ErrInvalidCommand
      else compile CommandBeginToolExecution (btc_scope q) (btc_idempotencyKey q)
        (Some (json_command (btc_scope q) (btc_idempotencyKey q)
           ([(''ToolCallID'', JString (btc_toolCallID q)), (''GrantID'', JString (btc_grantID q))]
            @ json_target (btc_sessionID q) (btc_turnID q)
            @ [(''OperationID'', JString (btc_operationID q))])))
        (C_beginToolExecution q))"

definition CompileRecordToolExecutionOutcome ::
    "RecordToolExecutionOutcomeCommand \<Rightarrow> store_error + CompiledMutation" where
  "CompileRecordToolExecutionOutcome q =
     (if \<not> validateWorkerCommand (toc_scope q) (toc_sessionID q) (toc_turnID q) (toc_operationID q)
         \<or> \<not> validOpaque (toc_toolCallID q) 128 \<or> \<not> valid_tool_outcome q
         \<or> \<not> validOutboxLeaseFence (toc_leaseFence q)
      then Inl ErrInvalidCommand
      else compile CommandRecordToolOutcome (toc_scope q) (toc_idempotencyKey q)
        (Some (json_command (toc_scope q) (toc_idempotencyKey q)
           (json_target (toc_sessionID q) (toc_turnID q)
            @ [(''ToolCallID'', JString (toc_toolCallID q)), (''OperationID'', JString (toc_operationID q)),
               (''Outcome'', JString (execution_string (toc_outcome q))),
               (''Result'', json_opt json_reference (toc_result q)),
               (''Failure'', json_opt json_failure (toc_failure q)),
               (''LeaseFence'', json_opt json_fence (toc_leaseFence q))])))
        (C_recordToolExecutionOutcome q))"

definition CompileBeginInvocationAttempt :: "BeginInvocationAttemptCommand \<Rightarrow> store_error + CompiledMutation" where
  "CompileBeginInvocationAttempt q =
     (if \<not> validateWorkerCommand (bic_scope q) (bic_sessionID q) (bic_turnID q) (bic_operationID q)
         \<or> bic_expectedSessionVersion q = 0 \<or> bic_expectedTurnVersion q = 0
      then Inl ErrInvalidCommand
      else compile CommandBeginInvocation (bic_scope q) (bic_idempotencyKey q)
        (Some (json_command (bic_scope q) (bic_idempotencyKey q)
           (json_target (bic_sessionID q) (bic_turnID q)
            @ [(''OperationID'', JString (bic_operationID q)),
               (''ExpectedSessionVersion'', json_nat (bic_expectedSessionVersion q)),
               (''ExpectedTurnVersion'', json_nat (bic_expectedTurnVersion q)),
               (''ExpectedFence'', json_nat (bic_expectedFence q))])))
        (C_begin q))"

definition CompileRecordInvocationOutcome :: "RecordInvocationOutcomeCommand \<Rightarrow> store_error + CompiledMutation" where
  "CompileRecordInvocationOutcome q =
     (if \<not> validateWorkerCommand (ioc_scope q) (ioc_sessionID q) (ioc_turnID q) (ioc_operationID q)
         \<or> ioc_ordinal q = 0 \<or> ioc_fence q = 0 \<or> ioc_expectedSessionVersion q = 0 \<or> ioc_expectedTurnVersion q = 0
         \<or> \<not> validOutcome (ioc_outcome q) (ioc_result q) (ioc_failure q)
      then Inl ErrInvalidCommand
      else compile CommandRecordOutcome (ioc_scope q) (ioc_idempotencyKey q) (Some (outcomeDigestShape q))
        (C_recordOutcome q))"

definition CompileSettleTurn :: "SettleTurnCommand \<Rightarrow> store_error + CompiledMutation" where
  "CompileSettleTurn q =
     (if \<not> validateScope (stc_scope q) AuthorityRuntimeWorker True \<or> \<not> validSession (stc_sessionID q)
         \<or> \<not> validTurn (stc_turnID q) \<or> stc_expectedSessionVersion q = 0 \<or> stc_expectedTurnVersion q = 0
         \<or> \<not> validTerminal (stc_outcome q) \<or> \<not> validOutboxLeaseFence (stc_leaseFence q)
      then Inl ErrInvalidCommand
      else compile CommandSettleTurn (stc_scope q) (stc_idempotencyKey q)
        (Some (json_command (stc_scope q) (stc_idempotencyKey q)
           (json_target (stc_sessionID q) (stc_turnID q)
            @ [(''ExpectedSessionVersion'', json_nat (stc_expectedSessionVersion q)),
               (''ExpectedTurnVersion'', json_nat (stc_expectedTurnVersion q)),
               (''Outcome'', json_terminal (stc_outcome q)),
               (''LeaseFence'', json_opt json_fence (stc_leaseFence q))])))
        (C_settle q))"

definition CompileFailSession :: "FailSessionCommand \<Rightarrow> store_error + CompiledMutation" where
  "CompileFailSession q =
     (if \<not> validateScope (fsc_scope q) AuthorityRuntimeWorker True \<or> \<not> validSession (fsc_sessionID q)
      then Inl ErrInvalidCommand
      else compile CommandFailSession (fsc_scope q) (fsc_idempotencyKey q)
        (Some (json_command (fsc_scope q) (fsc_idempotencyKey q) [(''SessionID'', JString (fsc_sessionID q))]))
        (C_failSession q))"

section \<open>Publisher commands\<close>

definition json_lease :: "OutboxID \<Rightarrow> nat \<Rightarrow> string \<Rightarrow> string \<Rightarrow> json \<Rightarrow> (string \<times> json) list" where
  "json_lease i v claimer name t =
     [(''OutboxID'', JString i), (''ExpectedVersion'', json_nat v), (''Claimer'', JString claimer), (name, t)]"

definition CompileClaimOutbox :: "ClaimOutboxCommand \<Rightarrow> store_error + CompiledMutation" where
  "CompileClaimOutbox command =
     (let q = command\<lparr>coc_claimUntil := normalizeTime (coc_claimUntil command)\<rparr> in
      if \<not> validateScope (coc_scope q) AuthorityOutboxPublisher False \<or> \<not> validOpaque (coc_outboxID q) 128
         \<or> coc_expectedVersion q = 0 \<or> \<not> validOpaque (coc_claimer q) 128 \<or> IsZero (coc_claimUntil q)
      then Inl ErrInvalidCommand
      else compile CommandClaimOutbox (coc_scope q) (coc_idempotencyKey q)
        (map_option (\<lambda>t. json_command (coc_scope q) (coc_idempotencyKey q)
           (json_lease (coc_outboxID q) (coc_expectedVersion q) (coc_claimer q) ''ClaimUntil'' t))
           (json_time (coc_claimUntil q)))
        (C_claim q))"

definition CompileRenewOutbox :: "RenewOutboxCommand \<Rightarrow> store_error + CompiledMutation" where
  "CompileRenewOutbox command =
     (let q = command\<lparr>roc_claimUntil := normalizeTime (roc_claimUntil command)\<rparr> in
      if \<not> validateScope (roc_scope q) AuthorityOutboxPublisher False \<or> \<not> validOpaque (roc_outboxID q) 128
         \<or> roc_expectedVersion q = 0 \<or> \<not> validOpaque (roc_claimer q) 128 \<or> IsZero (roc_claimUntil q)
      then Inl ErrInvalidCommand
      else compile CommandRenewOutbox (roc_scope q) (roc_idempotencyKey q)
        (map_option (\<lambda>t. json_command (roc_scope q) (roc_idempotencyKey q)
           (json_lease (roc_outboxID q) (roc_expectedVersion q) (roc_claimer q) ''ClaimUntil'' t))
           (json_time (roc_claimUntil q)))
        (C_renew q))"

definition CompileAcknowledgeOutbox :: "AcknowledgeOutboxCommand \<Rightarrow> store_error + CompiledMutation" where
  "CompileAcknowledgeOutbox command =
     (let q = command\<lparr>aoc_publishedAt := normalizeTime (aoc_publishedAt command)\<rparr> in
      if \<not> validateScope (aoc_scope q) AuthorityOutboxPublisher False \<or> \<not> validOpaque (aoc_outboxID q) 128
         \<or> aoc_expectedVersion q = 0 \<or> \<not> validOpaque (aoc_claimer q) 128 \<or> IsZero (aoc_publishedAt q)
      then Inl ErrInvalidCommand
      else compile CommandAcknowledgeOutbox (aoc_scope q) (aoc_idempotencyKey q)
        (map_option (\<lambda>t. json_command (aoc_scope q) (aoc_idempotencyKey q)
           (json_lease (aoc_outboxID q) (aoc_expectedVersion q) (aoc_claimer q) ''PublishedAt'' t))
           (json_time (aoc_publishedAt q)))
        (C_acknowledge q))"

section \<open>Read authorizations\<close>

record AgentSpecificationBodyReadCommand =
  brc_scope :: MutationScope
  brc_agentID :: AgentID
  brc_revisionID :: AgentRevisionID

record InputEnvelopeReadCommand =
  irc_scope :: MutationScope
  irc_sessionID :: SessionID
  irc_inputID :: InputID

record ArtifactReadCommand =
  frc_scope :: MutationScope
  frc_artifactID :: ArtifactID

record ToolActionDescriptorReadCommand =
  drc_scope :: MutationScope
  drc_sessionID :: SessionID
  drc_turnID :: TurnID
  drc_toolCallID :: string

record CompiledReadAuthorization =
  ra_scope :: MutationScope
  ra_agentID :: AgentID
  ra_revisionID :: AgentRevisionID
  ra_sessionID :: SessionID
  ra_inputID :: InputID
  ra_artifactID :: ArtifactID
  ra_turnID :: TurnID
  ra_toolCallID :: string

definition empty_authorization :: "MutationScope \<Rightarrow> CompiledReadAuthorization" where
  "empty_authorization s =
     \<lparr>ra_scope = s, ra_agentID = [], ra_revisionID = [], ra_sessionID = [], ra_inputID = [],
      ra_artifactID = [], ra_turnID = [], ra_toolCallID = []\<rparr>"

definition validateAgentSpecificationBodyReaderScope :: "MutationScope \<Rightarrow> bool" where
  "validateAgentSpecificationBodyReaderScope s \<longleftrightarrow>
     \<not> (sc_authority s \<noteq> AuthorityTenantAdministrator \<and> sc_authority s \<noteq> AuthorityRuntimeWorker)
     \<and> validateScope s (sc_authority s) False"

definition CompileAuthorizeAgentSpecificationBodyRead ::
    "AgentSpecificationBodyReadCommand \<Rightarrow> store_error + CompiledReadAuthorization" where
  "CompileAuthorizeAgentSpecificationBodyRead q =
     (if \<not> validateAgentSpecificationBodyReaderScope (brc_scope q) \<or> \<not> validAgent (brc_agentID q)
         \<or> \<not> validRevision (brc_revisionID q)
      then Inl ErrInvalidCommand
      else Inr ((empty_authorization (brc_scope q))\<lparr>ra_agentID := brc_agentID q, ra_revisionID := brc_revisionID q\<rparr>))"

definition CompileAuthorizeInputEnvelopeRead ::
    "InputEnvelopeReadCommand \<Rightarrow> store_error + CompiledReadAuthorization" where
  "CompileAuthorizeInputEnvelopeRead q =
     (if \<not> validateScope (irc_scope q) AuthoritySessionOwner True \<or> \<not> validSession (irc_sessionID q)
         \<or> \<not> validInput (irc_inputID q)
      then Inl ErrInvalidCommand
      else Inr ((empty_authorization (irc_scope q))\<lparr>ra_sessionID := irc_sessionID q, ra_inputID := irc_inputID q\<rparr>))"

definition CompileAuthorizeArtifactRead :: "ArtifactReadCommand \<Rightarrow> store_error + CompiledReadAuthorization" where
  "CompileAuthorizeArtifactRead q =
     (if \<not> validateScope (frc_scope q) AuthoritySessionOwner True \<or> \<not> validArtifact (frc_artifactID q)
      then Inl ErrInvalidCommand
      else Inr ((empty_authorization (frc_scope q))\<lparr>ra_artifactID := frc_artifactID q\<rparr>))"

definition CompileAuthorizeToolActionDescriptorRead ::
    "ToolActionDescriptorReadCommand \<Rightarrow> store_error + CompiledReadAuthorization" where
  "CompileAuthorizeToolActionDescriptorRead q =
     (if \<not> validateScope (drc_scope q) AuthorityRuntimeWorker True \<or> \<not> validSession (drc_sessionID q)
         \<or> \<not> validTurn (drc_turnID q) \<or> \<not> validOpaque (drc_toolCallID q) 128
      then Inl ErrInvalidCommand
      else Inr ((empty_authorization (drc_scope q))
                  \<lparr>ra_sessionID := drc_sessionID q, ra_turnID := drc_turnID q, ra_toolCallID := drc_toolCallID q\<rparr>))"

section \<open>What a compiled mutation guarantees\<close>

text \<open>
  \<open>compiled store m\<close>: some \<^verbatim>\<open>Compile\<close> method of the compiler on \<open>store\<close> returned \<open>m\<close>. In Go only these
  methods can construct a \<^verbatim>\<open>CompiledMutation\<close>.
\<close>

inductive compiled :: "nat \<Rightarrow> CompiledMutation \<Rightarrow> bool" for store where
  "CompileRegisterAgentRevision store q1 = Inr m \<Longrightarrow> compiled store m"
| "CompileRegisterPolicyRevision q2 = Inr m \<Longrightarrow> compiled store m"
| "CompileCreateSession q3 = Inr m \<Longrightarrow> compiled store m"
| "CompileAdmitInput store q4 = Inr m \<Longrightarrow> compiled store m"
| "CompileDecideApproval q5 = Inr m \<Longrightarrow> compiled store m"
| "CompileRevokeCapabilityGrant q6 = Inr m \<Longrightarrow> compiled store m"
| "CompileCancelTurn q7 = Inr m \<Longrightarrow> compiled store m"
| "CompileCloseSession q8 = Inr m \<Longrightarrow> compiled store m"
| "CompileCancelSession q9 = Inr m \<Longrightarrow> compiled store m"
| "CompileRegisterArtifact store q10 = Inr m \<Longrightarrow> compiled store m"
| "CompileAppendConversation store q11 = Inr m \<Longrightarrow> compiled store m"
| "CompileRecordToolIntent store q12 = Inr m \<Longrightarrow> compiled store m"
| "CompileAdmitToolApproval store q13 = Inr m \<Longrightarrow> compiled store m"
| "CompileRequestApproval q14 = Inr m \<Longrightarrow> compiled store m"
| "CompileConsumeCapabilityGrant q15 = Inr m \<Longrightarrow> compiled store m"
| "CompileExpireCapabilityGrant q16 = Inr m \<Longrightarrow> compiled store m"
| "CompileDenyToolAdmission q17 = Inr m \<Longrightarrow> compiled store m"
| "CompileBeginToolExecution q18 = Inr m \<Longrightarrow> compiled store m"
| "CompileRecordToolExecutionOutcome q19 = Inr m \<Longrightarrow> compiled store m"
| "CompileBeginInvocationAttempt q20 = Inr m \<Longrightarrow> compiled store m"
| "CompileRecordInvocationOutcome q21 = Inr m \<Longrightarrow> compiled store m"
| "CompileSettleTurn q22 = Inr m \<Longrightarrow> compiled store m"
| "CompileFailSession q23 = Inr m \<Longrightarrow> compiled store m"
| "CompileClaimOutbox q24 = Inr m \<Longrightarrow> compiled store m"
| "CompileRenewOutbox q25 = Inr m \<Longrightarrow> compiled store m"
| "CompileAcknowledgeOutbox q26 = Inr m \<Longrightarrow> compiled store m"

text \<open>What a mutation's own command says of its kind, scope and idempotency key.\<close>

fun command_kind :: "compiled_command \<Rightarrow> CommandKind" where
  "command_kind (C_register x) = CommandRegisterAgentRevision"
| "command_kind (C_registerPolicy x) = CommandRegisterPolicyRevision"
| "command_kind (C_createSession x) = CommandCreateSession"
| "command_kind (C_admit x) = CommandAdmitInput"
| "command_kind (C_registerArtifact x) = CommandRegisterArtifact"
| "command_kind (C_appendConversation x) = CommandAppendConversation"
| "command_kind (C_admitToolApproval x) = CommandAdmitToolApproval"
| "command_kind (C_recordToolIntent x) = CommandRecordToolIntent"
| "command_kind (C_requestApproval x) = CommandRequestApproval"
| "command_kind (C_decideApproval x) = CommandDecideApproval"
| "command_kind (C_consumeCapabilityGrant x) = CommandConsumeCapabilityGrant"
| "command_kind (C_revokeCapabilityGrant x) = CommandRevokeCapabilityGrant"
| "command_kind (C_expireCapabilityGrant x) = CommandExpireCapabilityGrant"
| "command_kind (C_denyToolAdmission x) = CommandDenyToolAdmission"
| "command_kind (C_beginToolExecution x) = CommandBeginToolExecution"
| "command_kind (C_recordToolExecutionOutcome x) = CommandRecordToolOutcome"
| "command_kind (C_begin x) = CommandBeginInvocation"
| "command_kind (C_recordOutcome x) = CommandRecordOutcome"
| "command_kind (C_settle x) = CommandSettleTurn"
| "command_kind (C_cancel x) = CommandCancelTurn"
| "command_kind (C_close x) = CommandCloseSession"
| "command_kind (C_cancelSession x) = CommandCancelSession"
| "command_kind (C_failSession x) = CommandFailSession"
| "command_kind (C_claim x) = CommandClaimOutbox"
| "command_kind (C_renew x) = CommandRenewOutbox"
| "command_kind (C_acknowledge x) = CommandAcknowledgeOutbox"

fun command_binding :: "compiled_command \<Rightarrow> MutationScope \<times> string" where
  "command_binding (C_register x) = (rac_scope (cr_command x), rac_idempotencyKey (cr_command x))"
| "command_binding (C_registerPolicy x) = (rpc_scope x, rpc_idempotencyKey x)"
| "command_binding (C_createSession x) = (csc_scope x, csc_idempotencyKey x)"
| "command_binding (C_admit x) = (aic_scope (ca_command x), aic_idempotencyKey (ca_command x))"
| "command_binding (C_registerArtifact x) = (arc_scope (cf_command x), arc_idempotencyKey (cf_command x))"
| "command_binding (C_appendConversation x) = (acc_scope (cn_command x), acc_idempotencyKey (cn_command x))"
| "command_binding (C_admitToolApproval x) = (tac_scope (cp_command x), tac_idempotencyKey (cp_command x))"
| "command_binding (C_recordToolIntent x) = (tic_scope (ct_command x), tic_idempotencyKey (ct_command x))"
| "command_binding (C_requestApproval x) = (qac_scope x, qac_idempotencyKey x)"
| "command_binding (C_decideApproval x) = (dac_scope x, dac_idempotencyKey x)"
| "command_binding (C_consumeCapabilityGrant x) = (cgc_scope x, cgc_idempotencyKey x)"
| "command_binding (C_revokeCapabilityGrant x) = (rgc_scope x, rgc_idempotencyKey x)"
| "command_binding (C_expireCapabilityGrant x) = (egc_scope x, egc_idempotencyKey x)"
| "command_binding (C_denyToolAdmission x) = (dtc_scope x, dtc_idempotencyKey x)"
| "command_binding (C_beginToolExecution x) = (btc_scope x, btc_idempotencyKey x)"
| "command_binding (C_recordToolExecutionOutcome x) = (toc_scope x, toc_idempotencyKey x)"
| "command_binding (C_begin x) = (bic_scope x, bic_idempotencyKey x)"
| "command_binding (C_recordOutcome x) = (ioc_scope x, ioc_idempotencyKey x)"
| "command_binding (C_settle x) = (stc_scope x, stc_idempotencyKey x)"
| "command_binding (C_cancel x) = (ctc_scope x, ctc_idempotencyKey x)"
| "command_binding (C_close x) = (clc_scope x, clc_idempotencyKey x)"
| "command_binding (C_cancelSession x) = (xsc_scope x, xsc_idempotencyKey x)"
| "command_binding (C_failSession x) = (fsc_scope x, fsc_idempotencyKey x)"
| "command_binding (C_claim x) = (coc_scope x, coc_idempotencyKey x)"
| "command_binding (C_renew x) = (roc_scope x, roc_idempotencyKey x)"
| "command_binding (C_acknowledge x) = (aoc_scope x, aoc_idempotencyKey x)"

text \<open>The single authority each kind of command is accepted from.\<close>

definition kind_authority :: "CommandKind \<Rightarrow> Authority" where
  "kind_authority k =
     (if k = CommandRegisterAgentRevision \<or> k = CommandRegisterPolicyRevision then AuthorityTenantAdministrator
      else if k = CommandCreateSession \<or> k = CommandAdmitInput \<or> k = CommandDecideApproval
              \<or> k = CommandRevokeCapabilityGrant \<or> k = CommandCancelTurn \<or> k = CommandCloseSession
              \<or> k = CommandCancelSession
      then AuthoritySessionOwner
      else if k = CommandClaimOutbox \<or> k = CommandRenewOutbox \<or> k = CommandAcknowledgeOutbox
      then AuthorityOutboxPublisher
      else AuthorityRuntimeWorker)"

definition well_bound :: "CompiledMutation \<Rightarrow> bool" where
  "well_bound m \<longleftrightarrow>
     cm_kind m = command_kind (cm_command m) \<and> rb_command (cm_receipt m) = cm_kind m
     \<and> command_binding (cm_command m) = (rb_scope (cm_receipt m), rb_idempotencyKey (cm_receipt m))
     \<and> sc_authority (rb_scope (cm_receipt m)) = kind_authority (cm_kind m)
     \<and> validOpaque (sc_tenant (rb_scope (cm_receipt m))) 128
     \<and> validOpaque (rb_idempotencyKey (cm_receipt m)) 256
     \<and> validDigest (rb_requestDigest (cm_receipt m))"

lemma validDigest_sha256 [simp]: "validDigest (sha256_digest s)"
  using set_sha256_hex [of s] by (auto simp: validDigest_def sha256_digest_def trim_set_Nil_iff)

lemma compile_InrD:
  assumes "compile kind scope key shape command = Inr m"
  obtains j where "shape = Some j" "validOpaque key 256" "m = \<lparr>cm_kind = kind,
    cm_receipt = \<lparr>rb_scope = scope, rb_idempotencyKey = key, rb_command = kind,
                  rb_requestDigest = digest_json (canonical kind scope key j)\<rparr>,
    cm_command = command\<rparr>"
  using assms by (auto simp: compile_def split: if_splits option.splits)

lemma compile_well_bound:
  assumes "compile kind scope key shape command = Inr m" and "command_kind command = kind"
    and "command_binding command = (scope, key)" and "sc_authority scope = kind_authority kind"
    and "validOpaque (sc_tenant scope) 128"
  shows "well_bound m \<and> cm_command m = command"
  using assms by (auto elim!: compile_InrD simp: well_bound_def digest_json_def)

lemma opaque_graphic:
  assumes "value \<noteq> []" "length value \<le> n" and "list_all (\<lambda>c. 33 \<le> byte c \<and> byte c < 127) value"
  shows "validOpaque value n"
  using assms by (auto simp: validOpaque_def list_all_iff intro: trimmed_graphic)

lemma validateScope_iff:
  "validateScope s a p \<longleftrightarrow> sc_authority s = a \<and> validOpaque (sc_tenant s) 128
     \<and> (p \<or> sc_principal s \<noteq> [] \<longrightarrow> validOpaque (sc_principal s) 128)"
  by (auto simp: validateScope_def)

lemmas Compile_owner_defs = CompileRegisterAgentRevision_def CompileRegisterPolicyRevision_def
  CompileCreateSession_def CompileAdmitInput_def CompileDecideApproval_def CompileRevokeCapabilityGrant_def
  CompileCancelTurn_def CompileCloseSession_def CompileCancelSession_def
lemmas Compile_worker_defs = CompileRegisterArtifact_def CompileAppendConversation_def CompileRecordToolIntent_def
  CompileAdmitToolApproval_def CompileRequestApproval_def CompileConsumeCapabilityGrant_def
  CompileExpireCapabilityGrant_def CompileDenyToolAdmission_def CompileBeginToolExecution_def
  CompileRecordToolExecutionOutcome_def CompileBeginInvocationAttempt_def CompileRecordInvocationOutcome_def
  CompileSettleTurn_def CompileFailSession_def
lemmas Compile_publisher_defs = CompileClaimOutbox_def CompileRenewOutbox_def CompileAcknowledgeOutbox_def

lemma terminal_outcomes:
  "validTerminal t \<Longrightarrow> terminal_turn (to_state t)"
  "validOutcome st r f \<Longrightarrow> st \<in> {InvocationSucceeded, InvocationFailed, InvocationUncertain, InvocationCancelled}"
  "valid_tool_outcome q \<Longrightarrow> execution_outcome (toc_outcome q)"
  by (auto simp: validTerminal_def terminal_turn_def validOutcome_def valid_tool_outcome_def execution_outcome_def
      split: if_splits)

lemma compiled_well_bound: "compiled store m \<Longrightarrow> well_bound m \<and> sealed_command (cm_command m)"
  by (erule compiled.cases;
      auto simp: Compile_owner_defs Compile_worker_defs Compile_publisher_defs Let_def validateWorkerCommand_def
        validateScope_iff kind_authority_def
      split: if_splits option.splits dest!: compile_well_bound dest: terminal_outcomes)

end
