(* ===== verification/Memory_Store.thy ===== *)
theory Memory_Store
  imports Reachability Compiler "HOL-Library.AList"
begin

text \<open>
  The conformance adapter \<^verbatim>\<open>internal/runtimestate/memory.go\<close> with the query and projection types of
  \<^verbatim>\<open>contract.go\<close>. The store's map from tenants to states is an association list with distinct keys; a
  missing key reads as the zero state, as in Go. Methods hold the store's lock for their whole
  body (reads take one snapshot), so each is one atomic function of the store. \<open>expired_ctx\<close> is a cancelled
  context, \<open>reading\<close> the planner's clock; \<^verbatim>\<open>reflect.DeepEqual\<close> of two cloned states is equality of their values.
\<close>

section \<open>Writes\<close>

type_synonym states = "(TenantID \<times> RuntimeState) list"

definition snapshot :: "states \<Rightarrow> TenantID \<Rightarrow> RuntimeState" where
  "snapshot st T = (case map_of st T of None \<Rightarrow> zero_RuntimeState | Some s \<Rightarrow> s)"

definition NewMemoryRuntimeStateStore :: states where
  "NewMemoryRuntimeStateStore = []"

definition LoadRuntimeState :: "bool \<Rightarrow> MutationScope \<Rightarrow> states \<Rightarrow> store_error + RuntimeState" where
  "LoadRuntimeState expired_ctx scope st =
     (if expired_ctx then Inl ErrContext
      else if \<not> validOpaque (sc_tenant scope) 128 then Inl ErrNotFoundOrDenied
      else Inr (snapshot st (sc_tenant scope)))"

definition PersistTransitionPlan :: "bool \<Rightarrow> TransitionPlan \<Rightarrow> states \<Rightarrow> (store_error + unit) \<times> states" where
  "PersistTransitionPlan expired_ctx plan st =
     (let tenant = sc_tenant (rc_scope (pr_receipt (tp_result plan))) in
      if expired_ctx then (Inl ErrContext, st)
      else if \<not> plan_Validate plan \<or> tenant = [] then (Inl ErrIntegrity, st)
      else if snapshot st tenant \<noteq> tp_base plan then (Inl ErrConflict, st)
      else (Inr (), AList.update tenant (tp_state plan) st))"

definition ApplyCompiledMutation ::
    "bool \<Rightarrow> RuntimeStatePlanner \<Rightarrow> gtime \<Rightarrow> nat \<Rightarrow> CompiledMutation \<Rightarrow> states
     \<Rightarrow> (store_error + TransitionPlan) \<times> nat \<times> states" where
  "ApplyCompiledMutation expired_ctx planner reading n mutation st =
     (let tenant = sc_tenant (rb_scope (cm_receipt mutation)); prior = snapshot st tenant in
      if expired_ctx then (Inl ErrContext, n, st)
      else if tenant = [] then (Inl ErrIntegrity, n, st)
      else case Plan planner expired_ctx reading n prior mutation of
        (Inl e, n') \<Rightarrow> (Inl e, n', st)
      | (Inr plan, n') \<Rightarrow>
          if prior \<noteq> tp_base plan \<or> \<not> plan_Validate plan then (Inl ErrIntegrity, n', st)
          else (Inr plan, n', AList.update tenant (tp_state plan) st))"

section \<open>Queries\<close>

definition requireScope :: "bool \<Rightarrow> MutationScope \<Rightarrow> Authority \<Rightarrow> bool \<Rightarrow> store_error option" where
  "requireScope expired_ctx scope authority requirePrincipal =
     (if expired_ctx then Some ErrContext
      else if \<not> validateScope scope authority requirePrincipal then Some ErrNotFoundOrDenied
      else None)"

text \<open>The first record of a list that a query names, or the uniform refusal.\<close>

definition first_match :: "('a \<Rightarrow> bool) \<Rightarrow> 'a list \<Rightarrow> store_error + 'a" where
  "first_match p xs = (case find p xs of None \<Rightarrow> Inl ErrNotFoundOrDenied | Some x \<Rightarrow> Inr x)"

definition guarded :: "store_error option \<Rightarrow> (store_error + 'a) \<Rightarrow> store_error + 'a" where
  "guarded e r = (case e of Some x \<Rightarrow> Inl x | None \<Rightarrow> r)"

record AgentRevisionQuery =
  rq_scope :: MutationScope
  rq_agentID :: AgentID
  rq_revisionID :: AgentRevisionID

definition GetAgentRevision :: "bool \<Rightarrow> AgentRevisionQuery \<Rightarrow> states \<Rightarrow> store_error + AgentRevisionRecord" where
  "GetAgentRevision expired_ctx q st =
     guarded (requireScope expired_ctx (rq_scope q) AuthorityTenantAdministrator False)
       (first_match (\<lambda>r. ar_agentID r = rq_agentID q \<and> ar_revisionID r = rq_revisionID q)
          (st_revisions (snapshot st (sc_tenant (rq_scope q)))))"

record PolicyRevisionQuery =
  pq_scope :: MutationScope
  pq_name :: string
  pq_revision :: nat

definition GetPolicyRevision :: "bool \<Rightarrow> PolicyRevisionQuery \<Rightarrow> states \<Rightarrow> store_error + PolicyRevisionRecord" where
  "GetPolicyRevision expired_ctx q st =
     (if requireScope expired_ctx (pq_scope q) AuthorityTenantAdministrator False \<noteq> None
         \<or> \<not> validName (pq_name q) \<or> pq_revision q = 0
      then Inl ErrNotFoundOrDenied
      else first_match (\<lambda>r. po_name r = pq_name q \<and> po_revision r = pq_revision q)
             (st_policies (snapshot st (sc_tenant (pq_scope q)))))"

record SessionViewQuery =
  vq_scope :: MutationScope
  vq_sessionID :: SessionID
  vq_recentEventLimit :: nat
  vq_queuedTurnLimit :: nat

record SessionView =
  sv_session :: SessionRecord
  sv_activeTurn :: "TurnRecord option"
  sv_queuedTurns :: "TurnRecord list"
  sv_queuedTurnCount :: nat
  sv_queuedTruncated :: bool
  sv_recentEvents :: "ProductEventRecord list"

definition view_turn :: "SessionViewQuery \<Rightarrow> SessionView \<Rightarrow> TurnRecord \<Rightarrow> SessionView" where
  "view_turn q view turn =
     (if tu_sessionID turn \<noteq> vq_sessionID q then view
      else case tu_state turn of
        TurnRunning \<Rightarrow> view\<lparr>sv_activeTurn := Some turn\<rparr>
      | TurnQueued \<Rightarrow>
          let view = view\<lparr>sv_queuedTurnCount := sv_queuedTurnCount view + 1\<rparr>
          in if length (sv_queuedTurns view) < vq_queuedTurnLimit q
             then view\<lparr>sv_queuedTurns := sv_queuedTurns view @ [turn]\<rparr> else view
      | _ \<Rightarrow> view)"

definition GetSessionView :: "bool \<Rightarrow> SessionViewQuery \<Rightarrow> states \<Rightarrow> store_error + SessionView" where
  "GetSessionView expired_ctx q st =
     guarded (requireScope expired_ctx (vq_scope q) AuthoritySessionOwner True)
       (let s = snapshot st (sc_tenant (vq_scope q)) in
        case findSession s (vq_scope q) (vq_sessionID q) of
          None \<Rightarrow> Inl ErrNotFoundOrDenied
        | Some i \<Rightarrow>
            let view = \<lparr>sv_session = st_sessions s ! i, sv_activeTurn = None, sv_queuedTurns = [],
                        sv_queuedTurnCount = 0, sv_queuedTruncated = False, sv_recentEvents = []\<rparr>;
                view = foldl (view_turn q) view (st_turns s);
                view = view\<lparr>sv_queuedTruncated := length (sv_queuedTurns view) < sv_queuedTurnCount view\<rparr>;
                events = filter (\<lambda>e. ev_sessionID e = vq_sessionID q) (st_events s);
                events = (if vq_recentEventLimit q < length events
                          then drop (length events - vq_recentEventLimit q) events else events)
            in Inr (view\<lparr>sv_recentEvents := events\<rparr>))"

record TurnQuery =
  tq_scope :: MutationScope
  tq_sessionID :: SessionID
  tq_turnID :: TurnID

definition GetTurn :: "bool \<Rightarrow> TurnQuery \<Rightarrow> states \<Rightarrow> store_error + TurnRecord" where
  "GetTurn expired_ctx q st =
     guarded (requireScope expired_ctx (tq_scope q) AuthoritySessionOwner True)
       (let s = snapshot st (sc_tenant (tq_scope q)) in
        case findTurn s (tq_scope q) (tq_sessionID q) (tq_turnID q) of
          None \<Rightarrow> Inl ErrNotFoundOrDenied
        | Some i \<Rightarrow> Inr (st_turns s ! i))"

record ArtifactQuery =
  fq_scope :: MutationScope
  fq_artifactID :: ArtifactID

definition GetArtifact :: "bool \<Rightarrow> ArtifactQuery \<Rightarrow> states \<Rightarrow> store_error + ArtifactRecord" where
  "GetArtifact expired_ctx q st =
     guarded (requireScope expired_ctx (fq_scope q) AuthoritySessionOwner True)
       (first_match (\<lambda>r. at_principal r = sc_principal (fq_scope q) \<and> at_artifactID r = fq_artifactID q)
          (st_artifacts (snapshot st (sc_tenant (fq_scope q)))))"

record InvocationQuery =
  nq_scope :: MutationScope
  nq_sessionID :: SessionID
  nq_turnID :: TurnID
  nq_operationID :: OperationID

definition GetInvocation :: "bool \<Rightarrow> InvocationQuery \<Rightarrow> states \<Rightarrow> store_error + InvocationRecord" where
  "GetInvocation expired_ctx q st =
     guarded (requireScope expired_ctx (nq_scope q) AuthorityRuntimeWorker True)
       (let s = snapshot st (sc_tenant (nq_scope q)) in
        case findInvocation s (nq_scope q) (nq_sessionID q) (nq_turnID q) (nq_operationID q) of
          None \<Rightarrow> Inl ErrNotFoundOrDenied
        | Some i \<Rightarrow> Inr (st_invocations s ! i))"

record MutationReceiptQuery =
  mq_scope :: MutationScope
  mq_idempotencyKey :: string

definition GetMutationReceipt ::
    "bool \<Rightarrow> gtime \<Rightarrow> MutationReceiptQuery \<Rightarrow> states \<Rightarrow> store_error + MutationReceipt" where
  "GetMutationReceipt expired_ctx reading q st =
     (if expired_ctx then Inl ErrContext
      else case find (\<lambda>r. rc_scope r = mq_scope q \<and> rc_idempotencyKey r = mq_idempotencyKey q)
             (st_receipts (snapshot st (sc_tenant (mq_scope q)))) of
        None \<Rightarrow> Inl ErrNotFoundOrDenied
      | Some r \<Rightarrow> if receiptExpired r (normalizeTime reading) then Inl ErrReceiptExpired else Inr r)"

section \<open>Pages\<close>

record EventsQuery =
  eq_scope :: MutationScope
  eq_sessionID :: SessionID
  eq_after :: Cursor
  eq_limit :: nat

record EventPage =
  ep_events :: "ProductEventRecord list"
  ep_nextCursor :: Cursor
  ep_gap :: "EventGap option"

definition earliestCursor :: "RuntimeState \<Rightarrow> SessionID \<Rightarrow> Cursor" where
  "earliestCursor s sid =
     (case find (\<lambda>e. ev_sessionID e = sid) (st_events s) of None \<Rightarrow> [] | Some e \<Rightarrow> ev_cursor e)"

definition page_event :: "EventsQuery \<Rightarrow> EventPage \<Rightarrow> ProductEventRecord \<Rightarrow> EventPage" where
  "page_event q page e =
     (if ev_sessionID e = eq_sessionID q \<and> length (ep_events page) < eq_limit q
      then page\<lparr>ep_events := ep_events page @ [e], ep_nextCursor := ev_cursor e\<rparr> else page)"

definition ReadEvents :: "bool \<Rightarrow> EventsQuery \<Rightarrow> states \<Rightarrow> store_error + EventPage" where
  "ReadEvents expired_ctx q st =
     guarded (requireScope expired_ctx (eq_scope q) AuthoritySessionOwner True)
       (if eq_limit q = 0 \<or> 1000 < eq_limit q then Inl ErrConflict
        else
          let s = snapshot st (sc_tenant (eq_scope q));
              page = \<lparr>ep_events = [], ep_nextCursor = [], ep_gap = None\<rparr>;
              start = (if eq_after q = [] then Some 0
                       else map_option Suc (find_index (\<lambda>e. ev_sessionID e = eq_sessionID q \<and> ev_cursor e = eq_after q)
                                              (st_events s)))
          in if findSession s (eq_scope q) (eq_sessionID q) = None then Inl ErrNotFoundOrDenied
             else case start of
               None \<Rightarrow> Inr (page\<lparr>ep_gap := Some \<lparr>gap_requestedAfter = eq_after q,
                              gap_earliest = earliestCursor s (eq_sessionID q), gap_inspectSession = True\<rparr>\<rparr>)
             | Some i \<Rightarrow> Inr (foldl (page_event q) page (drop i (st_events s))))"

text \<open>The loop that \<^verbatim>\<open>ReadAudit\<close> and \<^verbatim>\<open>ReadOutbox\<close> share: skip to the record named by \<open>After\<close>, then collect.\<close>

fun page_loop :: "('r \<Rightarrow> string) \<Rightarrow> string \<Rightarrow> nat \<Rightarrow> bool \<Rightarrow> 'r list \<Rightarrow> string \<Rightarrow> 'r list \<Rightarrow> 'r list \<times> string" where
  "page_loop key query_after limit after acc next [] = (acc, next)"
| "page_loop key query_after limit after acc next (r # rs) =
     (if \<not> after then page_loop key query_after limit (key r = query_after) acc next rs
      else if length acc = limit then (acc, next)
      else page_loop key query_after limit after (acc @ [r]) (key r) rs)"

record AuditQuery =
  aq_scope :: MutationScope
  aq_after :: AuditFactID
  aq_limit :: nat

record AuditPage =
  ag_facts :: "AuditFactRecord list"
  ag_next :: AuditFactID

definition ReadAudit :: "bool \<Rightarrow> AuditQuery \<Rightarrow> states \<Rightarrow> store_error + AuditPage" where
  "ReadAudit expired_ctx q st =
     guarded (requireScope expired_ctx (aq_scope q) AuthorityAuditReader False)
       (let (facts, next) = page_loop af_auditFactID (aq_after q) (aq_limit q) (aq_after q = []) [] []
                              (st_audit (snapshot st (sc_tenant (aq_scope q))))
        in Inr \<lparr>ag_facts = facts, ag_next = next\<rparr>)"

record OutboxQuery =
  oq_scope :: MutationScope
  oq_after :: OutboxID
  oq_limit :: nat

record OutboxPage =
  og_records :: "OutboxRecord list"
  og_next :: OutboxID

definition ReadOutbox :: "bool \<Rightarrow> OutboxQuery \<Rightarrow> states \<Rightarrow> store_error + OutboxPage" where
  "ReadOutbox expired_ctx q st =
     guarded (requireScope expired_ctx (oq_scope q) AuthorityOutboxPublisher False)
       (let (records, next) = page_loop ob_outboxID (oq_after q) (oq_limit q) (oq_after q = []) [] []
                                (st_outbox (snapshot st (sc_tenant (oq_scope q))))
        in Inr \<lparr>og_records = records, og_next = next\<rparr>)"

definition ListOutboxTenants :: "bool \<Rightarrow> states \<Rightarrow> store_error + TenantID list" where
  "ListOutboxTenants expired_ctx st = (if expired_ctx then Inl ErrContext else Inr (sort (map fst st)))"

section \<open>Content read authorizations\<close>

record AgentSpecificationBodyRecord =
  br_tenant :: TenantID
  br_agentID :: AgentID
  br_revisionID :: AgentRevisionID
  br_revision :: nat
  br_name :: string
  br_modelProfile :: string
  br_reference :: Reference
  br_createdAt :: gtime

record InputEnvelopeRecord =
  ir_tenant :: TenantID
  ir_principal :: PrincipalID
  ir_sessionID :: SessionID
  ir_inputID :: InputID
  ir_reference :: Reference

text \<open>\<^verbatim>\<open>runtimecontent.ArtifactRecord\<close>, not the durable record of the same name.\<close>

record ContentArtifactRecord =
  fr_tenant :: TenantID
  fr_principal :: PrincipalID
  fr_artifactID :: ArtifactID
  fr_reference :: Reference

definition AuthorizeAgentSpecificationBodyRead ::
    "bool \<Rightarrow> CompiledReadAuthorization \<Rightarrow> states \<Rightarrow> store_error + AgentSpecificationBodyRecord" where
  "AuthorizeAgentSpecificationBodyRead expired_ctx a st =
     (if sc_authority (ra_scope a) \<noteq> AuthorityTenantAdministrator \<and> sc_authority (ra_scope a) \<noteq> AuthorityRuntimeWorker
      then Inl ErrNotFoundOrDenied
      else guarded (requireScope expired_ctx (ra_scope a) (sc_authority (ra_scope a)) False)
        (map_sum id (\<lambda>r. \<lparr>br_tenant = ar_tenant r, br_agentID = ar_agentID r, br_revisionID = ar_revisionID r,
             br_revision = ar_revision r, br_name = ar_name r, br_modelProfile = ar_modelProfile r,
             br_reference = ar_specification r, br_createdAt = ar_createdAt r\<rparr>)
          (first_match (\<lambda>r. ar_agentID r = ra_agentID a \<and> ar_revisionID r = ra_revisionID a)
             (st_revisions (snapshot st (sc_tenant (ra_scope a)))))))"

definition AuthorizeInputEnvelopeRead ::
    "bool \<Rightarrow> CompiledReadAuthorization \<Rightarrow> states \<Rightarrow> store_error + InputEnvelopeRecord" where
  "AuthorizeInputEnvelopeRead expired_ctx a st =
     guarded (requireScope expired_ctx (ra_scope a) AuthoritySessionOwner True)
       (map_sum id (\<lambda>r. \<lparr>ir_tenant = in_tenant r, ir_principal = in_principal r, ir_sessionID = in_sessionID r,
            ir_inputID = in_inputID r, ir_reference = in_content r\<rparr>)
         (first_match (\<lambda>r. in_principal r = sc_principal (ra_scope a) \<and> in_sessionID r = ra_sessionID a
              \<and> in_inputID r = ra_inputID a)
            (st_inputs (snapshot st (sc_tenant (ra_scope a))))))"

definition AuthorizeArtifactRead ::
    "bool \<Rightarrow> CompiledReadAuthorization \<Rightarrow> states \<Rightarrow> store_error + ContentArtifactRecord" where
  "AuthorizeArtifactRead expired_ctx a st =
     guarded (requireScope expired_ctx (ra_scope a) AuthoritySessionOwner True)
       (map_sum id (\<lambda>r. \<lparr>fr_tenant = at_tenant r, fr_principal = at_principal r, fr_artifactID = at_artifactID r,
            fr_reference = at_reference r\<rparr>)
         (first_match (\<lambda>r. at_principal r = sc_principal (ra_scope a) \<and> at_artifactID r = ra_artifactID a)
            (st_artifacts (snapshot st (sc_tenant (ra_scope a))))))"

definition AuthorizeToolActionDescriptorRead ::
    "bool \<Rightarrow> CompiledReadAuthorization \<Rightarrow> states \<Rightarrow> store_error + ContentCommitment" where
  "AuthorizeToolActionDescriptorRead expired_ctx a st =
     guarded (requireScope expired_ctx (ra_scope a) AuthorityRuntimeWorker True)
       (map_sum id (\<lambda>v. \<lparr>cc_tenant = ti_tenant v, cc_reference = ti_actionDescriptor v\<rparr>)
         (first_match (\<lambda>v. ti_principal v = sc_principal (ra_scope a) \<and> ti_sessionID v = ra_sessionID a
              \<and> ti_turnID v = ra_turnID a \<and> ti_toolCallID v = ra_toolCallID a)
            (st_toolIntents (snapshot st (sc_tenant (ra_scope a))))))"

end
