(* ===== verification/Store_Runs.thy ===== *)
theory Store_Runs
  imports Memory_Store
begin

text \<open>
  The adapter as a transition system over all tenants: compile, plan and persist composed. A step is one
  call of \<open>ApplyCompiledMutation\<close> or of \<open>PersistTransitionPlan\<close>, whatever it returns, on a mutation
  that some \<^verbatim>\<open>Compile\<close> method produced; a plan that is persisted may have been computed earlier, from any state.
  Each step is at most one planner step of at most one tenant, so what holds of
  reachable partitions holds of every partition of the store.
\<close>

section \<open>One call\<close>

lemma snapshot_update [simp]:
  "snapshot (AList.update T s st) U = (if U = T then s else snapshot st U)"
  by (simp add: snapshot_def update_conv')

lemma snapshot_empty [simp]: "snapshot [] T = zero_RuntimeState"
  by (simp add: snapshot_def)

abbreviation mutation_tenant :: "CompiledMutation \<Rightarrow> TenantID" where
  "mutation_tenant m \<equiv> sc_tenant (rb_scope (cm_receipt m))"

abbreviation plan_tenant :: "TransitionPlan \<Rightarrow> TenantID" where
  "plan_tenant p \<equiv> sc_tenant (rc_scope (pr_receipt (tp_result p)))"

lemma apply_cases:
  assumes "ApplyCompiledMutation x P reading n m st = (r, n', st')"
  obtains (refused) e where "r = Inl e" "st' = st"
    | (applied) p where "r = Inr p" "\<not> x" "mutation_tenant m \<noteq> []"
      "Plan P False reading n (snapshot st (mutation_tenant m)) m = (Inr p, n')"
      "st' = AList.update (mutation_tenant m) (tp_state p) st"
  using assms by (auto simp: ApplyCompiledMutation_def Let_def split: if_splits prod.splits sum.splits)

lemma persist_cases:
  assumes "PersistTransitionPlan x p st = (r, st')"
  obtains (refused) e where "r = Inl e" "st' = st"
    | (persisted) "r = Inr ()" "\<not> x" "plan_tenant p \<noteq> []" "plan_Validate p"
      "snapshot st (plan_tenant p) = tp_base p" "st' = AList.update (plan_tenant p) (tp_state p) st"
  using assms by (auto simp: PersistTransitionPlan_def Let_def split: if_splits)

lemma apply_planned:
  assumes "Plan P False reading n (snapshot st (mutation_tenant m)) m = (Inr p, n')" and "mutation_tenant m \<noteq> []"
  shows "ApplyCompiledMutation False P reading n m st
    = (Inr p, n', AList.update (mutation_tenant m) (tp_state p) st)"
  using assms plan_binding(1) [OF assms(1)] plan_valid [OF assms(1)] by (simp add: ApplyCompiledMutation_def)

section \<open>Runs of the store\<close>

inductive store_step :: "RuntimeStatePlanner \<Rightarrow> nat \<Rightarrow> states \<Rightarrow> states \<Rightarrow> bool" for P content where
  step_apply: "compiled content m \<Longrightarrow> ApplyCompiledMutation x P reading n m st = (r, n', st') \<Longrightarrow>
    store_step P content st st'"
| step_persist: "compiled content m \<Longrightarrow> Plan P x reading n base m = (Inr p, n') \<Longrightarrow>
    PersistTransitionPlan y p st = (r, st') \<Longrightarrow> store_step P content st st'"

lemma compiled_sealed: "compiled content m \<Longrightarrow> sealed_mutation m"
  by (simp add: sealed_mutation_def compiled_well_bound)

lemma compiled_tenant: "compiled content m \<Longrightarrow> mutation_tenant m \<noteq> []"
  using compiled_well_bound [of content m] by (auto simp: well_bound_def validOpaque_def)

lemma store_step_cases:
  assumes "store_step P content st st'"
  obtains (same) "st' = st"
    | (one) T s' where "plans P T (snapshot st T) s'" "T \<noteq> []" "st' = AList.update T s' st"
  using assms
proof (cases rule: store_step.cases)
  case (step_apply m x reading n r n')
  from step_apply(2) show thesis
  proof (cases rule: apply_cases)
    case (applied p)
    then show thesis
      using step_apply(1) by (intro one [of "mutation_tenant m" "tp_state p"]) (auto intro!: plans_step compiled_sealed)
  qed (rule same)
next
  case (step_persist m x reading n base p n' y r)
  from step_persist(3) show thesis
  proof (cases rule: persist_cases)
    case persisted
    have T: "plan_tenant p = mutation_tenant m" "tp_base p = base" using plan_binding [OF step_persist(2)] by simp_all
    then show thesis
      using step_persist(1,2) persisted
      by (intro one [of "mutation_tenant m" "tp_state p"]) (auto intro!: plans_step compiled_sealed)
  qed (rule same)
qed

definition store_reachable :: "RuntimeStatePlanner \<Rightarrow> nat \<Rightarrow> states \<Rightarrow> bool" where
  "store_reachable P content st \<longleftrightarrow> (store_step P content)\<^sup>*\<^sup>* NewMemoryRuntimeStateStore st"

lemma store_reachable_empty: "store_reachable P content NewMemoryRuntimeStateStore"
  by (simp add: store_reachable_def)

lemma store_reachable_step:
  "store_reachable P content st \<Longrightarrow> store_step P content st st' \<Longrightarrow> store_reachable P content st'"
  by (auto simp: store_reachable_def)

lemma store_step_partition:
  assumes "store_step P content st st'"
  shows "(plans P T)\<^sup>*\<^sup>* (snapshot st T) (snapshot st' T)"
  using assms by (cases rule: store_step_cases) auto

lemma store_run_partition:
  "(store_step P content)\<^sup>*\<^sup>* st st' \<Longrightarrow> (plans P T)\<^sup>*\<^sup>* (snapshot st T) (snapshot st' T)"
  by (induction rule: rtranclp_induct) (auto dest: store_step_partition [of _ _ _ _ T])

lemma store_reachable_partition:
  assumes "store_reachable P content st" shows "reachable P T (snapshot st T)"
  using store_run_partition [of P content NewMemoryRuntimeStateStore st T] assms
  by (auto simp: store_reachable_def NewMemoryRuntimeStateStore_def intro: reachable_steps reachable_empty)

lemma store_reachable_keys:
  assumes "store_reachable P content st"
  shows "distinct (map fst st) \<and> [] \<notin> fst ` set st"
  using assms unfolding store_reachable_def
proof (induction rule: rtranclp_induct)
  case base
  show ?case by (simp add: NewMemoryRuntimeStateStore_def)
next
  case (step u v)
  from step(2,3) show ?case
    by (cases rule: store_step_cases) (auto simp: distinct_update dom_update)
qed

lemmas store_partition_ok = store_reachable_partition [THEN reachable_partition_ok]
lemmas store_valid = store_reachable_partition [THEN reachable_valid]

end
