(* ===== verification/Store_Pages.thy ===== *)
theory Store_Pages
  imports Store_Runs
begin

text \<open>
  What the read loops of the adapter compute: the loops of \<^verbatim>\<open>ReadAudit\<close>, \<^verbatim>\<open>ReadOutbox\<close>, \<^verbatim>\<open>ReadEvents\<close> and
  \<^verbatim>\<open>GetSessionView\<close> as list expressions over the tables they scan.
\<close>

section \<open>The keyed page loop\<close>

definition next_key :: "('r \<Rightarrow> string) \<Rightarrow> string \<Rightarrow> 'r list \<Rightarrow> string" where
  "next_key key dflt xs = (if xs = [] then dflt else key (last xs))"

lemma page_loop_collect:
  "page_loop key q limit True acc nx xs =
     (acc @ take (limit - length acc) xs, next_key key nx (take (limit - length acc) xs))"
  if "length acc \<le> limit"
  using that by (induction xs arbitrary: acc nx) (auto simp: next_key_def take_Cons' Suc_diff_Suc)

lemma page_loop_skip:
  "page_loop key q limit False [] [] xs =
     (let ys = (case find_index (\<lambda>r. key r = q) xs of None \<Rightarrow> [] | Some i \<Rightarrow> take limit (drop (Suc i) xs))
      in (ys, next_key key [] ys))"
proof (induction xs)
  case Nil
  show ?case by (simp add: next_key_def)
next
  case (Cons r rs)
  show ?case
  proof (cases "key r = q")
    case True
    then show ?thesis by (simp add: page_loop_collect Let_def)
  next
    case False
    with Cons.IH show ?thesis by (cases "find_index (\<lambda>r. key r = q) rs") (simp_all add: Let_def del: find_index_None find_index_None_iff)
  qed
qed

text \<open>One page: what follows the record named by \<open>After\<close>, at most \<open>limit\<close> records of it.\<close>

definition page_spec :: "('r \<Rightarrow> string) \<Rightarrow> string \<Rightarrow> nat \<Rightarrow> 'r list \<Rightarrow> 'r list" where
  "page_spec key after limit xs =
     (if after = [] then take limit xs
      else case find_index (\<lambda>r. key r = after) xs of None \<Rightarrow> [] | Some i \<Rightarrow> take limit (drop (Suc i) xs))"

lemma page_loop_spec:
  "page_loop key after limit (after = []) [] [] xs =
     (page_spec key after limit xs, next_key key [] (page_spec key after limit xs))"
  by (cases "after = []") (simp_all add: page_loop_collect page_loop_skip page_spec_def Let_def split: option.splits)

lemma find_index_key:
  assumes "distinct (map key xs)" and "i < length xs"
  shows "find_index (\<lambda>r. key r = key (xs ! i)) xs = Some i"
proof (cases "find_index (\<lambda>r. key r = key (xs ! i)) xs")
  case None
  with assms(2) show ?thesis by (auto dest: nth_mem)
next
  case (Some j)
  from find_index_SomeD [OF Some] assms have "j = i" by (auto simp: distinct_conv_nth)
  with Some show ?thesis by simp
qed

lemma page_spec_at:
  assumes "distinct (map key xs)" and "i < length xs" and "key (xs ! i) \<noteq> []"
  shows "page_spec key (key (xs ! i)) limit xs = take limit (drop (Suc i) xs)"
  using assms by (simp add: page_spec_def find_index_key)

text \<open>A full page does not change when the table grows.\<close>

lemma page_spec_append:
  assumes "length (page_spec key after limit xs) = limit"
  shows "page_spec key after limit (xs @ ys) = page_spec key after limit xs"
proof (cases "after = []")
  case True
  with assms show ?thesis by (auto simp: page_spec_def)
next
  case False
  show ?thesis
  proof (cases "find_index (\<lambda>r. key r = after) xs")
    case None
    with False assms have "limit = 0" by (simp add: page_spec_def)
    then show ?thesis by (auto simp: page_spec_def split: option.splits)
  next
    case (Some i)
    with False assms show ?thesis
      by (auto simp: page_spec_def find_index_append dest: find_index_SomeD(1))
  qed
qed

section \<open>Reading a table to its end\<close>

text \<open>The loop of a reader: ask for a page, continue after its last record, stop at an empty page.\<close>

primrec read_pages :: "nat \<Rightarrow> (string \<Rightarrow> 'r list \<times> string) \<Rightarrow> string \<Rightarrow> 'r list" where
  "read_pages 0 page after = []"
| "read_pages (Suc n) page after =
     (case page after of (xs, nx) \<Rightarrow> if xs = [] then [] else xs @ read_pages n page nx)"

lemma next_key_take:
  assumes "0 < limit" and "k < length xs"
  shows "next_key key [] (take limit (drop k xs)) = key (xs ! (min (k + limit) (length xs) - 1))"
proof -
  let ?n = "min (length xs - k) limit"
  have "next_key key [] (take limit (drop k xs)) = key (xs ! (k + (?n - 1)))"
    using assms by (simp add: next_key_def last_conv_nth min.commute)
  moreover have "k + (?n - 1) = min (k + limit) (length xs) - 1" using assms by (auto simp: min_def)
  ultimately show ?thesis by simp
qed

lemma read_pages_from:
  assumes d: "distinct (map key xs)" and ne: "[] \<notin> set (map key xs)" and "0 < limit"
    and "k \<le> length xs" and "length xs < k + n"
    and "page_spec key after limit xs = take limit (drop k xs)"
  shows "read_pages n (\<lambda>a. (page_spec key a limit xs, next_key key [] (page_spec key a limit xs))) after = drop k xs"
  using assms(4-)
proof (induction n arbitrary: k after)
  case 0
  then show ?case by simp
next
  case (Suc n)
  show ?case
  proof (cases "k = length xs")
    case True
    with Suc.prems show ?thesis by simp
  next
    case False
    with Suc.prems(1) have k: "k < length xs" by simp
    let ?j = "min (k + limit) (length xs)"
    have j: "?j - 1 < length xs" "Suc (?j - 1) = ?j" using k \<open>0 < limit\<close> by auto
    have "key (xs ! (?j - 1)) \<noteq> []" using ne j(1) by (metis length_map nth_map nth_mem)
    then have at: "page_spec key (key (xs ! (?j - 1))) limit xs = take limit (drop ?j xs)"
      using page_spec_at [OF d j(1)] j(2) by simp
    have nx: "next_key key [] (take limit (drop k xs)) = key (xs ! (?j - 1))"
      using next_key_take [OF \<open>0 < limit\<close> k] by simp
    have "read_pages n (\<lambda>a. (page_spec key a limit xs, next_key key [] (page_spec key a limit xs))) (key (xs ! (?j - 1)))
        = drop ?j xs"
      by (rule Suc.IH [OF _ _ at]) (use k \<open>0 < limit\<close> Suc.prems(2) in auto)
    moreover have "take limit (drop k xs) @ drop ?j xs = drop k xs"
      using append_take_drop_id [of limit "drop k xs"] by (auto simp: min_def add.commute)
    ultimately show ?thesis using Suc.prems(3) k \<open>0 < limit\<close> by (simp add: nx)
  qed
qed

section \<open>Events of a Session\<close>

lemma page_event_fold:
  assumes "length (ep_events page) \<le> eq_limit q"
  shows "foldl (page_event q) page xs =
    (let ys = take (eq_limit q - length (ep_events page)) (session_events (eq_sessionID q) xs)
     in page\<lparr>ep_events := ep_events page @ ys, ep_nextCursor := next_key ev_cursor (ep_nextCursor page) ys\<rparr>)"
  using assms
proof (induction xs arbitrary: page)
  case Nil
  show ?case by (simp add: session_events_def next_key_def)
next
  case (Cons e xs)
  show ?case
  proof (cases "ev_sessionID e = eq_sessionID q \<and> length (ep_events page) < eq_limit q")
    case True
    with Cons.IH [of "page_event q page e"] show ?thesis
      by (simp add: page_event_def session_events_def Let_def next_key_def take_Cons' Suc_diff_Suc)
  next
    case False
    with Cons.prems have "page_event q page e = page" by (auto simp: page_event_def)
    with Cons.IH [OF Cons.prems] False Cons.prems show ?thesis
      by (auto simp: session_events_def Let_def next_key_def)
  qed
qed

section \<open>The Session view\<close>

definition session_turns :: "TurnState \<Rightarrow> SessionID \<Rightarrow> TurnRecord list \<Rightarrow> TurnRecord list" where
  "session_turns st sid ts = filter (\<lambda>t. tu_sessionID t = sid \<and> tu_state t = st) ts"

lemma session_turns_Cons:
  "session_turns st sid (t # ts) =
     (if tu_sessionID t = sid \<and> tu_state t = st then t # session_turns st sid ts else session_turns st sid ts)"
  by (simp add: session_turns_def)

lemma view_turn_fold:
  assumes "length (sv_queuedTurns v) \<le> vq_queuedTurnLimit q"
  shows "foldl (view_turn q) v ts =
    (let queued = session_turns TurnQueued (vq_sessionID q) ts; active = session_turns TurnRunning (vq_sessionID q) ts
     in v\<lparr>sv_activeTurn := (if active = [] then sv_activeTurn v else Some (last active)),
          sv_queuedTurns := sv_queuedTurns v @ take (vq_queuedTurnLimit q - length (sv_queuedTurns v)) queued,
          sv_queuedTurnCount := sv_queuedTurnCount v + length queued\<rparr>)"
  using assms
proof (induction ts arbitrary: v)
  case Nil
  show ?case by (simp add: session_turns_def)
next
  case (Cons t ts)
  have "length (sv_queuedTurns (view_turn q v t)) \<le> vq_queuedTurnLimit q"
    using Cons.prems by (auto simp: view_turn_def Let_def split: TurnState.split)
  note IH = Cons.IH [OF this]
  consider "tu_sessionID t \<noteq> vq_sessionID q \<or> tu_state t \<notin> {TurnRunning, TurnQueued}"
    | "tu_sessionID t = vq_sessionID q" "tu_state t = TurnRunning"
    | "tu_sessionID t = vq_sessionID q" "tu_state t = TurnQueued" by blast
  then show ?case
  proof cases
    case 1
    then have "view_turn q v t = v" by (auto simp: view_turn_def split: TurnState.split)
    with IH 1 show ?thesis by (auto simp: session_turns_Cons Let_def)
  next
    case 2
    with IH show ?thesis by (simp add: view_turn_def session_turns_Cons Let_def)
  next
    case 3
    with IH Cons.prems show ?thesis
      by (auto simp: view_turn_def session_turns_Cons Let_def take_Cons' Suc_diff_Suc)
  qed
qed

end
