(* ===== verification/Store_Properties.thy ===== *)
theory Store_Properties
  imports Store_Pages Example_Run
begin

text \<open>
  The properties of the adapter: every partition it holds is reachable by the planner, a call touches one
  tenant, plans persist only onto the state they were computed from, and applying a mutation twice is
  applying it once.
\<close>

section \<open>A compiled mutation and its store\<close>

definition example_handoff :: ContentHandoff where
  "example_handoff = \<lparr>ch_issuer = Some 7, ch_tenant = ''acme'',
     ch_reference = \<lparr>ref_digest = ''sha256:'' @ replicate 64 (CHR ''a''),
       ref_mediaType = AgentSpecificationBodyMediaTypeV1, ref_sizeBytes = 10\<rparr>,
     ch_kind = contentKindAgentSpecificationBody, ch_name = ''a'', ch_modelProfile = ''p''\<rparr>"

definition example_revision :: RegisterAgentRevisionCommand where
  "example_revision = \<lparr>rac_scope = example_scope AuthorityTenantAdministrator, rac_idempotencyKey = ''k1'',
     rac_agentID = [], rac_expectedRevision = 0, rac_specification = example_handoff\<rparr>"

definition example_bound :: "string \<Rightarrow> CompiledMutation" where
  "example_bound d = \<lparr>cm_kind = CommandRegisterAgentRevision,
     cm_receipt = \<lparr>rb_scope = example_scope AuthorityTenantAdministrator, rb_idempotencyKey = ''k1'',
       rb_command = CommandRegisterAgentRevision, rb_requestDigest = d\<rparr>,
     cm_command = C_register \<lparr>cr_command = example_revision,
       cr_commitment = \<lparr>asc_tenant = ''acme'', asc_reference = ch_reference example_handoff, asc_name = ''a'',
         asc_modelProfile = ''p''\<rparr>\<rparr>\<rparr>"

lemma example_opaque: "validOpaque ''acme'' 128" "validOpaque ''ada'' 128" "validOpaque ''k1'' 256"
    "validOpaque ''a'' 128" "validOpaque ''p'' 128"
  by (rule opaque_graphic; simp)+

lemma example_reference_ok: "validReference (ch_reference example_handoff)"
  "ValidateAgentSpecificationBodyHandoff 7 example_handoff =
     Some \<lparr>asc_tenant = ''acme'', asc_reference = ch_reference example_handoff, asc_name = ''a'', asc_modelProfile = ''p''\<rparr>"
proof -
  have "validOpaque (ref_digest (ch_reference example_handoff)) 128" "validOpaque (ref_mediaType (ch_reference example_handoff)) 256"
    by (rule opaque_graphic; simp add: example_handoff_def AgentSpecificationBodyMediaTypeV1_def list_all_iff)+
  then show "validReference (ch_reference example_handoff)" by (simp add: validReference_def) (simp add: example_handoff_def)
  have "utf8_valid ''acme''" by (simp add: utf8_valid_def utf8_runes_ascii del: utf8_runes.simps)
  moreover have "validDigest (''sha256:'' @ replicate 64 (CHR ''a''))" by (simp add: validDigest_def trim_set_Nil_iff)
  ultimately show "ValidateAgentSpecificationBodyHandoff 7 example_handoff =
     Some \<lparr>asc_tenant = ''acme'', asc_reference = ch_reference example_handoff, asc_name = ''a'', asc_modelProfile = ''p''\<rparr>"
    by (simp add: ValidateAgentSpecificationBodyHandoff_def example_handoff_def validTenantID_def validSegment_def
        segment_char_def validAgentSpecificationBodyReference_def bounded_reference_def
        maximumSpecificationBytes_def content_validName_def asciiAlphaNumeric_def)
qed

lemma example_compiles: "\<exists>d. CompileRegisterAgentRevision 7 example_revision = Inr (example_bound d)"
  using example_opaque example_reference_ok
  by (simp add: CompileRegisterAgentRevision_def example_revision_def validateScope_iff example_scope_def
      validName_def compile_def example_bound_def)

definition example_command :: CompiledMutation where
  "example_command = projr (CompileRegisterAgentRevision 7 example_revision)"

lemma example_command_bound: "\<exists>d. example_command = example_bound d"
  and example_command_compiled: "compiled 7 example_command"
  using example_compiles by (auto simp: example_command_def intro: compiled.intros(1))

lemma example_bound_planned:
  "\<exists>p k. Plan example_planner False (GTime 1000 True) 100 zero_RuntimeState (example_bound d) = (Inr p, k)
     \<and> st_audit (tp_state p) \<noteq> [] \<and> st_revisions (tp_state p) \<noteq> []"
  by (simp add: example_bound_def example_revision_def run_simps cong: run_congs)

lemma example_bound_plans:
  "\<not> isl (fst (Plan example_planner False (GTime 1000 True) 100 zero_RuntimeState (example_bound d)))"
  using example_bound_planned [of d] by auto

lemma example_bound_tables:
  "st_audit (tp_state (example_plan zero_RuntimeState (example_bound d))) \<noteq> []"
  "st_revisions (tp_state (example_plan zero_RuntimeState (example_bound d))) \<noteq> []"
  using example_bound_planned [of d] by (auto simp: example_plan_def)

lemma example_command_plans: obtains n where "Plan example_planner False (GTime 1000 True) 100 zero_RuntimeState example_command
    = (Inr (example_plan zero_RuntimeState example_command), n)"
  using example_command_bound example_bound_plans example_planned by metis

definition example_store :: states where
  "example_store = [(''acme'', tp_state (example_plan zero_RuntimeState example_command))]"

lemma example_command_tenant [simp]: "sc_tenant (rb_scope (cm_receipt example_command)) = ''acme''"
proof -
  have "sc_tenant (rb_scope (cm_receipt (example_bound d))) = ''acme''" for d
    by (simp add: example_bound_def example_scope_def)
  then show ?thesis using example_command_bound by metis
qed

lemma example_applied: obtains n where "ApplyCompiledMutation False example_planner (GTime 1000 True) 100 example_command []
    = (Inr (example_plan zero_RuntimeState example_command), n, example_store)"
proof -
  obtain n where "Plan example_planner False (GTime 1000 True) 100 zero_RuntimeState example_command
      = (Inr (example_plan zero_RuntimeState example_command), n)" by (rule example_command_plans)
  then show thesis
    using apply_planned [of example_planner "GTime 1000 True" 100 "[]" example_command] that
    by (simp add: example_store_def)
qed

lemma example_store_step: "store_step example_planner 7 NewMemoryRuntimeStateStore example_store"
  using example_applied step_apply [OF example_command_compiled] by (metis NewMemoryRuntimeStateStore_def)

lemma example_store_reachable: "store_reachable example_planner 7 example_store"
  by (rule store_reachable_step [OF store_reachable_empty example_store_step])

lemma example_snapshot [simp]:
  "snapshot example_store ''acme'' = tp_state (example_plan zero_RuntimeState example_command)"
  by (simp add: example_store_def snapshot_def)

section \<open>Partitions of the store\<close>

text \<open>C3: every partition of a store that only ever saw compiled mutations is reachable by the planner, so it satisfies the
  partition invariant and \<open>validateState\<close>; the tenants are distinct and nonempty.\<close>

theorem store_partitions:
  assumes "store_reachable P content st"
  shows "reachable P T (snapshot st T) \<and> partition_ok T (snapshot st T) \<and> validateState (snapshot st T)
    \<and> distinct (map fst st) \<and> [] \<notin> fst ` set st"
  using store_reachable_partition [OF assms] store_partition_ok [OF assms] store_valid [OF assms]
    store_reachable_keys [OF assms] by simp

theorem store_partitions_witness:
  "partition_ok ''acme'' (snapshot example_store ''acme'') \<and> validateState (snapshot example_store ''acme'')"
  using store_partitions [OF example_store_reachable, of "''acme''"] by simp

text \<open>One call of the adapter, whatever it returns, is at most one planner transition of at most one
  tenant; every other tenant's state is unchanged.\<close>

theorem store_call_one_tenant:
  assumes "store_step P content st st'"
  shows "\<exists>T. (snapshot st' T = snapshot st T \<or> plans P T (snapshot st T) (snapshot st' T))
    \<and> (\<forall>U. U \<noteq> T \<longrightarrow> snapshot st' U = snapshot st U)"
  using assms by (cases rule: store_step_cases) auto

theorem store_call_one_tenant_witness:
  "\<exists>T. (snapshot example_store T = zero_RuntimeState \<or> plans example_planner T zero_RuntimeState (snapshot example_store T))
    \<and> (\<forall>U. U \<noteq> T \<longrightarrow> snapshot example_store U = zero_RuntimeState)"
  using store_call_one_tenant [OF example_store_step] by (simp add: NewMemoryRuntimeStateStore_def)

section \<open>Optimistic persistence\<close>

lemma plan_commit_changes:
  assumes plan: "Plan P x reading n s m = (Inr p, n')" and "findReceipt s (cm_receipt m) = None"
  shows "tp_state p \<noteq> s"
proof
  assume same: "tp_state p = s"
  from plan_valid [OF plan] obtain r where r: "r \<in> set (st_receipts (tp_state p))"
      "rc_scope r = rc_scope (pr_receipt (tp_result p))"
      "rc_idempotencyKey r = rc_idempotencyKey (pr_receipt (tp_result p))"
    by (auto simp: plan_Validate_def containsReceipt_def list_ex_iff)
  with plan_binding [OF plan] same assms(2) show False by (auto simp: findReceipt_def find_None_iff)
qed

text \<open>C18: a plan persists only onto the exact state it was computed from, and persisting a plan that is not a replay
  uses that state up: every other plan computed from the same state for the same tenant is refused
  and leaves the store as the first plan left it.\<close>

theorem no_lost_update:
  assumes plan: "Plan P x reading n s m = (Inr p, n')" and "findReceipt s (cm_receipt m) = None"
    and persisted: "PersistTransitionPlan y p st = (Inr (), st')"
    and "tp_base q = s" and "plan_tenant q = plan_tenant p"
  shows "snapshot st (plan_tenant p) = s \<and> snapshot st' (plan_tenant p) = tp_state p
    \<and> isl (fst (PersistTransitionPlan z q st')) \<and> snd (PersistTransitionPlan z q st') = st'"
proof -
  from persisted have st: "snapshot st (plan_tenant p) = s" "snapshot st' (plan_tenant p) = tp_state p"
    by (auto elim!: persist_cases simp: plan_binding(1) [OF plan])
  with plan_commit_changes [OF assms(1,2)] assms(4,5) show ?thesis
    by (simp add: PersistTransitionPlan_def Let_def)
qed

theorem no_lost_update_witness:
  "isl (fst (PersistTransitionPlan False (example_plan zero_RuntimeState example_command) example_store))"
proof -
  let ?p = "example_plan zero_RuntimeState example_command"
  obtain n where n: "Plan example_planner False (GTime 1000 True) 100 zero_RuntimeState example_command = (Inr ?p, n)"
    by (rule example_command_plans)
  note b = plan_binding [OF n]
  have "findReceipt zero_RuntimeState (cm_receipt example_command) = None"
    by (simp add: findReceipt_def zero_RuntimeState_def)
  moreover have "PersistTransitionPlan False ?p [] = (Inr (), example_store)"
    using plan_valid [OF n] b by (simp add: PersistTransitionPlan_def Let_def example_store_def)
  ultimately show ?thesis using no_lost_update [OF n, of False "[]" example_store ?p False] b(1) by simp
qed

section \<open>Exactly once\<close>

lemma update_same: "distinct (map fst st) \<Longrightarrow> map_of st T = Some s \<Longrightarrow> AList.update T s st = st"
  by (induction st) (auto split: if_splits simp: rev_image_eqI)

text \<open>C4: applying a compiled mutation a second time, before its receipt expires, changes nothing: the store stays
  as it is, no identifier is drawn, no effects are reported and the answer carries the same receipt,
  which is also what \<^verbatim>\<open>GetMutationReceipt\<close> returns.\<close>

theorem apply_exactly_once:
  assumes store: "store_reachable P content st" and m: "compiled content m"
    and first: "ApplyCompiledMutation False P reading n m st = (Inr p, n', st')"
    and later: "\<not> receiptExpired (pr_receipt (tp_result p)) (normalizeTime again)" "\<not> IsZero again"
  shows "(\<exists>q. ApplyCompiledMutation False P again k m st' = (Inr q, k, st')
      \<and> pr_receipt (tp_result q) = pr_receipt (tp_result p) \<and> tp_effects q = zero_EffectSet)
    \<and> GetMutationReceipt False again \<lparr>mq_scope = rb_scope (cm_receipt m),
        mq_idempotencyKey = rb_idempotencyKey (cm_receipt m)\<rparr> st' = Inr (pr_receipt (tp_result p))"
proof -
  from first obtain plan: "Plan P False reading n (snapshot st (mutation_tenant m)) m = (Inr p, n')"
    and st': "st' = AList.update (mutation_tenant m) (tp_state p) st" and T: "mutation_tenant m \<noteq> []"
    by (auto elim!: apply_cases)
  note ok = compiled_sealed [OF m] store_partition_ok [OF store, of "mutation_tenant m"]
  have kind: "rb_command (cm_receipt m) = cm_kind m" using compiled_well_bound [OF m] by (simp add: well_bound_def)
  have again: "Plan P False again k (snapshot st' (mutation_tenant m)) m
      = (Inr (replayPlan (tp_state p) (cm_kind m) (pr_receipt (tp_result p))), k)"
    using plan_again [OF plan ok kind later] by (simp add: st')
  have "AList.update (mutation_tenant m) (tp_state p) st' = st'"
    using store_reachable_keys [OF store] by (intro update_same) (simp_all add: st' distinct_update update_conv')
  with apply_planned [OF again T] findReceipt_after [OF plan ok] later(1) show ?thesis
    by (simp add: replayPlan_def GetMutationReceipt_def findReceipt_def st')
qed

lemma example_command_retention:
  assumes "Plan example_planner False (GTime 1000 True) 100 zero_RuntimeState m = (Inr p, n)"
  shows "rc_retentionUntil (pr_receipt (tp_result p)) = GTime 86400000001000 True"
  using assms
proof (cases rule: Plan_Inr_cases)
  case (replay r)
  then show ?thesis by (simp add: findReceipt_def zero_RuntimeState_def)
next
  case (commit result c)
  then show ?thesis by (simp add: receipt_def retain_example add_duration_def hour_def normalizeTime_def IsZero_def)
qed

theorem apply_exactly_once_witness:
  "\<exists>q. ApplyCompiledMutation False example_planner (GTime 2000 True) 5 example_command example_store = (Inr q, 5, example_store)"
proof -
  obtain n where n: "ApplyCompiledMutation False example_planner (GTime 1000 True) 100 example_command []
      = (Inr (example_plan zero_RuntimeState example_command), n, example_store)" by (rule example_applied)
  obtain k where "Plan example_planner False (GTime 1000 True) 100 zero_RuntimeState example_command
      = (Inr (example_plan zero_RuntimeState example_command), k)" by (rule example_command_plans)
  from example_command_retention [OF this]
  have "\<not> receiptExpired (pr_receipt (tp_result (example_plan zero_RuntimeState example_command)))
      (normalizeTime (GTime 2000 True))" by (simp add: receiptExpired_def After_def)
  with apply_exactly_once [OF store_reachable_empty [unfolded NewMemoryRuntimeStateStore_def]
      example_command_compiled n, of "GTime 2000 True" 5]
  show ?thesis by (auto simp: IsZero_def)
qed

end
