(* ===== verification/Store_Reads.thy ===== *)
theory Store_Reads
  imports Store_Properties
begin

text \<open>
  The properties of the adapter's reads: a read returns records of the asking owner, pages enumerate the logs they
  page through and full pages are final, event pages are consecutive, and the Session view is exact.
\<close>

section \<open>Reads\<close>

lemma guarded_Inr [simp]: "guarded e r = Inr x \<longleftrightarrow> e = None \<and> r = Inr x"
  by (cases e) (simp_all add: guarded_def)

lemma first_match_Inr: "first_match p xs = Inr x \<Longrightarrow> x \<in> set xs \<and> p x"
  by (auto simp: first_match_def find_Some_iff split: option.splits)

lemma map_sum_Inr: "map_sum id f r = Inr y \<longleftrightarrow> (\<exists>x. r = Inr x \<and> y = f x)"
  by (cases r) auto

text \<open>C34: what a read returns belongs to the scope that asked. In a store whose partitions satisfy the invariant, as those of
  every reachable store do, a Turn, artifact, Invocation or input envelope is of the scope's tenant and principal and is
  the one asked for; the descriptor reference a tool action read returns is that of an intent of the scope's tenant and
  principal for the Session, Turn and tool call asked for; agent revisions and policies are of the scope's tenant.\<close>

theorem reads_are_owned:
  assumes store: "\<forall>T. partition_ok T (snapshot st T)"
  shows "(GetTurn x q1 st = Inr t \<longrightarrow>
        tu_tenant t = sc_tenant (tq_scope q1) \<and> tu_principal t = sc_principal (tq_scope q1) \<and> tu_turnID t = tq_turnID q1)
    \<and> (GetArtifact x q2 st = Inr a \<longrightarrow>
        at_tenant a = sc_tenant (fq_scope q2) \<and> at_principal a = sc_principal (fq_scope q2) \<and> at_artifactID a = fq_artifactID q2)
    \<and> (GetInvocation x q3 st = Inr i \<longrightarrow>
        iv_tenant i = sc_tenant (nq_scope q3) \<and> iv_principal i = sc_principal (nq_scope q3)
        \<and> iv_sessionID i = nq_sessionID q3 \<and> iv_turnID i = nq_turnID q3 \<and> iv_operationID i = nq_operationID q3)
    \<and> (AuthorizeInputEnvelopeRead x q4 st = Inr e \<longrightarrow>
        ir_tenant e = sc_tenant (ra_scope q4) \<and> ir_principal e = sc_principal (ra_scope q4)
        \<and> ir_sessionID e = ra_sessionID q4 \<and> ir_inputID e = ra_inputID q4)
    \<and> (AuthorizeToolActionDescriptorRead x q5 st = Inr c \<longrightarrow> cc_tenant c = sc_tenant (ra_scope q5)
        \<and> (\<exists>v \<in> set (st_toolIntents (snapshot st (sc_tenant (ra_scope q5)))).
            ti_tenant v = sc_tenant (ra_scope q5) \<and> ti_principal v = sc_principal (ra_scope q5) \<and> ti_sessionID v = ra_sessionID q5
            \<and> ti_turnID v = ra_turnID q5 \<and> ti_toolCallID v = ra_toolCallID q5 \<and> cc_reference c = ti_actionDescriptor v))
    \<and> (AuthorizeArtifactRead x q8 st = Inr f \<longrightarrow> fr_tenant f = sc_tenant (ra_scope q8) \<and> fr_principal f = sc_principal (ra_scope q8)
        \<and> fr_artifactID f = ra_artifactID q8)
    \<and> (GetAgentRevision x q6 st = Inr r \<longrightarrow> ar_tenant r = sc_tenant (rq_scope q6))
    \<and> (GetPolicyRevision x q7 st = Inr p \<longrightarrow> po_tenant p = sc_tenant (pq_scope q7))"
proof -
  have ok: "core_ok T (snapshot st T)" for T using store by (simp add: partition_ok_def)
  have own: "\<And>T a. a \<in> set (st_artifacts (snapshot st T)) \<Longrightarrow> at_tenant a = T"
      "\<And>T i. i \<in> set (st_inputs (snapshot st T)) \<Longrightarrow> in_tenant i = T"
      "\<And>T i. i \<in> set (st_toolIntents (snapshot st T)) \<Longrightarrow> ti_tenant i = T"
      "\<And>T r. r \<in> set (st_revisions (snapshot st T)) \<Longrightarrow> ar_tenant r = T"
      "\<And>T r. r \<in> set (st_policies (snapshot st T)) \<Longrightarrow> po_tenant r = T"
    using ok by (auto simp: core_ok_def fresh_defs)
  show ?thesis
    by (intro conjI impI)
      (auto simp: GetTurn_def GetArtifact_def GetInvocation_def AuthorizeInputEnvelopeRead_def
        AuthorizeToolActionDescriptorRead_def AuthorizeArtifactRead_def GetAgentRevision_def GetPolicyRevision_def Let_def findTurn_def
        findInvocation_def map_sum_Inr split: option.splits if_splits
        dest!: first_match_Inr find_index_SomeD(2) dest: own)
qed

lemma example_tables:
  "st_audit (snapshot example_store ''acme'') \<noteq> []" "st_revisions (snapshot example_store ''acme'') \<noteq> []"
proof -
  obtain d where d: "example_command = example_bound d" using example_command_bound by blast
  show "st_audit (snapshot example_store ''acme'') \<noteq> []" "st_revisions (snapshot example_store ''acme'') \<noteq> []"
    unfolding example_snapshot d by (rule example_bound_tables)+
qed

lemma example_scope_ok: "a \<noteq> AuthorityUnset \<Longrightarrow> requireScope False (example_scope a) a b = None"
  using example_opaque by (simp add: requireScope_def validateScope_iff example_scope_def)

lemma first_match_hd: "xs \<noteq> [] \<Longrightarrow> p (hd xs) \<Longrightarrow> first_match p xs = Inr (hd xs)"
  by (cases xs) (simp_all add: first_match_def)

lemma example_scope_tenant [simp]: "sc_tenant (example_scope a) = ''acme''"
  by (simp add: example_scope_def)

text \<open>The runtime worker of \<^verbatim>\<open>ada\<close> reads the descriptor of that principal's tool intent; the worker of \<^verbatim>\<open>bob\<close> is refused.\<close>

definition example_descriptor_read :: "string \<Rightarrow> CompiledReadAuthorization" where
  "example_descriptor_read who = (empty_authorization ((example_scope AuthorityRuntimeWorker)\<lparr>sc_principal := who\<rparr>))
     \<lparr>ra_sessionID := example_session, ra_turnID := example_id 2 IdentifierTurn, ra_toolCallID := ''call''\<rparr>"

theorem reads_are_owned_witness:
  "AuthorizeToolActionDescriptorRead False (example_descriptor_read ''ada'') [(''acme'', example_state)]
     = Inr \<lparr>cc_tenant = ''acme'', cc_reference = example_reference\<rparr>
   \<and> (\<exists>v \<in> set (st_toolIntents example_state). ti_principal v = ''ada'' \<and> ti_actionDescriptor v = example_reference)
   \<and> AuthorizeToolActionDescriptorRead False (example_descriptor_read ''bob'') [(''acme'', example_state)] = Inl ErrNotFoundOrDenied"
proof -
  let ?st = "[(''acme'', example_state)]"
  have ok: "\<forall>T. partition_ok T (snapshot ?st T)" using example_state_ok by (simp add: snapshot_def)
  have "requireScope False ((example_scope AuthorityRuntimeWorker)\<lparr>sc_principal := who\<rparr>) AuthorityRuntimeWorker True = None"
    if "who \<in> {''ada'', ''bob''}" for who
    using that example_opaque opaque_graphic [of "''bob''" 128] by (auto simp: requireScope_def validateScope_iff example_scope_def)
  then have read: "AuthorizeToolActionDescriptorRead False (example_descriptor_read ''ada'') ?st
      = Inr \<lparr>cc_tenant = ''acme'', cc_reference = example_reference\<rparr>"
      "AuthorizeToolActionDescriptorRead False (example_descriptor_read ''bob'') ?st = Inl ErrNotFoundOrDenied"
    by (simp_all add: AuthorizeToolActionDescriptorRead_def example_descriptor_read_def empty_authorization_def guarded_def
        first_match_def snapshot_def example_scope_def example_state_def)
  note own = reads_are_owned [OF ok, THEN conjunct2, THEN conjunct2, THEN conjunct2, THEN conjunct2, THEN conjunct1, THEN mp, OF read(1)]
  have "\<exists>v \<in> set (st_toolIntents example_state). ti_principal v = ''ada'' \<and> ti_actionDescriptor v = example_reference"
    using own by (auto simp: example_descriptor_read_def empty_authorization_def example_scope_def snapshot_def)
  with read show ?thesis by blast
qed

section \<open>Pages\<close>

lemma store_audit_keys:
  assumes "store_reachable P content st"
  shows "distinct (map af_auditFactID (st_audit (snapshot st T)))"
    "[] \<notin> set (map af_auditFactID (st_audit (snapshot st T)))"
  using store_partition_ok [OF assms, of T] store_valid [OF assms, of T]
  by (auto simp: partition_ok_def log_ok_def validateState_def intro!: unique_keys_distinct)

definition audit_page :: "AuditQuery \<Rightarrow> states \<Rightarrow> AuditFactID \<Rightarrow> AuditFactRecord list \<times> AuditFactID" where
  "audit_page q st after =
     (case ReadAudit False (q\<lparr>aq_after := after\<rparr>) st of Inl e \<Rightarrow> ([], []) | Inr page \<Rightarrow> (ag_facts page, ag_next page))"

text \<open>C31: an authorized reader that follows \<^verbatim>\<open>Next\<close> from page to page, with any positive limit, reads exactly the
  tenant's audit log: every fact once, in order, and then an empty page.\<close>

theorem audit_pages_enumerate:
  assumes store: "store_reachable P content st" and auth: "requireScope False (aq_scope q) AuthorityAuditReader False = None"
    and "0 < aq_limit q" and "length (st_audit (snapshot st (sc_tenant (aq_scope q)))) < n"
  shows "read_pages n (audit_page q st) [] = st_audit (snapshot st (sc_tenant (aq_scope q)))"
proof -
  let ?xs = "st_audit (snapshot st (sc_tenant (aq_scope q)))"
  have "audit_page q st = (\<lambda>a. (page_spec af_auditFactID a (aq_limit q) ?xs,
      next_key af_auditFactID [] (page_spec af_auditFactID a (aq_limit q) ?xs)))"
    using auth by (simp add: fun_eq_iff audit_page_def ReadAudit_def page_loop_spec guarded_def)
  with read_pages_from [OF store_audit_keys [OF store] assms(3), of 0 _ n "[]"] assms(4) show ?thesis
    by (simp add: page_spec_def)
qed

definition example_audit_query :: AuditQuery where
  "example_audit_query = \<lparr>aq_scope = example_scope AuthorityAuditReader, aq_after = [], aq_limit = 1\<rparr>"

lemma example_audit_query [simp]:
  "aq_limit example_audit_query = 1" "sc_tenant (aq_scope example_audit_query) = ''acme''" "aq_after example_audit_query = []"
  "requireScope False (aq_scope example_audit_query) AuthorityAuditReader False = None"
  by (simp_all add: example_audit_query_def example_scope_ok)

theorem audit_pages_enumerate_witness:
  "read_pages (Suc (length (st_audit (snapshot example_store ''acme'')))) (audit_page example_audit_query example_store) []
   = st_audit (snapshot example_store ''acme'')"
  using audit_pages_enumerate [OF example_store_reachable, of example_audit_query
      "Suc (length (st_audit (snapshot example_store ''acme'')))"]
  by (simp del: example_snapshot read_pages.simps)

text \<open>A full audit page is final: whatever the store does afterwards, the same query returns the same page.\<close>

theorem audit_page_final:
  assumes store: "store_reachable P content st" and run: "(store_step P content)\<^sup>*\<^sup>* st st'"
    and page: "ReadAudit x q st = Inr page" "length (ag_facts page) = aq_limit q"
  shows "ReadAudit x q st' = Inr page"
proof -
  let ?T = "sc_tenant (aq_scope q)"
  have "prefix (st_audit (snapshot st ?T)) (st_audit (snapshot st' ?T))"
    using run_logs [OF store_run_partition [OF run]] store_partition_ok [OF store] by blast
  then obtain ys where "st_audit (snapshot st' ?T) = st_audit (snapshot st ?T) @ ys" by (auto simp: prefix_def)
  with page show ?thesis by (auto simp: ReadAudit_def page_loop_spec page_spec_append)
qed

theorem audit_page_final_witness:
  "\<exists>page. ReadAudit False example_audit_query example_store = Inr page \<and> length (ag_facts page) = 1"
proof -
  define xs where "xs = st_audit (snapshot example_store ''acme'')"
  have "xs \<noteq> []" unfolding xs_def by (rule example_tables(1))
  then have len: "length (take 1 xs) = 1" by (cases xs) simp_all
  define page where "page = \<lparr>ag_facts = take 1 xs, ag_next = next_key af_auditFactID [] (take 1 xs)\<rparr>"
  have page: "ReadAudit False example_audit_query example_store = Inr page"
    using page_loop_spec [of af_auditFactID "[]" 1 xs]
    by (simp add: ReadAudit_def guarded_def page_def page_spec_def xs_def del: example_snapshot)
  have "length (ag_facts page) = aq_limit example_audit_query" using len by (simp add: page_def)
  from audit_page_final [OF example_store_reachable rtranclp.rtrancl_refl page this] len show ?thesis
    by (simp add: page_def)
qed

lemma session_events_drop:
  "session_events sid (drop i es) = drop (length (session_events sid (take i es))) (session_events sid es)"
proof -
  have "session_events sid es = session_events sid (take i es) @ session_events sid (drop i es)"
    by (simp add: session_events_def filter_append [symmetric])
  then show ?thesis by simp
qed

lemma session_events_take_Suc:
  assumes "i < length es" "ev_sessionID (es ! i) = sid"
  shows "session_events sid (take (Suc i) es) = session_events sid (take i es) @ [es ! i]"
  using assms by (simp add: session_events_def take_Suc_conv_app_nth)

text \<open>Where a page starts among the Session's own events.\<close>

lemma page_start:
  assumes "find_index (\<lambda>e. ev_sessionID e = sid \<and> ev_cursor e = c) es = Some i"
  obtains k where "k < length (session_events sid es)" "ev_cursor (session_events sid es ! k) = c"
    "session_events sid (drop (Suc i) es) = drop (Suc k) (session_events sid es)"
proof
  let ?k = "length (session_events sid (take i es))"
  from find_index_SomeD [OF assms] have i: "i < length es" "ev_sessionID (es ! i) = sid" "ev_cursor (es ! i) = c" by auto
  note take = session_events_take_Suc [OF i(1,2)]
  show "session_events sid (drop (Suc i) es) = drop (Suc ?k) (session_events sid es)"
    by (subst session_events_drop) (simp add: take)
  have "session_events sid es = (session_events sid (take i es) @ [es ! i]) @ session_events sid (drop (Suc i) es)"
    unfolding take [symmetric] by (simp add: session_events_def filter_append [symmetric])
  then show "?k < length (session_events sid es)" "ev_cursor (session_events sid es ! ?k) = c"
    using i(3) by (simp_all add: nth_append)
qed

text \<open>C32: an event page is exact. An unknown cursor yields an empty page with a gap that names the Session's earliest
  cursor; otherwise the page holds, in order, up to the limit of the Session's events after the one the cursor
  names (from the first without a cursor), and their sequence numbers follow on without a hole.\<close>

theorem event_page_exact:
  assumes ok: "partition_ok (sc_tenant (eq_scope q)) (snapshot st (sc_tenant (eq_scope q)))"
    and page: "ReadEvents x q st = Inr page"
  defines "es \<equiv> session_events (eq_sessionID q) (st_events (snapshot st (sc_tenant (eq_scope q))))"
  shows "(ep_gap page \<noteq> None \<longleftrightarrow> eq_after q \<noteq> [] \<and> eq_after q \<notin> ev_cursor ` set es)
    \<and> (ep_gap page \<noteq> None \<longrightarrow> ep_events page = [])
    \<and> (ep_gap page = None \<longrightarrow> (\<exists>k \<le> length es.
        (if eq_after q = [] then k = 0 else 0 < k \<and> ev_cursor (es ! (k - 1)) = eq_after q)
        \<and> ep_events page = take (eq_limit q) (drop k es)
        \<and> map ev_sequence (ep_events page) = [Suc k..<Suc k + length (ep_events page)]))"
proof -
  let ?s = "snapshot st (sc_tenant (eq_scope q))"
  let ?start = "find_index (\<lambda>e. ev_sessionID e = eq_sessionID q \<and> ev_cursor e = eq_after q) (st_events ?s)"
  have "gapless (st_events ?s)" using ok by (simp add: partition_ok_def log_ok_def)
  then have seq: "map ev_sequence es = [1..<Suc (length es)]" unfolding gapless_def es_def by blast
  have numbers: "map ev_sequence (take n (drop k es)) = [Suc k..<Suc k + length (take n (drop k es))]" if "k \<le> length es" for n k
    using that by (simp add: take_map [symmetric] drop_map [symmetric] seq take_upt min_def add.commute) arith
  have known: "eq_after q \<in> ev_cursor ` set es \<longleftrightarrow> ?start \<noteq> None"
    by (force simp: es_def session_events_def)
  have fold: "ep_events (foldl (page_event q) \<lparr>ep_events = [], ep_nextCursor = [], ep_gap = None\<rparr> xs)
        = take (eq_limit q) (session_events (eq_sessionID q) xs)"
      "ep_gap (foldl (page_event q) \<lparr>ep_events = [], ep_nextCursor = [], ep_gap = None\<rparr> xs) = None" for xs
    by (simp_all add: page_event_fold Let_def)
  consider (first) "eq_after q = []" | (after) i where "eq_after q \<noteq> []" "?start = Some i"
    | (gap) "eq_after q \<noteq> []" "?start = None" by blast
  then show ?thesis
  proof cases
    case first
    with page have "ep_events page = take (eq_limit q) es \<and> ep_gap page = None"
      by (auto simp: ReadEvents_def Let_def fold es_def split: if_splits)
    with first numbers [of 0] show ?thesis by auto
  next
    case (after i)
    from page_start [OF after(2)] obtain k where k: "k < length es" "ev_cursor (es ! k) = eq_after q"
        "session_events (eq_sessionID q) (drop (Suc i) (st_events ?s)) = drop (Suc k) es" unfolding es_def .
    from page after have "ep_events page = take (eq_limit q) (drop (Suc k) es) \<and> ep_gap page = None"
      by (auto simp: ReadEvents_def Let_def fold k(3) split: if_splits)
    with after k numbers [of "Suc k"] known show ?thesis by (auto intro!: exI [of _ "Suc k"])
  next
    case gap
    with page have "ep_events page = [] \<and> ep_gap page \<noteq> None"
      by (auto simp: ReadEvents_def Let_def simp del: find_index_None find_index_None_iff split: if_splits)
    with gap known show ?thesis by auto
  qed
qed

definition example_event :: "nat \<Rightarrow> ProductEventRecord" where
  "example_event n = \<lparr>ev_tenant = ''acme'', ev_principal = ''ada'', ev_sessionID = example_session, ev_sequence = n,
     ev_cursor = example_id n IdentifierCursor, ev_eventID = example_id n IdentifierEvent, ev_kind = EventTurnQueued,
     ev_inputID = [], ev_turnID = [], ev_operationID = ''op'', ev_occurredAt = GTime 30 True, ev_retentionUntil = GTime 5000 True\<rparr>"

definition example_logged :: RuntimeState where
  "example_logged = example_state\<lparr>st_events := [example_event 1, example_event 2, example_event 3]\<rparr>"

lemma core_ok_events: "core_ok T (s\<lparr>st_events := es\<rparr>) = core_ok T s"
proof -
  let ?s = "s\<lparr>st_events := es\<rparr>"
  have "session_keys ?s = session_keys s" "turn_keys ?s = turn_keys s" "grant_approval ?s = grant_approval s"
      "approval_intent ?s = approval_intent s" "execution_grant ?s = execution_grant s"
    by (auto simp: session_keys_def turn_keys_def grant_approval_def approval_intent_def execution_grant_def fun_eq_iff)
  then show ?thesis unfolding core_ok_def ok_defs fresh_defs by simp
qed

lemma example_logged_ok: "partition_ok ''acme'' example_logged"
proof -
  have ok: "partition_ok ''acme'' example_state" by (rule example_state_ok)
  have "session_events sid [example_event 1, example_event 2, example_event 3]
      = (if sid = example_session then [example_event 1, example_event 2, example_event 3] else [])" for sid
    by (simp add: session_events_def example_event_def)
  then have "gapless [example_event 1, example_event 2, example_event 3]"
    by (simp add: gapless_def example_event_def upt_rec)
  moreover have "core_ok ''acme'' example_logged"
    using ok by (simp add: partition_ok_def example_logged_def core_ok_events)
  ultimately show ?thesis
    using ok by (simp add: partition_ok_def log_ok_def links_def example_logged_def example_event_def)
qed

definition example_events_query :: EventsQuery where
  "example_events_query = \<lparr>eq_scope = example_scope AuthoritySessionOwner, eq_sessionID = example_session,
     eq_after = example_id 1 IdentifierCursor, eq_limit = 1\<rparr>"

lemma example_events_page:
  "ReadEvents False example_events_query [(''acme'', example_logged)] =
     Inr \<lparr>ep_events = [example_event 2], ep_nextCursor = example_id 2 IdentifierCursor, ep_gap = None\<rparr>"
  by (simp add: ReadEvents_def example_events_query_def example_scope_ok guarded_def snapshot_def example_logged_def
      page_event_def findSession_def)
     (simp add: page_event_def example_event_def example_state_def example_scope_def)

theorem event_page_exact_witness:
  "ev_sequence (hd (ep_events (projr (ReadEvents False example_events_query [(''acme'', example_logged)])))) = 2"
  using event_page_exact [OF _ example_events_page] example_logged_ok
  by (simp add: example_events_page) (simp add: example_events_query_def snapshot_def example_event_def)

section \<open>The Session view\<close>

text \<open>C33: the Session view is exact: the Session is the asking owner's, the active Turn is the Session's one running
  Turn, the queued Turns are the first of all its queued Turns in table order, counted in full and
  marked truncated exactly when some are left out, and the events are its most recent ones.\<close>

theorem session_view_exact:
  assumes valid: "validateState (snapshot st (sc_tenant (vq_scope q)))" and view: "GetSessionView x q st = Inr v"
  defines "s \<equiv> snapshot st (sc_tenant (vq_scope q))"
  shows "sv_session v \<in> set (st_sessions s) \<and> ss_sessionID (sv_session v) = vq_sessionID q
    \<and> ss_tenant (sv_session v) = sc_tenant (vq_scope q) \<and> ss_principal (sv_session v) = sc_principal (vq_scope q)
    \<and> (sv_activeTurn v = Some t \<longleftrightarrow> t \<in> set (st_turns s) \<and> tu_sessionID t = vq_sessionID q \<and> tu_state t = TurnRunning)
    \<and> sv_queuedTurns v = take (vq_queuedTurnLimit q) (session_turns TurnQueued (vq_sessionID q) (st_turns s))
    \<and> sv_queuedTurnCount v = length (session_turns TurnQueued (vq_sessionID q) (st_turns s))
    \<and> (sv_queuedTruncated v \<longleftrightarrow> vq_queuedTurnLimit q < sv_queuedTurnCount v)
    \<and> length (sv_recentEvents v) = min (vq_recentEventLimit q) (length (session_events (vq_sessionID q) (st_events s)))
    \<and> suffix (sv_recentEvents v) (session_events (vq_sessionID q) (st_events s))"
proof -
  let ?active = "session_turns TurnRunning (vq_sessionID q) (st_turns s)"
  let ?events = "session_events (vq_sessionID q) (st_events s)"
  from view obtain i where i: "findSession s (vq_scope q) (vq_sessionID q) = Some i"
    and v: "sv_session v = st_sessions s ! i" "sv_activeTurn v = (if ?active = [] then None else Some (last ?active))"
      "sv_queuedTurns v = take (vq_queuedTurnLimit q) (session_turns TurnQueued (vq_sessionID q) (st_turns s))"
      "sv_queuedTurnCount v = length (session_turns TurnQueued (vq_sessionID q) (st_turns s))"
      "sv_queuedTruncated v = (length (sv_queuedTurns v) < sv_queuedTurnCount v)"
      "sv_recentEvents v = (if vq_recentEventLimit q < length ?events then drop (length ?events - vq_recentEventLimit q) ?events else ?events)"
    by (auto simp: GetSessionView_def Let_def s_def view_turn_fold session_events_def split: option.splits)
  have session: "st_sessions s ! i \<in> set (st_sessions s)" "ss_sessionID (st_sessions s ! i) = vq_sessionID q"
      "ss_tenant (st_sessions s ! i) = sc_tenant (vq_scope q)" "ss_principal (st_sessions s ! i) = sc_principal (vq_scope q)"
    using i find_index_in_set [of _ "st_sessions s" i] by (auto simp: findSession_def)
  have one: "t = u" if "t \<in> set ?active" "u \<in> set ?active" for t u
    using validateState_running [OF valid] that by (auto simp: session_turns_def s_def)
  have "sv_activeTurn v = Some t \<longleftrightarrow> t \<in> set ?active"
    using one [of t "last ?active"] last_in_set [of ?active] by (auto simp: v(2))
  then have "sv_activeTurn v = Some t \<longleftrightarrow> t \<in> set (st_turns s) \<and> tu_sessionID t = vq_sessionID q \<and> tu_state t = TurnRunning"
    by (simp add: session_turns_def)
  with session v show ?thesis by (auto simp: suffix_drop)
qed

theorem session_view_exact_witness:
  "\<exists>v. GetSessionView False \<lparr>vq_scope = example_scope AuthoritySessionOwner, vq_sessionID = example_session,
       vq_recentEventLimit = 2, vq_queuedTurnLimit = 5\<rparr> [(''acme'', example_state)] = Inr v
     \<and> sv_activeTurn v = Some (example_turn 2 TurnRunning)"
proof -
  let ?q = "\<lparr>vq_scope = example_scope AuthoritySessionOwner, vq_sessionID = example_session,
       vq_recentEventLimit = 2, vq_queuedTurnLimit = 5\<rparr>"
  have valid: "validateState (snapshot [(''acme'', example_state)] (sc_tenant (vq_scope ?q)))"
    using example_settle_plans by (auto simp: Plan_def Let_def snapshot_def split: if_splits)
  have found: "findSession example_state (example_scope AuthoritySessionOwner) example_session = Some 0"
    by (simp add: findSession_def example_state_def example_scope_def)
  obtain v where v: "GetSessionView False ?q [(''acme'', example_state)] = Inr v"
    by (simp add: GetSessionView_def guarded_def example_scope_ok snapshot_def found Let_def)
  have "example_turn 2 TurnRunning \<in> set (st_turns example_state)" by (simp add: example_state_def)
  with session_view_exact [OF valid v, of "example_turn 2 TurnRunning"] v show ?thesis
    by (auto simp: snapshot_def example_turn_def)
qed

end
