(* ===== verification/Json_Canonical.thy ===== *)
theory Json_Canonical
  imports Go_Json
begin

text \<open>
  The encoder of \<open>Go_Json\<close> is unambiguous: on values whose strings are valid UTF-8, equal bytes come from equal
  values. So a request digest commits to the whole canonical value, up to collisions of SHA-256. The proof reads
  the first unit back from the bytes: one escaped rune of a string, the digits of a number,
  one member of an array or object.
\<close>

section \<open>Strings\<close>

definition rune_width :: "nat \<Rightarrow> nat" where
  "rune_width a = (if a < 128 then 1 else if a \<le> 223 then 2 else if a \<le> 239 then 3 else 4)"

definition hex_value :: "char \<Rightarrow> nat" where
  "hex_value c = (if byte c \<le> 57 then byte c - 48 else byte c - 87)"

text \<open>What one escape sequence stands for, and what follows it.\<close>

definition unescape :: "string \<Rightarrow> string \<times> string" where
  "unescape s =
     (case s of [] \<Rightarrow> ([], [])
      | x # r \<Rightarrow>
         if x = CHR ''b'' then ([char_of (8::nat)], r)
         else if x = CHR ''f'' then ([char_of (12::nat)], r)
         else if x = CHR ''n'' then ([char_of (10::nat)], r)
         else if x = CHR ''r'' then ([char_of (13::nat)], r)
         else if x = CHR ''t'' then ([char_of (9::nat)], r)
         else if x = CHR ''u'' then
           (if take 4 r = ''2028'' then ([CHR 0xE2, CHR 0x80, CHR 0xA8], drop 4 r)
            else if take 4 r = ''2029'' then ([CHR 0xE2, CHR 0x80, CHR 0xA9], drop 4 r)
            else ([char_of (16 * hex_value (r ! 2) + hex_value (r ! 3))], drop 4 r))
         else ([x], r))"

definition unchunk :: "string \<Rightarrow> string \<times> string" where
  "unchunk s =
     (if hd s = CHR 0x5C then unescape (tl s)
      else (take (rune_width (byte (hd s))) s, drop (rune_width (byte (hd s))) s))"

lemma line_separators:
  fixes a b c :: nat
  assumes "224 \<le> a" "a \<le> 239" "128 \<le> b" "b \<le> 191" "128 \<le> c" "c \<le> 191" and "k < 64"
    and "(a - 224) * 4096 + (b - 128) * 64 + (c - 128) = 8192 + k"
  shows "a = 226 \<and> b = 128 \<and> c = 128 + k"
proof -
  obtain x where x: "a = 224 + x" using assms(1) le_iff_add by blast
  obtain y where y: "b = 128 + y" using assms(3) le_iff_add by blast
  obtain z where z: "c = 128 + z" using assms(5) le_iff_add by blast
  have b: "y \<le> 63" "z \<le> 63" and e: "x * 4096 + y * 64 + z = 8192 + k" using assms x y z by simp_all
  have "x < 3" using e assms(7) by linarith
  moreover have "1 < x" using e b by linarith
  ultimately have "x = 2" by simp
  moreover have "y < 1" using e assms(7) \<open>x = 2\<close> by linarith
  ultimately show ?thesis using x y z e by simp
qed

lemma char_of_byte: "byte c = n \<Longrightarrow> c = char_of n"
  by auto

lemma line_chars: "char_of (168::nat) = CHR 0xA8" "char_of (169::nat) = CHR 0xA9"
  by (rule char_of_byte [symmetric]; simp)+

lemma quote_chars: "char_of (34::nat) = CHR 0x22" "char_of (92::nat) = CHR 0x5C"
  by (rule char_of_byte [symmetric]; simp)+

lemma utf8_step_cases:
  assumes step: "utf8_step s = Some (r, w)"
  obtains (one) c t where "s = c # t" "byte c < 128" "r = byte c" "w = 1"
    | (two) c d t where "s = c # d # t" "194 \<le> byte c" "byte c \<le> 223" "continuation (byte d)"
      "r = (byte c - 192) * 64 + (byte d - 128)" "w = 2"
    | (three) c d e t where "s = c # d # e # t" "224 \<le> byte c" "byte c \<le> 239" "continuation (byte d)" "continuation (byte e)"
      "byte c = 224 \<longrightarrow> 160 \<le> byte d" "r = (byte c - 224) * 4096 + (byte d - 128) * 64 + (byte e - 128)" "w = 3"
    | (four) c d e f t where "s = c # d # e # f # t" "240 \<le> byte c" "byte c \<le> 244" "continuation (byte d)"
      "byte c = 240 \<longrightarrow> 144 \<le> byte d"
      "r = (byte c - 240) * 262144 + (byte d - 128) * 4096 + (byte e - 128) * 64 + (byte f - 128)" "w = 4"
proof -
  from step obtain c t where s: "s = c # t" by (cases s) (auto simp: utf8_step_def)
  consider "byte c < 128" | "194 \<le> byte c \<and> byte c \<le> 223" | "224 \<le> byte c \<and> byte c \<le> 239" | "240 \<le> byte c \<and> byte c \<le> 244"
    using step by (simp add: utf8_step_def s split: if_splits)
  then show thesis
  proof cases
    case 1
    with step s show thesis by (intro one) (auto simp: utf8_step_def)
  next
    case 2
    with step s obtain d t' where t: "t = d # t'" by (cases t) (simp_all add: utf8_step_def)
    with 2 step s show thesis by (intro two [of c d t']) (auto simp: utf8_step_def split: if_splits)
  next
    case 3
    with step s obtain d e t' where t: "t = d # e # t'"
      by (cases t; cases "tl t") (simp_all add: utf8_step_def)
    with 3 step s show thesis by (intro three [of c d e t']) (auto simp: utf8_step_def split: if_splits)
  next
    case 4
    with step s obtain d e f t' where t: "t = d # e # f # t'"
      by (cases t; cases "tl t"; cases "tl (tl t)") (simp_all add: utf8_step_def)
    with 4 step s show thesis by (intro four [of c d e f t']) (auto simp: utf8_step_def split: if_splits)
  qed
qed

lemma scaled_le: "m \<le> a \<Longrightarrow> m * k \<le> a * k + (x::nat)"
  by (simp add: trans_le_add1)

lemma utf8_step_large:
  assumes "utf8_step s = Some (r, w)"
  shows "(128 \<le> byte (hd s) \<longrightarrow> 128 \<le> r) \<and> (w = 4 \<longrightarrow> 65536 \<le> r)"
  using assms
proof (cases rule: utf8_step_cases)
  case (two c d t)
  then have "2 * 64 \<le> r" unfolding two(5) by (intro scaled_le) simp
  with two(6) show ?thesis by simp
next
  case (three c d e t)
  have "2048 \<le> r"
  proof (cases "byte c = 224")
    case True
    with three(6) have "32 * 64 \<le> r" unfolding three(7) by (simp add: scaled_le)
    then show ?thesis by simp
  next
    case False
    with three(2) have "1 * 4096 \<le> r" unfolding three(7) add.assoc by (intro scaled_le) simp
    then show ?thesis by simp
  qed
  with three(8) show ?thesis by simp
next
  case (four c d e f t)
  have "65536 \<le> r"
  proof (cases "byte c = 240")
    case True
    with four(5) have "16 * 4096 \<le> r" unfolding four(6) add.assoc by (simp add: scaled_le)
    then show ?thesis by simp
  next
    case False
    with four(2) have "1 * 262144 \<le> r" unfolding four(6) add.assoc by (intro scaled_le) simp
    then show ?thesis by simp
  qed
  then show ?thesis by simp
qed simp_all

lemma utf8_step_width:
  assumes "utf8_step s = Some (r, w)"
  shows "s \<noteq> []" "w = rune_width (byte (hd s))" "0 < w" "w \<le> length s"
  using assms by (cases rule: utf8_step_cases; simp add: rune_width_def)+

lemma utf8_step_ascii:
  assumes "utf8_step s = Some (r, w)"
  shows "r < 128 \<longrightarrow> r = byte (hd s) \<and> w = 1" "\<not> r < 128 \<longrightarrow> 128 \<le> byte (hd s)"
proof -
  have "byte (hd s) < 128 \<longrightarrow> r = byte (hd s) \<and> w = 1"
    using assms by (cases rule: utf8_step_cases) simp_all
  with utf8_step_large [OF assms]
  show "r < 128 \<longrightarrow> r = byte (hd s) \<and> w = 1" "\<not> r < 128 \<longrightarrow> 128 \<le> byte (hd s)" by linarith+
qed

lemma utf8_step_separator:
  assumes "utf8_step s = Some (8192 + k, w)" "k < 64"
  shows "take w s = [CHR 0xE2, CHR 0x80, char_of (128 + k)]"
proof -
  have "r \<le> 31 * 64 + 63" if "r = (a - 192) * 64 + (b - 128)" "a \<le> 223" "continuation b" for r a b
    unfolding that(1) using that(2,3) by (intro add_mono mult_le_mono1) (auto simp: continuation_def)
  with assms(1) utf8_step_large [OF assms(1)] assms(2)
  obtain c d e t where three: "s = c # d # e # t" "224 \<le> byte c" "byte c \<le> 239" "continuation (byte d)" "continuation (byte e)"
      "8192 + k = (byte c - 224) * 4096 + (byte d - 128) * 64 + (byte e - 128)" "w = 3"
    by (cases rule: utf8_step_cases) fastforce+
  have "byte c = 226 \<and> byte d = 128 \<and> byte e = 128 + k"
    by (rule line_separators) (use three assms(2) in \<open>simp_all add: continuation_def\<close>)
  then have "byte c = byte (CHR 0xE2)" "byte d = byte (CHR 0x80)" "e = char_of (128 + k)" by (simp_all add: char_of_byte)
  with three show ?thesis by (simp only: of_char_eq_iff) simp
qed

lemma hex_value_digit:
  assumes "d < 16" shows "hex_value (hex_digit d) = d"
proof -
  have "byte (hex_digit d) = (if d < 10 then 48 + d else 87 + d)"
    using assms by (simp add: hex_digit_def mod_less)
  with assms show ?thesis by (simp add: hex_value_def)
qed

lemma json_escape_hex:
  "r \<notin> {34, 92, 8, 12, 10, 13, 9} \<Longrightarrow> r < 32 \<or> r \<in> {60, 62, 38} \<Longrightarrow>
   json_escape r raw = CHR 0x5C # ''u00'' @ [hex_digit (r div 16), hex_digit (r mod 16)]"
  by (simp add: json_escape_def)

lemma json_escape_raw:
  "32 \<le> r \<Longrightarrow> r \<notin> {34, 92, 60, 62, 38, 8232, 8233} \<Longrightarrow> json_escape r raw = raw"
  by (simp add: json_escape_def)

lemma unchunk_hex:
  assumes "r < 128"
  shows "unchunk (CHR 0x5C # ''u00'' @ [hex_digit (r div 16), hex_digit (r mod 16)] @ X) = ([char_of r], X)"
proof -
  have "hex_value (hex_digit (r div 16)) = r div 16" "hex_value (hex_digit (r mod 16)) = r mod 16"
    using assms by (simp_all add: hex_value_digit)
  then show ?thesis by (simp add: unchunk_def unescape_def)
qed

lemma unchunk_ascii:
  assumes "r < 128" shows "unchunk (json_escape r [char_of r] @ X) = ([char_of r], X)"
proof -
  consider "r \<in> {34, 92, 8, 12, 10, 13, 9}" | "r \<notin> {34, 92, 8, 12, 10, 13, 9}" "r < 32 \<or> r \<in> {60, 62, 38}"
    | "r \<notin> {34, 92, 60, 62, 38}" "\<not> r < 32" by blast
  then show ?thesis
  proof cases
    case 1
    then show ?thesis by (elim insertE emptyE) (simp_all add: quote_chars json_escape_def unchunk_def unescape_def)
  next
    case 2
    show ?thesis using unchunk_hex [OF assms] by (simp add: json_escape_hex [OF 2])
  next
    case 3
    have "byte (char_of r) = r" using assms by (simp add: mod_less)
    moreover have "char_of r \<noteq> CHR 0x5C"
    proof
      assume "char_of r = CHR 0x5C"
      then have "byte (char_of r) = 92" by simp
      with \<open>byte (char_of r) = r\<close> 3(1) show False by simp
    qed
    moreover have "json_escape r [char_of r] = [char_of r]" using 3 assms by (intro json_escape_raw) simp_all
    ultimately show ?thesis using assms by (simp add: unchunk_def rune_width_def)
  qed
qed

text \<open>The first chunk of an encoded string gives back the first rune's bytes.\<close>

lemma unchunk_escape:
  assumes step: "utf8_step s = Some (r, w)"
  shows "unchunk (json_escape r (take w s) @ X) = (take w s, X)"
proof (cases "r < 128")
  case True
  with utf8_step_ascii(1) [OF step] utf8_step_width(1) [OF step] have "take w s = [char_of r]" by (cases s) simp_all
  with unchunk_ascii [OF True] show ?thesis by simp
next
  case False
  show ?thesis
  proof (cases "r = 8232 \<or> r = 8233")
    case True
    then show ?thesis
    proof
      assume "r = 8232"
      with utf8_step_separator [of s 40 w] step have "take w s = [CHR 0xE2, CHR 0x80, char_of (168::nat)]" by simp
      with \<open>r = 8232\<close> show ?thesis by (simp add: json_escape_def unchunk_def unescape_def line_chars)
    next
      assume "r = 8233"
      with utf8_step_separator [of s 41 w] step have "take w s = [CHR 0xE2, CHR 0x80, char_of (169::nat)]" by simp
      with \<open>r = 8233\<close> show ?thesis by (simp add: json_escape_def unchunk_def unescape_def line_chars)
    qed
  next
    case other: False
    have raw: "json_escape r (take w s) = take w s" using False other by (intro json_escape_raw) auto
    note f = utf8_step_width [OF step]
    have "hd (take w s @ X) = hd s" using f(1,3) by (cases s; cases w) simp_all
    moreover have "hd s \<noteq> CHR 0x5C" using utf8_step_ascii(2) [OF step] False by auto
    ultimately show ?thesis unfolding raw using f(2,4) by (simp add: unchunk_def)
  qed
qed

lemma json_chars_step:
  assumes "utf8_valid s" "s \<noteq> []"
  obtains r w where "utf8_step s = Some (r, w)" "json_chars s = json_escape r (take w s) @ json_chars (drop w s)"
    "utf8_valid (drop w s)" "0 < w"
proof -
  obtain c cs where s: "s = c # cs" using assms(2) by (cases s) auto
  with assms(1) obtain r w where step: "utf8_step s = Some (r, w)" and rest: "utf8_runes (drop (w - 1) cs) \<noteq> None"
    by (auto simp: utf8_valid_def split: option.splits)
  from utf8_step_width(3) [OF step] have "drop w s = drop (w - 1) cs" by (cases w) (simp_all add: s)
  with step rest utf8_step_width(3) [OF step] show thesis by (intro that [of r w]) (simp_all add: s utf8_valid_def)
qed

lemma json_chars_hd:
  assumes "utf8_valid s" "s \<noteq> []"
  shows "json_chars s \<noteq> [] \<and> hd (json_chars s) \<noteq> CHR 0x22"
proof -
  obtain r w where step: "utf8_step s = Some (r, w)" and e: "json_chars s = json_escape r (take w s) @ json_chars (drop w s)" "0 < w"
    using json_chars_step [OF assms] by metis
  have "hd s = CHR 0x22 \<Longrightarrow> r = 34" using utf8_step_ascii [OF step] by auto
  with assms(2) e(2) have "json_escape r (take w s) \<noteq> [] \<and> hd (json_escape r (take w s)) \<noteq> CHR 0x22"
    by (cases s; cases w) (auto simp: json_escape_def)
  then show ?thesis by (simp add: e(1))
qed

lemma json_chars_inject:
  assumes "utf8_valid s" "utf8_valid s'" and "json_chars s @ CHR 0x22 # X = json_chars s' @ CHR 0x22 # X'"
  shows "s = s' \<and> X = X'"
  using assms
proof (induction "length s" arbitrary: s s' rule: less_induct)
  case less
  show ?case
  proof (cases "s = [] \<or> s' = []")
    case True
    with less.prems json_chars_hd [of s] json_chars_hd [of s'] show ?thesis
      by (metis append_Nil hd_append2 json_chars.simps(1) list.inject list.sel(1))
  next
    case False
    obtain r w where s: "utf8_step s = Some (r, w)" "json_chars s = json_escape r (take w s) @ json_chars (drop w s)"
        "utf8_valid (drop w s)" "0 < w"
      using json_chars_step [OF less.prems(1)] False by metis
    obtain r' w' where s': "utf8_step s' = Some (r', w')" "json_chars s' = json_escape r' (take w' s') @ json_chars (drop w' s')"
        "utf8_valid (drop w' s')"
      using json_chars_step [OF less.prems(2)] False by metis
    from less.prems(3) have "unchunk (json_chars s @ CHR 0x22 # X) = unchunk (json_chars s' @ CHR 0x22 # X')" by simp
    then have eq: "take w s = take w' s'" "json_chars (drop w s) @ CHR 0x22 # X = json_chars (drop w' s') @ CHR 0x22 # X'"
      by (simp_all add: s(2) s'(2) unchunk_escape [OF s(1)] unchunk_escape [OF s'(1)])
    have "drop w s = drop w' s' \<and> X = X'"
      by (rule less.hyps [OF _ s(3) s'(3) eq(2)]) (use s(4) False in simp)
    with eq(1) show ?thesis by (metis append_take_drop_id)
  qed
qed

lemma json_string_inject:
  assumes "utf8_valid s" "utf8_valid s'" and "json_string s @ X = json_string s' @ X'"
  shows "s = s' \<and> X = X'"
  using json_chars_inject [OF assms(1,2), of X X'] assms(3) by (simp add: json_string_def)

section \<open>Numbers\<close>

definition is_digit :: "char \<Rightarrow> bool" where
  "is_digit c \<longleftrightarrow> 48 \<le> byte c \<and> byte c \<le> 57"

definition digits_value :: "string \<Rightarrow> nat" where
  "digits_value = foldl (\<lambda>n c. 10 * n + (byte c - 48)) 0"

lemma byte_of_digit: "d < 10 \<Longrightarrow> byte (digit d) = 48 + d"
  by (simp add: digit_def mod_less)

lemma itoa_digits: "list_all is_digit (itoa n) \<and> itoa n \<noteq> [] \<and> digits_value (itoa n) = n"
proof (induction n rule: itoa.induct)
  case (1 n)
  show ?case
  proof (cases "n < 10")
    case True
    then show ?thesis by (simp add: itoa.simps [of n] is_digit_def digits_value_def byte_of_digit)
  next
    case False
    have "n mod 10 < 10" by simp
    then have "byte (digit (n mod 10)) = 48 + n mod 10" by (rule byte_of_digit)
    with False 1 show ?thesis by (simp add: itoa.simps [of n] is_digit_def digits_value_def)
  qed
qed

text \<open>What may follow a value inside a larger one.\<close>

definition delimited :: "string \<Rightarrow> bool" where
  "delimited r \<longleftrightarrow> r = [] \<or> hd r \<in> {CHR '','', CHR ''}'', CHR '']''}"

lemma delimited_Cons [simp]: "delimited (c # r) \<longleftrightarrow> c \<in> {CHR '','', CHR ''}'', CHR '']''}"
  by (simp add: delimited_def)

lemma takeWhile_digits:
  assumes "list_all is_digit xs" "delimited r"
  shows "takeWhile is_digit (xs @ r) = xs \<and> dropWhile is_digit (xs @ r) = r"
proof -
  have "takeWhile is_digit r = [] \<and> dropWhile is_digit r = r" using assms(2) by (cases r) (auto simp: is_digit_def)
  with assms(1) show ?thesis by (simp add: list_all_iff)
qed

lemma itoa_inject:
  assumes "itoa m @ r = itoa n @ r'" "delimited r" "delimited r'"
  shows "m = n \<and> r = r'"
  using assms takeWhile_digits [of "itoa m" r] takeWhile_digits [of "itoa n" r'] itoa_digits [of m] itoa_digits [of n] by metis

lemma other_head: "xs \<noteq> [] \<Longrightarrow> hd xs \<noteq> c \<Longrightarrow> xs @ r \<noteq> c # r' \<and> c # r' \<noteq> xs @ r"
  by (cases xs) auto

lemma itoa_int_inject:
  assumes "itoa_int i @ r = itoa_int j @ r'" "delimited r" "delimited r'"
  shows "i = j \<and> r = r'"
proof -
  have hd: "hd (itoa n) \<noteq> CHR ''-''" for n using itoa_digits [of n] by (cases "itoa n") (auto simp: is_digit_def)
  have ne: "itoa n @ x \<noteq> CHR ''-'' # y" "CHR ''-'' # y \<noteq> itoa n @ x" for n x y
    using other_head [OF _ hd, of n x y] itoa_digits [of n] by simp_all
  show ?thesis
  proof (cases "i < 0")
    case True
    with assms(1) ne have "j < 0" by (cases "j < 0") (simp_all add: itoa_int_def)
    with True assms itoa_inject [of "nat (- i)" r "nat (- j)" r'] have "nat (- i) = nat (- j) \<and> r = r'"
      by (simp add: itoa_int_def)
    with True \<open>j < 0\<close> show ?thesis by linarith
  next
    case False
    with assms(1) ne have "\<not> j < 0" by (cases "j < 0") (simp_all add: itoa_int_def)
    with False assms itoa_inject [of "nat i" r "nat j" r'] have "nat i = nat j \<and> r = r'"
      by (simp add: itoa_int_def)
    with False \<open>\<not> j < 0\<close> show ?thesis by linarith
  qed
qed

section \<open>Values\<close>

fun json_utf8 :: "json \<Rightarrow> bool" where
  "json_utf8 (JString s) \<longleftrightarrow> utf8_valid s"
| "json_utf8 (JArray xs) \<longleftrightarrow> list_all json_utf8 xs"
| "json_utf8 (JObject fs) \<longleftrightarrow> list_all (\<lambda>(k, v). utf8_valid k \<and> json_utf8 v) fs"
| "json_utf8 _ \<longleftrightarrow> True"

text \<open>A reader that tells two encodings apart also tells comma-separated sequences of them apart.\<close>

lemma commas_Cons: "commas (x # xs) = x @ (if xs = [] then [] else CHR '','' # commas xs)"
  by (cases xs) simp_all

lemma commas_inject:
  assumes "\<And>x y r r'. x \<in> set xs \<Longrightarrow> y \<in> set ys \<Longrightarrow> delimited r \<Longrightarrow> delimited r' \<Longrightarrow> f x @ r = f y @ r' \<Longrightarrow> x = y \<and> r = r'"
    and "\<And>x. x \<in> set xs \<union> set ys \<Longrightarrow> f x \<noteq> [] \<and> hd (f x) \<noteq> close" and "close \<in> {CHR ''}'', CHR '']''}"
    and "commas (map f xs) @ close # r = commas (map f ys) @ close # r'"
  shows "xs = ys \<and> r = r'"
  using assms(1,2,4)
proof (induction xs arbitrary: ys)
  case Nil
  then show ?case using other_head [of "f (hd ys)" close] by (cases ys) (auto simp: commas_Cons)
next
  case (Cons x xs)
  have "ys \<noteq> []" using Cons.prems(3) other_head [of "f x" close] Cons.prems(2) [of x] by (auto simp: commas_Cons)
  then obtain y zs where ys: "ys = y # zs" by (cases ys) auto
  let ?t = "\<lambda>us s. (if us = [] then [] else CHR '','' # commas (map f us)) @ close # s"
  have "f x @ ?t xs r = f y @ ?t zs r'" using Cons.prems(3) by (simp add: ys commas_Cons)
  moreover have "delimited (?t xs r)" "delimited (?t zs r')" using assms(3) by auto
  ultimately have "x = y \<and> ?t xs r = ?t zs r'" using Cons.prems(1) [of x y] by (simp add: ys)
  moreover from this have "xs = zs \<and> r = r'"
  proof (cases "xs = [] \<or> zs = []")
    case True
    with \<open>x = y \<and> ?t xs r = ?t zs r'\<close> assms(3) show ?thesis by (auto split: if_splits)
  next
    case False
    with \<open>x = y \<and> ?t xs r = ?t zs r'\<close> show ?thesis
      using Cons.prems(1,2) by (intro Cons.IH) (auto simp: ys)
  qed
  ultimately show ?case by (simp add: ys)
qed

lemma marshal_hd:
  "marshal j \<noteq> [] \<and> hd (marshal j) = (case j of JNull \<Rightarrow> CHR ''n'' | JBool b \<Rightarrow> if b then CHR ''t'' else CHR ''f''
     | JString s \<Rightarrow> CHR 0x22 | JNumber i \<Rightarrow> hd (itoa_int i) | JArray xs \<Rightarrow> CHR ''['' | JObject fs \<Rightarrow> CHR ''{'')"
  using itoa_digits by (cases j) (auto simp: json_string_def itoa_int_def)

lemma number_hd: "hd (itoa_int i) \<notin> {CHR ''n'', CHR ''t'', CHR ''f'', CHR 0x22, CHR ''['', CHR ''{'', CHR ''}'', CHR '']''}"
proof -
  have "is_digit (hd (itoa n))" for n using itoa_digits [of n] by (cases "itoa n") auto
  then have "itoa_int i \<noteq> [] \<and> (hd (itoa_int i) = CHR ''-'' \<or> is_digit (hd (itoa_int i)))"
    using itoa_digits by (simp add: itoa_int_def)
  then show ?thesis by (auto simp: is_digit_def)
qed

text \<open>The first byte tells the kind of a value.\<close>

definition json_tag :: "json \<Rightarrow> nat" where
  "json_tag j = (case j of JNull \<Rightarrow> 0 | JBool b \<Rightarrow> if b then 1 else 2 | JString s \<Rightarrow> 3 | JNumber i \<Rightarrow> 4 | JArray xs \<Rightarrow> 5 | JObject fs \<Rightarrow> 6)"

lemma marshal_tag:
  assumes "marshal j @ r = marshal j' @ r'" shows "json_tag j = json_tag j'"
proof -
  have "hd (marshal j) = hd (marshal j')" using marshal_hd [of j] marshal_hd [of j'] assms by (metis hd_append2)
  with marshal_hd [of j] marshal_hd [of j'] number_hd show ?thesis
    by (cases j; cases j') (auto simp: json_tag_def split: if_splits)
qed

lemma json_tagD:
  "json_tag j = 0 \<Longrightarrow> j = JNull" "json_tag j = 1 \<Longrightarrow> j = JBool True" "json_tag j = 2 \<Longrightarrow> j = JBool False"
  "json_tag j = 3 \<Longrightarrow> \<exists>s. j = JString s" "json_tag j = 4 \<Longrightarrow> \<exists>i. j = JNumber i"
  "json_tag j = 5 \<Longrightarrow> \<exists>xs. j = JArray xs" "json_tag j = 6 \<Longrightarrow> \<exists>fs. j = JObject fs"
  by (cases j; simp add: json_tag_def split: if_splits)+

lemma json_tag_simps [simp]:
  "json_tag JNull = 0" "json_tag (JBool b) = (if b then 1 else 2)" "json_tag (JString s) = 3" "json_tag (JNumber i) = 4"
  "json_tag (JArray xs) = 5" "json_tag (JObject fs) = 6"
  by (simp_all add: json_tag_def)

lemma marshal_open: "marshal j \<noteq> [] \<and> hd (marshal j) \<noteq> CHR '']''"
  using marshal_hd [of j] number_hd by (cases j) auto

lemma marshal_inject:
  assumes "json_utf8 j" "json_utf8 j'" "delimited r" "delimited r'" "marshal j @ r = marshal j' @ r'"
  shows "j = j' \<and> r = r'"
  using assms
proof (induction j arbitrary: j' r r')
  case (JArray xs)
  have "json_tag j' = 5" using marshal_tag [OF JArray.prems(5)] by simp
  then obtain ys where j': "j' = JArray ys" using json_tagD(6) by blast
  have eq: "commas (map marshal xs) @ CHR '']'' # r = commas (map marshal ys) @ CHR '']'' # r'"
    using JArray.prems(5) by (simp add: j')
  have "xs = ys \<and> r = r'"
  proof (rule commas_inject [OF _ _ _ eq])
    fix x y s s' assume "x \<in> set xs" "y \<in> set ys" "delimited s" "delimited s'" "marshal x @ s = marshal y @ s'"
    moreover have "json_utf8 x" "json_utf8 y" using calculation(1,2) JArray.prems(1,2) by (simp_all add: j' list_all_iff)
    ultimately show "x = y \<and> s = s'" by (intro JArray.IH)
  qed (simp_all add: marshal_open)
  with j' show ?case by simp
next
  case (JObject fs)
  have "json_tag j' = 6" using marshal_tag [OF JObject.prems(5)] by simp
  then obtain gs where j': "j' = JObject gs" using json_tagD(7) by blast
  let ?f = "\<lambda>(k, v). json_string k @ CHR '':'' # marshal v"
  have eq: "commas (map ?f fs) @ CHR ''}'' # r = commas (map ?f gs) @ CHR ''}'' # r'"
    using JObject.prems(5) by (simp add: j')
  have "fs = gs \<and> r = r'"
  proof (rule commas_inject [OF _ _ _ eq])
    fix x y s s' assume x: "x \<in> set fs" "y \<in> set gs" "delimited s" "delimited s'" "?f x @ s = ?f y @ s'"
    obtain k v k' v' where kv: "x = (k, v)" "y = (k', v')" by (cases x; cases y) auto
    have utf8: "utf8_valid k" "json_utf8 v" "utf8_valid k'" "json_utf8 v'"
      using JObject.prems(1,2) x(1,2) by (auto simp: kv j' list_all_iff)
    from x(5) have "json_string k @ CHR '':'' # marshal v @ s = json_string k' @ CHR '':'' # marshal v' @ s'" by (simp add: kv)
    from json_string_inject [OF utf8(1,3) this] have k: "k = k'" and v: "marshal v @ s = marshal v' @ s'" by simp_all
    have "v = v' \<and> s = s'" by (rule JObject.IH [OF x(1) _ utf8(2,4) x(3,4) v]) (simp add: kv)
    with k show "x = y \<and> s = s'" by (simp add: kv)
  qed (simp_all add: json_string_def split: prod.splits)
  with j' show ?case by simp
next
  case (JString s)
  have "json_tag j' = 3" using marshal_tag [OF JString.prems(5)] by simp
  then obtain s' where j': "j' = JString s'" using json_tagD(4) by blast
  with JString.prems json_string_inject [of s s' r r'] show ?case by simp
next
  case (JNumber i)
  have "json_tag j' = 4" using marshal_tag [OF JNumber.prems(5)] by simp
  then obtain k where j': "j' = JNumber k" using json_tagD(5) by blast
  with JNumber.prems itoa_int_inject [of i r k r'] show ?case by simp
next
  case JNull
  have "json_tag j' = 0" using marshal_tag [OF JNull.prems(5)] by simp
  then have "j' = JNull" by (rule json_tagD(1))
  with JNull.prems show ?case by simp
next
  case (JBool b)
  have "json_tag j' = (if b then 1 else 2)" using marshal_tag [OF JBool.prems(5)] by simp
  then have "j' = JBool b" using json_tagD(2,3) [of j'] by (cases b) simp_all
  with JBool.prems show ?case by simp
qed

end
