(* ===== verification/Compiler_Properties.thy ===== *)
theory Compiler_Properties
  imports Store_Properties Json_Canonical
begin

text \<open>
  The properties of the command boundary: what a compiled mutation guarantees to the planner, that the content it
  names was staged by the compiler's own store for the same tenant, that the request digest commits to every field
  of the commands made of plain fields, and the tool command whose digest covers only its descriptor.
\<close>

section \<open>What compilation guarantees\<close>

text \<open>C20: every mutation the compiler returns is bound consistently and sealed: kind, receipt and command
  agree on kind, scope and idempotency key, the scope carries the one authority its kind needs, tenant and key are
  valid opaque strings, the request digest is a well-formed SHA-256 commitment, and the outcome the command
  carries is one the planner's handlers accept.\<close>

theorem compiled_mutation_bound:
  assumes "compiled content m"
  shows "cm_kind m = command_kind (cm_command m) \<and> rb_command (cm_receipt m) = cm_kind m
    \<and> command_binding (cm_command m) = (rb_scope (cm_receipt m), rb_idempotencyKey (cm_receipt m))
    \<and> sc_authority (rb_scope (cm_receipt m)) = kind_authority (cm_kind m)
    \<and> validOpaque (sc_tenant (rb_scope (cm_receipt m))) 128 \<and> validOpaque (rb_idempotencyKey (cm_receipt m)) 256
    \<and> validDigest (rb_requestDigest (cm_receipt m)) \<and> sealed_mutation m"
  using compiled_well_bound [OF assms] by (simp add: well_bound_def sealed_mutation_def)

theorem compiled_mutation_bound_witness:
  "rb_command (cm_receipt example_command) = cm_kind example_command \<and> sealed_mutation example_command"
  using compiled_mutation_bound [OF example_command_compiled] by simp

text \<open>C40: the content a compiled mutation names was validated by the compiler's own store: the handoff was issued by it,
  for the mutation's tenant, and the reference the planner records is the handoff's.\<close>

theorem compiled_content_owned:
  assumes "compiled content m"
  shows "case cm_command m of
      C_register x \<Rightarrow> ch_issuer (rac_specification (cr_command x)) = Some content
        \<and> asc_tenant (cr_commitment x) = mutation_tenant m
        \<and> asc_reference (cr_commitment x) = ch_reference (rac_specification (cr_command x))
    | C_admit x \<Rightarrow> ch_issuer (aic_input (ca_command x)) = Some content \<and> cc_tenant (ca_commitment x) = mutation_tenant m
        \<and> cc_reference (ca_commitment x) = ch_reference (aic_input (ca_command x))
    | C_registerArtifact x \<Rightarrow> ch_issuer (arc_artifact (cf_command x)) = Some content
        \<and> cc_tenant (cf_commitment x) = mutation_tenant m \<and> cc_reference (cf_commitment x) = ch_reference (arc_artifact (cf_command x))
    | C_appendConversation x \<Rightarrow> ch_issuer (acc_entry (cn_command x)) = Some content
        \<and> cc_tenant (cn_commitment x) = mutation_tenant m \<and> cc_reference (cn_commitment x) = ch_reference (acc_entry (cn_command x))
    | C_recordToolIntent x \<Rightarrow> ch_issuer (tic_descriptor (ct_command x)) = Some content
        \<and> ch_tenant (tic_descriptor (ct_command x)) = mutation_tenant m \<and> ct_descriptor x = ch_reference (tic_descriptor (ct_command x))
    | C_admitToolApproval x \<Rightarrow> ch_issuer (tac_descriptor (cp_command x)) = Some content
        \<and> ch_tenant (tac_descriptor (cp_command x)) = mutation_tenant m \<and> cp_descriptor x = ch_reference (tac_descriptor (cp_command x))
    | _ \<Rightarrow> True"
  using assms
  by (cases rule: compiled.cases)
    (auto simp: Compile_owner_defs Compile_worker_defs Compile_publisher_defs Let_def
      ValidateAgentSpecificationBodyHandoff_def ValidateInputEnvelopeHandoff_def ValidateArtifactHandoff_def
      ValidateConversationEntryHandoff_def ValidateToolActionDescriptorHandoff_def
      split: if_splits option.splits elim!: compile_InrD)

theorem compiled_content_owned_witness:
  "ch_issuer (rac_specification example_revision) = Some 7"
proof -
  obtain d where "example_command = example_bound d" using example_command_bound by blast
  then have "cm_command example_command = cm_command (example_bound d)" by simp
  with compiled_content_owned [OF example_command_compiled] show ?thesis by (simp add: example_bound_def)
qed

section \<open>Request digests\<close>

lemma command_string_inject: "command_string k = command_string k' \<Longrightarrow> k = k'"
  by (cases k; cases k'; simp)

lemma authority_string_inject: "authority_string a = authority_string b \<Longrightarrow> a = b"
  by (cases a; cases b; simp)

lemma ascii_utf8: "\<forall>c \<in> set s. byte c < 128 \<Longrightarrow> utf8_valid s"
  by (simp add: utf8_valid_def utf8_runes_ascii)

lemma canonical_utf8:
  assumes "utf8_valid (sc_tenant s)" "utf8_valid (sc_principal s)" "utf8_valid key" "json_utf8 j"
  shows "json_utf8 (canonical k s key j)"
proof -
  have "utf8_valid (command_string k)" by (rule ascii_utf8) (cases k; simp)
  moreover have "utf8_valid (authority_string (sc_authority s))" by (rule ascii_utf8) (cases "sc_authority s"; simp)
  moreover have "utf8_valid x" if "x \<in> {''version'', ''runtime-state-command/v1'', ''kind'', ''scope'', ''key'', ''shape'',
      ''Tenant'', ''Principal'', ''Authority''}" for x
    using that by (intro ascii_utf8) auto
  ultimately show ?thesis using assms by (simp add: canonical_def json_scope_def)
qed

text \<open>On valid UTF-8 text equal canonical bytes mean equal kind, scope, idempotency key and shape.\<close>

lemma canonical_bytes_injective:
  assumes "utf8_valid (sc_tenant s)" "utf8_valid (sc_principal s)" "utf8_valid key" "json_utf8 j"
    and "utf8_valid (sc_tenant s')" "utf8_valid (sc_principal s')" "utf8_valid key'" "json_utf8 j'"
  shows "marshal (canonical k s key j) = marshal (canonical k' s' key' j') \<longleftrightarrow> k = k' \<and> s = s' \<and> key = key' \<and> j = j'"
proof
  assume eq: "marshal (canonical k s key j) = marshal (canonical k' s' key' j')"
  have "canonical k s key j = canonical k' s' key' j'"
    using marshal_inject [OF canonical_utf8 [OF assms(1-4)] canonical_utf8 [OF assms(5-8)], of "[]" "[]"] eq
    by (simp add: delimited_def)
  then show "k = k' \<and> s = s' \<and> key = key' \<and> j = j'"
    by (auto simp: canonical_def json_scope_def dest: command_string_inject authority_string_inject)
qed simp

text \<open>
  \<open>request_shape\<close> is the shape a \<^verbatim>\<open>Compile\<close> method must digest to commit to its whole command, for the thirteen commands
  made of identifiers, opaque strings, digests, counters and policy rules; \<open>fully_committed\<close> singles them out. Commands that carry
  content, times or outcomes are not among them: the methods that take content digest its reference only.
\<close>

fun fully_committed :: "compiled_command \<Rightarrow> bool" where
  "fully_committed (C_registerPolicy q) = True"
| "fully_committed (C_createSession q) = True"
| "fully_committed (C_decideApproval q) = True"
| "fully_committed (C_revokeCapabilityGrant q) = True"
| "fully_committed (C_consumeCapabilityGrant q) = True"
| "fully_committed (C_expireCapabilityGrant q) = True"
| "fully_committed (C_denyToolAdmission q) = True"
| "fully_committed (C_beginToolExecution q) = True"
| "fully_committed (C_begin q) = True"
| "fully_committed (C_cancel q) = True"
| "fully_committed (C_close q) = True"
| "fully_committed (C_cancelSession q) = True"
| "fully_committed (C_failSession q) = True"
| "fully_committed _ = False"

fun request_shape :: "compiled_command \<Rightarrow> json" where
  "request_shape (C_registerPolicy q) = JObject [(''Name'', JString (rpc_name q)),
     (''ExpectedRevision'', json_nat (rpc_expectedRevision q)), (''Rules'', JArray (map json_rule (rpc_rules q)))]"
| "request_shape (C_createSession q) = JObject [(''Revision'', JString (csc_revisionID q))]"
| "request_shape (C_decideApproval q) = json_command (dac_scope q) (dac_idempotencyKey q)
     [(''ApprovalID'', JString (dac_approvalID q)), (''Decision'', JString (approval_state_string (dac_decision q)))]"
| "request_shape (C_revokeCapabilityGrant q) = json_command (rgc_scope q) (rgc_idempotencyKey q)
     ([(''GrantID'', JString (rgc_grantID q)), (''ToolCallID'', JString (rgc_toolCallID q))] @ json_target (rgc_sessionID q) (rgc_turnID q))"
| "request_shape (C_consumeCapabilityGrant q) = json_command (cgc_scope q) (cgc_idempotencyKey q)
     ([(''GrantID'', JString (cgc_grantID q)), (''ToolCallID'', JString (cgc_toolCallID q)),
       (''PolicyRevisionDigest'', JString (cgc_policyRevisionDigest q))] @ json_target (cgc_sessionID q) (cgc_turnID q))"
| "request_shape (C_expireCapabilityGrant q) = json_command (egc_scope q) (egc_idempotencyKey q)
     ([(''GrantID'', JString (egc_grantID q)), (''ToolCallID'', JString (egc_toolCallID q))] @ json_target (egc_sessionID q) (egc_turnID q))"
| "request_shape (C_denyToolAdmission q) = json_command (dtc_scope q) (dtc_idempotencyKey q)
     ([(''ToolCallID'', JString (dtc_toolCallID q)), (''Decision'', JString (dtc_decision q)),
       (''PolicyRevisionDigest'', JString (dtc_policyRevisionDigest q)),
       (''CapabilityScopeDigest'', JString (dtc_capabilityScopeDigest q))] @ json_target (dtc_sessionID q) (dtc_turnID q))"
| "request_shape (C_beginToolExecution q) = json_command (btc_scope q) (btc_idempotencyKey q)
     ([(''ToolCallID'', JString (btc_toolCallID q)), (''GrantID'', JString (btc_grantID q))] @ json_target (btc_sessionID q) (btc_turnID q)
      @ [(''OperationID'', JString (btc_operationID q))])"
| "request_shape (C_begin q) = json_command (bic_scope q) (bic_idempotencyKey q)
     (json_target (bic_sessionID q) (bic_turnID q)
      @ [(''OperationID'', JString (bic_operationID q)), (''ExpectedSessionVersion'', json_nat (bic_expectedSessionVersion q)),
         (''ExpectedTurnVersion'', json_nat (bic_expectedTurnVersion q)), (''ExpectedFence'', json_nat (bic_expectedFence q))])"
| "request_shape (C_cancel q) = json_command (ctc_scope q) (ctc_idempotencyKey q) (json_target (ctc_sessionID q) (ctc_turnID q))"
| "request_shape (C_close q) = json_command (clc_scope q) (clc_idempotencyKey q) [(''SessionID'', JString (clc_sessionID q))]"
| "request_shape (C_cancelSession q) = json_command (xsc_scope q) (xsc_idempotencyKey q) [(''SessionID'', JString (xsc_sessionID q))]"
| "request_shape (C_failSession q) = json_command (fsc_scope q) (fsc_idempotencyKey q) [(''SessionID'', JString (fsc_sessionID q))]"
| "request_shape _ = JNull"

definition request_bytes :: "compiled_command \<Rightarrow> string" where
  "request_bytes c = marshal (canonical (command_kind c) (fst (command_binding c)) (snd (command_binding c)) (request_shape c))"

lemma digested_bytes:
  assumes "compiled content m" and "fully_committed (cm_command m)"
  shows "rb_requestDigest (cm_receipt m) = sha256_digest (request_bytes (cm_command m))"
  using assms
  by (cases rule: compiled.cases)
    (auto simp: Compile_owner_defs Compile_worker_defs Compile_publisher_defs Let_def request_bytes_def digest_json_def
      split: if_splits option.splits elim!: compile_InrD)

lemma opaque_utf8: "validOpaque s n \<Longrightarrow> utf8_valid s"
  by (simp add: validOpaque_def trimmed_utf8_def utf8_valid_def split: option.splits)

lemma alpha_ascii: "asciiAlphaNumeric c \<Longrightarrow> byte c < 128"
  by (auto simp: asciiAlphaNumeric_def)

lemma identifier_utf8:
  assumes "parseID s pre \<noteq> None" and "\<forall>c \<in> set pre. byte c < 128"
  shows "utf8_valid s"
proof -
  from assms(1) obtain payload where s: "s = pre @ payload" and "validPayload payload" using parseID_SomeD(2) by blast
  then have "\<forall>c \<in> set payload. byte c < 128" by (auto simp: validPayload_def list_all_iff alpha_ascii)
  with s assms(2) show ?thesis by (auto intro!: ascii_utf8)
qed

lemma identifiers_utf8:
  "validSession i \<Longrightarrow> utf8_valid i" "validTurn t \<Longrightarrow> utf8_valid t" "validRevision r \<Longrightarrow> utf8_valid r"
  "ParseApprovalID a \<noteq> None \<Longrightarrow> utf8_valid a"
  unfolding validSession_def validTurn_def validRevision_def parse_defs by (erule identifier_utf8, simp add: prefix_defs)+

lemma digest_utf8:
  assumes "validDigest s"
  shows "utf8_valid s"
proof -
  from assms obtain h where s: "s = ''sha256:'' @ h" and "set h \<subseteq> set ''0123456789abcdef''"
    by (auto simp: validDigest_def prefix_def trim_set_Nil_iff)
  moreover from this(2) have "\<forall>c \<in> set h. byte c < 128" by fastforce
  ultimately show ?thesis by (auto intro!: ascii_utf8)
qed

lemma literal_utf8: "list_all (\<lambda>c. byte c < 128) s \<Longrightarrow> utf8_valid s"
  by (simp add: ascii_utf8 list_all_iff)

lemma enumerations_utf8:
  "utf8_valid (authority_string a)" "utf8_valid (approval_state_string st)" "utf8_valid (policy_decision_string d)"
  by (rule literal_utf8, cases a, simp_all) (rule literal_utf8, cases st, simp_all, rule literal_utf8, cases d, simp_all)

lemma rules_utf8: "distinct_tools seen rs \<Longrightarrow> r \<in> set rs \<Longrightarrow> json_utf8 (json_rule r)"
  by (induction rs arbitrary: seen)
    (auto simp: json_rule_def validName_def enumerations_utf8 literal_utf8 intro: opaque_utf8)

lemmas request_utf8 = opaque_utf8 digest_utf8 identifiers_utf8 rules_utf8

lemma compile_command: "compile k s key shape c = Inr m \<Longrightarrow> cm_command m = c \<and> validOpaque key 256"
  by (auto elim: compile_InrD)

definition well_formed_request :: "compiled_command \<Rightarrow> bool" where
  "well_formed_request c \<longleftrightarrow>
     json_utf8 (request_shape c) \<and> utf8_valid (sc_tenant (fst (command_binding c)))
     \<and> utf8_valid (sc_principal (fst (command_binding c))) \<and> utf8_valid (snd (command_binding c))"

lemma shape_utf8: "compiled content m \<Longrightarrow> fully_committed (cm_command m) \<Longrightarrow> well_formed_request (cm_command m)"
  apply (erule compiled.cases; simp add: Compile_owner_defs Compile_worker_defs Compile_publisher_defs Let_def
      split: if_splits option.splits; drule compile_command; clarsimp simp: well_formed_request_def)
  apply (auto simp: validateScope_iff validateWorkerCommand_def
      literal_utf8 enumerations_utf8 json_command_def json_target_def json_scope_def json_nat_def validPolicyRules_def validName_def list_all_iff
      intro: request_utf8)
  done

lemma json_rule_inject: "json_rule r = json_rule r' \<Longrightarrow> r = r'"
  by (cases "rule_decision r"; cases "rule_decision r'"; auto simp: json_rule_def intro: PolicyRule.equality)

lemma shape_inject:
  assumes "fully_committed c" and "command_kind c = command_kind c'" and "command_binding c = command_binding c'"
    and "request_shape c = request_shape c'"
  shows "c = c'"
proof -
  have rules: "map json_rule rs = map json_rule rs' \<Longrightarrow> rs = rs'" for rs rs' by (auto intro: map_injective injI json_rule_inject)
  have decision: "approval_state_string a = approval_state_string b \<Longrightarrow> a = b" for a b by (cases a; cases b; simp)
  note equality = RegisterPolicyRevisionCommand.equality CreateSessionCommand.equality DecideApprovalCommand.equality
    RevokeCapabilityGrantCommand.equality ConsumeCapabilityGrantCommand.equality ExpireCapabilityGrantCommand.equality
    DenyToolAdmissionCommand.equality BeginToolExecutionCommand.equality BeginInvocationAttemptCommand.equality
    CancelTurnCommand.equality CloseSessionCommand.equality CancelSessionCommand.equality FailSessionCommand.equality
  show ?thesis using assms
    by (cases c) (cases c'; simp add: json_command_def json_target_def json_nat_def; auto intro!: equality dest: rules decision)+
qed

text \<open>C35: for thirteen commands (policy registration, creating, closing, cancelling and failing a Session, cancelling a Turn, deciding
  an approval, consuming, revoking and expiring a grant, denying a tool, beginning an execution and beginning an invocation attempt) the
  request digest commits to the whole command: it is the SHA-256 digest of bytes that are equal for two
  compiled commands exactly when the commands are equal in every field, so a reused key with any changed field is told apart by its
  digest unless SHA-256 itself collides.\<close>

theorem request_digest_covers:
  assumes "compiled content m" and "fully_committed (cm_command m)" and "compiled content' m'" and "fully_committed (cm_command m')"
  shows "rb_requestDigest (cm_receipt m) = sha256_digest (request_bytes (cm_command m))
    \<and> (request_bytes (cm_command m) = request_bytes (cm_command m') \<longleftrightarrow> cm_command m = cm_command m')"
proof -
  from shape_utf8 [OF assms(1,2)] shape_utf8 [OF assms(3,4)]
  have "request_bytes (cm_command m) = request_bytes (cm_command m') \<longleftrightarrow>
      command_kind (cm_command m) = command_kind (cm_command m') \<and> command_binding (cm_command m) = command_binding (cm_command m')
      \<and> request_shape (cm_command m) = request_shape (cm_command m')"
    unfolding request_bytes_def well_formed_request_def
    by (subst canonical_bytes_injective) (auto simp: prod_eq_iff)
  with shape_inject [OF assms(2)] digested_bytes [OF assms(1,2)] show ?thesis by auto
qed

definition example_close :: "nat \<Rightarrow> CloseSessionCommand" where
  "example_close n = \<lparr>clc_scope = example_scope AuthoritySessionOwner, clc_idempotencyKey = ''k1'', clc_sessionID = example_id n IdentifierSession\<rparr>"

lemma example_close_compiles: "\<exists>m. CompileCloseSession (example_close n) = Inr m \<and> compiled 7 m \<and> cm_command m = C_close (example_close n)"
proof -
  from example_opaque obtain m where m: "CompileCloseSession (example_close n) = Inr m" "cm_command m = C_close (example_close n)"
    by (simp add: CompileCloseSession_def example_close_def validateScope_iff example_scope_def validSession_def compile_def)
  moreover from m(1) have "compiled 7 m" by (rule compiled.intros)
  ultimately show ?thesis by blast
qed

theorem request_digest_covers_witness:
  "\<exists>m m'. CompileCloseSession (example_close 1) = Inr m \<and> CompileCloseSession (example_close 2) = Inr m'
     \<and> rb_requestDigest (cm_receipt m) = sha256_digest (request_bytes (cm_command m))
     \<and> request_bytes (cm_command m) \<noteq> request_bytes (cm_command m')"
proof -
  obtain m where m: "CompileCloseSession (example_close 1) = Inr m" "compiled 7 m" "cm_command m = C_close (example_close 1)"
    using example_close_compiles by blast
  obtain m' where m': "CompileCloseSession (example_close 2) = Inr m'" "compiled 7 m'" "cm_command m' = C_close (example_close 2)"
    using example_close_compiles by blast
  have "cm_command m \<noteq> cm_command m'" using m(3) m'(3) by (simp add: example_close_def)
  then show ?thesis using request_digest_covers [OF m(2) _ m'(2)] m m' by auto
qed

section \<open>A digest that leaves fields out\<close>

text \<open>A departure from the contract, under which a reused key with other content is a conflict: the request digest of a tool intent covers its descriptor reference only. Two intents of one scope, key and
  descriptor that differ in Session, Turn, tool call, tool name, action digest or policy digest
  get the same receipt binding, so once the first is recorded the planner answers the second exactly as a
  retry of the first, instead of refusing the reused key.\<close>

theorem intent_digest_ignores_call:
  assumes "CompileRecordToolIntent content q = Inr m" "CompileRecordToolIntent content q' = Inr m'"
    and "tic_scope q' = tic_scope q" "tic_idempotencyKey q' = tic_idempotencyKey q"
    and "ch_reference (tic_descriptor q') = ch_reference (tic_descriptor q)"
  shows "cm_receipt m' = cm_receipt m
    \<and> (findReceipt s (cm_receipt m) = Some r \<longrightarrow> Plan P x reading n s m' = Plan P x reading n s m)"
proof -
  have kind: "cm_kind m' = cm_kind m" and receipt: "cm_receipt m' = cm_receipt m"
    using assms by (auto simp: CompileRecordToolIntent_def ValidateToolActionDescriptorHandoff_def
        split: if_splits option.splits elim!: compile_InrD)
  then show ?thesis by (simp add: Plan_def Let_def)
qed

definition example_intent :: "string \<Rightarrow> RecordToolIntentCommand" where
  "example_intent tool = \<lparr>tic_scope = example_scope AuthorityRuntimeWorker, tic_idempotencyKey = ''k1'',
     tic_sessionID = example_id 1 IdentifierSession, tic_turnID = example_id 1 IdentifierTurn, tic_toolCallID = ''call'',
     tic_toolName = tool, tic_actionDigest = ''sha256:'' @ replicate 64 (CHR ''a''),
     tic_policyRevisionDigest = ''sha256:'' @ replicate 64 (CHR ''b''),
     tic_descriptor = \<lparr>ch_issuer = Some 7, ch_tenant = ''acme'',
       ch_reference = \<lparr>ref_digest = ''sha256:'' @ replicate 64 (CHR ''c''),
         ref_mediaType = ToolActionDescriptorMediaTypeV1, ref_sizeBytes = 10\<rparr>,
       ch_kind = contentKindToolActionDescriptor, ch_name = [], ch_modelProfile = []\<rparr>\<rparr>"

lemma example_intent_compiles:
  assumes "tool \<in> {''shell'', ''wipe''}"
  shows "\<exists>m. CompileRecordToolIntent 7 (example_intent tool) = Inr m \<and> cm_command m =
    C_recordToolIntent \<lparr>ct_command = example_intent tool, ct_descriptor = ch_reference (tic_descriptor (example_intent tool))\<rparr>"
proof -
  have "validDigest (''sha256:'' @ replicate 64 c)" if "c \<in> set ''abc''" for c
    using that by (auto simp: validDigest_def trim_set_Nil_iff)
  moreover have "validOpaque tool 128" "validOpaque ''call'' 128" using assms by (auto intro!: opaque_graphic)
  moreover have "utf8_valid ''acme''" by (intro ascii_utf8) simp
  ultimately show ?thesis using example_opaque
    by (simp add: CompileRecordToolIntent_def example_intent_def ValidateToolActionDescriptorHandoff_def validTenantID_def
        validSegment_def segment_char_def maximumConversationEntryBytes_def validateWorkerCommand_def validateScope_iff
        example_scope_def validSession_def validTurn_def compile_def)
qed

theorem intent_digest_ignores_call_witness:
  "\<exists>m m'. CompileRecordToolIntent 7 (example_intent ''shell'') = Inr m \<and> CompileRecordToolIntent 7 (example_intent ''wipe'') = Inr m'
     \<and> cm_command m \<noteq> cm_command m' \<and> cm_receipt m' = cm_receipt m"
proof -
  obtain m where m: "CompileRecordToolIntent 7 (example_intent ''shell'') = Inr m" "cm_command m = C_recordToolIntent
      \<lparr>ct_command = example_intent ''shell'', ct_descriptor = ch_reference (tic_descriptor (example_intent ''shell''))\<rparr>"
    using example_intent_compiles by blast
  obtain m' where m': "CompileRecordToolIntent 7 (example_intent ''wipe'') = Inr m'" "cm_command m' = C_recordToolIntent
      \<lparr>ct_command = example_intent ''wipe'', ct_descriptor = ch_reference (tic_descriptor (example_intent ''wipe''))\<rparr>"
    using example_intent_compiles by blast
  have "cm_receipt m' = cm_receipt m"
    using intent_digest_ignores_call [OF m(1) m'(1)] by (simp add: example_intent_def)
  moreover have "cm_command m \<noteq> cm_command m'" using m(2) m'(2) by (simp add: example_intent_def)
  ultimately show ?thesis using m(1) m'(1) by blast
qed

end
