(* ===== verification/Approval_Machine.thy ===== *)
theory Approval_Machine
  imports Sdk_Types Go_Sha256
begin

text \<open>
  The human-approval state machine of \<^verbatim>\<open>internal/approval/approval.go\<close>. An operation returns an approval
  and an error, as in Go: a refusal returns the zero value, but a decision or cancellation that comes too late
  returns the expired approval together with \<open>ErrExpired\<close>. \<open>ErrInvalid\<close> stands for the errors
  that are built in place. A decision, verb or target outside the fixed vocabulary is the
  \<open>Other\<close> constructor of its type. Times carry no monotonic reading, so comparing records compares instants.
\<close>

section \<open>Types\<close>

datatype approval_error = ErrNotFoundOrDenied | ErrConflict | ErrExpired | ErrScopeBroadening | ErrInvalid

record Actor =
  ac_tenantID :: string
  ac_principalID :: string
  ac_admin :: bool

record Scope =
  sp_capabilityDigest :: string
  sp_maximumUses :: nat
  sp_expiresAt :: gtime

datatype SummaryVerb = SummaryExecute | SummaryRestart | SummaryWrite | SummaryDelete | OtherVerb string

datatype SummaryTarget =
    SummaryWorkspaceService | SummarySandboxProcess | SummaryArtifact | SummaryNetworkRequest | OtherTarget string

record Summary =
  sm_verb :: SummaryVerb
  sm_target :: SummaryTarget

datatype Decision = DecisionApproved | DecisionDenied | OtherDecision string

datatype State =
    StatePending | StateApproved | StateDenied | StateExpired | StateCancelled | StateInvalidated | StateUnset

record Proposal =
  pp_id :: string
  pp_owner :: Actor
  pp_sessionID :: string
  pp_turnID :: string
  pp_toolCallID :: string
  pp_actionDigest :: string
  pp_policyRevisionDigest :: string
  pp_summary :: Summary
  pp_proposedScope :: Scope
  pp_createdAt :: gtime
  pp_expiresAt :: gtime

record DecisionCommand =
  dc_idempotencyKey :: string
  dc_decision :: Decision
  dc_grantedScope :: Scope

record decisionRecord =
  dr_actor :: Actor
  dr_idempotencyKeyDigest :: string
  dr_decision :: Decision
  dr_grantedScope :: Scope
  dr_decidedAt :: gtime

record Approval =
  av_proposal :: Proposal
  av_state :: State
  av_decision :: decisionRecord
  av_hasDecision :: bool
  av_terminalAt :: gtime

definition zero_Scope :: Scope where
  "zero_Scope = \<lparr>sp_capabilityDigest = [], sp_maximumUses = 0, sp_expiresAt = zero_time\<rparr>"
definition zero_Actor :: Actor where
  "zero_Actor = \<lparr>ac_tenantID = [], ac_principalID = [], ac_admin = False\<rparr>"
definition zero_decisionRecord :: decisionRecord where
  "zero_decisionRecord = \<lparr>dr_actor = zero_Actor, dr_idempotencyKeyDigest = [], dr_decision = OtherDecision [],
     dr_grantedScope = zero_Scope, dr_decidedAt = zero_time\<rparr>"
definition zero_Proposal :: Proposal where
  "zero_Proposal = \<lparr>pp_id = [], pp_owner = zero_Actor, pp_sessionID = [], pp_turnID = [], pp_toolCallID = [],
     pp_actionDigest = [], pp_policyRevisionDigest = [],
     pp_summary = \<lparr>sm_verb = OtherVerb [], sm_target = OtherTarget []\<rparr>, pp_proposedScope = zero_Scope,
     pp_createdAt = zero_time, pp_expiresAt = zero_time\<rparr>"
definition zero_Approval :: Approval where
  "zero_Approval = \<lparr>av_proposal = zero_Proposal, av_state = StateUnset, av_decision = zero_decisionRecord,
     av_hasDecision = False, av_terminalAt = zero_time\<rparr>"

section \<open>Checks\<close>

text \<open>
  The loops of \<open>validID\<close> and \<open>approval_validDigest\<close> range over runes and reject every rune outside ASCII, so a check by
  bytes is the same. \<^verbatim>\<open>strings.ToLower\<close> matters on ASCII only, for the same reason.
\<close>

definition validID :: "string \<Rightarrow> string \<Rightarrow> bool" where
  "validID value pre \<longleftrightarrow>
     (let payload = trimPrefix value pre in
      \<not> (length payload \<noteq> 16 \<or> pre @ payload \<noteq> value) \<and> list_all asciiAlphaNumeric payload)"

definition ParseID :: "string \<Rightarrow> string option" where
  "ParseID value = (if \<not> validID value ''appr_'' then None else Some value)"
definition ParseToolCallID :: "string \<Rightarrow> string option" where
  "ParseToolCallID value = (if \<not> validID value ''tcall_'' then None else Some value)"
definition approval_ParseSessionID :: "string \<Rightarrow> string option" where
  "approval_ParseSessionID value = (if \<not> validID value ''sess_'' then None else Some value)"
definition approval_ParseTurnID :: "string \<Rightarrow> string option" where
  "approval_ParseTurnID value = (if \<not> validID value ''turn_'' then None else Some value)"
definition ParseTenantID :: "string \<Rightarrow> string option" where
  "ParseTenantID value = (if \<not> validID value ''ten_'' then None else Some value)"
definition ParsePrincipalID :: "string \<Rightarrow> string option" where
  "ParsePrincipalID value = (if \<not> validID value ''prn_'' then None else Some value)"

definition actor_valid :: "Actor \<Rightarrow> bool" where
  "actor_valid a \<longleftrightarrow> validID (ac_tenantID a) ''ten_'' \<and> validID (ac_principalID a) ''prn_''"

definition ascii_lower :: "char \<Rightarrow> char" where
  "ascii_lower c = (if 65 \<le> byte c \<and> byte c \<le> 90 then char_of (byte c + 32) else c)"

definition approval_validDigest :: "string \<Rightarrow> bool" where
  "approval_validDigest value \<longleftrightarrow>
     \<not> (length value \<noteq> 7 + 64 \<or> \<not> prefix ''sha256:'' value \<or> value \<noteq> map ascii_lower value)
     \<and> list_all (\<lambda>c. (48 \<le> byte c \<and> byte c \<le> 57) \<or> (97 \<le> byte c \<and> byte c \<le> 102)) (trimPrefix value ''sha256:'')"

definition validUTC :: "gtime \<Rightarrow> bool" where
  "validUTC t \<longleftrightarrow> \<not> IsZero t \<and> utc t"

definition maxScopeUses :: nat where "maxScopeUses = 32"
definition maxIdentityBytes :: nat where "maxIdentityBytes = 128"
definition maximumApprovalWindow :: int where "maximumApprovalWindow = 24 * hour"

definition scope_valid :: "Scope \<Rightarrow> bool" where
  "scope_valid s \<longleftrightarrow>
     approval_validDigest (sp_capabilityDigest s) \<and> 0 < sp_maximumUses s \<and> sp_maximumUses s \<le> maxScopeUses \<and> validUTC (sp_expiresAt s)"

definition narrowerThan :: "Scope \<Rightarrow> Scope \<Rightarrow> bool" where
  "narrowerThan s proposed \<longleftrightarrow>
     scope_valid s \<and> sp_capabilityDigest s = sp_capabilityDigest proposed
     \<and> sp_maximumUses s \<le> sp_maximumUses proposed \<and> \<not> After (sp_expiresAt s) (sp_expiresAt proposed)"

definition summary_valid :: "Summary \<Rightarrow> bool" where
  "summary_valid s \<longleftrightarrow>
     sm_verb s \<in> {SummaryExecute, SummaryRestart, SummaryWrite, SummaryDelete}
     \<and> sm_target s \<in> {SummaryWorkspaceService, SummarySandboxProcess, SummaryArtifact, SummaryNetworkRequest}"

definition validateProposal :: "Proposal \<Rightarrow> bool" where
  "validateProposal p \<longleftrightarrow>
     \<not> (\<not> validID (pp_id p) ''appr_'' \<or> \<not> actor_valid (pp_owner p) \<or> \<not> validID (pp_sessionID p) ''sess_''
        \<or> \<not> validID (pp_turnID p) ''turn_'' \<or> \<not> validID (pp_toolCallID p) ''tcall_''
        \<or> \<not> approval_validDigest (pp_actionDigest p) \<or> \<not> approval_validDigest (pp_policyRevisionDigest p)
        \<or> \<not> summary_valid (pp_summary p) \<or> \<not> scope_valid (pp_proposedScope p)
        \<or> \<not> validUTC (pp_createdAt p) \<or> \<not> validUTC (pp_expiresAt p) \<or> \<not> After (pp_expiresAt p) (pp_createdAt p)
        \<or> After (pp_expiresAt p) (add_duration (pp_createdAt p) maximumApprovalWindow)
        \<or> \<not> After (sp_expiresAt (pp_proposedScope p)) (pp_createdAt p)
        \<or> After (sp_expiresAt (pp_proposedScope p)) (pp_expiresAt p))"

definition validIdempotencyKey :: "string \<Rightarrow> bool" where
  "validIdempotencyKey value \<longleftrightarrow>
     0 < length value \<and> length value \<le> maxIdentityBytes \<and> utf8_valid value
     \<and> \<not> list_ex (\<lambda>c. c \<in> {CHR 0x00, CHR 0x0D, CHR 0x0A}) value"

definition validateDecisionCommand :: "DecisionCommand \<Rightarrow> bool" where
  "validateDecisionCommand c \<longleftrightarrow>
     \<not> (\<not> validIdempotencyKey (dc_idempotencyKey c)
        \<or> (dc_decision c \<noteq> DecisionApproved \<and> dc_decision c \<noteq> DecisionDenied))"

definition idempotencyDigest :: "string \<Rightarrow> string" where
  "idempotencyDigest value = sha256_digest (''agent-runtime/approval-idempotency/v1'' @ [CHR 0x00] @ value)"

section \<open>Operations\<close>

definition New :: "Proposal \<Rightarrow> Approval \<times> approval_error option" where
  "New p =
     (if \<not> validateProposal p then (zero_Approval, Some ErrInvalid)
      else (zero_Approval\<lparr>av_proposal := p, av_state := StatePending\<rparr>, None))"

definition authorized :: "Approval \<Rightarrow> Actor \<Rightarrow> bool" where
  "authorized v actor \<longleftrightarrow>
     actor_valid actor \<and> ac_tenantID actor = ac_tenantID (pp_owner (av_proposal v))
     \<and> (ac_principalID actor = ac_principalID (pp_owner (av_proposal v)) \<or> ac_admin actor)"

definition validateNow :: "Approval \<Rightarrow> gtime \<Rightarrow> bool" where
  "validateNow v now \<longleftrightarrow> \<not> (\<not> validUTC now \<or> Before now (pp_createdAt (av_proposal v)))"

definition expire :: "Approval \<Rightarrow> gtime \<Rightarrow> Approval" where
  "expire v now = (if av_state v = StatePending then v\<lparr>av_state := StateExpired, av_terminalAt := now\<rparr> else v)"

definition Expire :: "Approval \<Rightarrow> gtime \<Rightarrow> Approval \<times> approval_error option" where
  "Expire v now = (if \<not> validateNow v now then (zero_Approval, Some ErrInvalid) else (expire v now, None))"

definition Inspect :: "Approval \<Rightarrow> Actor \<Rightarrow> gtime \<Rightarrow> Approval \<times> approval_error option" where
  "Inspect v actor now =
     (if \<not> authorized v actor then (zero_Approval, Some ErrNotFoundOrDenied) else Expire v now)"

definition decision_matches :: "Approval \<Rightarrow> Actor \<Rightarrow> DecisionCommand \<Rightarrow> bool" where
  "decision_matches v actor c \<longleftrightarrow>
     av_hasDecision v \<and> dr_actor (av_decision v) = actor
     \<and> dr_idempotencyKeyDigest (av_decision v) = idempotencyDigest (dc_idempotencyKey c)
     \<and> dr_decision (av_decision v) = dc_decision c \<and> dr_grantedScope (av_decision v) = dc_grantedScope c"

definition Decide :: "Approval \<Rightarrow> Actor \<Rightarrow> DecisionCommand \<Rightarrow> gtime \<Rightarrow> Approval \<times> approval_error option" where
  "Decide v actor c now =
     (if \<not> authorized v actor then (zero_Approval, Some ErrNotFoundOrDenied)
      else if \<not> validateDecisionCommand c then (zero_Approval, Some ErrInvalid)
      else if \<not> validateNow v now then (zero_Approval, Some ErrInvalid)
      else if av_state v \<noteq> StatePending then
        (if decision_matches v actor c then (v, None) else (zero_Approval, Some ErrConflict))
      else if \<not> Before now (pp_expiresAt (av_proposal v)) then (expire v now, Some ErrExpired)
      else if dc_decision c = DecisionApproved
              \<and> (\<not> narrowerThan (dc_grantedScope c) (pp_proposedScope (av_proposal v))
                 \<or> After (sp_expiresAt (dc_grantedScope c)) (pp_expiresAt (av_proposal v))
                 \<or> \<not> After (sp_expiresAt (dc_grantedScope c)) now)
      then (zero_Approval, Some ErrScopeBroadening)
      else if dc_decision c \<noteq> DecisionApproved \<and> dc_grantedScope c \<noteq> zero_Scope then (zero_Approval, Some ErrInvalid)
      else (v\<lparr>av_hasDecision := True,
              av_decision := \<lparr>dr_actor = actor, dr_idempotencyKeyDigest = idempotencyDigest (dc_idempotencyKey c),
                dr_decision = dc_decision c, dr_grantedScope = dc_grantedScope c, dr_decidedAt = now\<rparr>,
              av_terminalAt := now,
              av_state := (if dc_decision c = DecisionApproved then StateApproved else StateDenied)\<rparr>, None))"

definition endPending :: "Approval \<Rightarrow> State \<Rightarrow> gtime \<Rightarrow> Approval \<times> approval_error option" where
  "endPending v target now =
     (if \<not> validateNow v now then (zero_Approval, Some ErrInvalid)
      else if av_state v \<noteq> StatePending then
        (if av_state v = target then (v, None) else (zero_Approval, Some ErrConflict))
      else if \<not> Before now (pp_expiresAt (av_proposal v)) then (expire v now, Some ErrExpired)
      else (v\<lparr>av_state := target, av_terminalAt := now\<rparr>, None))"

definition Cancel :: "Approval \<Rightarrow> gtime \<Rightarrow> Approval \<times> approval_error option" where
  "Cancel v now = endPending v StateCancelled now"

definition Invalidate :: "Approval \<Rightarrow> gtime \<Rightarrow> Approval \<times> approval_error option" where
  "Invalidate v now = endPending v StateInvalidated now"

text \<open>\<open>DecisionRecord\<close>, the redacted projection: the decision and the granted scope.\<close>

definition Decision_of :: "Approval \<Rightarrow> (Decision \<times> Scope) option" where
  "Decision_of v = (if \<not> av_hasDecision v then None else Some (dr_decision (av_decision v), dr_grantedScope (av_decision v)))"

section \<open>Runs\<close>

text \<open>
  A caller keeps the approval an operation returns without an error, or with \<open>ErrExpired\<close>; \<open>approval_step\<close> is that
  replacement. \<open>decision_ok\<close> is what every kept approval satisfies.
\<close>

inductive approval_step :: "Approval \<Rightarrow> Approval \<Rightarrow> bool" where
  decide: "approval_step v w" if "Decide v actor c now = (w, e)" "e = None \<or> e = Some ErrExpired"
| cancel: "approval_step v w" if "Cancel v now = (w, e)" "e = None \<or> e = Some ErrExpired"
| invalidate: "approval_step v w" if "Invalidate v now = (w, e)" "e = None \<or> e = Some ErrExpired"
| expire: "approval_step v w" if "Expire v now = (w, None)"
| inspect: "approval_step v w" if "Inspect v actor now = (w, None)"

definition approval_granted :: "Approval \<Rightarrow> bool" where
  "approval_granted v \<longleftrightarrow>
     (let p = av_proposal v; d = av_decision v in
      authorized v (dr_actor d) \<and> narrowerThan (dr_grantedScope d) (pp_proposedScope p)
      \<and> \<not> After (sp_expiresAt (dr_grantedScope d)) (pp_expiresAt p) \<and> After (sp_expiresAt (dr_grantedScope d)) (dr_decidedAt d)
      \<and> \<not> Before (dr_decidedAt d) (pp_createdAt p) \<and> Before (dr_decidedAt d) (pp_expiresAt p))"

definition decision_ok :: "Approval \<Rightarrow> bool" where
  "decision_ok v \<longleftrightarrow>
     (case av_state v of
        StateApproved \<Rightarrow> av_hasDecision v \<and> dr_decision (av_decision v) = DecisionApproved \<and> approval_granted v
      | StateDenied \<Rightarrow> av_hasDecision v \<and> dr_decision (av_decision v) = DecisionDenied
          \<and> dr_grantedScope (av_decision v) = zero_Scope \<and> authorized v (dr_actor (av_decision v))
      | StateUnset \<Rightarrow> False
      | _ \<Rightarrow> \<not> av_hasDecision v)"

lemmas operation_defs = Decide_def Cancel_def Invalidate_def endPending_def Expire_def Inspect_def expire_def

lemma step_final:
  assumes "approval_step v w" and "av_state v \<noteq> StatePending"
  shows "w = v"
  using assms by cases (auto simp: operation_defs split: if_splits)

lemma step_proposal:
  assumes "approval_step v w"
  shows "av_proposal w = av_proposal v"
  using assms by cases (auto simp: operation_defs split: if_splits)

lemma authorized_update [simp]:
  "authorized (v\<lparr>av_state := a\<rparr>) = authorized v" "authorized (v\<lparr>av_terminalAt := t\<rparr>) = authorized v"
  "authorized (v\<lparr>av_hasDecision := h\<rparr>) = authorized v" "authorized (v\<lparr>av_decision := d\<rparr>) = authorized v"
  by (simp_all add: authorized_def fun_eq_iff)

lemma Decide_expired:
  assumes "Decide v actor c now = (w, Some ErrExpired)"
  shows "w = expire v now"
  using assms by (simp add: Decide_def split: if_splits)

lemma Decide_pending:
  assumes "av_state v = StatePending" and "Decide v actor c now = (w, None)"
  shows "authorized v actor \<and> validateDecisionCommand c \<and> validateNow v now \<and> Before now (pp_expiresAt (av_proposal v))
    \<and> (if dc_decision c = DecisionApproved
       then narrowerThan (dc_grantedScope c) (pp_proposedScope (av_proposal v))
         \<and> \<not> After (sp_expiresAt (dc_grantedScope c)) (pp_expiresAt (av_proposal v)) \<and> After (sp_expiresAt (dc_grantedScope c)) now
       else dc_decision c = DecisionDenied \<and> dc_grantedScope c = zero_Scope)
    \<and> w = v\<lparr>av_hasDecision := True,
        av_decision := \<lparr>dr_actor = actor, dr_idempotencyKeyDigest = idempotencyDigest (dc_idempotencyKey c),
          dr_decision = dc_decision c, dr_grantedScope = dc_grantedScope c, dr_decidedAt = now\<rparr>,
        av_terminalAt := now, av_state := (if dc_decision c = DecisionApproved then StateApproved else StateDenied)\<rparr>"
  using assms by (simp add: Decide_def validateDecisionCommand_def split: if_splits)

lemma pending_step:
  assumes "approval_step v w" and "av_state v = StatePending"
  shows "(\<exists>st t. st \<in> {StateExpired, StateCancelled, StateInvalidated} \<and> w = v\<lparr>av_state := st, av_terminalAt := t\<rparr>)
    \<or> (\<exists>actor c now. Decide v actor c now = (w, None))"
  using assms
proof cases
  case (decide actor c now e)
  from decide(2) show ?thesis
  proof
    assume "e = None"
    with decide(1) show ?thesis by blast
  next
    assume "e = Some ErrExpired"
    with decide(1) have "w = expire v now" by (simp add: Decide_expired)
    with assms(2) have "w = v\<lparr>av_state := StateExpired, av_terminalAt := now\<rparr>" by (simp add: expire_def)
    then show ?thesis by blast
  qed
qed (use assms(2) in \<open>auto simp: Cancel_def Invalidate_def endPending_def Expire_def Inspect_def expire_def split: if_splits\<close>)

lemma step_decision_ok:
  assumes "approval_step v w" and "decision_ok v"
  shows "decision_ok w"
proof (cases "av_state v = StatePending")
  case False
  with assms(1) have "w = v" by (rule step_final)
  with assms(2) show ?thesis by simp
next
  case True
  from pending_step [OF assms(1) True] show ?thesis
  proof (elim disjE exE conjE)
    fix st t assume "st \<in> {StateExpired, StateCancelled, StateInvalidated}" "w = v\<lparr>av_state := st, av_terminalAt := t\<rparr>"
    with True assms(2) show ?thesis by (auto simp: decision_ok_def)
  next
    fix actor c now assume d: "Decide v actor c now = (w, None)"
    from Decide_pending [OF True d] show ?thesis
      by (auto simp: decision_ok_def approval_granted_def validateNow_def Let_def split: if_splits)
  qed
qed

lemma run_final:
  assumes "approval_step\<^sup>*\<^sup>* v w" and "av_state v \<noteq> StatePending"
  shows "w = v"
  using assms by (induction rule: rtranclp_induct) (auto dest: step_final)

lemma run_decision_ok:
  assumes "approval_step\<^sup>*\<^sup>* v w" and "decision_ok v"
  shows "decision_ok w \<and> av_proposal w = av_proposal v"
  using assms by (induction rule: rtranclp_induct) (auto intro: step_decision_ok dest: step_proposal)

lemma New_decision_ok:
  assumes "New p = (v, None)"
  shows "decision_ok v" and "av_proposal v = p" and "validateProposal p" and "av_state v = StatePending"
  using assms by (auto simp: New_def decision_ok_def zero_Approval_def split: if_splits)

text \<open>A decision repeated by the same actor with the same command returns the recorded approval, also after the expiry.\<close>

lemma Decide_again:
  assumes "Decide v actor c now = (w, None)" and "validateNow v later"
  shows "Decide w actor c later = (w, None)"
proof (cases "av_state v = StatePending")
  case True
  from Decide_pending [OF True assms(1)] assms(2) show ?thesis
    by (auto simp: Decide_def decision_matches_def validateNow_def)
next
  case False
  with assms show ?thesis by (simp add: Decide_def split: if_splits)
qed

end
