(* ===== verification/Tool_Policy.thy ===== *)
theory Tool_Policy
  imports Approval_Machine
begin

text \<open>
  The policy evaluation of \<^verbatim>\<open>internal/toolpolicy/toolpolicy.go\<close>: one normalized tool intent against one immutable
  operator projection, giving a refusal or a pending approval. The package repeats the approval package's
  checks of digests, scopes and summaries; they are repeated here under the prefix \<open>policy_\<close>.
\<close>

section \<open>Types\<close>

datatype Outcome = OutcomeDenied | OutcomeRequiresApproval

record Intent =
  nt_owner :: Actor
  nt_sessionID :: string
  nt_turnID :: string
  nt_toolCallID :: string
  nt_toolName :: string
  nt_actionDigest :: string
  nt_policyRevisionDigest :: string

record Projection =
  pj_tenantID :: string
  pj_toolName :: string
  pj_actionDigest :: string
  pj_policyRevisionDigest :: string
  pj_summary :: Summary
  pj_proposedScope :: Scope
  pj_expiresAt :: gtime

record Disposition =
  ds_outcome :: Outcome
  ds_approval :: Approval

section \<open>Checks\<close>

definition maximumToolNameBytes :: nat where "maximumToolNameBytes = 128"
definition maximumIdentityBytes :: nat where "maximumIdentityBytes = 128"
definition maximumScopeUses :: nat where "maximumScopeUses = 32"
definition policy_maximumApprovalWindow :: int where "policy_maximumApprovalWindow = 24 * hour"

definition policy_validDigest :: "string \<Rightarrow> bool" where
  "policy_validDigest value \<longleftrightarrow>
     \<not> (length value \<noteq> 7 + 64 \<or> \<not> prefix ''sha256:'' value \<or> value \<noteq> map ascii_lower value)
     \<and> list_all (\<lambda>c. (48 \<le> byte c \<and> byte c \<le> 57) \<or> (97 \<le> byte c \<and> byte c \<le> 102)) (trimPrefix value ''sha256:'')"

definition policy_validUTC :: "gtime \<Rightarrow> bool" where
  "policy_validUTC t \<longleftrightarrow> \<not> IsZero t \<and> utc t"

definition validToolName :: "string \<Rightarrow> bool" where
  "validToolName value \<longleftrightarrow>
     \<not> (length value = 0 \<or> maximumToolNameBytes < length value)
     \<and> list_all (\<lambda>c. asciiAlphaNumeric c \<or> c = CHR ''-'' \<or> c = CHR ''_'' \<or> c = CHR ''.'') value"

definition boundedIdentity :: "string \<Rightarrow> bool" where
  "boundedIdentity value \<longleftrightarrow>
     0 < length value \<and> length value \<le> maximumIdentityBytes
     \<and> \<not> list_ex (\<lambda>c. c \<in> {CHR 0x00, CHR 0x0D, CHR 0x0A}) value"

definition validActor :: "Actor \<Rightarrow> bool" where
  "validActor a \<longleftrightarrow> ParseTenantID (ac_tenantID a) \<noteq> None \<and> ParsePrincipalID (ac_principalID a) \<noteq> None"

definition validScope :: "Scope \<Rightarrow> bool" where
  "validScope s \<longleftrightarrow>
     policy_validDigest (sp_capabilityDigest s) \<and> 0 < sp_maximumUses s \<and> sp_maximumUses s \<le> maximumScopeUses
     \<and> policy_validUTC (sp_expiresAt s)"

definition validSummary :: "Summary \<Rightarrow> bool" where
  "validSummary s \<longleftrightarrow>
     sm_verb s \<in> {SummaryExecute, SummaryRestart, SummaryWrite, SummaryDelete}
     \<and> sm_target s \<in> {SummaryWorkspaceService, SummarySandboxProcess, SummaryArtifact, SummaryNetworkRequest}"

definition validApprovalID :: "string \<Rightarrow> bool" where
  "validApprovalID value \<longleftrightarrow> ParseID value \<noteq> None"

definition validIntent :: "Intent \<Rightarrow> bool" where
  "validIntent i \<longleftrightarrow>
     \<not> (\<not> validActor (nt_owner i) \<or> \<not> validToolName (nt_toolName i) \<or> \<not> policy_validDigest (nt_actionDigest i)
        \<or> \<not> policy_validDigest (nt_policyRevisionDigest i))
     \<and> approval_ParseSessionID (nt_sessionID i) \<noteq> None \<and> approval_ParseTurnID (nt_turnID i) \<noteq> None
     \<and> ParseToolCallID (nt_toolCallID i) \<noteq> None"

definition validProjection :: "Projection \<Rightarrow> gtime \<Rightarrow> bool" where
  "validProjection p now \<longleftrightarrow>
     boundedIdentity (pj_tenantID p) \<and> validToolName (pj_toolName p) \<and> policy_validDigest (pj_actionDigest p)
     \<and> policy_validDigest (pj_policyRevisionDigest p) \<and> validSummary (pj_summary p) \<and> validScope (pj_proposedScope p)
     \<and> policy_validUTC (pj_expiresAt p) \<and> After (pj_expiresAt p) now
     \<and> \<not> After (pj_expiresAt p) (add_duration now policy_maximumApprovalWindow)
     \<and> After (sp_expiresAt (pj_proposedScope p)) now \<and> \<not> After (sp_expiresAt (pj_proposedScope p)) (pj_expiresAt p)"

definition policy_matches :: "Intent \<Rightarrow> Projection \<Rightarrow> bool" where
  "policy_matches i p \<longleftrightarrow>
     ac_tenantID (nt_owner i) = pj_tenantID p \<and> nt_toolName i = pj_toolName p
     \<and> nt_actionDigest i = pj_actionDigest p \<and> nt_policyRevisionDigest i = pj_policyRevisionDigest p"

section \<open>Evaluation\<close>

definition denied :: Disposition where
  "denied = \<lparr>ds_outcome = OutcomeDenied, ds_approval = zero_Approval\<rparr>"

definition proposal_of :: "Intent \<Rightarrow> Projection \<Rightarrow> string \<Rightarrow> gtime \<Rightarrow> Proposal" where
  "proposal_of i p approvalID now =
     \<lparr>pp_id = approvalID, pp_owner = nt_owner i, pp_sessionID = nt_sessionID i, pp_turnID = nt_turnID i,
      pp_toolCallID = nt_toolCallID i, pp_actionDigest = nt_actionDigest i,
      pp_policyRevisionDigest = nt_policyRevisionDigest i, pp_summary = pj_summary p,
      pp_proposedScope = pj_proposedScope p, pp_createdAt = now, pp_expiresAt = pj_expiresAt p\<rparr>"

definition Evaluate :: "Intent \<Rightarrow> Projection \<Rightarrow> string \<Rightarrow> gtime \<Rightarrow> Disposition" where
  "Evaluate i p approvalID now =
     (if \<not> policy_validUTC now \<or> \<not> validIntent i \<or> \<not> validProjection p now \<or> \<not> policy_matches i p
         \<or> \<not> validApprovalID approvalID
      then denied
      else case New (proposal_of i p approvalID now) of
        (request, None) \<Rightarrow> \<lparr>ds_outcome = OutcomeRequiresApproval, ds_approval = request\<rparr>
      | (_, Some _) \<Rightarrow> denied)"

definition Approval_of :: "Disposition \<Rightarrow> Approval \<times> bool" where
  "Approval_of d = (if ds_outcome d \<noteq> OutcomeRequiresApproval then (zero_Approval, False) else (ds_approval d, True))"

section \<open>The two packages agree\<close>

lemmas parse_approval_defs = ParseID_def ParseToolCallID_def approval_ParseSessionID_def approval_ParseTurnID_def
  ParseTenantID_def ParsePrincipalID_def

lemma policy_checks [simp]:
  "policy_validDigest = approval_validDigest" "policy_validUTC = validUTC"
  "validScope = scope_valid" "validSummary = summary_valid" "validActor = actor_valid"
  "validApprovalID value \<longleftrightarrow> validID value ''appr_''"
  by (auto simp: fun_eq_iff policy_validDigest_def approval_validDigest_def policy_validUTC_def validUTC_def validScope_def
    scope_valid_def maxScopeUses_def maximumScopeUses_def validSummary_def summary_valid_def validActor_def
    actor_valid_def validApprovalID_def parse_approval_defs)

lemma checked_proposal_valid:
  assumes "policy_validUTC now" and "validIntent i" and "validProjection p now" and "validApprovalID a"
  shows "validateProposal (proposal_of i p a now)"
  using assms unfolding validateProposal_def validIntent_def validProjection_def proposal_of_def
  by (simp add: parse_approval_defs policy_maximumApprovalWindow_def maximumApprovalWindow_def split: if_splits)

end
