(* ===== verification/Approval_Properties.thy ===== *)
theory Approval_Properties
  imports Tool_Policy
begin

text \<open>
  What the approval state machine and the policy evaluation in front of it guarantee, with one example
  intent, projection and decision on which the statements are instantiated.
\<close>

section \<open>Example\<close>

definition example_digest :: "char \<Rightarrow> string" where
  "example_digest c = ''sha256:'' @ replicate 64 c"

definition example_actor :: Actor where
  "example_actor = \<lparr>ac_tenantID = ''ten_AAAABBBBCCCCDDDD'', ac_principalID = ''prn_1111222233334444'', ac_admin = False\<rparr>"

definition example_policy_scope :: Scope where
  "example_policy_scope = \<lparr>sp_capabilityDigest = example_digest (CHR ''3''), sp_maximumUses = 2, sp_expiresAt = GTime 5000 True\<rparr>"

definition example_tool_intent :: Intent where
  "example_tool_intent = \<lparr>nt_owner = example_actor, nt_sessionID = ''sess_AAAABBBBCCCCDDDD'',
     nt_turnID = ''turn_AAAABBBBCCCCDDDD'', nt_toolCallID = ''tcall_AAAABBBBCCCCDDDD'', nt_toolName = ''shell'',
     nt_actionDigest = example_digest (CHR ''1''), nt_policyRevisionDigest = example_digest (CHR ''2'')\<rparr>"

definition example_projection :: Projection where
  "example_projection = \<lparr>pj_tenantID = ''ten_AAAABBBBCCCCDDDD'', pj_toolName = ''shell'',
     pj_actionDigest = example_digest (CHR ''1''), pj_policyRevisionDigest = example_digest (CHR ''2''),
     pj_summary = \<lparr>sm_verb = SummaryRestart, sm_target = SummaryWorkspaceService\<rparr>,
     pj_proposedScope = example_policy_scope, pj_expiresAt = GTime 5000 True\<rparr>"

definition example_proposal :: Proposal where
  "example_proposal = proposal_of example_tool_intent example_projection ''appr_AAAABBBBCCCCDDDD'' (GTime 1000 True)"

definition example_approval :: Approval where
  "example_approval = zero_Approval\<lparr>av_proposal := example_proposal, av_state := StatePending\<rparr>"

definition example_verdict :: DecisionCommand where
  "example_verdict = \<lparr>dc_idempotencyKey = ''approve-1'', dc_decision = DecisionApproved,
     dc_grantedScope = example_policy_scope\<lparr>sp_maximumUses := 1\<rparr>\<rparr>"

lemma valid_example_digest: "approval_validDigest (example_digest c)" if "c \<in> set ''0123456789abcdef''"
proof -
  have "ascii_lower c = c" "(48 \<le> byte c \<and> byte c \<le> 57) \<or> (97 \<le> byte c \<and> byte c \<le> 102)"
    using that by (auto simp: ascii_lower_def)
  then show ?thesis
    by (simp add: approval_validDigest_def example_digest_def trimPrefix_def list_all_iff map_replicate_const ascii_lower_def)
qed

lemma example_policy_checks:
  "validIntent example_tool_intent" "validProjection example_projection (GTime 1000 True)"
  "policy_matches example_tool_intent example_projection" "validApprovalID ''appr_AAAABBBBCCCCDDDD''"
  "policy_validUTC (GTime 1000 True)"
  by (simp_all add: validIntent_def validProjection_def policy_matches_def example_tool_intent_def example_projection_def
    example_policy_scope_def example_actor_def actor_valid_def scope_valid_def summary_valid_def maxScopeUses_def validUTC_def
    IsZero_def After_def add_duration_def hour_def policy_maximumApprovalWindow_def parse_approval_defs validID_def
    trimPrefix_def asciiAlphaNumeric_def validToolName_def maximumToolNameBytes_def boundedIdentity_def maximumIdentityBytes_def
    valid_example_digest)

lemma example_new: "New example_proposal = (example_approval, None)"
  using checked_proposal_valid [OF example_policy_checks(5,1,2,4)]
  by (simp add: New_def example_approval_def example_proposal_def)

lemma example_authorized: "authorized example_approval example_actor"
  using example_policy_checks(1)
  by (simp add: authorized_def validIntent_def example_approval_def example_proposal_def proposal_of_def example_tool_intent_def)

lemma example_now: "validateNow example_approval (GTime t True) \<longleftrightarrow> 1000 \<le> t"
  by (auto simp: validateNow_def validUTC_def IsZero_def Before_def example_approval_def example_proposal_def proposal_of_def)

lemma example_fields:
  "av_state example_approval = StatePending" "\<not> av_hasDecision example_approval"
  "av_proposal example_approval = example_proposal" "pp_expiresAt example_proposal = GTime 5000 True"
  "pp_proposedScope example_proposal = example_policy_scope"
  by (simp_all add: example_approval_def zero_Approval_def example_proposal_def proposal_of_def example_projection_def)

lemma example_verdict_valid: "validateDecisionCommand example_verdict"
  by (simp add: validateDecisionCommand_def validIdempotencyKey_def maxIdentityBytes_def utf8_valid_def utf8_runes_ascii
    example_verdict_def del: utf8_runes.simps)

lemma example_verdict_scope:
  "dc_decision example_verdict = DecisionApproved" "narrowerThan (dc_grantedScope example_verdict) example_policy_scope"
  "sp_expiresAt (dc_grantedScope example_verdict) = GTime 5000 True"
  by (simp_all add: example_verdict_def narrowerThan_def scope_valid_def maxScopeUses_def validUTC_def IsZero_def After_def
    example_policy_scope_def valid_example_digest)

section \<open>Properties\<close>

text \<open>C12: whatever is done to an approval, its proposal never changes, it is approved exactly when an approving
  decision is recorded, and the scope that decision grants never exceeds the proposal: the same capability,
  at least one use and no more than proposed, an expiry no later than the proposal's. Once it is decided, expired,
  cancelled or invalidated nothing changes it again.\<close>

theorem approval_run_safe:
  assumes "New p = (v, None)" and "approval_step\<^sup>*\<^sup>* v w"
  shows "av_proposal w = p
    \<and> (av_state w = StateApproved \<longleftrightarrow> (\<exists>s. Decision_of w = Some (DecisionApproved, s)))
    \<and> (\<forall>s. Decision_of w = Some (DecisionApproved, s) \<longrightarrow>
        sp_capabilityDigest s = sp_capabilityDigest (pp_proposedScope p)
        \<and> 0 < sp_maximumUses s \<and> sp_maximumUses s \<le> sp_maximumUses (pp_proposedScope p)
        \<and> \<not> After (sp_expiresAt s) (sp_expiresAt (pp_proposedScope p)) \<and> \<not> After (sp_expiresAt s) (pp_expiresAt p))
    \<and> (av_state w \<noteq> StatePending \<longrightarrow> (\<forall>u. approval_step\<^sup>*\<^sup>* w u \<longrightarrow> u = w))"
proof -
  from run_decision_ok [OF assms(2)] New_decision_ok [OF assms(1)]
  have ok: "decision_ok w" and p: "av_proposal w = p" by auto
  from ok have "av_state w = StateApproved \<longleftrightarrow> (\<exists>s. Decision_of w = Some (DecisionApproved, s))"
    by (auto simp: decision_ok_def Decision_of_def split: State.splits)
  moreover from ok have "approval_granted w" if "Decision_of w = Some (DecisionApproved, s)" for s
    using that by (auto simp: decision_ok_def Decision_of_def split: State.splits if_splits)
  ultimately show ?thesis using p run_final [of w]
    by (auto simp: approval_granted_def Decision_of_def narrowerThan_def scope_valid_def Let_def split: if_splits)
qed

theorem approval_run_safe_witness:
  "av_state (fst (Decide example_approval example_actor example_verdict (GTime 2000 True))) = StateApproved
   \<and> sp_maximumUses (dr_grantedScope (av_decision (fst (Decide example_approval example_actor example_verdict (GTime 2000 True)))))
     \<le> sp_maximumUses (pp_proposedScope example_proposal)"
proof -
  let ?w = "fst (Decide example_approval example_actor example_verdict (GTime 2000 True))"
  have d: "Decide example_approval example_actor example_verdict (GTime 2000 True) = (?w, None)" "av_state ?w = StateApproved"
    "Decision_of ?w = Some (DecisionApproved, dr_grantedScope (av_decision ?w))"
    using example_authorized example_verdict_valid example_verdict_scope
    by (simp_all add: Decide_def example_now example_fields Decision_of_def After_def Before_def)
  then have "approval_step\<^sup>*\<^sup>* example_approval ?w" by (meson approval_step.decide r_into_rtranclp)
  from approval_run_safe [OF example_new this] d show ?thesis by simp
qed

text \<open>C36: the deadline closes an approval for good. Once the deadline of a pending approval has come, a valid decision,
  a cancellation and an invalidation all return \<^verbatim>\<open>ErrExpired\<close> with the expired snapshot, inspecting and expiring return
  that snapshot, it records no decision, and no sequence of operations changes it again.\<close>

theorem deadline_closes:
  assumes "av_state v = StatePending" "\<not> av_hasDecision v" and "authorized v actor" and "validateNow v now"
    and "\<not> Before now (pp_expiresAt (av_proposal v))" and "validateDecisionCommand c"
  defines "w \<equiv> v\<lparr>av_state := StateExpired, av_terminalAt := now\<rparr>"
  shows "Decide v actor c now = (w, Some ErrExpired) \<and> Cancel v now = (w, Some ErrExpired) \<and> Invalidate v now = (w, Some ErrExpired)
    \<and> Inspect v actor now = (w, None) \<and> Expire v now = (w, None) \<and> Decision_of w = None
    \<and> (approval_step\<^sup>*\<^sup>* w u \<longrightarrow> u = w)"
proof -
  have "u = w" if "approval_step\<^sup>*\<^sup>* w u"
    using that by (induction rule: rtranclp_induct) (auto dest: step_final simp: w_def)
  with assms show ?thesis by (simp add: operation_defs Decision_of_def)
qed

theorem deadline_closes_witness:
  "snd (Decide example_approval example_actor example_verdict (GTime 5000 True)) = Some ErrExpired
   \<and> av_state (fst (Decide example_approval example_actor example_verdict (GTime 5000 True))) = StateExpired"
proof -
  have "\<not> Before (GTime 5000 True) (pp_expiresAt (av_proposal example_approval))" by (simp add: Before_def example_fields)
  from deadline_closes [OF example_fields(1,2) example_authorized _ this example_verdict_valid] show ?thesis by (simp add: example_now)
qed

text \<open>A departure from the comment of \<^verbatim>\<open>Inspect\<close>, which promises a fresh snapshot: inspecting expires. Whenever its owner or a tenant administrator inspects a pending approval, at any valid time,
  also before the deadline, the snapshot they get is expired as of that time; and whoever keeps the snapshot can no
  longer decide, because every valid decision on it is refused as a conflict.\<close>

theorem inspect_expires_pending:
  assumes "av_state v = StatePending" "\<not> av_hasDecision v" and "authorized v actor" and "validateNow v now"
  shows "Inspect v actor now = (v\<lparr>av_state := StateExpired, av_terminalAt := now\<rparr>, None)
    \<and> (\<forall>c later. validateDecisionCommand c \<and> validateNow v later \<longrightarrow>
        Decide (fst (Inspect v actor now)) actor c later = (zero_Approval, Some ErrConflict))"
  using assms by (simp add: Inspect_def Expire_def expire_def Decide_def decision_matches_def validateNow_def)

theorem inspect_expires_pending_witness:
  "av_state (fst (Inspect example_approval example_actor (GTime 1000 True))) = StateExpired
   \<and> Before (GTime 1000 True) (pp_expiresAt (av_proposal example_approval))"
proof -
  from inspect_expires_pending [OF example_fields(1,2) example_authorized, of "GTime 1000 True"]
  have "av_state (fst (Inspect example_approval example_actor (GTime 1000 True))) = StateExpired"
    by (simp add: example_now)
  then show ?thesis by (simp add: Before_def example_fields)
qed

text \<open>C30: the policy evaluation requires an approval exactly when the time, intent, projection and approval identifier
  are valid and the projection is for the intent's tenant, tool, action and policy revision; construction of the approval
  never fails after these checks. The approval is then pending, owned by the intent's owner, and proposes exactly
  the projection's scope and expiry; in every other case no approval is handed out.\<close>

theorem evaluate_exact:
  "Approval_of (Evaluate i p a now) =
     (if validUTC now \<and> validIntent i \<and> validProjection p now \<and> policy_matches i p \<and> validID a ''appr_''
      then (zero_Approval\<lparr>av_proposal := proposal_of i p a now, av_state := StatePending\<rparr>, True)
      else (zero_Approval, False))"
  using checked_proposal_valid [of now i p a]
  by (auto simp: Evaluate_def Approval_of_def denied_def New_def)

end
