(* ===== verification/Go_Json_Raw.thy ===== *)
theory Go_Json_Raw
  imports Go_Json
begin

text \<open>
  How \<^verbatim>\<open>encoding/json\<close> writes a \<^verbatim>\<open>json.RawMessage\<close>: the bytes are checked by the package's scanner, white space outside
  strings is dropped and the HTML characters are escaped. The scanner is a state machine over
  bytes with a stack that says inside which composite values it is, and a bound on the nesting. Also the text of an
  object or array whose members may fail to encode. None of it is code of the repository.
\<close>

section \<open>The scanner\<close>

datatype parse_state = parseObjectKey | parseObjectValue | parseArrayValue

datatype scan_state =
    BeginValue | BeginValueOrEmpty | BeginString | BeginStringOrEmpty | EndValue | EndTop
  | InString | InStringEsc | InStringHex nat
  | Neg | Digits | Zero | Dot | Fraction | Exponent | ExponentSign | ExponentDigits
  | Literal string

definition maxNestingDepth :: nat where "maxNestingDepth = 10000"

definition json_space :: "char \<Rightarrow> bool" where
  "json_space c \<longleftrightarrow> byte c = 32 \<or> byte c = 9 \<or> byte c = 13 \<or> byte c = 10"

definition json_digit :: "char \<Rightarrow> bool" where
  "json_digit c \<longleftrightarrow> 48 \<le> byte c \<and> byte c \<le> 57"

definition json_hex :: "char \<Rightarrow> bool" where
  "json_hex c \<longleftrightarrow> json_digit c \<or> (97 \<le> byte c \<and> byte c \<le> 102) \<or> (65 \<le> byte c \<and> byte c \<le> 70)"

text \<open>A step gives the next state, the stack and whether the byte is kept; \<open>None\<close> is a syntax error.\<close>

type_synonym scan_result = "(scan_state \<times> parse_state list \<times> bool) option"

definition push_parse :: "scan_state \<Rightarrow> parse_state \<Rightarrow> parse_state list \<Rightarrow> scan_result" where
  "push_parse st p ps = (if maxNestingDepth < Suc (length ps) then None else Some (st, p # ps, True))"

definition pop_parse :: "parse_state list \<Rightarrow> scan_result" where
  "pop_parse ps = Some (if tl ps = [] then EndTop else EndValue, tl ps, True)"

definition end_value :: "char \<Rightarrow> parse_state list \<Rightarrow> scan_result" where
  "end_value c ps =
     (case ps of
        [] \<Rightarrow> if json_space c then Some (EndTop, ps, False) else None
      | p # qs \<Rightarrow>
          if json_space c then Some (EndValue, ps, False)
          else case p of
            parseObjectKey \<Rightarrow> if c = CHR '':'' then Some (BeginValue, parseObjectValue # qs, True) else None
          | parseObjectValue \<Rightarrow>
              if c = CHR '','' then Some (BeginString, parseObjectKey # qs, True)
              else if c = CHR ''}'' then pop_parse ps else None
          | parseArrayValue \<Rightarrow>
              if c = CHR '','' then Some (BeginValue, ps, True)
              else if c = CHR '']'' then pop_parse ps else None)"

definition begin_value :: "char \<Rightarrow> parse_state list \<Rightarrow> scan_result" where
  "begin_value c ps =
     (if json_space c then Some (BeginValue, ps, False)
      else if c = CHR ''{'' then push_parse BeginStringOrEmpty parseObjectKey ps
      else if c = CHR ''['' then push_parse BeginValueOrEmpty parseArrayValue ps
      else if byte c = 34 then Some (InString, ps, True)
      else if c = CHR ''-'' then Some (Neg, ps, True)
      else if c = CHR ''0'' then Some (Zero, ps, True)
      else if c = CHR ''t'' then Some (Literal ''rue'', ps, True)
      else if c = CHR ''f'' then Some (Literal ''alse'', ps, True)
      else if c = CHR ''n'' then Some (Literal ''ull'', ps, True)
      else if json_digit c then Some (Digits, ps, True)
      else None)"

definition begin_string :: "char \<Rightarrow> parse_state list \<Rightarrow> scan_result" where
  "begin_string c ps =
     (if json_space c then Some (BeginString, ps, False)
      else if byte c = 34 then Some (InString, ps, True) else None)"

definition after_integer :: "char \<Rightarrow> parse_state list \<Rightarrow> scan_result" where
  "after_integer c ps =
     (if c = CHR ''.'' then Some (Dot, ps, True)
      else if c = CHR ''e'' \<or> c = CHR ''E'' then Some (Exponent, ps, True)
      else end_value c ps)"

fun scan_step :: "scan_state \<Rightarrow> parse_state list \<Rightarrow> char \<Rightarrow> scan_result" where
  "scan_step BeginValue ps c = begin_value c ps"
| "scan_step BeginValueOrEmpty ps c =
     (if json_space c then Some (BeginValueOrEmpty, ps, False)
      else if c = CHR '']'' then end_value c ps else begin_value c ps)"
| "scan_step BeginString ps c = begin_string c ps"
| "scan_step BeginStringOrEmpty ps c =
     (if json_space c then Some (BeginStringOrEmpty, ps, False)
      else if c = CHR ''}'' then end_value c (parseObjectValue # tl ps) else begin_string c ps)"
| "scan_step EndValue ps c = end_value c ps"
| "scan_step EndTop ps c = (if json_space c then Some (EndTop, ps, False) else None)"
| "scan_step InString ps c =
     (if byte c = 34 then Some (EndValue, ps, True)
      else if byte c = 92 then Some (InStringEsc, ps, True)
      else if byte c < 32 then None else Some (InString, ps, True))"
| "scan_step InStringEsc ps c =
     (if c \<in> set ''bfnrt/'' \<or> byte c = 92 \<or> byte c = 34 then Some (InString, ps, True)
      else if c = CHR ''u'' then Some (InStringHex 0, ps, True) else None)"
| "scan_step (InStringHex n) ps c =
     (if json_hex c then Some (if n = 3 then InString else InStringHex (Suc n), ps, True) else None)"
| "scan_step Neg ps c =
     (if c = CHR ''0'' then Some (Zero, ps, True) else if json_digit c then Some (Digits, ps, True) else None)"
| "scan_step Digits ps c = (if json_digit c then Some (Digits, ps, True) else after_integer c ps)"
| "scan_step Zero ps c = after_integer c ps"
| "scan_step Dot ps c = (if json_digit c then Some (Fraction, ps, True) else None)"
| "scan_step Fraction ps c =
     (if json_digit c then Some (Fraction, ps, True)
      else if c = CHR ''e'' \<or> c = CHR ''E'' then Some (Exponent, ps, True) else end_value c ps)"
| "scan_step Exponent ps c =
     (if c = CHR ''+'' \<or> c = CHR ''-'' then Some (ExponentSign, ps, True)
      else if json_digit c then Some (ExponentDigits, ps, True) else None)"
| "scan_step ExponentSign ps c = (if json_digit c then Some (ExponentDigits, ps, True) else None)"
| "scan_step ExponentDigits ps c = (if json_digit c then Some (ExponentDigits, ps, True) else end_value c ps)"
| "scan_step (Literal rest) ps c =
     (case rest of
        [] \<Rightarrow> end_value c ps
      | d # ds \<Rightarrow> if c = d then Some (if ds = [] then EndValue else Literal ds, ps, True) else None)"

text \<open>At the end of the input the value is complete, or a space completes it.\<close>

definition scan_eof :: "scan_state \<Rightarrow> parse_state list \<Rightarrow> bool" where
  "scan_eof st ps \<longleftrightarrow> (case scan_step st ps (CHR '' '') of Some (EndTop, _) \<Rightarrow> True | _ \<Rightarrow> False)"

section \<open>Compaction\<close>

text \<open>\<open>hidden\<close> counts the bytes of an escaped line separator that are scanned but not written again.\<close>

definition escaped_byte :: "char \<Rightarrow> string" where
  "escaped_byte c =
     (if c = CHR ''<'' \<or> c = CHR ''>'' \<or> c = CHR ''&''
      then CHR 0x5C # ''u00'' @ [hex_digit (byte c div 16), hex_digit (byte c mod 16)] else [c])"

fun compact_loop :: "scan_state \<Rightarrow> parse_state list \<Rightarrow> nat \<Rightarrow> string \<Rightarrow> string option" where
  "compact_loop st ps hidden [] = (if scan_eof st ps then Some [] else None)"
| "compact_loop st ps hidden (c # cs) =
     (case scan_step st ps c of
        None \<Rightarrow> None
      | Some (st', ps', kept) \<Rightarrow>
          if byte c = 226 \<and> (case cs of a # b # _ \<Rightarrow> byte a = 128 \<and> (byte b = 168 \<or> byte b = 169) | _ \<Rightarrow> False)
          then map_option (\<lambda>out. (CHR 0x5C # ''u202'') @ hex_digit (byte (cs ! 1) mod 16) # out) (compact_loop st' ps' 2 cs)
          else if 0 < hidden then compact_loop st' ps' (hidden - 1) cs
          else map_option (\<lambda>out. (if kept then escaped_byte c else []) @ out) (compact_loop st' ps' 0 cs))"

definition compact :: "string \<Rightarrow> string option" where
  "compact raw = compact_loop BeginValue [] 0 raw"

section \<open>Encodings that may fail\<close>

fun all_some :: "'a option list \<Rightarrow> 'a list option" where
  "all_some [] = Some []"
| "all_some (x # xs) = (case x of None \<Rightarrow> None | Some y \<Rightarrow> map_option (Cons y) (all_some xs))"

definition text_array :: "string option list \<Rightarrow> string option" where
  "text_array xs = map_option (\<lambda>ts. CHR ''['' # commas ts @ '']'') (all_some xs)"

definition text_object :: "(string \<times> string option) list \<Rightarrow> string option" where
  "text_object fs =
     map_option (\<lambda>ts. CHR ''{'' # commas ts @ ''}'') (all_some (map (\<lambda>(k, v). map_option (\<lambda>t. json_string k @ CHR '':'' # t) v) fs))"

definition text_string :: "string \<Rightarrow> string option" where
  "text_string s = Some (json_string s)"


end
