(* ===== verification/Kernel_State.thy ===== *)
theory Kernel_State
  imports Sdk_Json Go_Json_Raw Go_Rfc3339
begin

text \<open>
  The data of the agent kernel: the public types of \<^verbatim>\<open>sdk/go/types.go\<close> it exchanges, its tenant aggregate
  (\<^verbatim>\<open>internal/runtime/kernel/state.go\<close>), the checks on requests and the request digests of
  \<^verbatim>\<open>kernel.go\<close>. The maps of the aggregate are finite maps; the Sessions, over which the kernel iterates in the order of their
  identifiers, are an association list. The set of trimmed cursors is a list without repetition. A time that
  is encoded is taken to be in UTC.
\<close>

section \<open>Public types\<close>

record ToolDefinition =
  td_name :: string
  td_description :: string
  td_inputSchemaVersion :: string
  td_inputSchema :: string

record CreateAgentRequest =
  qa_idempotencyKey :: string
  qa_name :: string
  qa_modelProfile :: string
  qa_instructions :: string
  qa_tools :: "ToolDefinition list"

record ReviseAgentRequest =
  qr_agentID :: AgentID
  qr_idempotencyKey :: string
  qr_modelProfile :: string
  qr_instructions :: string
  qr_tools :: "ToolDefinition list"

record AgentSpecification =
  as_id :: AgentID
  as_revisionID :: AgentRevisionID
  as_revision :: nat
  as_name :: string
  as_modelProfile :: string
  as_instructions :: string
  as_tools :: "ToolDefinition list"
  as_createdAt :: gtime

record CreateSessionRequest =
  qs_idempotencyKey :: string
  qs_agentRevision :: AgentRevisionID

record Session =
  se_id :: SessionID
  se_agentID :: AgentID
  se_agentRevision :: AgentRevisionID
  se_state :: SessionState
  se_createdAt :: gtime
  se_updatedAt :: gtime

datatype ContentPartKind = ContentText | ContentArtifact | OtherContent string

record ArtifactReference =
  rf_id :: ArtifactID
  rf_mediaType :: string
  rf_sizeBytes :: int
  rf_sha256 :: string

record ContentPart =
  cp_kind :: ContentPartKind
  cp_text :: string
  cp_artifact :: "ArtifactReference option"

record SendInputRequest =
  qi_sessionID :: SessionID
  qi_idempotencyKey :: string
  qi_parts :: "ContentPart list"

record Input =
  ip_id :: InputID
  ip_parts :: "ContentPart list"
  ip_acceptedAt :: gtime

record Turn =
  tn_id :: TurnID
  tn_inputID :: InputID
  tn_position :: nat
  tn_state :: TurnState
  tn_startedAt :: "gtime option"
  tn_completedAt :: "gtime option"
  tn_failure :: "Failure option"
  tn_usage :: "(nat option \<times> nat option) option"
  tn_output :: "ArtifactReference option"

record SendInputResult =
  sr_input :: Input
  sr_turn :: Turn

record Event =
  et_id :: EventID
  et_cursor :: Cursor
  et_sequence :: nat
  et_kind :: EventKind
  et_sessionID :: SessionID
  et_inputID :: InputID
  et_turnID :: TurnID
  et_occurredAt :: gtime

record PublicEventPage =
  pg_events :: "Event list"
  pg_nextCursor :: Cursor
  pg_gap :: "EventGap option"

record PublicSessionView =
  vw_session :: Session
  vw_activeTurn :: "Turn option"
  vw_queuedTurns :: "Turn list"
  vw_queuedTurnCount :: nat
  vw_queuedTurnsTruncated :: bool
  vw_recentEvents :: "Event list"

record CancelTurnRequest =
  qt_sessionID :: SessionID
  qt_turnID :: TurnID
  qt_idempotencyKey :: string

record CloseSessionRequest =
  qc_sessionID :: SessionID
  qc_idempotencyKey :: string

record CancelSessionRequest =
  qx_sessionID :: SessionID
  qx_idempotencyKey :: string

section \<open>The tenant aggregate\<close>

record idempotencyRecord =
  kr_command :: string
  kr_digest :: string
  kr_agent :: AgentID
  kr_revision :: AgentRevisionID
  kr_session :: SessionID
  kr_input :: InputID
  kr_turn :: TurnID

record agentRecord =
  kg_id :: AgentID
  kg_revisions :: "AgentSpecification list"

record sessionRecord =
  ks_session :: Session
  ks_inputs :: "InputID \<rightharpoonup> Input"
  ks_turns :: "Turn list"
  ks_events :: "Event list"
  ks_trimmed :: "Cursor list"

record TenantState =
  ts_agents :: "AgentID \<rightharpoonup> agentRecord"
  ts_revisions :: "AgentRevisionID \<rightharpoonup> AgentSpecification"
  ts_sessions :: "(SessionID \<times> sessionRecord) list"
  ts_idempotency :: "string \<rightharpoonup> idempotencyRecord"

definition newTenantState :: TenantState where
  "newTenantState = \<lparr>ts_agents = Map.empty, ts_revisions = Map.empty, ts_sessions = [], ts_idempotency = Map.empty\<rparr>"

text \<open>The zero values a missing key reads as.\<close>

definition zero_AgentSpecification :: AgentSpecification where
  "zero_AgentSpecification = \<lparr>as_id = [], as_revisionID = [], as_revision = 0, as_name = [], as_modelProfile = [],
     as_instructions = [], as_tools = [], as_createdAt = zero_time\<rparr>"
definition zero_Session :: Session where
  "zero_Session = \<lparr>se_id = [], se_agentID = [], se_agentRevision = [], se_state = SessionUnset, se_createdAt = zero_time,
     se_updatedAt = zero_time\<rparr>"
definition zero_sessionRecord :: sessionRecord where
  "zero_sessionRecord = \<lparr>ks_session = zero_Session, ks_inputs = Map.empty, ks_turns = [], ks_events = [], ks_trimmed = []\<rparr>"
definition zero_Input :: Input where
  "zero_Input = \<lparr>ip_id = [], ip_parts = [], ip_acceptedAt = zero_time\<rparr>"
definition zero_idempotencyRecord :: idempotencyRecord where
  "zero_idempotencyRecord = \<lparr>kr_command = [], kr_digest = [], kr_agent = [], kr_revision = [], kr_session = [],
     kr_input = [], kr_turn = []\<rparr>"

section \<open>Checks\<close>

definition maxNameBytes :: nat where "maxNameBytes = 128"
definition maxInstructionsBytes :: nat where "maxInstructionsBytes = 256 * 1024"
definition maxTools :: nat where "maxTools = 64"
definition maxEventPage :: int where "maxEventPage = 1000"
definition MaxIdempotencyKeyBytes :: nat where "MaxIdempotencyKeyBytes = 128"
definition MaxInputParts :: nat where "MaxInputParts = 32"
definition MaxTextPartBytes :: nat where "MaxTextPartBytes = 64 * 1024"
definition MaxSessionViewQueuedTurns :: nat where "MaxSessionViewQueuedTurns = 100"

text \<open>The loops over runes accept ASCII only, so they are checks by bytes.\<close>

definition scopeCharacter :: "char \<Rightarrow> bool" where
  "scopeCharacter c \<longleftrightarrow> asciiAlphaNumeric c \<or> c = CHR ''-'' \<or> c = CHR ''_''"

definition ParseScope :: "string \<Rightarrow> string option" where
  "ParseScope value =
     (if length value = 0 \<or> 128 < length value then None
      else if \<not> list_all scopeCharacter value then None else Some value)"

definition nameCharacter :: "char \<Rightarrow> bool" where
  "nameCharacter c \<longleftrightarrow> asciiAlphaNumeric c \<or> c = CHR ''-'' \<or> c = CHR ''_'' \<or> c = CHR ''.''"

definition safeName :: "string \<Rightarrow> bool" where
  "safeName value \<longleftrightarrow> \<not> (length value = 0 \<or> maxNameBytes < length value) \<and> list_all nameCharacter value"

definition validateIdempotencyKey :: "string \<Rightarrow> bool" where
  "validateIdempotencyKey key \<longleftrightarrow>
     \<not> (length key = 0 \<or> MaxIdempotencyKeyBytes < length key)
     \<and> list_all (\<lambda>c. 33 \<le> byte c \<and> byte c \<le> 126) key"

definition validateFailure :: "Failure option \<Rightarrow> bool" where
  "validateFailure failure \<longleftrightarrow>
     (case failure of
        None \<Rightarrow> True
      | Some f \<Rightarrow>
          \<not> (fl_code f = [] \<or> length (fl_message f) = 0 \<or> 1024 < length (fl_message f) \<or> \<not> utf8_valid (fl_message f)
             \<or> 16 < length (fl_details f))
          \<and> list_all (\<lambda>(k, v). safeName k \<and> length v \<le> 1024 \<and> utf8_valid v) (fl_details f))"

definition sha256Pattern :: "string \<Rightarrow> bool" where
  "sha256Pattern s \<longleftrightarrow>
     length s = 64 \<and> list_all (\<lambda>c. (48 \<le> byte c \<and> byte c \<le> 57) \<or> (97 \<le> byte c \<and> byte c \<le> 102)) s"

definition valid_part :: "ContentPart \<Rightarrow> bool" where
  "valid_part p \<longleftrightarrow>
     (case cp_kind p of
        ContentText \<Rightarrow>
          \<not> (cp_text p = [] \<or> MaxTextPartBytes < length (cp_text p) \<or> \<not> utf8_valid (cp_text p) \<or> cp_artifact p \<noteq> None)
      | ContentArtifact \<Rightarrow>
          cp_text p = [] \<and>
          (case cp_artifact p of
             None \<Rightarrow> False
           | Some a \<Rightarrow>
               \<not> (rf_sizeBytes a < 0 \<or> rf_mediaType a = [] \<or> 255 < length (rf_mediaType a) \<or> \<not> sha256Pattern (rf_sha256 a))
               \<and> ParseArtifactID (rf_id a) \<noteq> None)
      | OtherContent _ \<Rightarrow> False)"

definition validateInput :: "SendInputRequest \<Rightarrow> bool" where
  "validateInput q \<longleftrightarrow>
     ParseSessionID (qi_sessionID q) \<noteq> None
     \<and> \<not> (length (qi_parts q) = 0 \<or> MaxInputParts < length (qi_parts q)) \<and> list_all valid_part (qi_parts q)"

section \<open>Request digests\<close>

definition text_tool :: "ToolDefinition \<Rightarrow> string option" where
  "text_tool t =
     text_object ([(''name'', text_string (td_name t)), (''description'', text_string (td_description t))]
       @ (if td_inputSchemaVersion t = [] then [] else [(''input_schema_version'', text_string (td_inputSchemaVersion t))])
       @ (if td_inputSchema t = [] then [] else [(''input_schema'', compact (td_inputSchema t))]))"

definition text_specification :: "AgentSpecification \<Rightarrow> string option" where
  "text_specification s =
     text_object ([(''id'', marshalID (as_id s) agentPrefix), (''revision_id'', marshalID (as_revisionID s) agentRevisionPrefix),
        (''revision'', Some (itoa (as_revision s))), (''name'', text_string (as_name s)),
        (''model_profile'', text_string (as_modelProfile s)), (''instructions'', text_string (as_instructions s))]
       @ (if as_tools s = [] then [] else [(''tools'', text_array (map text_tool (as_tools s)))])
       @ [(''created_at'', map_option marshal (json_time (as_createdAt s)))])"

definition text_create_agent :: "CreateAgentRequest \<Rightarrow> string option" where
  "text_create_agent q =
     text_object [(''Name'', text_string (qa_name q)), (''ModelProfile'', text_string (qa_modelProfile q)),
       (''Instructions'', text_string (qa_instructions q)),
       (''Tools'', if qa_tools q = [] then Some ''null'' else text_array (map text_tool (qa_tools q)))]"

definition text_revise_agent :: "ReviseAgentRequest \<Rightarrow> string option" where
  "text_revise_agent q =
     text_object ([(''agent_id'', marshalID (qr_agentID q) agentPrefix), (''idempotency_key'', text_string (qr_idempotencyKey q)),
        (''model_profile'', text_string (qr_modelProfile q)), (''instructions'', text_string (qr_instructions q))]
       @ (if qr_tools q = [] then [] else [(''tools'', text_array (map text_tool (qr_tools q)))]))"

definition text_create_session :: "CreateSessionRequest \<Rightarrow> string option" where
  "text_create_session q =
     text_object [(''idempotency_key'', text_string (qs_idempotencyKey q)),
       (''agent_revision_id'', marshalID (qs_agentRevision q) agentRevisionPrefix)]"

definition text_artifact :: "ArtifactReference \<Rightarrow> string option" where
  "text_artifact a =
     text_object [(''id'', marshalID (rf_id a) artifactPrefix), (''media_type'', text_string (rf_mediaType a)),
       (''size_bytes'', Some (itoa_int (rf_sizeBytes a))), (''sha256'', text_string (rf_sha256 a))]"

fun content_kind_string :: "ContentPartKind \<Rightarrow> string" where
  "content_kind_string ContentText = ''text''"
| "content_kind_string ContentArtifact = ''artifact''"
| "content_kind_string (OtherContent s) = s"

definition text_part :: "ContentPart \<Rightarrow> string option" where
  "text_part p =
     text_object ([(''kind'', text_string (content_kind_string (cp_kind p)))]
       @ (if cp_text p = [] then [] else [(''text'', text_string (cp_text p))])
       @ (case cp_artifact p of None \<Rightarrow> [] | Some a \<Rightarrow> [(''artifact'', text_artifact a)]))"

text \<open>\<^verbatim>\<open>cloneParts\<close> makes an empty slice of a nil one, which is encoded as \<open>[]\<close>.\<close>

definition text_send_input :: "SendInputRequest \<Rightarrow> string option" where
  "text_send_input q =
     text_object [(''SessionID'', marshalID (qi_sessionID q) sessionPrefix), (''Parts'', text_array (map text_part (qi_parts q)))]"

definition text_cancel_turn :: "CancelTurnRequest \<Rightarrow> string option" where
  "text_cancel_turn q =
     text_object [(''SessionID'', marshalID (qt_sessionID q) sessionPrefix), (''TurnID'', marshalID (qt_turnID q) turnPrefix)]"

definition canonicalDigest :: "string option \<Rightarrow> string option" where
  "canonicalDigest text = map_option sha256_hex text"

definition equalFailure :: "Failure option \<Rightarrow> Failure option \<Rightarrow> bool" where
  "equalFailure left right \<longleftrightarrow>
     (case left of None \<Rightarrow> ''null'' | Some f \<Rightarrow> marshal (json_failure f))
     = (case right of None \<Rightarrow> ''null'' | Some f \<Rightarrow> marshal (json_failure f))"

end
