(* ===== verification/Kernel.thy ===== *)
theory Kernel
  imports Kernel_State "HOL-Library.AList"
begin

text \<open>
  The deterministic agent kernel \<^verbatim>\<open>internal/runtime/kernel/kernel.go\<close> over the in-memory repository of
  \<^verbatim>\<open>store.go\<close>. A method draws identifiers and reads the clock, so it is a function of how often each was asked;
  the repository is a map from ownership scopes to aggregates. A transaction changes a copy and commits
  it only on success, so the changes of a failed transaction are dropped. \<open>ctx i\<close> says whether the context is found
  cancelled at the \<open>i\<close>-th check of a call. The value a method returns beside an error is not modelled. An index out of range
  is the error \<open>Panic\<close>. The check of a tool's input schema (\<^verbatim>\<open>toolschema.CanonicalSchema\<close>, which rests on a third-party
  validator) is a parameter, as are the clock and the identifier source.
\<close>

section \<open>Configuration and effects\<close>

datatype kernel_error =
    FailureInvalidInput | FailureConflict | FailureNotFound | FailureInternal | ErrContext | ErrIdentifier | ErrConfiguration | Panic

record Kernel =
  kn_clock :: "nat \<Rightarrow> gtime"
  kn_ids :: "nat \<Rightarrow> string option"
  kn_profiles :: "string list"
  kn_schema :: "string \<Rightarrow> string \<Rightarrow> bool"

definition kernel_New ::
    "(nat \<Rightarrow> gtime) \<Rightarrow> (nat \<Rightarrow> string option) \<Rightarrow> (string \<Rightarrow> string \<Rightarrow> bool) \<Rightarrow> string list \<Rightarrow> kernel_error + Kernel" where
  "kernel_New clock ids schema profiles =
     (if \<not> list_all safeName profiles then Inl ErrConfiguration
      else if profiles = [] then Inl ErrConfiguration
      else Inr \<lparr>kn_clock = clock, kn_ids = ids, kn_profiles = remdups profiles, kn_schema = schema\<rparr>)"

record kctx =
  kx_next :: nat
  kx_tick :: nat

type_synonym 'a km = "kctx \<Rightarrow> (kernel_error + 'a) \<times> kctx"

definition kpure :: "'a \<Rightarrow> 'a km" where
  "kpure a = (\<lambda>c. (Inr a, c))"

definition kfail :: "kernel_error \<Rightarrow> 'a km" where
  "kfail e = (\<lambda>c. (Inl e, c))"

definition kbind :: "'a km \<Rightarrow> ('a \<Rightarrow> 'b km) \<Rightarrow> 'b km" where
  "kbind m f = (\<lambda>c. case m c of (Inl e, c') \<Rightarrow> (Inl e, c') | (Inr a, c') \<Rightarrow> f a c')"

definition klift :: "kernel_error + 'a \<Rightarrow> 'a km" where
  "klift r = (\<lambda>c. (r, c))"

definition kernel_now :: "Kernel \<Rightarrow> gtime km" where
  "kernel_now K = (\<lambda>c. (Inr (GTime (instant (kn_clock K (kx_tick c))) True), c\<lparr>kx_tick := Suc (kx_tick c)\<rparr>))"

definition payload :: "Kernel \<Rightarrow> string \<Rightarrow> string km" where
  "payload K pre = (\<lambda>c.
     let c' = c\<lparr>kx_next := Suc (kx_next c)\<rparr> in
     case kn_ids K (kx_next c) of
       None \<Rightarrow> (Inl FailureInternal, c')
     | Some p \<Rightarrow>
         if length p \<noteq> 16 \<or> list_ex (\<lambda>x. x \<in> set ''_- '') p then (Inl FailureInternal, c') else (Inr (pre @ p), c'))"

definition parsed_identifier :: "string option \<Rightarrow> string km" where
  "parsed_identifier r = (case r of None \<Rightarrow> kfail ErrIdentifier | Some i \<Rightarrow> kpure i)"

definition newAgentID :: "Kernel \<Rightarrow> AgentID km" where
  "newAgentID K = kbind (payload K ''agent_'') (\<lambda>v. parsed_identifier (ParseAgentID v))"
definition newRevisionID :: "Kernel \<Rightarrow> AgentRevisionID km" where
  "newRevisionID K = kbind (payload K ''arev_'') (\<lambda>v. parsed_identifier (ParseAgentRevisionID v))"
definition newSessionID :: "Kernel \<Rightarrow> SessionID km" where
  "newSessionID K = kbind (payload K ''sess_'') (\<lambda>v. parsed_identifier (ParseSessionID v))"
definition newInputID :: "Kernel \<Rightarrow> InputID km" where
  "newInputID K = kbind (payload K ''inpt_'') (\<lambda>v. parsed_identifier (ParseInputID v))"
definition newTurnID :: "Kernel \<Rightarrow> TurnID km" where
  "newTurnID K = kbind (payload K ''turn_'') (\<lambda>v. parsed_identifier (ParseTurnID v))"
definition newEventID :: "Kernel \<Rightarrow> EventID km" where
  "newEventID K = kbind (payload K ''evt_'') (\<lambda>v. parsed_identifier (ParseEventID v))"
definition newCursor :: "Kernel \<Rightarrow> Cursor km" where
  "newCursor K = kbind (payload K ''cur_'') (\<lambda>v. parsed_identifier (ParseCursor v))"

section \<open>Repository\<close>

type_synonym repository = "string \<rightharpoonup> TenantState"

definition NewMemoryRepository :: repository where
  "NewMemoryRepository = Map.empty"

definition tenant_state :: "repository \<Rightarrow> string \<Rightarrow> TenantState" where
  "tenant_state repo scope = (case repo scope of None \<Rightarrow> newTenantState | Some s \<Rightarrow> s)"

definition Transact ::
    "(nat \<Rightarrow> bool) \<Rightarrow> string \<Rightarrow> (TenantState \<Rightarrow> ('a \<times> TenantState) km) \<Rightarrow> repository \<Rightarrow> ('a \<times> repository) km" where
  "Transact ctx scope change repo =
     (if ctx 1 then kfail ErrContext
      else kbind (change (tenant_state repo scope)) (\<lambda>(x, s).
           if ctx 2 then kfail ErrContext else kpure (x, repo(scope \<mapsto> s))))"

definition View :: "(nat \<Rightarrow> bool) \<Rightarrow> string \<Rightarrow> (TenantState \<Rightarrow> kernel_error + 'a) \<Rightarrow> repository \<Rightarrow> kernel_error + 'a" where
  "View ctx scope inspect repo = (if ctx 1 then Inl ErrContext else inspect (tenant_state repo scope))"

definition validateScopeAndContext :: "(nat \<Rightarrow> bool) \<Rightarrow> string \<Rightarrow> kernel_error option" where
  "validateScopeAndContext ctx scope =
     (if ctx 0 then Some ErrContext
      else if ParseScope scope = None then Some FailureInvalidInput else None)"

text \<open>The first check of every method, and the treatment of the idempotency key that every keyed mutation starts with.\<close>

definition kguard :: "kernel_error option \<Rightarrow> 'a km \<Rightarrow> 'a km" where
  "kguard e m = (case e of Some x \<Rightarrow> kfail x | None \<Rightarrow> m)"

definition keyed ::
    "string \<Rightarrow> string \<Rightarrow> string \<Rightarrow> (idempotencyRecord \<Rightarrow> kernel_error + 'a) \<Rightarrow> ('a \<times> TenantState) km \<Rightarrow> TenantState
     \<Rightarrow> ('a \<times> TenantState) km" where
  "keyed key command digest replay body state =
     (case ts_idempotency state key of
        Some r \<Rightarrow>
          if kr_command r \<noteq> command \<or> kr_digest r \<noteq> digest then kfail FailureConflict
          else kbind (klift (replay r)) (\<lambda>x. kpure (x, state))
      | None \<Rightarrow> if \<not> validateIdempotencyKey key then kfail FailureInvalidInput else body)"

section \<open>Sessions and their Turns\<close>

definition activeTurnIndex :: "sessionRecord \<Rightarrow> nat option" where
  "activeTurnIndex r = find_index (\<lambda>t. tn_state t = TurnRunning) (ks_turns r)"

definition queuedTurnIndex :: "sessionRecord \<Rightarrow> nat option" where
  "queuedTurnIndex r = find_index (\<lambda>t. tn_state t = TurnQueued) (ks_turns r)"

definition turnIndex :: "sessionRecord \<Rightarrow> TurnID \<Rightarrow> nat option" where
  "turnIndex r i = find_index (\<lambda>t. tn_id t = i) (ks_turns r)"

definition terminal :: "TurnState \<Rightarrow> bool" where
  "terminal st \<longleftrightarrow> st = TurnSucceeded \<or> st = TurnFailed \<or> st = TurnCancelled"

definition kernel_findTurn :: "TenantState \<Rightarrow> TurnID \<Rightarrow> (SessionID \<times> sessionRecord \<times> nat) option" where
  "kernel_findTurn state i =
     (let ids = sort (map fst (ts_sessions state));
          at = (\<lambda>sid. case map_of (ts_sessions state) sid of None \<Rightarrow> None
                      | Some r \<Rightarrow> map_option (\<lambda>k. (sid, r, k)) (turnIndex r i))
      in case find (\<lambda>sid. at sid \<noteq> None) ids of None \<Rightarrow> None | Some sid \<Rightarrow> at sid)"

definition nextEventSequence :: "sessionRecord \<Rightarrow> nat" where
  "nextEventSequence r =
     (if ks_events r = [] then length (ks_trimmed r) + 1 else et_sequence (last (ks_events r)) + 1)"

definition appendEvent :: "Kernel \<Rightarrow> EventKind \<Rightarrow> InputID \<Rightarrow> TurnID \<Rightarrow> sessionRecord \<Rightarrow> sessionRecord km" where
  "appendEvent K kind inputID turnID r =
     kbind (newEventID K) (\<lambda>eid.
     kbind (newCursor K) (\<lambda>cur.
     kbind (kernel_now K) (\<lambda>at.
     kpure (r\<lparr>ks_events := ks_events r @
       [\<lparr>et_id = eid, et_cursor = cur, et_sequence = nextEventSequence r, et_kind = kind,
         et_sessionID = se_id (ks_session r), et_inputID = inputID, et_turnID = turnID, et_occurredAt = at\<rparr>]\<rparr>))))"

definition start_turn :: "nat \<Rightarrow> gtime \<Rightarrow> sessionRecord \<Rightarrow> sessionRecord" where
  "start_turn k at r =
     r\<lparr>ks_turns := (ks_turns r)[k := (ks_turns r ! k)\<lparr>tn_state := TurnRunning, tn_startedAt := Some at\<rparr>]\<rparr>"

definition set_session_state :: "SessionState \<Rightarrow> sessionRecord \<Rightarrow> sessionRecord" where
  "set_session_state st r = r\<lparr>ks_session := (ks_session r)\<lparr>se_state := st\<rparr>\<rparr>"

definition touch_session :: "gtime \<Rightarrow> sessionRecord \<Rightarrow> sessionRecord" where
  "touch_session at r = r\<lparr>ks_session := (ks_session r)\<lparr>se_updatedAt := at\<rparr>\<rparr>"

definition advance :: "Kernel \<Rightarrow> gtime \<Rightarrow> sessionRecord \<Rightarrow> sessionRecord km" where
  "advance K at r =
     (if activeTurnIndex r \<noteq> None then kpure r
      else case queuedTurnIndex r of
        Some k \<Rightarrow>
          appendEvent K EventTurnStarted (tn_inputID (ks_turns r ! k)) (tn_id (ks_turns r ! k)) (start_turn k at r)
      | None \<Rightarrow>
          if se_state (ks_session r) = SessionClosing
          then appendEvent K EventSessionCompleted [] [] (set_session_state SessionCompleted r)
          else kpure r)"

definition resultFor :: "sessionRecord \<Rightarrow> InputID \<Rightarrow> TurnID \<Rightarrow> kernel_error + SendInputResult" where
  "resultFor r inputID i =
     (case turnIndex r i of
        None \<Rightarrow> Inl Panic
      | Some k \<Rightarrow> Inr \<lparr>sr_input = (case ks_inputs r inputID of None \<Rightarrow> zero_Input | Some x \<Rightarrow> x), sr_turn = ks_turns r ! k\<rparr>)"

definition stored_session :: "TenantState \<Rightarrow> SessionID \<Rightarrow> sessionRecord" where
  "stored_session state sid = (case map_of (ts_sessions state) sid of None \<Rightarrow> zero_sessionRecord | Some r \<Rightarrow> r)"

definition put_session :: "SessionID \<Rightarrow> sessionRecord \<Rightarrow> TenantState \<Rightarrow> TenantState" where
  "put_session sid r state = state\<lparr>ts_sessions := AList.update sid r (ts_sessions state)\<rparr>"

definition put_key :: "string \<Rightarrow> idempotencyRecord \<Rightarrow> TenantState \<Rightarrow> TenantState" where
  "put_key key record state = state\<lparr>ts_idempotency := (ts_idempotency state)(key \<mapsto> record)\<rparr>"

section \<open>Agents\<close>

definition validateAgent :: "Kernel \<Rightarrow> string \<Rightarrow> string \<Rightarrow> string \<Rightarrow> ToolDefinition list \<Rightarrow> bool" where
  "validateAgent K name profile instructions tools \<longleftrightarrow>
     \<not> (\<not> safeName name \<or> length instructions = 0 \<or> maxInstructionsBytes < length instructions \<or> \<not> utf8_valid instructions)
     \<and> profile \<in> set (kn_profiles K) \<and> length tools \<le> maxTools
     \<and> list_all (\<lambda>t. \<not> (\<not> safeName (td_name t) \<or> length (td_description t) = 0 \<or> 4096 < length (td_description t)
                       \<or> \<not> utf8_valid (td_description t))
                    \<and> kn_schema K (td_inputSchemaVersion t) (td_inputSchema t)) tools
     \<and> distinct (map td_name tools)"

definition stored_revision :: "TenantState \<Rightarrow> AgentRevisionID \<Rightarrow> AgentSpecification" where
  "stored_revision state i = (case ts_revisions state i of None \<Rightarrow> zero_AgentSpecification | Some a \<Rightarrow> a)"

definition put_revision :: "agentRecord \<Rightarrow> AgentSpecification \<Rightarrow> TenantState \<Rightarrow> TenantState" where
  "put_revision agent a state =
     state\<lparr>ts_agents := (ts_agents state)(as_id a \<mapsto> agent), ts_revisions := (ts_revisions state)(as_revisionID a \<mapsto> a)\<rparr>"

definition CreateAgent ::
    "Kernel \<Rightarrow> (nat \<Rightarrow> bool) \<Rightarrow> string \<Rightarrow> CreateAgentRequest \<Rightarrow> repository \<Rightarrow> (AgentSpecification \<times> repository) km" where
  "CreateAgent K ctx scope q repo =
     kguard (validateScopeAndContext ctx scope)
       (case canonicalDigest (text_create_agent q) of
          None \<Rightarrow> kfail FailureInternal
        | Some digest \<Rightarrow> Transact ctx scope (\<lambda>state.
            keyed (qa_idempotencyKey q) ''create_agent'' digest (\<lambda>r. Inr (stored_revision state (kr_revision r)))
              (if \<not> validateAgent K (qa_name q) (qa_modelProfile q) (qa_instructions q) (qa_tools q)
               then kfail FailureInvalidInput
               else kbind (newAgentID K) (\<lambda>agentID.
                    kbind (newRevisionID K) (\<lambda>revisionID.
                    kbind (kernel_now K) (\<lambda>at.
                    let a = \<lparr>as_id = agentID, as_revisionID = revisionID, as_revision = 1, as_name = qa_name q,
                             as_modelProfile = qa_modelProfile q, as_instructions = qa_instructions q,
                             as_tools = qa_tools q, as_createdAt = at\<rparr>
                    in kpure (a, put_key (qa_idempotencyKey q)
                         (zero_idempotencyRecord\<lparr>kr_command := ''create_agent'', kr_digest := digest, kr_agent := agentID,
                            kr_revision := revisionID\<rparr>)
                         (put_revision \<lparr>kg_id = agentID, kg_revisions = [a]\<rparr> a state)))))) state) repo)"

definition ReviseAgent ::
    "Kernel \<Rightarrow> (nat \<Rightarrow> bool) \<Rightarrow> string \<Rightarrow> ReviseAgentRequest \<Rightarrow> repository \<Rightarrow> (AgentSpecification \<times> repository) km" where
  "ReviseAgent K ctx scope q repo =
     kguard (validateScopeAndContext ctx scope)
       (if ParseAgentID (qr_agentID q) = None then kfail FailureInvalidInput
        else case canonicalDigest (text_revise_agent q) of
          None \<Rightarrow> kfail FailureInternal
        | Some digest \<Rightarrow> Transact ctx scope (\<lambda>state.
            keyed (qr_idempotencyKey q) ''revise_agent'' digest (\<lambda>r. Inr (stored_revision state (kr_revision r)))
              (if \<not> validateAgent K ''revision'' (qr_modelProfile q) (qr_instructions q) (qr_tools q)
               then kfail FailureInvalidInput
               else case ts_agents state (qr_agentID q) of
                 None \<Rightarrow> kfail FailureNotFound
               | Some agent \<Rightarrow>
                   kbind (newRevisionID K) (\<lambda>revisionID.
                   if kg_revisions agent = [] then kfail Panic
                   else kbind (kernel_now K) (\<lambda>at.
                   let a = \<lparr>as_id = qr_agentID q, as_revisionID = revisionID,
                            as_revision = length (kg_revisions agent) + 1, as_name = as_name (hd (kg_revisions agent)),
                            as_modelProfile = qr_modelProfile q, as_instructions = qr_instructions q,
                            as_tools = qr_tools q, as_createdAt = at\<rparr>
                   in kpure (a, put_key (qr_idempotencyKey q)
                        (zero_idempotencyRecord\<lparr>kr_command := ''revise_agent'', kr_digest := digest,
                           kr_agent := qr_agentID q, kr_revision := revisionID\<rparr>)
                        (put_revision (agent\<lparr>kg_revisions := kg_revisions agent @ [a]\<rparr>) a state))))) state) repo)"

definition kernel_GetAgentRevision ::
    "(nat \<Rightarrow> bool) \<Rightarrow> string \<Rightarrow> AgentID \<Rightarrow> AgentRevisionID \<Rightarrow> repository \<Rightarrow> kernel_error + AgentSpecification" where
  "kernel_GetAgentRevision ctx scope agentID revisionID repo =
     (case validateScopeAndContext ctx scope of
        Some e \<Rightarrow> Inl e
      | None \<Rightarrow> View ctx scope (\<lambda>state.
          case ts_revisions state revisionID of
            None \<Rightarrow> Inl FailureNotFound
          | Some a \<Rightarrow> if as_id a \<noteq> agentID then Inl FailureNotFound else Inr a) repo)"

definition ResolveAgentRevision ::
    "(nat \<Rightarrow> bool) \<Rightarrow> string \<Rightarrow> AgentRevisionID \<Rightarrow> repository \<Rightarrow> kernel_error + AgentSpecification" where
  "ResolveAgentRevision ctx scope revisionID repo =
     (case validateScopeAndContext ctx scope of
        Some e \<Rightarrow> Inl e
      | None \<Rightarrow>
          if ParseAgentRevisionID revisionID = None then Inl FailureInvalidInput
          else View ctx scope (\<lambda>state.
            case ts_revisions state revisionID of None \<Rightarrow> Inl FailureNotFound | Some a \<Rightarrow> Inr a) repo)"

section \<open>Sessions\<close>

text \<open>The part the two ways to create a Session share: the fresh record with its first event, stored under its key.\<close>

definition open_session ::
    "Kernel \<Rightarrow> string \<Rightarrow> string \<Rightarrow> AgentSpecification \<Rightarrow> TenantState \<Rightarrow> (Session \<times> TenantState) km" where
  "open_session K key digest revision state =
     kbind (newSessionID K) (\<lambda>sid.
     kbind (kernel_now K) (\<lambda>at.
     let x = \<lparr>se_id = sid, se_agentID = as_id revision, se_agentRevision = as_revisionID revision, se_state = SessionOpen,
              se_createdAt = at, se_updatedAt = at\<rparr>
     in kbind (appendEvent K EventSessionCreated [] [] (zero_sessionRecord\<lparr>ks_session := x\<rparr>)) (\<lambda>record.
        kpure (x, put_key key (zero_idempotencyRecord\<lparr>kr_command := ''create_session'', kr_digest := digest, kr_session := sid\<rparr>)
          (put_session sid record state)))))"

definition kernel_CreateSession ::
    "Kernel \<Rightarrow> (nat \<Rightarrow> bool) \<Rightarrow> string \<Rightarrow> CreateSessionRequest \<Rightarrow> repository \<Rightarrow> (Session \<times> repository) km" where
  "kernel_CreateSession K ctx scope q repo =
     kguard (validateScopeAndContext ctx scope)
       (case canonicalDigest (text_create_session q) of
          None \<Rightarrow> kfail FailureInternal
        | Some digest \<Rightarrow> Transact ctx scope (\<lambda>state.
            keyed (qs_idempotencyKey q) ''create_session'' digest
              (\<lambda>r. Inr (ks_session (stored_session state (kr_session r))))
              (case ts_revisions state (qs_agentRevision q) of
                 None \<Rightarrow> kfail FailureNotFound
               | Some revision \<Rightarrow> open_session K (qs_idempotencyKey q) digest revision state) state) repo)"

definition CreateSessionFromRevision ::
    "Kernel \<Rightarrow> (nat \<Rightarrow> bool) \<Rightarrow> string \<Rightarrow> CreateSessionRequest \<Rightarrow> AgentSpecification \<Rightarrow> repository
     \<Rightarrow> (Session \<times> repository) km" where
  "CreateSessionFromRevision K ctx scope q revision repo =
     kguard (validateScopeAndContext ctx scope)
       (if qs_agentRevision q \<noteq> as_revisionID revision \<or> as_id revision = [] \<or> as_revision revision = 0
        then kfail FailureInvalidInput
        else if ParseAgentID (as_id revision) = None then kfail FailureInvalidInput
        else if ParseAgentRevisionID (as_revisionID revision) = None then kfail FailureInvalidInput
        else case canonicalDigest (text_create_session q) of
          None \<Rightarrow> kfail FailureInternal
        | Some digest \<Rightarrow> Transact ctx scope (\<lambda>state.
            keyed (qs_idempotencyKey q) ''create_session'' digest
              (\<lambda>r. Inr (ks_session (stored_session state (kr_session r))))
              (case ts_revisions state (as_revisionID revision) of
                 Some existing \<Rightarrow>
                   (case (canonicalDigest (text_specification existing), canonicalDigest (text_specification revision)) of
                      (Some d, Some d') \<Rightarrow>
                        if d \<noteq> d' then kfail FailureConflict
                        else open_session K (qs_idempotencyKey q) digest revision state
                    | _ \<Rightarrow> kfail FailureInternal)
               | None \<Rightarrow> open_session K (qs_idempotencyKey q) digest revision
                   (state\<lparr>ts_revisions := (ts_revisions state)(as_revisionID revision \<mapsto> revision)\<rparr>)) state) repo)"

text \<open>What \<open>SendInput\<close> does to an open Session: the Input and its Turn, which starts when no Turn is running.\<close>

definition accept_input :: "Kernel \<Rightarrow> ContentPart list \<Rightarrow> sessionRecord \<Rightarrow> (InputID \<times> TurnID \<times> sessionRecord) km" where
  "accept_input K parts r =
     kbind (newInputID K) (\<lambda>inputID.
     kbind (newTurnID K) (\<lambda>turnID.
     kbind (kernel_now K) (\<lambda>at.
     let input = \<lparr>ip_id = inputID, ip_parts = parts, ip_acceptedAt = at\<rparr>;
         turn = \<lparr>tn_id = turnID, tn_inputID = inputID, tn_position = length (ks_turns r) + 1, tn_state = TurnQueued,
                 tn_startedAt = None, tn_completedAt = None, tn_failure = None, tn_usage = None, tn_output = None\<rparr>;
         r = r\<lparr>ks_inputs := (ks_inputs r)(inputID \<mapsto> input), ks_turns := ks_turns r @ [turn]\<rparr>
     in kbind (appendEvent K EventInputAccepted inputID turnID r) (\<lambda>r.
        kbind (if activeTurnIndex r = None
               then appendEvent K EventTurnStarted inputID turnID (start_turn (length (ks_turns r) - 1) at r)
               else appendEvent K EventTurnQueued inputID turnID r) (\<lambda>r.
        kpure (inputID, turnID, touch_session at r))))))"

definition SendInput ::
    "Kernel \<Rightarrow> (nat \<Rightarrow> bool) \<Rightarrow> string \<Rightarrow> SendInputRequest \<Rightarrow> repository \<Rightarrow> (SendInputResult \<times> repository) km" where
  "SendInput K ctx scope q repo =
     kguard (validateScopeAndContext ctx scope)
       (case canonicalDigest (text_send_input q) of
          None \<Rightarrow> kfail FailureInternal
        | Some digest \<Rightarrow> Transact ctx scope (\<lambda>state.
            keyed (qi_idempotencyKey q) ''send_input'' digest
              (\<lambda>record. resultFor (stored_session state (kr_session record)) (kr_input record) (kr_turn record))
              (if \<not> validateInput q then kfail FailureInvalidInput
               else case map_of (ts_sessions state) (qi_sessionID q) of
                 None \<Rightarrow> kfail FailureNotFound
               | Some r \<Rightarrow>
                   if se_state (ks_session r) \<noteq> SessionOpen then kfail FailureConflict
                   else kbind (accept_input K (qi_parts q) r) (\<lambda>(inputID, turnID, r).
                        kbind (klift (resultFor r inputID turnID)) (\<lambda>result.
                        kpure (result, put_key (qi_idempotencyKey q)
                          (zero_idempotencyRecord\<lparr>kr_command := ''send_input'', kr_digest := digest,
                             kr_session := qi_sessionID q, kr_input := inputID, kr_turn := turnID\<rparr>)
                          (put_session (qi_sessionID q) r state))))) state) repo)"

section \<open>Turns\<close>

text \<open>Recording the terminal state of a Turn: its event, then the next queued Turn or the end of a closing Session.\<close>

definition settle_turn :: "Kernel \<Rightarrow> EventKind \<Rightarrow> gtime \<Rightarrow> nat \<Rightarrow> Turn \<Rightarrow> sessionRecord \<Rightarrow> sessionRecord km" where
  "settle_turn K kind at k t r =
     kbind (appendEvent K kind (tn_inputID t) (tn_id t) (r\<lparr>ks_turns := (ks_turns r)[k := t]\<rparr>)) (\<lambda>r.
     kbind (advance K at r) (\<lambda>r.
     kpure (touch_session at r)))"

definition CompleteTurn ::
    "Kernel \<Rightarrow> (nat \<Rightarrow> bool) \<Rightarrow> string \<Rightarrow> SessionID \<Rightarrow> TurnID \<Rightarrow> Failure option \<Rightarrow> repository \<Rightarrow> (Turn \<times> repository) km" where
  "CompleteTurn K ctx scope sid tid failure repo =
     kguard (validateScopeAndContext ctx scope)
       (if \<not> validateFailure failure then kfail FailureInvalidInput
        else Transact ctx scope (\<lambda>state.
          case map_of (ts_sessions state) sid of
            None \<Rightarrow> kfail FailureNotFound
          | Some r \<Rightarrow>
              (case turnIndex r tid of
                 None \<Rightarrow> kfail FailureNotFound
               | Some k \<Rightarrow>
                   let t = ks_turns r ! k in
                   if terminal (tn_state t) then
                     (if equalFailure (tn_failure t) failure \<and> tn_state t \<noteq> TurnCancelled then kpure (t, state)
                      else kfail FailureConflict)
                   else if tn_state t \<noteq> TurnRunning then kfail FailureConflict
                   else kbind (kernel_now K) (\<lambda>at.
                     let t' = t\<lparr>tn_completedAt := Some at, tn_failure := failure,
                                tn_state := (if failure = None then TurnSucceeded else TurnFailed)\<rparr>;
                         kind = (if failure = None then EventTurnSucceeded else EventTurnFailed)
                     in kbind (settle_turn K kind at k t' r) (\<lambda>r. kpure (t', put_session sid r state))))) repo)"

definition kernel_CancelTurn ::
    "Kernel \<Rightarrow> (nat \<Rightarrow> bool) \<Rightarrow> string \<Rightarrow> CancelTurnRequest \<Rightarrow> repository \<Rightarrow> (Turn \<times> repository) km" where
  "kernel_CancelTurn K ctx scope q repo =
     kguard (validateScopeAndContext ctx scope)
       (if ParseSessionID (qt_sessionID q) = None then kfail FailureInvalidInput
        else case canonicalDigest (text_cancel_turn q) of
          None \<Rightarrow> kfail FailureInternal
        | Some digest \<Rightarrow> Transact ctx scope (\<lambda>state.
            keyed (qt_idempotencyKey q) ''cancel_turn'' digest
              (\<lambda>record. let r = stored_session state (kr_session record) in
                 case turnIndex r (kr_turn record) of None \<Rightarrow> Inl Panic | Some k \<Rightarrow> Inr (ks_turns r ! k))
              (case kernel_findTurn state (qt_turnID q) of
                 None \<Rightarrow> kfail FailureNotFound
               | Some (sid, r, k) \<Rightarrow>
                   if sid \<noteq> qt_sessionID q then kfail FailureNotFound
                   else let t = ks_turns r ! k in
                   if terminal (tn_state t) then kfail FailureConflict
                   else kbind (kernel_now K) (\<lambda>at.
                     let t' = t\<lparr>tn_state := TurnCancelled, tn_completedAt := Some at\<rparr>
                     in kbind (settle_turn K EventTurnCancelled at k t' r) (\<lambda>r.
                        kpure (t', put_key (qt_idempotencyKey q)
                          (zero_idempotencyRecord\<lparr>kr_command := ''cancel_turn'', kr_digest := digest, kr_session := sid,
                             kr_turn := qt_turnID q\<rparr>)
                          (put_session sid r state))))) state) repo)"

section \<open>Ending a Session\<close>

definition close_record :: "Kernel \<Rightarrow> sessionRecord \<Rightarrow> sessionRecord km" where
  "close_record K r =
     kbind (kernel_now K) (\<lambda>at.
     kbind (appendEvent K EventSessionClosing [] [] (touch_session at (set_session_state SessionClosing r))) (\<lambda>r.
     if activeTurnIndex r = None
     then appendEvent K EventSessionCompleted [] [] (set_session_state SessionCompleted r)
     else kpure r))"

definition cancel_record :: "Kernel \<Rightarrow> sessionRecord \<Rightarrow> sessionRecord km" where
  "cancel_record K r =
     kbind (kernel_now K) (\<lambda>at.
     appendEvent K EventSessionCancelled [] [] (touch_session at (set_session_state SessionCancelled r)))"

definition kernel_CloseSession ::
    "Kernel \<Rightarrow> (nat \<Rightarrow> bool) \<Rightarrow> string \<Rightarrow> CloseSessionRequest \<Rightarrow> repository \<Rightarrow> (Session \<times> repository) km" where
  "kernel_CloseSession K ctx scope q repo =
     kguard (validateScopeAndContext ctx scope)
       (case canonicalDigest (marshalID (qc_sessionID q) sessionPrefix) of
          None \<Rightarrow> kfail FailureInternal
        | Some digest \<Rightarrow> Transact ctx scope (\<lambda>state.
            keyed (qc_idempotencyKey q) ''close_session'' digest
              (\<lambda>record. Inr (ks_session (stored_session state (kr_session record))))
              (case map_of (ts_sessions state) (qc_sessionID q) of
                 None \<Rightarrow> kfail FailureNotFound
               | Some r \<Rightarrow>
                   if se_state (ks_session r) \<noteq> SessionOpen then kfail FailureConflict
                   else kbind (close_record K r) (\<lambda>r.
                     kpure (ks_session r, put_key (qc_idempotencyKey q)
                       (zero_idempotencyRecord\<lparr>kr_command := ''close_session'', kr_digest := digest,
                          kr_session := qc_sessionID q\<rparr>)
                       (put_session (qc_sessionID q) r state)))) state) repo)"

definition kernel_CancelSession ::
    "Kernel \<Rightarrow> (nat \<Rightarrow> bool) \<Rightarrow> string \<Rightarrow> CancelSessionRequest \<Rightarrow> repository \<Rightarrow> (Session \<times> repository) km" where
  "kernel_CancelSession K ctx scope q repo =
     kguard (validateScopeAndContext ctx scope)
       (case canonicalDigest (marshalID (qx_sessionID q) sessionPrefix) of
          None \<Rightarrow> kfail FailureInternal
        | Some digest \<Rightarrow> Transact ctx scope (\<lambda>state.
            keyed (qx_idempotencyKey q) ''cancel_session'' digest
              (\<lambda>record. Inr (ks_session (stored_session state (kr_session record))))
              (case map_of (ts_sessions state) (qx_sessionID q) of
                 None \<Rightarrow> kfail FailureNotFound
               | Some r \<Rightarrow>
                   if se_state (ks_session r) \<noteq> SessionOpen \<and> se_state (ks_session r) \<noteq> SessionClosing
                      \<or> activeTurnIndex r \<noteq> None \<or> queuedTurnIndex r \<noteq> None
                   then kfail FailureConflict
                   else kbind (cancel_record K r) (\<lambda>r.
                     kpure (ks_session r, put_key (qx_idempotencyKey q)
                       (zero_idempotencyRecord\<lparr>kr_command := ''cancel_session'', kr_digest := digest,
                          kr_session := qx_sessionID q\<rparr>)
                       (put_session (qx_sessionID q) r state)))) state) repo)"

section \<open>Reads and compaction\<close>

definition view_session_turn :: "PublicSessionView \<Rightarrow> Turn \<Rightarrow> PublicSessionView" where
  "view_session_turn v t =
     (case tn_state t of
        TurnRunning \<Rightarrow> v\<lparr>vw_activeTurn := Some t\<rparr>
      | TurnQueued \<Rightarrow>
          let v = v\<lparr>vw_queuedTurnCount := vw_queuedTurnCount v + 1\<rparr>
          in if length (vw_queuedTurns v) < MaxSessionViewQueuedTurns then v\<lparr>vw_queuedTurns := vw_queuedTurns v @ [t]\<rparr> else v
      | _ \<Rightarrow> v)"

definition InspectSession :: "(nat \<Rightarrow> bool) \<Rightarrow> string \<Rightarrow> SessionID \<Rightarrow> repository \<Rightarrow> kernel_error + PublicSessionView" where
  "InspectSession ctx scope sid repo =
     (case validateScopeAndContext ctx scope of
        Some e \<Rightarrow> Inl e
      | None \<Rightarrow> View ctx scope (\<lambda>state.
          case map_of (ts_sessions state) sid of
            None \<Rightarrow> Inl FailureNotFound
          | Some r \<Rightarrow>
              let v = foldl view_session_turn
                        \<lparr>vw_session = ks_session r, vw_activeTurn = None, vw_queuedTurns = [], vw_queuedTurnCount = 0,
                         vw_queuedTurnsTruncated = False, vw_recentEvents = []\<rparr> (ks_turns r)
              in Inr (v\<lparr>vw_queuedTurnsTruncated := length (vw_queuedTurns v) < vw_queuedTurnCount v,
                        vw_recentEvents := drop (length (ks_events r) - 20) (ks_events r)\<rparr>)) repo)"

definition InspectTurn :: "(nat \<Rightarrow> bool) \<Rightarrow> string \<Rightarrow> SessionID \<Rightarrow> TurnID \<Rightarrow> repository \<Rightarrow> kernel_error + Turn" where
  "InspectTurn ctx scope sid tid repo =
     (case validateScopeAndContext ctx scope of
        Some e \<Rightarrow> Inl e
      | None \<Rightarrow> View ctx scope (\<lambda>state.
          case map_of (ts_sessions state) sid of
            None \<Rightarrow> Inl FailureNotFound
          | Some r \<Rightarrow> (case turnIndex r tid of None \<Rightarrow> Inl FailureNotFound | Some k \<Rightarrow> Inr (ks_turns r ! k))) repo)"

definition eventAfter :: "Event list \<Rightarrow> Cursor \<Rightarrow> nat option" where
  "eventAfter es cur = map_option Suc (find_index (\<lambda>e. et_cursor e = cur) es)"

definition Events ::
    "(nat \<Rightarrow> bool) \<Rightarrow> string \<Rightarrow> SessionID \<Rightarrow> Cursor \<Rightarrow> int \<Rightarrow> repository \<Rightarrow> kernel_error + PublicEventPage" where
  "Events ctx scope sid after limit repo =
     (case validateScopeAndContext ctx scope of
        Some e \<Rightarrow> Inl e
      | None \<Rightarrow>
          if limit < 1 \<or> maxEventPage < limit then Inl FailureInvalidInput
          else if after \<noteq> [] \<and> ParseCursor after = None then Inl FailureInvalidInput
          else View ctx scope (\<lambda>state.
            case map_of (ts_sessions state) sid of
              None \<Rightarrow> Inl FailureNotFound
            | Some r \<Rightarrow>
                (case (if after \<noteq> [] then eventAfter (ks_events r) after else Some 0) of
                   None \<Rightarrow> Inr \<lparr>pg_events = [], pg_nextCursor = [],
                     pg_gap = Some \<lparr>gap_requestedAfter = after,
                       gap_earliest = (if ks_events r = [] then [] else et_cursor (hd (ks_events r))), gap_inspectSession = True\<rparr>\<rparr>
                 | Some start \<Rightarrow>
                     let finish = min (start + nat limit) (length (ks_events r));
                         es = take (finish - start) (drop start (ks_events r))
                     in Inr \<lparr>pg_events = es, pg_nextCursor = (if es = [] then after else et_cursor (last es)), pg_gap = None\<rparr>)) repo)"

definition CompactEvents :: "(nat \<Rightarrow> bool) \<Rightarrow> string \<Rightarrow> SessionID \<Rightarrow> int \<Rightarrow> repository \<Rightarrow> (unit \<times> repository) km" where
  "CompactEvents ctx scope sid keep repo =
     kguard (validateScopeAndContext ctx scope)
       (if keep < 1 then kfail FailureInvalidInput
        else Transact ctx scope (\<lambda>state.
          case map_of (ts_sessions state) sid of
            None \<Rightarrow> kfail FailureNotFound
          | Some r \<Rightarrow>
              if length (ks_events r) \<le> nat keep then kpure ((), state)
              else let cut = length (ks_events r) - nat keep in
                kpure ((), put_session sid
                  (r\<lparr>ks_trimmed := fold List.insert (map et_cursor (take cut (ks_events r))) (ks_trimmed r),
                     ks_events := drop cut (ks_events r)\<rparr>) state)) repo)"

end
