(* ===== verification/Kernel_Runs.thy ===== *)
theory Kernel_Runs
  imports Kernel "HOL-Library.Sublist"
begin

text \<open>
  Runs of the agent kernel and the invariant of its Sessions. The Turns of a Session are served in order: the ones
  before the running Turn are settled, the ones behind it wait or are settled, and when no Turn is running
  none is waiting. \<open>session_ok\<close> adds the numbering of Turns and events and what the Session's state says about
  its Turns; \<open>tenant_ok\<close> adds that the identifiers of Sessions were drawn from the kernel's source and that
  the idempotency records lead to Turns that exist.
\<close>

section \<open>Successful and failing computations\<close>

lemma kbind_Inr [simp]:
  "kbind m f c = (Inr b, c'') \<longleftrightarrow> (\<exists>a c'. m c = (Inr a, c') \<and> f a c' = (Inr b, c''))"
  by (auto simp: kbind_def split: prod.splits sum.splits)

lemma kbind_Inl [simp]:
  "kbind m f c = (Inl e, c'') \<longleftrightarrow> m c = (Inl e, c'') \<or> (\<exists>a c'. m c = (Inr a, c') \<and> f a c' = (Inl e, c''))"
  by (auto simp: kbind_def split: prod.splits sum.splits)

lemma kpure_iff [simp]: "kpure a c = (r, c') \<longleftrightarrow> r = Inr a \<and> c' = c"
  by (auto simp: kpure_def)

lemma kfail_iff [simp]: "kfail e c = (r, c') \<longleftrightarrow> r = Inl e \<and> c' = c"
  by (auto simp: kfail_def)

lemma klift_iff [simp]: "klift x c = (r, c') \<longleftrightarrow> r = x \<and> c' = c"
  by (auto simp: klift_def)

lemma kernel_now_iff [simp]:
  "kernel_now K c = (r, c') \<longleftrightarrow> r = Inr (GTime (instant (kn_clock K (kx_tick c))) True) \<and> c' = c\<lparr>kx_tick := Suc (kx_tick c)\<rparr>"
  by (auto simp: kernel_now_def)

lemma parsed_identifier_iff [simp]:
  "parsed_identifier x c = (Inr i, c') \<longleftrightarrow> x = Some i \<and> c' = c"
  "parsed_identifier x c = (Inl e, c') \<longleftrightarrow> x = None \<and> e = ErrIdentifier \<and> c' = c"
  by (auto simp: parsed_identifier_def split: option.splits)

lemma payload_Inr:
  assumes "payload K pre c = (Inr v, c')"
  shows "\<exists>p. kn_ids K (kx_next c) = Some p \<and> v = pre @ p" and "c' = c\<lparr>kx_next := Suc (kx_next c)\<rparr>"
  using assms by (auto simp: payload_def Let_def split: option.splits if_splits)

lemma payload_Inl:
  assumes "payload K pre c = (Inl e, c')"
  shows "e = FailureInternal" and "c' = c\<lparr>kx_next := Suc (kx_next c)\<rparr>"
  using assms by (auto simp: payload_def Let_def split: option.splits if_splits)

lemmas new_id_defs = newAgentID_def newRevisionID_def newSessionID_def newInputID_def newTurnID_def newEventID_def newCursor_def

text \<open>Every draw of an identifier asks the source once and never panics.\<close>

definition draws_next :: "string km \<Rightarrow> bool" where
  "draws_next m \<longleftrightarrow>
     (\<forall>c r c'. m c = (r, c') \<longrightarrow> c' = c\<lparr>kx_next := Suc (kx_next c)\<rparr> \<and> r \<noteq> Inl Panic)"

lemma draws_next_payload: "draws_next (kbind (payload K pre) (\<lambda>v. parsed_identifier (f v)))"
  unfolding draws_next_def
proof (intro allI impI)
  fix c r c' assume r: "kbind (payload K pre) (\<lambda>v. parsed_identifier (f v)) c = (r, c')"
  show "c' = c\<lparr>kx_next := Suc (kx_next c)\<rparr> \<and> r \<noteq> Inl Panic"
  proof (cases r)
    case (Inl e)
    with r show ?thesis by (auto dest: payload_Inl payload_Inr(2))
  next
    case (Inr v)
    with r show ?thesis by (auto dest: payload_Inr(2))
  qed
qed

lemma draws_next_ids [simp]:
  "draws_next (newAgentID K)" "draws_next (newRevisionID K)" "draws_next (newSessionID K)" "draws_next (newInputID K)"
  "draws_next (newTurnID K)" "draws_next (newEventID K)" "draws_next (newCursor K)"
  by (simp_all add: new_id_defs draws_next_payload)

lemma draws_nextD: "draws_next m \<Longrightarrow> m c = (r, c') \<Longrightarrow> c' = c\<lparr>kx_next := Suc (kx_next c)\<rparr> \<and> r \<noteq> Inl Panic"
  by (simp add: draws_next_def)

lemma newID_drawn:
  shows "newSessionID K c = (Inr i, c') \<Longrightarrow> \<exists>p. kn_ids K (kx_next c) = Some p \<and> i = ''sess_'' @ p"
    and "newInputID K c = (Inr i, c') \<Longrightarrow> \<exists>p. kn_ids K (kx_next c) = Some p \<and> i = ''inpt_'' @ p"
    and "newTurnID K c = (Inr i, c') \<Longrightarrow> \<exists>p. kn_ids K (kx_next c) = Some p \<and> i = ''turn_'' @ p"
  by (auto simp: new_id_defs ParseSessionID_def ParseInputID_def ParseTurnID_def dest!: parseID_SomeD(1) payload_Inr(1))

section \<open>The order of Turns\<close>

fun fifo :: "Turn list \<Rightarrow> bool" where
  "fifo [] \<longleftrightarrow> True"
| "fifo (t # ts) \<longleftrightarrow>
     (if terminal (tn_state t) then fifo ts
      else tn_state t = TurnRunning \<and> list_all (\<lambda>u. tn_state u = TurnQueued \<or> terminal (tn_state u)) ts)"

definition idle :: "Turn list \<Rightarrow> bool" where
  "idle ts \<longleftrightarrow> list_all (\<lambda>t. terminal (tn_state t)) ts"

definition waiting :: "Turn list \<Rightarrow> bool" where
  "waiting ts \<longleftrightarrow> list_all (\<lambda>t. tn_state t = TurnQueued \<or> terminal (tn_state t)) ts"

lemma terminal_states [simp]: "\<not> terminal TurnQueued" "\<not> terminal TurnRunning" "terminal TurnSucceeded"
  "terminal TurnFailed" "terminal TurnCancelled" "\<not> terminal TurnWaitingForApproval" "\<not> terminal TurnUnset"
  by (simp_all add: terminal_def)

lemma idle_fifo: "idle ts \<Longrightarrow> fifo ts"
  by (induction ts) (auto simp: idle_def)

lemma idle_waiting: "idle ts \<Longrightarrow> waiting ts"
  by (auto simp: idle_def waiting_def list_all_iff)

lemma fifo_idle_iff: "fifo ts \<Longrightarrow> idle ts \<longleftrightarrow> find_index (\<lambda>t. tn_state t = TurnRunning) ts = None"
  by (induction ts) (auto simp: idle_def list_all_iff split: if_splits)

lemma fifo_snoc_queued:
  "fifo ts \<Longrightarrow> \<not> idle ts \<Longrightarrow> tn_state t = TurnQueued \<Longrightarrow> fifo (ts @ [t])"
  by (induction ts) (auto simp: idle_def split: if_splits)

lemma fifo_snoc_running:
  "idle ts \<Longrightarrow> tn_state t = TurnRunning \<Longrightarrow> fifo (ts @ [t])"
  by (induction ts) (auto simp: idle_def)

lemma waiting_idle_iff: "waiting ts \<Longrightarrow> idle ts \<longleftrightarrow> find_index (\<lambda>t. tn_state t = TurnQueued) ts = None"
  by (induction ts) (auto simp: idle_def waiting_def list_all_iff)

lemma waiting_promote:
  "waiting ts \<Longrightarrow> find_index (\<lambda>t. tn_state t = TurnQueued) ts = Some k \<Longrightarrow> tn_state t = TurnRunning \<Longrightarrow> fifo (ts[k := t])"
proof (induction ts arbitrary: k)
  case (Cons u us)
  then show ?case by (cases "tn_state u = TurnQueued") (auto simp: waiting_def)
qed simp

lemma fifo_settle:
  "fifo ts \<Longrightarrow> k < length ts \<Longrightarrow> tn_state (ts ! k) = TurnRunning \<Longrightarrow> terminal (tn_state t) \<Longrightarrow> waiting (ts[k := t])"
proof (induction ts arbitrary: k)
  case (Cons u us)
  then show ?case by (cases k) (auto simp: waiting_def list_all_iff dest: bspec [OF _ nth_mem] split: if_splits)
qed simp

lemma fifo_withdraw:
  "fifo ts \<Longrightarrow> k < length ts \<Longrightarrow> tn_state (ts ! k) = TurnQueued \<Longrightarrow> terminal (tn_state t) \<Longrightarrow> fifo (ts[k := t]) \<and> \<not> idle (ts[k := t])"
proof (induction ts arbitrary: k)
  case (Cons u us)
  then show ?case
    by (cases k) (auto simp: idle_def list_all_iff dest: set_update_subset_insert [THEN subsetD] split: if_splits)
qed simp

lemma fifo_not_waiting_state:
  "fifo ts \<Longrightarrow> t \<in> set ts \<Longrightarrow> tn_state t = TurnRunning \<or> tn_state t = TurnQueued \<or> terminal (tn_state t)"
  by (induction ts) (auto simp: list_all_iff split: if_splits)

section \<open>Sessions\<close>

definition numbered :: "Event list \<Rightarrow> bool" where
  "numbered es \<longleftrightarrow> map et_sequence es = [et_sequence (hd es)..<et_sequence (hd es) + length es]"

definition events_ok :: "SessionID \<Rightarrow> sessionRecord \<Rightarrow> bool" where
  "events_ok sid r \<longleftrightarrow>
     se_id (ks_session r) = sid \<and> numbered (ks_events r) \<and> list_all (\<lambda>e. et_sessionID e = sid) (ks_events r)"

definition positions_ok :: "sessionRecord \<Rightarrow> bool" where
  "positions_ok r \<longleftrightarrow> map tn_position (ks_turns r) = [1..<Suc (length (ks_turns r))]"

definition lifecycle_ok :: "sessionRecord \<Rightarrow> bool" where
  "lifecycle_ok r \<longleftrightarrow>
     (case se_state (ks_session r) of
        SessionOpen \<Rightarrow> True
      | SessionClosing \<Rightarrow> \<not> idle (ks_turns r)
      | SessionCompleted \<Rightarrow> idle (ks_turns r)
      | SessionCancelled \<Rightarrow> idle (ks_turns r)
      | _ \<Rightarrow> False)"

definition session_ok :: "SessionID \<Rightarrow> sessionRecord \<Rightarrow> bool" where
  "session_ok sid r \<longleftrightarrow> events_ok sid r \<and> ks_events r \<noteq> [] \<and> positions_ok r \<and> fifo (ks_turns r) \<and> lifecycle_ok r"

lemma numbered_last:
  assumes "numbered es" and "es \<noteq> []"
  shows "et_sequence (last es) = et_sequence (hd es) + length es - 1"
proof -
  have "et_sequence (last es) = map et_sequence es ! (length es - 1)"
    using assms(2) by (simp add: last_conv_nth)
  also have "\<dots> = et_sequence (hd es) + (length es - 1)"
    unfolding assms(1) [unfolded numbered_def] using assms(2) by (subst nth_upt) auto
  finally show ?thesis using assms(2) by (cases es) auto
qed

lemma numbered_snoc:
  assumes "numbered es" and "es \<noteq> []" and "et_sequence e = et_sequence (last es) + 1"
  shows "numbered (es @ [e])"
  using assms numbered_last [OF assms(1,2)] by (cases es) (auto simp: numbered_def)

lemma numbered_drop:
  assumes "numbered es" and "n < length es"
  shows "numbered (drop n es)"
proof -
  have "et_sequence (es ! n) = et_sequence (hd es) + n"
    using assms by (metis length_map length_upt nth_map nth_upt numbered_def add_less_cancel_left)
  then show ?thesis using assms
    by (simp add: numbered_def hd_drop_conv_nth drop_map [symmetric])
qed

lemma appendEvent_Inr:
  assumes "appendEvent K kind i t r c = (Inr r', c')"
  shows "\<exists>e. r' = r\<lparr>ks_events := ks_events r @ [e]\<rparr> \<and> et_sequence e = nextEventSequence r
      \<and> et_sessionID e = se_id (ks_session r) \<and> et_kind e = kind \<and> et_turnID e = t"
    and "kx_next c' = Suc (Suc (kx_next c))"
  using assms draws_nextD [OF draws_next_ids(6)] draws_nextD [OF draws_next_ids(7)]
  by (auto simp: appendEvent_def) (fastforce dest: draws_nextD [OF draws_next_ids(6)] draws_nextD [OF draws_next_ids(7)])

lemma appendEvent_Inl:
  assumes "appendEvent K kind i t r c = (Inl e, c')"
  shows "e \<noteq> Panic \<and> kx_next c \<le> kx_next c'"
  using assms by (auto simp: appendEvent_def dest!: draws_nextD [OF draws_next_ids(6)] draws_nextD [OF draws_next_ids(7)])

lemma events_ok_append:
  assumes "events_ok sid r" and "ks_events r = [] \<or> et_sequence e = nextEventSequence r" and "et_sessionID e = se_id (ks_session r)"
  shows "events_ok sid (r\<lparr>ks_events := ks_events r @ [e]\<rparr>)"
  using assms numbered_snoc [of "ks_events r" e]
  by (cases "ks_events r = []") (auto simp: events_ok_def nextEventSequence_def numbered_def)

lemma appendEvent_ok:
  assumes "appendEvent K kind i t r c = (Inr r', c')" and "events_ok sid r"
  shows "events_ok sid r'" "ks_events r' \<noteq> []" "ks_turns r' = ks_turns r" "ks_session r' = ks_session r"
    "ks_inputs r' = ks_inputs r" "ks_trimmed r' = ks_trimmed r" "kx_next c \<le> kx_next c'"
  using appendEvent_Inr [OF assms(1)] events_ok_append [OF assms(2)] by auto

lemma events_ok_update [simp]:
  "events_ok sid (r\<lparr>ks_turns := ts\<rparr>) = events_ok sid r" "events_ok sid (r\<lparr>ks_inputs := m\<rparr>) = events_ok sid r"
  "events_ok sid (start_turn k at r) = events_ok sid r" "events_ok sid (set_session_state st r) = events_ok sid r"
  "events_ok sid (touch_session at r) = events_ok sid r"
  by (simp_all add: events_ok_def start_turn_def set_session_state_def touch_session_def)

lemma session_parts [simp]:
  "ks_turns (set_session_state st r) = ks_turns r" "ks_turns (touch_session at r) = ks_turns r"
  "ks_events (set_session_state st r) = ks_events r" "ks_events (touch_session at r) = ks_events r"
  "ks_events (start_turn k at r) = ks_events r" "ks_session (start_turn k at r) = ks_session r"
  "ks_inputs (start_turn k at r) = ks_inputs r" "ks_inputs (set_session_state st r) = ks_inputs r"
  "ks_inputs (touch_session at r) = ks_inputs r"
  "se_state (ks_session (set_session_state st r)) = st" "se_state (ks_session (touch_session at r)) = se_state (ks_session r)"
  by (simp_all add: start_turn_def set_session_state_def touch_session_def)

lemma turns_start_turn: "ks_turns (start_turn k at r)
    = (ks_turns r)[k := (ks_turns r ! k)\<lparr>tn_state := TurnRunning, tn_startedAt := Some at\<rparr>]"
  by (simp add: start_turn_def)

lemma map_update_same: "k < length xs \<Longrightarrow> f y = f (xs ! k) \<Longrightarrow> map f (xs[k := y]) = map f xs"
  by (simp add: map_update list_update_same_conv)

lemma session_ok_cong:
  assumes "ks_turns r' = ks_turns r" and "se_state (ks_session r') = se_state (ks_session r)"
  shows "lifecycle_ok r' = lifecycle_ok r" "positions_ok r' = positions_ok r"
  using assms by (simp_all add: lifecycle_ok_def positions_ok_def cong: SessionState.case_cong)

lemma session_ok_touch [simp]: "session_ok sid (touch_session at r) = session_ok sid r"
  by (simp add: session_ok_def session_ok_cong [of "touch_session at r" r])

text \<open>Advancing restores the invariant after the running Turn was settled, and changes nothing while a Turn runs.\<close>

lemma advance_ok:
  assumes adv: "advance K at r c = (Inr r', c')" and ev: "events_ok sid r" "ks_events r \<noteq> []" and pos: "positions_ok r"
    and turns: "fifo (ks_turns r) \<and> \<not> idle (ks_turns r) \<or> waiting (ks_turns r)"
    and st: "se_state (ks_session r) = SessionOpen \<or> se_state (ks_session r) = SessionClosing"
  shows "session_ok sid r' \<and> map tn_id (ks_turns r') = map tn_id (ks_turns r) \<and> ks_inputs r' = ks_inputs r \<and> kx_next c \<le> kx_next c'"
proof (cases "activeTurnIndex r")
  case (Some k)
  then have "\<not> waiting (ks_turns r)"
    by (force simp: activeTurnIndex_def waiting_def list_all_iff dest!: find_index_Some dest: nth_mem)
  with assms Some show ?thesis
    by (auto simp: advance_def session_ok_def lifecycle_ok_def split: SessionState.splits)
next
  case None
  with turns have w: "waiting (ks_turns r)"
    by (auto simp: activeTurnIndex_def fifo_idle_iff simp del: find_index_None find_index_None_iff)
  show ?thesis
  proof (cases "queuedTurnIndex r")
    case (Some k)
    let ?u = "(ks_turns r ! k)\<lparr>tn_state := TurnRunning, tn_startedAt := Some at\<rparr>"
    from Some have k: "k < length (ks_turns r)" by (auto simp: queuedTurnIndex_def dest: find_index_Some)
    from adv None Some have a: "appendEvent K EventTurnStarted (tn_inputID (ks_turns r ! k)) (tn_id (ks_turns r ! k)) (start_turn k at r) c = (Inr r', c')"
      by (simp add: advance_def)
    have turns': "ks_turns r' = (ks_turns r)[k := ?u]" using appendEvent_ok(3) [OF a, of sid] ev by (simp add: turns_start_turn)
    have "fifo (ks_turns r')" using w Some by (simp add: turns' queuedTurnIndex_def waiting_promote)
    moreover have "\<not> idle (ks_turns r')" using k by (auto simp: turns' idle_def list_all_iff set_update_memI intro!: bexI [of _ ?u])
    moreover have "positions_ok r'" "map tn_id (ks_turns r') = map tn_id (ks_turns r)"
      using pos k by (simp_all add: positions_ok_def turns' map_update_same del: upt_Suc)
    ultimately show ?thesis using appendEvent_ok(1,2,4,5,7) [OF a, of sid] ev st
      by (auto simp: session_ok_def lifecycle_ok_def)
  next
    case no: None
    with w have i: "idle (ks_turns r)"
      by (simp add: queuedTurnIndex_def waiting_idle_iff del: find_index_None find_index_None_iff)
    show ?thesis
    proof (cases "se_state (ks_session r) = SessionClosing")
      case True
      with adv None no have a: "appendEvent K EventSessionCompleted [] [] (set_session_state SessionCompleted r) c = (Inr r', c')"
        by (simp add: advance_def)
      from appendEvent_ok [OF a, of sid] ev pos i show ?thesis
        by (simp add: session_ok_def lifecycle_ok_def positions_ok_def idle_fifo del: upt_Suc)
    next
      case False
      with assms None no i show ?thesis by (auto simp: advance_def session_ok_def lifecycle_ok_def idle_fifo)
    qed
  qed
qed

lemma advance_Inl:
  assumes "advance K at r c = (Inl e, c')"
  shows "e \<noteq> Panic \<and> kx_next c \<le> kx_next c'"
  using assms by (auto simp: advance_def dest: appendEvent_Inl split: if_splits option.splits)

section \<open>Tenants\<close>

definition fresh_source :: "Kernel \<Rightarrow> bool" where
  "fresh_source K \<longleftrightarrow> (\<forall>i j p. kn_ids K i = Some p \<and> kn_ids K j = Some p \<longrightarrow> i = j)"

definition drawn :: "Kernel \<Rightarrow> nat \<Rightarrow> string \<Rightarrow> string \<Rightarrow> bool" where
  "drawn K n pre i \<longleftrightarrow> (\<exists>j < n. \<exists>p. kn_ids K j = Some p \<and> i = pre @ p)"

definition ids_ok :: "Kernel \<Rightarrow> nat \<Rightarrow> sessionRecord \<Rightarrow> bool" where
  "ids_ok K n r \<longleftrightarrow>
     distinct (map tn_id (ks_turns r)) \<and> (\<forall>t \<in> set (map tn_id (ks_turns r)). drawn K n ''turn_'' t)
     \<and> (\<forall>i \<in> dom (ks_inputs r). drawn K n ''inpt_'' i)"

definition key_ok :: "TenantState \<Rightarrow> idempotencyRecord \<Rightarrow> bool" where
  "key_ok s record \<longleftrightarrow>
     (kr_command record = ''send_input'' \<or> kr_command record = ''cancel_turn'' \<longrightarrow>
      (\<exists>r. map_of (ts_sessions s) (kr_session record) = Some r \<and> kr_turn record \<in> set (map tn_id (ks_turns r))
           \<and> (kr_command record = ''send_input'' \<longrightarrow> kr_input record \<in> dom (ks_inputs r))))"

definition tenant_ok :: "Kernel \<Rightarrow> nat \<Rightarrow> TenantState \<Rightarrow> bool" where
  "tenant_ok K n s \<longleftrightarrow>
     distinct (map fst (ts_sessions s))
     \<and> (\<forall>sid r. map_of (ts_sessions s) sid = Some r \<longrightarrow> session_ok sid r \<and> drawn K n ''sess_'' sid \<and> ids_ok K n r)
     \<and> (\<forall>i g. ts_agents s i = Some g \<longrightarrow> kg_revisions g \<noteq> [])
     \<and> (\<forall>key record. ts_idempotency s key = Some record \<longrightarrow> key_ok s record)"

lemma drawn_mono: "drawn K n pre i \<Longrightarrow> n \<le> m \<Longrightarrow> drawn K m pre i"
  by (auto simp: drawn_def intro: less_le_trans)

lemma ids_ok_mono: "ids_ok K n r \<Longrightarrow> n \<le> m \<Longrightarrow> ids_ok K m r"
  unfolding ids_ok_def by (blast intro: drawn_mono)

lemma tenant_ok_mono: "tenant_ok K n s \<Longrightarrow> n \<le> m \<Longrightarrow> tenant_ok K m s"
  unfolding tenant_ok_def by (blast intro: drawn_mono ids_ok_mono)

lemma drawn_fresh: "fresh_source K \<Longrightarrow> kn_ids K n = Some p \<Longrightarrow> \<not> drawn K n pre (pre @ p)"
  by (fastforce simp: drawn_def fresh_source_def)

lemma tenant_ok_new: "tenant_ok K n newTenantState"
  by (simp add: tenant_ok_def newTenantState_def)

lemma turnIndex_Some_iff: "turnIndex r i \<noteq> None \<longleftrightarrow> i \<in> tn_id ` set (ks_turns r)"
  by (auto simp: turnIndex_def image_iff)

text \<open>
  What no transaction loses: the recorded idempotency keys, the Sessions, the identifiers and order of their Turns and
  the Inputs.
\<close>

definition grows :: "TenantState \<Rightarrow> TenantState \<Rightarrow> bool" where
  "grows s s' \<longleftrightarrow>
     ts_idempotency s \<subseteq>\<^sub>m ts_idempotency s'
     \<and> (\<forall>sid r. map_of (ts_sessions s) sid = Some r \<longrightarrow>
          (\<exists>r'. map_of (ts_sessions s') sid = Some r' \<and> prefix (map tn_id (ks_turns r)) (map tn_id (ks_turns r'))
                \<and> ks_inputs r \<subseteq>\<^sub>m ks_inputs r'))"

lemma grows_refl [simp]: "grows s s"
  by (auto simp: grows_def)

lemma grows_trans: "grows s t \<Longrightarrow> grows t u \<Longrightarrow> grows s u"
  unfolding grows_def by (meson map_le_trans prefix_order.trans)

lemma grows_put_key: "grows s s' \<Longrightarrow> ts_idempotency s' key = None \<Longrightarrow> grows s (put_key key w s')"
  by (rule grows_trans) (auto simp: grows_def put_key_def map_le_def)

lemma map_of_put_session [simp]: "map_of (ts_sessions (put_session sid r s)) = (map_of (ts_sessions s))(sid \<mapsto> r)"
  by (simp add: put_session_def update_conv')

lemma put_session_key [simp]: "ts_idempotency (put_session sid r s) = ts_idempotency s"
  by (simp add: put_session_def)

definition follows :: "sessionRecord option \<Rightarrow> sessionRecord \<Rightarrow> bool" where
  "follows old r' \<longleftrightarrow>
     (case old of None \<Rightarrow> True
      | Some r \<Rightarrow> prefix (map tn_id (ks_turns r)) (map tn_id (ks_turns r')) \<and> ks_inputs r \<subseteq>\<^sub>m ks_inputs r')"

lemma grows_put_session: "follows (map_of (ts_sessions s) sid) r \<Longrightarrow> grows s (put_session sid r s)"
  by (auto simp: grows_def follows_def)

lemma tenant_ok_put_session:
  assumes ok: "tenant_ok K n s" and r: "session_ok sid r" "drawn K n ''sess_'' sid" "ids_ok K n r"
    and old: "follows (map_of (ts_sessions s) sid) r"
  shows "tenant_ok K n (put_session sid r s)"
proof -
  have "key_ok (put_session sid r s) w" if "key_ok s w" for w
    using that old by (fastforce simp: key_ok_def follows_def simp del: set_map dest: set_mono_prefix map_le_implies_dom_le)
  moreover have "distinct (map fst (ts_sessions (put_session sid r s)))"
    using ok by (simp add: tenant_ok_def put_session_def distinct_update)
  moreover have "ts_agents (put_session sid r s) = ts_agents s" by (simp add: put_session_def)
  ultimately show ?thesis using ok r by (auto simp: tenant_ok_def)
qed

lemma tenant_ok_put_key:
  assumes "tenant_ok K n s" and "key_ok s record"
  shows "tenant_ok K n (put_key key record s)"
  using assms by (auto simp: tenant_ok_def put_key_def key_ok_def)

lemma tenant_ok_revisions [simp]: "tenant_ok K n (s\<lparr>ts_revisions := m\<rparr>) = tenant_ok K n s"
  by (simp add: tenant_ok_def key_ok_def)

lemma tenant_ok_put_revision:
  assumes "tenant_ok K n s" and "kg_revisions g \<noteq> []"
  shows "tenant_ok K n (put_revision g a s)"
  using assms by (auto simp: tenant_ok_def put_revision_def key_ok_def)

lemma newSessionID_fresh:
  assumes "fresh_source K" and "newSessionID K c = (Inr sid, c')" and "tenant_ok K (kx_next c) s"
  shows "map_of (ts_sessions s) sid = None" and "drawn K (Suc (kx_next c)) ''sess_'' sid"
proof -
  from newID_drawn(1) [OF assms(2)] obtain p where p: "kn_ids K (kx_next c) = Some p" "sid = ''sess_'' @ p" by blast
  then show "drawn K (Suc (kx_next c)) ''sess_'' sid" by (auto simp: drawn_def)
  have "\<not> drawn K (kx_next c) ''sess_'' sid" using drawn_fresh [OF assms(1) p(1)] p(2) by blast
  with assms(3) show "map_of (ts_sessions s) sid = None"
    unfolding tenant_ok_def by (cases "map_of (ts_sessions s) sid") blast+
qed

section \<open>Transactions\<close>

text \<open>
  A transaction \<open>keeps\<close> the invariant when every outcome does and none is a panic; the identifiers drawn only grow. A
  method is \<open>safe\<close> when it does the same on the repository.
\<close>

definition keeps :: "Kernel \<Rightarrow> (TenantState \<Rightarrow> ('a \<times> TenantState) km) \<Rightarrow> bool" where
  "keeps K change \<longleftrightarrow>
     (\<forall>s c. tenant_ok K (kx_next c) s \<longrightarrow>
        (case change s c of
           (Inr (_, s'), c') \<Rightarrow> tenant_ok K (kx_next c') s' \<and> grows s s' \<and> kx_next c \<le> kx_next c'
         | (Inl e, c') \<Rightarrow> e \<noteq> Panic \<and> kx_next c \<le> kx_next c'))"

definition repo_ok :: "Kernel \<Rightarrow> nat \<Rightarrow> repository \<Rightarrow> bool" where
  "repo_ok K n repo \<longleftrightarrow> (\<forall>scope s. repo scope = Some s \<longrightarrow> tenant_ok K n s)"

definition repo_grows :: "repository \<Rightarrow> repository \<Rightarrow> bool" where
  "repo_grows repo repo' \<longleftrightarrow> (\<forall>scope. grows (tenant_state repo scope) (tenant_state repo' scope))"

definition safe :: "Kernel \<Rightarrow> (repository \<Rightarrow> ('a \<times> repository) km) \<Rightarrow> bool" where
  "safe K method \<longleftrightarrow>
     (\<forall>repo c. repo_ok K (kx_next c) repo \<longrightarrow>
        (case method repo c of
           (Inr (_, repo'), c') \<Rightarrow> repo_ok K (kx_next c') repo' \<and> repo_grows repo repo' \<and> kx_next c \<le> kx_next c'
         | (Inl e, c') \<Rightarrow> e \<noteq> Panic \<and> kx_next c \<le> kx_next c'))"

lemma keepsI:
  assumes "\<And>s c x s' c'. tenant_ok K (kx_next c) s \<Longrightarrow> change s c = (Inr (x, s'), c')
      \<Longrightarrow> tenant_ok K (kx_next c') s' \<and> grows s s' \<and> kx_next c \<le> kx_next c'"
    and "\<And>s c e c'. tenant_ok K (kx_next c) s \<Longrightarrow> change s c = (Inl e, c') \<Longrightarrow> e \<noteq> Panic \<and> kx_next c \<le> kx_next c'"
  shows "keeps K change"
  using assms by (fastforce simp: keeps_def split: prod.splits sum.splits)

lemma keepsD:
  assumes "keeps K change" and "tenant_ok K (kx_next c) s"
  shows "change s c = (Inr (x, s'), c') \<Longrightarrow> tenant_ok K (kx_next c') s' \<and> grows s s' \<and> kx_next c \<le> kx_next c'"
    and "change s c = (Inl e, c') \<Longrightarrow> e \<noteq> Panic \<and> kx_next c \<le> kx_next c'"
  using assms by (fastforce simp: keeps_def)+

lemma tenant_state_ok: "repo_ok K n repo \<Longrightarrow> tenant_ok K n (tenant_state repo scope)"
  by (auto simp: repo_ok_def tenant_state_def tenant_ok_new split: option.splits)

lemma tenant_state_update [simp]:
  "tenant_state (repo(scope \<mapsto> s)) scope' = (if scope' = scope then s else tenant_state repo scope')"
  by (simp add: tenant_state_def)

lemma repo_ok_update: "repo_ok K n repo \<Longrightarrow> n \<le> m \<Longrightarrow> tenant_ok K m s \<Longrightarrow> repo_ok K m (repo(scope \<mapsto> s))"
  by (auto simp: repo_ok_def intro: tenant_ok_mono)

lemma safe_Transact:
  assumes "keeps K change"
  shows "safe K (Transact ctx scope change)"
  unfolding safe_def
proof (intro allI impI)
  fix repo and c :: kctx assume ok: "repo_ok K (kx_next c) repo"
  show "case Transact ctx scope change repo c of
      (Inr (_, repo'), c') \<Rightarrow> repo_ok K (kx_next c') repo' \<and> repo_grows repo repo' \<and> kx_next c \<le> kx_next c'
    | (Inl e, c') \<Rightarrow> e \<noteq> Panic \<and> kx_next c \<le> kx_next c'"
    using keepsD [OF assms tenant_state_ok [OF ok, of scope]] ok repo_ok_update [OF ok]
    by (cases "change (tenant_state repo scope) c")
      (auto simp: Transact_def kbind_def kfail_def kpure_def repo_grows_def split: sum.splits)
qed

lemma safeD:
  assumes "safe K method" and "repo_ok K (kx_next c) repo"
  shows "method repo c = (Inr (x, repo'), c') \<Longrightarrow> repo_ok K (kx_next c') repo' \<and> repo_grows repo repo' \<and> kx_next c \<le> kx_next c'"
    and "method repo c = (Inl e, c') \<Longrightarrow> e \<noteq> Panic \<and> kx_next c \<le> kx_next c'"
  using assms by (fastforce simp: safe_def)+

lemma safe_kfail [simp]: "e \<noteq> Panic \<Longrightarrow> safe K (\<lambda>repo. kfail e)"
  by (simp add: safe_def kfail_def)

lemma safe_kguard: "safe K m \<Longrightarrow> e \<noteq> Some Panic \<Longrightarrow> safe K (\<lambda>repo. kguard e (m repo))"
  by (cases e) (auto simp: kguard_def safe_kfail)

lemma validateScopeAndContext_no_panic [simp]: "validateScopeAndContext ctx scope \<noteq> Some Panic"
  by (simp add: validateScopeAndContext_def)

lemma safe_if: "(b \<Longrightarrow> safe K m) \<Longrightarrow> (\<not> b \<Longrightarrow> safe K m') \<Longrightarrow> safe K (\<lambda>repo. if b then m repo else m' repo)"
  by (cases b) simp_all

lemma safe_option: "safe K m \<Longrightarrow> (\<And>x. safe K (m' x)) \<Longrightarrow> safe K (\<lambda>repo. case a of None \<Rightarrow> m repo | Some x \<Rightarrow> m' x repo)"
  by (cases a) simp_all

lemmas safe_intros = safe_Transact safe_kfail safe_kguard safe_if safe_option

end
