(* ===== verification/Kernel_Invariant.thy ===== *)
theory Kernel_Invariant
  imports Kernel_Runs
begin

text \<open>
  Every method of the agent kernel keeps the invariant of the repository and never panics, provided the identifier source
  does not repeat itself; hence every repository a run of the kernel reaches satisfies it.
\<close>

section \<open>What the steps do to a Session\<close>

text \<open>A step on a Session record is \<open>good\<close> when it keeps the Session and its Turns' identifiers, only draws further
  identifiers and never panics.\<close>

definition good :: "SessionID \<Rightarrow> sessionRecord \<Rightarrow> sessionRecord km \<Rightarrow> bool" where
  "good sid r m \<longleftrightarrow>
     (\<forall>c. case m c of
        (Inr r', c') \<Rightarrow> session_ok sid r' \<and> map tn_id (ks_turns r') = map tn_id (ks_turns r) \<and> ks_inputs r' = ks_inputs r \<and> kx_next c \<le> kx_next c'
      | (Inl e, c') \<Rightarrow> e \<noteq> Panic \<and> kx_next c \<le> kx_next c')"

lemma goodI:
  assumes "\<And>c r' c'. m c = (Inr r', c') \<Longrightarrow>
      session_ok sid r' \<and> map tn_id (ks_turns r') = map tn_id (ks_turns r) \<and> ks_inputs r' = ks_inputs r \<and> kx_next c \<le> kx_next c'"
    and "\<And>c e c'. m c = (Inl e, c') \<Longrightarrow> e \<noteq> Panic \<and> kx_next c \<le> kx_next c'"
  shows "good sid r m"
  using assms by (fastforce simp: good_def split: prod.splits sum.splits)

lemma goodD:
  assumes "good sid r m"
  shows "m c = (Inr r', c') \<Longrightarrow> session_ok sid r' \<and> map tn_id (ks_turns r') = map tn_id (ks_turns r) \<and> ks_inputs r' = ks_inputs r \<and> kx_next c \<le> kx_next c'"
    and "m c = (Inl e, c') \<Longrightarrow> e \<noteq> Panic \<and> kx_next c \<le> kx_next c'"
  using assms [unfolded good_def, rule_format, of c] by auto

lemma session_ok_states:
  assumes "session_ok sid r" and "\<not> idle (ks_turns r)"
  shows "se_state (ks_session r) = SessionOpen \<or> se_state (ks_session r) = SessionClosing"
  using assms by (auto simp: session_ok_def lifecycle_ok_def split: SessionState.splits)

lemma running_not_idle: "k < length ts \<Longrightarrow> \<not> terminal (tn_state (ts ! k)) \<Longrightarrow> \<not> idle ts"
  by (auto simp: idle_def list_all_iff dest: bspec [OF _ nth_mem])

lemma settle_turn_good:
  assumes ok: "session_ok sid r" and k: "k < length (ks_turns r)" "\<not> terminal (tn_state (ks_turns r ! k))"
    and t: "terminal (tn_state t)" "tn_id t = tn_id (ks_turns r ! k)" "tn_position t = tn_position (ks_turns r ! k)"
  shows "good sid r (settle_turn K kind at k t r)"
proof (rule goodI)
  let ?r = "r\<lparr>ks_turns := (ks_turns r)[k := t]\<rparr>"
  from ok have ev: "events_ok sid ?r" and pos: "positions_ok ?r" and fifo: "fifo (ks_turns r)"
    using k t by (simp_all add: session_ok_def positions_ok_def map_update_same del: upt_Suc)
  from ok have st: "se_state (ks_session r) = SessionOpen \<or> se_state (ks_session r) = SessionClosing"
    by (rule session_ok_states) (use running_not_idle k in blast)
  have turns: "fifo (ks_turns ?r) \<and> \<not> idle (ks_turns ?r) \<or> waiting (ks_turns ?r)"
    using fifo_not_waiting_state [OF fifo nth_mem [OF k(1)]] k t fifo fifo_settle fifo_withdraw by auto
  {
    fix c r' c' assume "settle_turn K kind at k t r c = (Inr r', c')"
    then obtain r1 c1 r2 where a: "appendEvent K kind (tn_inputID t) (tn_id t) ?r c = (Inr r1, c1)"
      and adv: "advance K at r1 c1 = (Inr r2, c')" and r': "r' = touch_session at r2"
      by (auto simp: settle_turn_def)
    note a' = appendEvent_ok [OF a ev]
    have "session_ok sid r2 \<and> map tn_id (ks_turns r2) = map tn_id (ks_turns r1) \<and> ks_inputs r2 = ks_inputs r1 \<and> kx_next c1 \<le> kx_next c'"
      using adv by (rule advance_ok) (use a' turns st pos in \<open>auto simp: positions_ok_def simp del: upt_Suc\<close>)
    then show "session_ok sid r' \<and> map tn_id (ks_turns r') = map tn_id (ks_turns r) \<and> ks_inputs r' = ks_inputs r \<and> kx_next c \<le> kx_next c'"
      using a' k t by (simp add: r' map_update_same del: set_map)
  next
    fix c e c' assume "settle_turn K kind at k t r c = (Inl e, c')"
    then show "e \<noteq> Panic \<and> kx_next c \<le> kx_next c'"
      by (auto simp: settle_turn_def dest!: appendEvent_Inl advance_Inl appendEvent_Inr(2))
  }
qed

lemma close_record_good:
  assumes ok: "session_ok sid r"
  shows "good sid r (close_record K r)"
proof (rule goodI)
  fix c r' c' assume c: "close_record K r c = (Inr r', c')"
  then obtain at c0 r1 c1 where c0: "c0 = c\<lparr>kx_tick := Suc (kx_tick c)\<rparr>"
    and a: "appendEvent K EventSessionClosing [] [] (touch_session at (set_session_state SessionClosing r)) c0 = (Inr r1, c1)"
    and b: "(if activeTurnIndex r1 = None then appendEvent K EventSessionCompleted [] [] (set_session_state SessionCompleted r1)
             else kpure r1) c1 = (Inr r', c')"
    by (auto simp: close_record_def)
  note a' = appendEvent_ok [OF a, of sid]
  from ok have fifo: "fifo (ks_turns r)" and pos: "positions_ok r" and ev: "events_ok sid r" by (simp_all add: session_ok_def)
  have i: "idle (ks_turns r) \<longleftrightarrow> activeTurnIndex r1 = None"
    using a' ev fifo by (simp add: fifo_idle_iff activeTurnIndex_def del: find_index_None find_index_None_iff)
  show "session_ok sid r' \<and> map tn_id (ks_turns r') = map tn_id (ks_turns r) \<and> ks_inputs r' = ks_inputs r \<and> kx_next c \<le> kx_next c'"
  proof (cases "activeTurnIndex r1 = None")
    case True
    with b have b': "appendEvent K EventSessionCompleted [] [] (set_session_state SessionCompleted r1) c1 = (Inr r', c')" by simp
    from appendEvent_ok [OF b', of sid] a' ev fifo pos i True c0 show ?thesis
      by (simp add: session_ok_def lifecycle_ok_def positions_ok_def del: upt_Suc)
  next
    case False
    with b a' ev fifo pos i c0 show ?thesis by (auto simp: session_ok_def lifecycle_ok_def positions_ok_def simp del: upt_Suc)
  qed
next
  fix c e c' assume "close_record K r c = (Inl e, c')"
  then show "e \<noteq> Panic \<and> kx_next c \<le> kx_next c'"
    by (auto simp: close_record_def dest!: appendEvent_Inl appendEvent_Inr(2) split: if_splits)
qed

lemma cancel_record_good:
  assumes ok: "session_ok sid r" and none: "activeTurnIndex r = None"
  shows "good sid r (cancel_record K r)"
proof (rule goodI)
  fix c r' c' assume "cancel_record K r c = (Inr r', c')"
  then obtain at c0 where c0: "c0 = c\<lparr>kx_tick := Suc (kx_tick c)\<rparr>"
    and a: "appendEvent K EventSessionCancelled [] [] (touch_session at (set_session_state SessionCancelled r)) c0 = (Inr r', c')"
    by (auto simp: cancel_record_def)
  from ok none have "idle (ks_turns r)"
    by (simp add: session_ok_def fifo_idle_iff activeTurnIndex_def del: find_index_None find_index_None_iff)
  with appendEvent_ok [OF a, of sid] ok c0
  show "session_ok sid r' \<and> map tn_id (ks_turns r') = map tn_id (ks_turns r) \<and> ks_inputs r' = ks_inputs r \<and> kx_next c \<le> kx_next c'"
    by (simp add: session_ok_def lifecycle_ok_def positions_ok_def del: upt_Suc)
next
  fix c e c' assume "cancel_record K r c = (Inl e, c')"
  then show "e \<noteq> Panic \<and> kx_next c \<le> kx_next c'"
    by (auto simp: cancel_record_def dest!: appendEvent_Inl)
qed

lemma session_ok_snoc:
  assumes "positions_ok r" "ks_turns r' = ks_turns r @ [u]" "tn_position u = Suc (length (ks_turns r))" "fifo (ks_turns r')"
    and "events_ok sid r'" "ks_events r' \<noteq> []" "se_state (ks_session r') = SessionOpen"
  shows "session_ok sid r'"
  using assms by (simp add: session_ok_def lifecycle_ok_def positions_ok_def)

lemma accept_input_Inr:
  assumes c: "accept_input K parts r c = (Inr (i, t, r'), c')" and ok: "session_ok sid r" and st: "se_state (ks_session r) = SessionOpen"
  shows "session_ok sid r' \<and> (\<exists>u. map tn_id (ks_turns r') = map tn_id (ks_turns r) @ [t]
      \<and> ks_turns r' = ks_turns r @ [u] \<and> tn_inputID u = i \<and> tn_position u = Suc (length (ks_turns r))
      \<and> tn_state u = (if idle (ks_turns r) then TurnRunning else TurnQueued))
    \<and> (\<exists>at. ks_inputs r' = (ks_inputs r)(i \<mapsto> \<lparr>ip_id = i, ip_parts = parts, ip_acceptedAt = at\<rparr>)) \<and> kx_next c \<le> kx_next c'
    \<and> (\<exists>at. ks_session r' = (ks_session r)\<lparr>se_updatedAt := at\<rparr>)"
proof -
  from c obtain at input turn c1 c2 c3 r1 r2 c4 where
    d: "newInputID K c = (Inr i, c1)" "newTurnID K c1 = (Inr t, c2)" "c3 = c2\<lparr>kx_tick := Suc (kx_tick c2)\<rparr>"
    and x: "input = \<lparr>ip_id = i, ip_parts = parts, ip_acceptedAt = at\<rparr>"
    and u: "turn = \<lparr>tn_id = t, tn_inputID = i, tn_position = length (ks_turns r) + 1, tn_state = TurnQueued,
       tn_startedAt = None, tn_completedAt = None, tn_failure = None, tn_usage = None, tn_output = None\<rparr>"
    and a: "appendEvent K EventInputAccepted i t (r\<lparr>ks_inputs := (ks_inputs r)(i \<mapsto> input), ks_turns := ks_turns r @ [turn]\<rparr>) c3 = (Inr r1, c4)"
    and b: "(if activeTurnIndex r1 = None
        then appendEvent K EventTurnStarted i t (start_turn (length (ks_turns r1) - 1) at r1)
        else appendEvent K EventTurnQueued i t r1) c4 = (Inr r2, c')" and r': "r' = touch_session at r2"
    by (auto simp: accept_input_def Let_def)
  have next_le: "kx_next c \<le> kx_next c3"
    using draws_nextD [OF draws_next_ids(4) d(1)] draws_nextD [OF draws_next_ids(5) d(2)] d(3) by simp
  from ok have ev: "events_ok sid r" and pos: "positions_ok r" and fifo: "fifo (ks_turns r)" by (simp_all add: session_ok_def)
  note a' = appendEvent_ok [OF a, of sid]
  have turns1: "ks_turns r1 = ks_turns r @ [turn]" using a' ev by simp
  have i: "activeTurnIndex r1 = None \<longleftrightarrow> idle (ks_turns r)"
    using fifo_idle_iff [OF fifo] u by (auto simp: activeTurnIndex_def turns1)
  have ev1: "events_ok sid r1" "events_ok sid (start_turn (length (ks_turns r1) - 1) at r1)" using a' ev by simp_all
  show ?thesis
  proof (cases "idle (ks_turns r)")
    case True
    with b i have b': "appendEvent K EventTurnStarted i t (start_turn (length (ks_turns r1) - 1) at r1) c4 = (Inr r2, c')" by simp
    let ?u = "turn\<lparr>tn_state := TurnRunning, tn_startedAt := Some at\<rparr>"
    note b'' = appendEvent_ok [OF b' ev1(2)]
    have turns2: "ks_turns r2 = ks_turns r @ [?u]" using b''(3) by (simp add: turns_start_turn turns1)
    have "session_ok sid r2"
      by (rule session_ok_snoc [OF pos turns2]) (use b''(1,2,4) a'(4) ev st u True in \<open>simp_all add: turns2 fifo_snoc_running del: upt_Suc\<close>)
    moreover have "kx_next c \<le> kx_next c'" using b''(7) a'(7) ev next_le by simp
    moreover have "ks_inputs r2 = (ks_inputs r)(i \<mapsto> input)" using b''(5) a'(5) ev by simp
    moreover have "ks_session r2 = ks_session r" using b''(4) a'(4) ev by simp
    then have "\<exists>at. ks_session r' = (ks_session r)\<lparr>se_updatedAt := at\<rparr>" by (auto simp: r' touch_session_def)
    ultimately show ?thesis using True by (auto simp: r' turns2 u x)
  next
    case False
    with b i have b': "appendEvent K EventTurnQueued i t r1 c4 = (Inr r2, c')" by simp
    note b'' = appendEvent_ok [OF b' ev1(1)]
    have turns2: "ks_turns r2 = ks_turns r @ [turn]" using b''(3) by (simp add: turns1)
    have "session_ok sid r2"
      by (rule session_ok_snoc [OF pos turns2]) (use b''(1,2,4) a'(4) ev st u False fifo in \<open>simp_all add: turns2 fifo_snoc_queued del: upt_Suc\<close>)
    moreover have "kx_next c \<le> kx_next c'" using b''(7) a'(7) ev next_le by simp
    moreover have "ks_inputs r2 = (ks_inputs r)(i \<mapsto> input)" using b''(5) a'(5) ev by simp
    moreover have "ks_session r2 = ks_session r" using b''(4) a'(4) ev by simp
    then have "\<exists>at. ks_session r' = (ks_session r)\<lparr>se_updatedAt := at\<rparr>" by (auto simp: r' touch_session_def)
    ultimately show ?thesis using False by (auto simp: r' turns2 u x)
  qed
qed

lemma accept_input_Inl:
  assumes "accept_input K parts r c = (Inl e, c')"
  shows "e \<noteq> Panic \<and> kx_next c \<le> kx_next c'"
  using assms
  by (auto simp: accept_input_def Let_def dest!: appendEvent_Inl appendEvent_Inr(2) draws_nextD [OF draws_next_ids(4)]
    draws_nextD [OF draws_next_ids(5)] split: if_splits)

lemma accept_input_ids:
  assumes "accept_input K parts r c = (Inr (i, t, r'), c')"
  shows "\<exists>p. kn_ids K (kx_next c) = Some p \<and> i = ''inpt_'' @ p" and "\<exists>p. kn_ids K (Suc (kx_next c)) = Some p \<and> t = ''turn_'' @ p"
    and "Suc (Suc (kx_next c)) \<le> kx_next c'"
proof -
  from assms obtain c1 c2 r0 r1 c3 x y r2 where d: "newInputID K c = (Inr i, c1)" "newTurnID K c1 = (Inr t, c2)"
    and a: "appendEvent K EventInputAccepted i t r0 (c2\<lparr>kx_tick := Suc (kx_tick c2)\<rparr>) = (Inr r1, c3)"
    and b: "appendEvent K x i t y c3 = (Inr r2, c')"
    by (auto simp: accept_input_def Let_def split: if_splits)
  note n = draws_nextD [OF draws_next_ids(4) d(1)] draws_nextD [OF draws_next_ids(5) d(2)]
  from newID_drawn(2) [OF d(1)] show "\<exists>p. kn_ids K (kx_next c) = Some p \<and> i = ''inpt_'' @ p" .
  from newID_drawn(3) [OF d(2)] n show "\<exists>p. kn_ids K (Suc (kx_next c)) = Some p \<and> t = ''turn_'' @ p" by simp
  show "Suc (Suc (kx_next c)) \<le> kx_next c'" using appendEvent_Inr(2) [OF a] appendEvent_Inr(2) [OF b] n by simp
qed

lemma accept_input_follows:
  assumes fresh: "fresh_source K" and ids: "ids_ok K (kx_next c) r" and a: "accept_input K parts r c = (Inr (i, t, r'), c')"
    and ok: "session_ok sid r" "se_state (ks_session r) = SessionOpen"
  shows "ids_ok K (kx_next c') r' \<and> follows (Some r) r' \<and> t \<in> set (map tn_id (ks_turns r')) \<and> i \<in> dom (ks_inputs r')"
proof -
  from accept_input_Inr [OF a ok] obtain at where ts: "map tn_id (ks_turns r') = map tn_id (ks_turns r) @ [t]"
    and ip: "ks_inputs r' = (ks_inputs r)(i \<mapsto> \<lparr>ip_id = i, ip_parts = parts, ip_acceptedAt = at\<rparr>)" by auto
  from accept_input_ids [OF a] obtain p q where p: "kn_ids K (kx_next c) = Some p" "i = ''inpt_'' @ p"
    and q: "kn_ids K (Suc (kx_next c)) = Some q" "t = ''turn_'' @ q" and le: "Suc (Suc (kx_next c)) \<le> kx_next c'" by blast
  have "\<not> drawn K (kx_next c) ''inpt_'' i" using drawn_fresh [OF fresh p(1)] p(2) by blast
  then have i: "i \<notin> dom (ks_inputs r)" using ids by (auto simp: ids_ok_def)
  have "\<not> drawn K (Suc (kx_next c)) ''turn_'' t" using drawn_fresh [OF fresh q(1)] q(2) by blast
  then have t: "t \<notin> set (map tn_id (ks_turns r))"
    using ids drawn_mono [of K "kx_next c" "''turn_''" t "Suc (kx_next c)"] by (auto simp: ids_ok_def)
  have d: "drawn K (kx_next c') ''turn_'' t" "drawn K (kx_next c') ''inpt_'' i" using p q Suc_le_lessD [OF le] by (auto simp: drawn_def intro: Suc_lessD)
  have "ids_ok K (kx_next c') r" by (rule ids_ok_mono [OF ids]) (use le in simp)
  with d t have "ids_ok K (kx_next c') r'" unfolding ids_ok_def ts ip by (simp del: set_map)
  moreover have "ks_inputs r \<subseteq>\<^sub>m ks_inputs r'" using i by (auto simp: ip map_le_def)
  ultimately show ?thesis unfolding follows_def ts by (simp add: ip)
qed

section \<open>What the transactions do to the state of a scope\<close>

text \<open>The pointwise form of \<open>keeps\<close>, which composes along the statements of a transaction.\<close>

definition holds :: "Kernel \<Rightarrow> TenantState \<Rightarrow> ('a \<times> TenantState) km \<Rightarrow> bool" where
  "holds K s m \<longleftrightarrow>
     (\<forall>c. tenant_ok K (kx_next c) s \<longrightarrow>
        (case m c of
           (Inr (_, s'), c') \<Rightarrow> tenant_ok K (kx_next c') s' \<and> grows s s' \<and> kx_next c \<le> kx_next c'
         | (Inl e, c') \<Rightarrow> e \<noteq> Panic \<and> kx_next c \<le> kx_next c'))"

lemma keeps_holds: "(\<And>s n. tenant_ok K n s \<Longrightarrow> holds K s (change s)) \<Longrightarrow> keeps K change"
  by (fastforce simp: keeps_def holds_def)

lemma holdsI:
  assumes "\<And>c x s' c'. tenant_ok K (kx_next c) s \<Longrightarrow> m c = (Inr (x, s'), c') \<Longrightarrow> tenant_ok K (kx_next c') s' \<and> grows s s' \<and> kx_next c \<le> kx_next c'"
    and "\<And>c e c'. tenant_ok K (kx_next c) s \<Longrightarrow> m c = (Inl e, c') \<Longrightarrow> e \<noteq> Panic \<and> kx_next c \<le> kx_next c'"
  shows "holds K s m"
  using assms by (fastforce simp: holds_def split: prod.splits sum.splits)

lemma holdsD:
  assumes "holds K s m" and "tenant_ok K n s" and "n \<le> kx_next c"
  shows "m c = (Inr (x, s'), c') \<Longrightarrow> tenant_ok K (kx_next c') s' \<and> grows s s' \<and> n \<le> kx_next c'"
    and "m c = (Inl e, c') \<Longrightarrow> e \<noteq> Panic \<and> n \<le> kx_next c'"
  using assms(1) [unfolded holds_def, rule_format, OF tenant_ok_mono [OF assms(2,3)]] assms(3) by auto

lemma holds_kfail [simp]: "e \<noteq> Panic \<Longrightarrow> holds K s (kfail e)"
  by (simp add: holds_def kfail_def)

lemma holds_if: "(b \<Longrightarrow> holds K s m) \<Longrightarrow> (\<not> b \<Longrightarrow> holds K s m') \<Longrightarrow> holds K s (if b then m else m')"
  by simp

lemma holds_option:
  "(a = None \<Longrightarrow> holds K s m) \<Longrightarrow> (\<And>x. a = Some x \<Longrightarrow> holds K s (m' x)) \<Longrightarrow> holds K s (case a of None \<Rightarrow> m | Some x \<Rightarrow> m' x)"
  by (cases a) simp_all

lemma holds_kpure: "(\<And>n. tenant_ok K n s \<Longrightarrow> tenant_ok K n s') \<Longrightarrow> grows s s' \<Longrightarrow> holds K s (kpure (x, s'))"
  by (simp add: holds_def kpure_def)

lemma holds_now:
  assumes f: "\<And>at. holds K s (f at)"
  shows "holds K s (kbind (kernel_now K) f)"
proof (rule holdsI)
  fix c x s' c' assume ok: "tenant_ok K (kx_next c) s" and "kbind (kernel_now K) f c = (Inr (x, s'), c')"
  then obtain at where "f at (c\<lparr>kx_tick := Suc (kx_tick c)\<rparr>) = (Inr (x, s'), c')" by auto
  from holdsD(1) [OF f ok _ this] show "tenant_ok K (kx_next c') s' \<and> grows s s' \<and> kx_next c \<le> kx_next c'" by simp
next
  fix c e c' assume ok: "tenant_ok K (kx_next c) s" and "kbind (kernel_now K) f c = (Inl e, c')"
  then obtain at where "f at (c\<lparr>kx_tick := Suc (kx_tick c)\<rparr>) = (Inl e, c')" by auto
  from holdsD(2) [OF f ok _ this] show "e \<noteq> Panic \<and> kx_next c \<le> kx_next c'" by simp
qed

lemma holds_draw:
  assumes m: "draws_next m" and f: "\<And>x. holds K s (f x)"
  shows "holds K s (kbind m f)"
proof (rule holdsI)
  fix c x s' c' assume ok: "tenant_ok K (kx_next c) s" and "kbind m f c = (Inr (x, s'), c')"
  then obtain y c1 where y: "m c = (Inr y, c1)" "f y c1 = (Inr (x, s'), c')" by auto
  from holdsD(1) [OF f ok _ y(2)] draws_nextD [OF m y(1)] show "tenant_ok K (kx_next c') s' \<and> grows s s' \<and> kx_next c \<le> kx_next c'" by simp
next
  fix c e c' assume ok: "tenant_ok K (kx_next c) s" and "kbind m f c = (Inl e, c')"
  then consider "m c = (Inl e, c')" | y c1 where "m c = (Inr y, c1)" "f y c1 = (Inl e, c')" by auto
  then show "e \<noteq> Panic \<and> kx_next c \<le> kx_next c'"
  proof cases
    case 1 then show ?thesis using draws_nextD [OF m 1] by auto
  next
    case (2 y c1) then show ?thesis using holdsD(2) [OF f ok _ 2(2)] draws_nextD [OF m 2(1)] by simp
  qed
qed

text \<open>The keyed prefix: a replay reads only, and a body runs only while its key is unused.\<close>

lemma holds_keyed:
  assumes ok: "tenant_ok K n s" and body: "ts_idempotency s key = None \<Longrightarrow> holds K s body"
    and replay: "\<And>w. key_ok s w \<Longrightarrow> kr_command w = command \<Longrightarrow> replay w \<noteq> Inl Panic"
  shows "holds K s (keyed key command digest replay body s)"
proof (cases "ts_idempotency s key")
  case None
  with body show ?thesis by (simp add: keyed_def)
next
  case (Some w)
  with ok have "key_ok s w" by (auto simp: tenant_ok_def)
  with Some replay show ?thesis
    by (auto simp: keyed_def klift_def kbind_def kpure_def kfail_def holds_def split: sum.splits)
qed

lemma tenant_ok_session:
  "tenant_ok K n s \<Longrightarrow> map_of (ts_sessions s) sid = Some r \<Longrightarrow> session_ok sid r \<and> drawn K n ''sess_'' sid \<and> ids_ok K n r"
  unfolding tenant_ok_def by blast

lemma holds_session_step:
  assumes m: "good sid r m" and r: "map_of (ts_sessions s) sid = Some r"
    and g: "\<And>n r'. tenant_ok K n (put_session sid r' s) \<Longrightarrow> map tn_id (ks_turns r') = map tn_id (ks_turns r)
      \<Longrightarrow> tenant_ok K n (g (put_session sid r' s))"
    and h: "\<And>s'. ts_idempotency s' = ts_idempotency s \<Longrightarrow> grows s s' \<Longrightarrow> grows s (g s')"
  shows "holds K s (kbind m (\<lambda>r'. kpure (f r', g (put_session sid r' s))))"
proof (rule holdsI)
  fix c x s' c' assume ok: "tenant_ok K (kx_next c) s" and "kbind m (\<lambda>r'. kpure (f r', g (put_session sid r' s))) c = (Inr (x, s'), c')"
  then obtain r' where r': "m c = (Inr r', c')" "s' = g (put_session sid r' s)" by auto
  note d = goodD(1) [OF m r'(1)]
  note old = tenant_ok_session [OF ok r]
  have follows: "follows (map_of (ts_sessions s) sid) r'" using d r by (simp add: follows_def)
  have "ids_ok K (kx_next c) r'" using old d by (simp add: ids_ok_def del: set_map)
  then have ids: "ids_ok K (kx_next c') r'" using d ids_ok_mono by blast
  have "tenant_ok K (kx_next c') (put_session sid r' s)"
    by (rule tenant_ok_put_session) (use d ids follows tenant_ok_mono [OF ok] drawn_mono old in auto)
  with g d r'(2) h [OF _ grows_put_session [OF follows]]
  show "tenant_ok K (kx_next c') s' \<and> grows s s' \<and> kx_next c \<le> kx_next c'" by simp
next
  fix c e c' assume "kbind m (\<lambda>r'. kpure (f r', g (put_session sid r' s))) c = (Inl e, c')"
  then show "e \<noteq> Panic \<and> kx_next c \<le> kx_next c'" using goodD(2) [OF m] by auto
qed

lemma tenant_ok_put_turn_key:
  "tenant_ok K n (put_session sid r s) \<Longrightarrow> kr_session w = sid \<Longrightarrow> kr_turn w \<in> set (map tn_id (ks_turns r))
   \<Longrightarrow> kr_command w = ''send_input'' \<longrightarrow> kr_input w \<in> dom (ks_inputs r) \<Longrightarrow> tenant_ok K n (put_key key w (put_session sid r s))"
  by (rule tenant_ok_put_key) (auto simp: key_ok_def)

lemma tenant_ok_put_other_key:
  "tenant_ok K n s \<Longrightarrow> kr_command w \<noteq> ''send_input'' \<Longrightarrow> kr_command w \<noteq> ''cancel_turn'' \<Longrightarrow> tenant_ok K n (put_key key w s)"
  by (rule tenant_ok_put_key) (auto simp: key_ok_def)

lemma grows_put_revision [simp]: "grows s (put_revision g a s)" "ts_idempotency (put_revision g a s) = ts_idempotency s"
  by (simp_all add: grows_def put_revision_def)

section \<open>The methods\<close>

lemma open_session_holds:
  assumes fresh: "fresh_source K" and key: "ts_idempotency s key = None"
  shows "holds K s (open_session K key digest revision s)"
proof (rule holdsI)
  fix c x s' c' assume ok: "tenant_ok K (kx_next c) s" and "open_session K key digest revision s c = (Inr (x, s'), c')"
  then obtain sid c1 at c2 r where sid: "newSessionID K c = (Inr sid, c1)" and c2: "c2 = c1\<lparr>kx_tick := Suc (kx_tick c1)\<rparr>"
    and x: "x = \<lparr>se_id = sid, se_agentID = as_id revision, se_agentRevision = as_revisionID revision, se_state = SessionOpen,
              se_createdAt = at, se_updatedAt = at\<rparr>"
    and a: "appendEvent K EventSessionCreated [] [] (zero_sessionRecord\<lparr>ks_session := x\<rparr>) c2 = (Inr r, c')"
    and s': "s' = put_key key (zero_idempotencyRecord\<lparr>kr_command := ''create_session'', kr_digest := digest, kr_session := sid\<rparr>)
          (put_session sid r s)"
    by (auto simp: open_session_def Let_def)
  have "events_ok sid (zero_sessionRecord\<lparr>ks_session := x\<rparr>)" by (simp add: events_ok_def zero_sessionRecord_def x numbered_def)
  note a' = appendEvent_ok [OF a this]
  have r: "session_ok sid r" "ids_ok K n r" for n
    using a' x by (simp_all add: session_ok_def positions_ok_def lifecycle_ok_def ids_ok_def zero_sessionRecord_def)
  have le: "Suc (kx_next c) \<le> kx_next c'" using a'(7) draws_nextD [OF draws_next_ids(3) sid] c2 by simp
  note new = newSessionID_fresh [OF fresh sid ok]
  have follows: "follows (map_of (ts_sessions s) sid) r" using new(1) by (simp add: follows_def)
  have "tenant_ok K (kx_next c') (put_session sid r s)"
    by (rule tenant_ok_put_session) (use r le new drawn_mono tenant_ok_mono [OF ok] follows in auto)
  with le key grows_put_session [OF follows]
  show "tenant_ok K (kx_next c') s' \<and> grows s s' \<and> kx_next c \<le> kx_next c'"
    by (simp add: s' tenant_ok_put_other_key grows_put_key)
next
  fix c e c' assume "open_session K key digest revision s c = (Inl e, c')"
  then show "e \<noteq> Panic \<and> kx_next c \<le> kx_next c'"
    by (auto simp: open_session_def Let_def dest!: appendEvent_Inl draws_nextD [OF draws_next_ids(3)])
qed

lemma stored_turn:
  assumes "key_ok s w" and "kr_command w = ''send_input'' \<or> kr_command w = ''cancel_turn''"
  shows "turnIndex (stored_session s (kr_session w)) (kr_turn w) \<noteq> None"
  using assms unfolding turnIndex_Some_iff by (auto simp: key_ok_def stored_session_def)

lemma CreateAgent_safe: "safe K (CreateAgent K ctx scope q)"
  unfolding CreateAgent_def
  by (intro safe_intros keeps_holds holds_keyed holds_if holds_draw holds_now)
    (auto simp: Let_def intro!: holds_kpure tenant_ok_put_other_key tenant_ok_put_revision grows_put_key)

lemma ReviseAgent_safe: "safe K (ReviseAgent K ctx scope q)"
  unfolding ReviseAgent_def
proof (intro safe_intros keeps_holds holds_keyed holds_if holds_option holds_draw)
  fix s n agent x assume "tenant_ok K n s" and "ts_agents s (qr_agentID q) = Some agent" and "kg_revisions agent = []"
  then show "holds K s (kfail Panic)" by (auto simp: tenant_ok_def)
qed (auto simp: Let_def intro!: holds_kpure holds_now tenant_ok_put_other_key tenant_ok_put_revision grows_put_key)

lemma grows_revisions [simp]: "grows (s\<lparr>ts_revisions := m\<rparr>) s' = grows s s'"
  by (simp add: grows_def)

lemma holds_revisions: "holds K (s\<lparr>ts_revisions := m\<rparr>) f \<Longrightarrow> holds K s f"
  by (simp add: holds_def cong: sum.case_cong prod.case_cong)

lemma open_session_revisions:
  assumes "fresh_source K" and "ts_idempotency s key = None"
  shows "holds K s (open_session K key digest revision (s\<lparr>ts_revisions := m\<rparr>))"
  by (rule holds_revisions [where m = m], rule open_session_holds) (use assms in simp_all)

lemma CreateSession_safe:
  assumes "fresh_source K"
  shows "safe K (kernel_CreateSession K ctx scope q)"
  unfolding kernel_CreateSession_def
  by (intro safe_intros keeps_holds holds_keyed holds_option open_session_holds assms) auto

lemma CreateSessionFromRevision_safe:
  assumes "fresh_source K"
  shows "safe K (CreateSessionFromRevision K ctx scope q revision)"
  unfolding CreateSessionFromRevision_def
proof (intro safe_intros keeps_holds holds_keyed holds_option)
  fix digest and s :: TenantState and n existing assume "ts_idempotency s (qs_idempotencyKey q) = None"
  then show "holds K s (case (canonicalDigest (text_specification existing), canonicalDigest (text_specification revision)) of
      (Some d, Some d') \<Rightarrow> if d \<noteq> d' then kfail FailureConflict else open_session K (qs_idempotencyKey q) digest revision s
    | _ \<Rightarrow> kfail FailureInternal)"
    using open_session_holds [OF assms] by (auto split: option.splits)
qed (auto intro: open_session_revisions [OF assms])

lemma accept_input_holds:
  assumes fresh: "fresh_source K" and key: "ts_idempotency s key = None"
    and r: "map_of (ts_sessions s) sid = Some r" and open_: "se_state (ks_session r) = SessionOpen"
  shows "holds K s (kbind (accept_input K parts r) (\<lambda>(i, t, r').
      kbind (klift (resultFor r' i t)) (\<lambda>result.
      kpure (result, put_key key (zero_idempotencyRecord\<lparr>kr_command := ''send_input'', kr_digest := digest,
        kr_session := sid, kr_input := i, kr_turn := t\<rparr>) (put_session sid r' s)))))"
proof (rule holdsI, goal_cases)
  case (1 c x s' c')
  then obtain i t r' where a: "accept_input K parts r c = (Inr (i, t, r'), c')"
    and s': "s' = put_key key (zero_idempotencyRecord\<lparr>kr_command := ''send_input'', kr_digest := digest,
        kr_session := sid, kr_input := i, kr_turn := t\<rparr>) (put_session sid r' s)"
    by (auto simp: klift_def kpure_def kfail_def split: sum.splits)
  from tenant_ok_session [OF 1(1) r] have ok: "session_ok sid r" "drawn K (kx_next c) ''sess_'' sid" "ids_ok K (kx_next c) r"
    by simp_all
  from accept_input_Inr [OF a ok(1) open_] have r': "session_ok sid r'" "kx_next c \<le> kx_next c'" by auto
  note f = accept_input_follows [OF fresh ok(3) a ok(1) open_]
  have "tenant_ok K (kx_next c') (put_session sid r' s)"
    by (rule tenant_ok_put_session) (use r' ok(2) drawn_mono tenant_ok_mono [OF 1(1)] r f in auto)
  moreover have "grows s (put_session sid r' s)" by (rule grows_put_session) (use f r in simp)
  ultimately show ?case unfolding s' using r'(2) f key by (auto intro!: tenant_ok_put_turn_key grows_put_key)
next
  case (2 c e c')
  then consider "accept_input K parts r c = (Inl e, c')"
    | i t r' where "accept_input K parts r c = (Inr (i, t, r'), c')" "resultFor r' i t = Inl e"
    by (auto simp: klift_def kpure_def kfail_def split: sum.splits)
  then show ?case
  proof cases
    case 1 then show ?thesis by (rule accept_input_Inl)
  next
    case (2 i t r')
    from tenant_ok_session [OF \<open>tenant_ok K (kx_next c) s\<close> r] have "session_ok sid r" by simp
    from accept_input_Inr [OF 2(1) this open_] have "turnIndex r' t \<noteq> None" unfolding turnIndex_Some_iff by auto
    with 2(2) show ?thesis by (auto simp: resultFor_def)
  qed
qed

lemma SendInput_safe:
  assumes "fresh_source K"
  shows "safe K (SendInput K ctx scope q)"
  unfolding SendInput_def
  by (intro safe_intros keeps_holds holds_keyed holds_if holds_option accept_input_holds assms)
    (use stored_turn in \<open>auto simp: resultFor_def split: option.splits\<close>)

lemma turnIndex_SomeD: "turnIndex r t = Some k \<Longrightarrow> k < length (ks_turns r) \<and> tn_id (ks_turns r ! k) = t"
  by (auto simp: turnIndex_def)

lemma findTurn_Some:
  "kernel_findTurn s t = Some (sid, r, k) \<Longrightarrow> map_of (ts_sessions s) sid = Some r \<and> turnIndex r t = Some k"
  by (auto simp: kernel_findTurn_def Let_def split: option.splits)

lemma CompleteTurn_safe: "safe K (CompleteTurn K ctx scope sid tid failure)"
  unfolding CompleteTurn_def Let_def
proof (intro safe_intros keeps_holds holds_option holds_if holds_now)
  fix s n r k at
  assume "tenant_ok K n s" and r: "map_of (ts_sessions s) sid = Some r" and k: "turnIndex r tid = Some k"
    and run: "\<not> terminal (tn_state (ks_turns r ! k))"
  then have "session_ok sid r" using tenant_ok_session by blast
  then have "good sid r (settle_turn K kind at k ((ks_turns r ! k)\<lparr>tn_completedAt := Some at, tn_failure := failure,
      tn_state := (if failure = None then TurnSucceeded else TurnFailed)\<rparr>) r)" for kind
    using turnIndex_SomeD [OF k] run by (intro settle_turn_good) auto
  then show "holds K s (kbind (settle_turn K (if failure = None then EventTurnSucceeded else EventTurnFailed) at k
      ((ks_turns r ! k)\<lparr>tn_completedAt := Some at, tn_failure := failure,
        tn_state := (if failure = None then TurnSucceeded else TurnFailed)\<rparr>) r) (\<lambda>r'.
      kpure ((ks_turns r ! k)\<lparr>tn_completedAt := Some at, tn_failure := failure,
        tn_state := (if failure = None then TurnSucceeded else TurnFailed)\<rparr>, put_session sid r' s)))"
    by (rule holds_session_step [OF _ r, where g = "\<lambda>s. s"])
qed (auto intro: holds_kpure)

lemma cancel_body_holds:
  assumes ok: "tenant_ok K n s" and r: "map_of (ts_sessions s) sid = Some r" and k: "turnIndex r tid = Some k"
    and run: "\<not> terminal (tn_state (ks_turns r ! k))" and key: "ts_idempotency s key = None"
  shows "holds K s (kbind (settle_turn K EventTurnCancelled at k ((ks_turns r ! k)\<lparr>tn_state := TurnCancelled, tn_completedAt := Some at\<rparr>) r)
    (\<lambda>r'. kpure (x, put_key key (zero_idempotencyRecord\<lparr>kr_command := ''cancel_turn'', kr_digest := digest, kr_session := sid,
       kr_turn := tid\<rparr>) (put_session sid r' s))))"
proof (rule holds_session_step [OF _ r])
  show "good sid r (settle_turn K EventTurnCancelled at k ((ks_turns r ! k)\<lparr>tn_state := TurnCancelled, tn_completedAt := Some at\<rparr>) r)"
    using tenant_ok_session [OF ok r] turnIndex_SomeD [OF k] run by (intro settle_turn_good) auto
next
  fix m r' assume "tenant_ok K m (put_session sid r' s)" and "map tn_id (ks_turns r') = map tn_id (ks_turns r)"
  then show "tenant_ok K m (put_key key (zero_idempotencyRecord\<lparr>kr_command := ''cancel_turn'', kr_digest := digest, kr_session := sid,
       kr_turn := tid\<rparr>) (put_session sid r' s))"
    using turnIndex_Some_iff [of r tid] k by (intro tenant_ok_put_turn_key) (auto simp del: set_map simp flip: set_map)
qed (use key in \<open>simp add: grows_put_key\<close>)

lemma CancelTurn_safe: "safe K (kernel_CancelTurn K ctx scope q)"
  unfolding kernel_CancelTurn_def Let_def
proof (intro safe_intros keeps_holds holds_keyed holds_option)
  fix digest s n x assume ok: "tenant_ok K n s" and key: "ts_idempotency s (qt_idempotencyKey q) = None" and f: "kernel_findTurn s (qt_turnID q) = Some x"
  obtain sid r k where x: "x = (sid, r, k)" by (cases x)
  note f' = findTurn_Some [OF f [unfolded x]]
  show "holds K s (case x of (sid, r, k) \<Rightarrow> if sid \<noteq> qt_sessionID q then kfail FailureNotFound
      else if terminal (tn_state (ks_turns r ! k)) then kfail FailureConflict
      else kbind (kernel_now K) (\<lambda>at. kbind (settle_turn K EventTurnCancelled at k
             ((ks_turns r ! k)\<lparr>tn_state := TurnCancelled, tn_completedAt := Some at\<rparr>) r) (\<lambda>r'.
           kpure ((ks_turns r ! k)\<lparr>tn_state := TurnCancelled, tn_completedAt := Some at\<rparr>, put_key (qt_idempotencyKey q)
             (zero_idempotencyRecord\<lparr>kr_command := ''cancel_turn'', kr_digest := digest, kr_session := sid,
                kr_turn := qt_turnID q\<rparr>) (put_session sid r' s)))))"
    using f' ok key by (auto simp: x intro!: holds_now cancel_body_holds)
next
  fix s w assume "key_ok s w" and "kr_command w = ''cancel_turn''"
  then show "(case turnIndex (stored_session s (kr_session w)) (kr_turn w) of None \<Rightarrow> Inl Panic
      | Some k \<Rightarrow> Inr (ks_turns (stored_session s (kr_session w)) ! k)) \<noteq> Inl Panic"
    using stored_turn [of s w] by auto
qed auto

lemma CloseSession_safe: "safe K (kernel_CloseSession K ctx scope q)"
  unfolding kernel_CloseSession_def
  by (intro safe_intros keeps_holds holds_keyed holds_option holds_if holds_session_step)
    (auto dest: tenant_ok_session intro: tenant_ok_put_other_key grows_put_key close_record_good)

lemma CancelSession_safe: "safe K (kernel_CancelSession K ctx scope q)"
  unfolding kernel_CancelSession_def
  by (intro safe_intros keeps_holds holds_keyed holds_option holds_if holds_session_step)
    (auto dest: tenant_ok_session intro: tenant_ok_put_other_key grows_put_key cancel_record_good simp del: find_index_None find_index_None_iff)

end
