(* ===== verification/Kernel_Reach.thy ===== *)
theory Kernel_Reach
  imports Kernel_Invariant
begin

text \<open>
  Runs of the agent kernel: the calls that change its repository, the repositories a sequence of calls reaches from the
  empty one, and the invariant along such a run. A call that fails leaves the repository as it was, but it may have drawn
  identifiers and read the clock.
\<close>

lemma session_ok_compact:
  assumes "session_ok sid r" and "n < length (ks_events r)"
  shows "session_ok sid (r\<lparr>ks_trimmed := tr, ks_events := drop n (ks_events r)\<rparr>)"
proof -
  have "list_all P (drop n xs)" if "list_all P xs" for P and xs :: "Event list"
    using that by (auto simp: list_all_iff dest: in_set_dropD)
  with assms numbered_drop [of "ks_events r" n] show ?thesis
    by (simp add: session_ok_def events_ok_def positions_ok_def lifecycle_ok_def del: upt_Suc cong: SessionState.case_cong)
qed

lemma CompactEvents_safe: "safe K (CompactEvents ctx scope sid keep)"
  unfolding CompactEvents_def Let_def
proof (intro safe_intros keeps_holds holds_option holds_if)
  fix s n r assume ok: "tenant_ok K n s" and r: "map_of (ts_sessions s) sid = Some r"
    and keep: "\<not> length (ks_events r) \<le> nat keep" "\<not> keep < 1"
  let ?r = "r\<lparr>ks_trimmed := fold List.insert (map et_cursor (take (length (ks_events r) - nat keep) (ks_events r))) (ks_trimmed r),
                ks_events := drop (length (ks_events r) - nat keep) (ks_events r)\<rparr>"
  have "holds K s (kbind (kpure ?r) (\<lambda>r'. kpure ((), put_session sid r' s)))"
  proof (rule holds_session_step [OF _ r, where g = "\<lambda>s. s"])
    have "session_ok sid ?r" by (rule session_ok_compact) (use tenant_ok_session [OF ok r] keep in auto)
    then show "good sid r (kpure ?r)" by (simp add: good_def kpure_def)
  qed
  then show "holds K s (kpure ((), put_session sid ?r s))" by (simp add: kbind_def kpure_def)
qed (auto intro: holds_kpure)

section \<open>Calls and runs\<close>

datatype kernel_call =
    CallCreateAgent CreateAgentRequest
  | CallReviseAgent ReviseAgentRequest
  | CallCreateSession CreateSessionRequest
  | CallCreateSessionFromRevision CreateSessionRequest AgentSpecification
  | CallSendInput SendInputRequest
  | CallCompleteTurn SessionID TurnID "Failure option"
  | CallCancelTurn CancelTurnRequest
  | CallCloseSession CloseSessionRequest
  | CallCancelSession CancelSessionRequest
  | CallCompactEvents SessionID int

definition outcome :: "(repository \<Rightarrow> ('a \<times> repository) km) \<Rightarrow> repository \<Rightarrow> repository km" where
  "outcome method repo = kbind (method repo) (\<lambda>(_, repo'). kpure repo')"

fun perform :: "Kernel \<Rightarrow> (nat \<Rightarrow> bool) \<Rightarrow> string \<Rightarrow> kernel_call \<Rightarrow> repository \<Rightarrow> repository km" where
  "perform K ctx scope (CallCreateAgent q) = outcome (CreateAgent K ctx scope q)"
| "perform K ctx scope (CallReviseAgent q) = outcome (ReviseAgent K ctx scope q)"
| "perform K ctx scope (CallCreateSession q) = outcome (kernel_CreateSession K ctx scope q)"
| "perform K ctx scope (CallCreateSessionFromRevision q a) = outcome (CreateSessionFromRevision K ctx scope q a)"
| "perform K ctx scope (CallSendInput q) = outcome (SendInput K ctx scope q)"
| "perform K ctx scope (CallCompleteTurn sid tid failure) = outcome (CompleteTurn K ctx scope sid tid failure)"
| "perform K ctx scope (CallCancelTurn q) = outcome (kernel_CancelTurn K ctx scope q)"
| "perform K ctx scope (CallCloseSession q) = outcome (kernel_CloseSession K ctx scope q)"
| "perform K ctx scope (CallCancelSession q) = outcome (kernel_CancelSession K ctx scope q)"
| "perform K ctx scope (CallCompactEvents sid keep) = outcome (CompactEvents ctx scope sid keep)"

inductive kernel_run :: "Kernel \<Rightarrow> repository \<times> kctx \<Rightarrow> repository \<times> kctx \<Rightarrow> bool" for K where
  kernel_run_refl: "kernel_run K w w"
| kernel_run_call: "kernel_run K w (repo, c) \<Longrightarrow> perform K ctx scope call repo c = (Inr repo', c') \<Longrightarrow> kernel_run K w (repo', c')"
| kernel_run_failed: "kernel_run K w (repo, c) \<Longrightarrow> perform K ctx scope call repo c = (Inl e, c') \<Longrightarrow> kernel_run K w (repo, c')"

definition kernel_start :: "repository \<times> kctx" where
  "kernel_start = (NewMemoryRepository, \<lparr>kx_next = 0, kx_tick = 0\<rparr>)"

section \<open>The invariant along a run\<close>

definition sound :: "Kernel \<Rightarrow> (repository \<Rightarrow> repository km) \<Rightarrow> bool" where
  "sound K m \<longleftrightarrow>
     (\<forall>repo c. repo_ok K (kx_next c) repo \<longrightarrow>
        (case m repo c of
           (Inr repo', c') \<Rightarrow> repo_ok K (kx_next c') repo' \<and> repo_grows repo repo' \<and> kx_next c \<le> kx_next c'
         | (Inl e, c') \<Rightarrow> e \<noteq> Panic \<and> kx_next c \<le> kx_next c'))"

lemma outcome_sound: "safe K method \<Longrightarrow> sound K (outcome method)"
  by (fastforce simp: safe_def sound_def outcome_def kbind_def kpure_def split: prod.splits sum.splits)

lemma perform_sound: "fresh_source K \<Longrightarrow> sound K (perform K ctx scope call)"
  by (cases call)
    (simp_all add: outcome_sound CreateAgent_safe ReviseAgent_safe CreateSession_safe CreateSessionFromRevision_safe
      SendInput_safe CompleteTurn_safe CancelTurn_safe CloseSession_safe CancelSession_safe CompactEvents_safe)

lemma perform_safe:
  assumes "fresh_source K" and "repo_ok K (kx_next c) repo"
  shows "perform K ctx scope call repo c = (Inr repo', c') \<Longrightarrow> repo_ok K (kx_next c') repo' \<and> repo_grows repo repo' \<and> kx_next c \<le> kx_next c'"
    and "perform K ctx scope call repo c = (Inl e, c') \<Longrightarrow> e \<noteq> Panic \<and> kx_next c \<le> kx_next c'"
  using perform_sound [OF assms(1), unfolded sound_def, rule_format, OF assms(2), of ctx scope call] by auto

lemma repo_ok_mono: "repo_ok K n repo \<Longrightarrow> n \<le> m \<Longrightarrow> repo_ok K m repo"
  unfolding repo_ok_def by (blast intro: tenant_ok_mono)

lemma repo_grows_refl [simp]: "repo_grows repo repo"
  by (simp add: repo_grows_def)

lemma repo_grows_trans: "repo_grows a b \<Longrightarrow> repo_grows b c \<Longrightarrow> repo_grows a c"
  unfolding repo_grows_def by (blast intro: grows_trans)

lemma kernel_run_ok:
  assumes "kernel_run K w w'" and "fresh_source K" and "repo_ok K (kx_next (snd w)) (fst w)"
  shows "repo_ok K (kx_next (snd w')) (fst w') \<and> repo_grows (fst w) (fst w')"
  using assms
proof (induction rule: kernel_run.induct)
  case (kernel_run_call w repo c ctx scope call repo' c')
  then show ?case using perform_safe(1) [OF kernel_run_call(4) _ kernel_run_call(2)] repo_grows_trans by auto
next
  case (kernel_run_failed w repo c ctx scope call e c')
  then show ?case using perform_safe(2) [OF kernel_run_failed(4) _ kernel_run_failed(2)] repo_ok_mono by auto
qed simp

lemma kernel_start_ok [simp]: "repo_ok K n (fst kernel_start)"
  by (simp add: kernel_start_def repo_ok_def NewMemoryRepository_def)

lemma reached_ok:
  assumes "kernel_run K kernel_start (repo, c)" and "fresh_source K"
  shows "repo_ok K (kx_next c) repo"
  using kernel_run_ok [OF assms] by simp

end
