(* ===== verification/Kernel_Progress.thy ===== *)
theory Kernel_Progress
  imports Kernel_Reach
begin

text \<open>
  Progress of a Session: while the identifier source and the context hold, completing the running Turn always succeeds and
  starts the next queued one, so that completing the running Turn again and again settles every Turn that was accepted,
  and a closing Session ends completed.
\<close>

section \<open>Draws that succeed\<close>

text \<open>The identifier source answers the \<open>i\<close>-th request with a payload the kernel accepts; it does so for \<open>m\<close>
  requests from the \<open>n\<close>-th on. An event takes two draws, its identifier and its cursor.\<close>

definition valid_draw :: "Kernel \<Rightarrow> nat \<Rightarrow> bool" where
  "valid_draw K i \<longleftrightarrow>
     (case kn_ids K i of None \<Rightarrow> False | Some p \<Rightarrow> length p = 16 \<and> validPayload p \<and> \<not> list_ex (\<lambda>x. x \<in> set ''_- '') p)"

definition source_ok :: "Kernel \<Rightarrow> nat \<Rightarrow> nat \<Rightarrow> bool" where
  "source_ok K n m \<longleftrightarrow> list_all (valid_draw K) [n..<n + m]"

lemma source_okD: "source_ok K n m \<Longrightarrow> n \<le> n' \<Longrightarrow> n' + m' \<le> n + m \<Longrightarrow> source_ok K n' m'"
  by (auto simp: source_ok_def list_all_iff)

lemma payload_total:
  assumes "valid_draw K (kx_next c)"
  shows "\<exists>i. kbind (payload K pre) (\<lambda>v. parsed_identifier (parseID v pre)) c = (Inr i, c\<lparr>kx_next := Suc (kx_next c)\<rparr>)"
proof -
  from assms obtain p where p: "kn_ids K (kx_next c) = Some p" "length p = 16" "validPayload p" "\<not> list_ex (\<lambda>x. x \<in> set ''_- '') p"
    by (auto simp: valid_draw_def split: option.splits)
  then have "payload K pre c = (Inr (pre @ p), c\<lparr>kx_next := Suc (kx_next c)\<rparr>)"
    by (simp add: payload_def del: list.set)
  then show ?thesis using parseID_append [OF p(3)] by (auto simp: kbind_def parsed_identifier_def kpure_def)
qed

lemma newID_total:
  assumes "valid_draw K (kx_next c)"
  shows "\<exists>i. newEventID K c = (Inr i, c\<lparr>kx_next := Suc (kx_next c)\<rparr>)" and "\<exists>i. newCursor K c = (Inr i, c\<lparr>kx_next := Suc (kx_next c)\<rparr>)"
    and "\<exists>i. newInputID K c = (Inr i, c\<lparr>kx_next := Suc (kx_next c)\<rparr>)" and "\<exists>i. newTurnID K c = (Inr i, c\<lparr>kx_next := Suc (kx_next c)\<rparr>)"
    and "\<exists>i. newSessionID K c = (Inr i, c\<lparr>kx_next := Suc (kx_next c)\<rparr>)"
  using payload_total [OF assms, of "''evt_''"] payload_total [OF assms, of "''cur_''"] payload_total [OF assms, of "''inpt_''"]
    payload_total [OF assms, of "''turn_''"] payload_total [OF assms, of "''sess_''"]
  by (simp_all only: new_id_defs parse_defs prefix_defs)

lemma appendEvent_total:
  assumes "source_ok K (kx_next c) 2"
  shows "\<exists>r' c'. appendEvent K kind i t r c = (Inr r', c')"
proof -
  from assms have v: "valid_draw K (kx_next c)" "valid_draw K (Suc (kx_next c))"
    by (simp_all add: source_ok_def numeral_2_eq_2)
  from newID_total(1) [OF v(1)] obtain e where "newEventID K c = (Inr e, c\<lparr>kx_next := Suc (kx_next c)\<rparr>)" ..
  moreover from newID_total(2) [of K "c\<lparr>kx_next := Suc (kx_next c)\<rparr>"] v(2)
  obtain u where "newCursor K (c\<lparr>kx_next := Suc (kx_next c)\<rparr>) = (Inr u, c\<lparr>kx_next := Suc (Suc (kx_next c))\<rparr>)" by auto
  ultimately show ?thesis by (auto simp: appendEvent_def)
qed

lemma advance_total:
  assumes "source_ok K (kx_next c) 2"
  shows "\<exists>r' c'. advance K at r c = (Inr r', c') \<and> kx_next c' \<le> kx_next c + 2"
  using appendEvent_total [OF assms] appendEvent_Inr(2)
  by (fastforce simp: advance_def kpure_def split: option.splits simp del: find_index_None find_index_None_iff)

lemma settle_turn_total:
  assumes src: "source_ok K (kx_next c) 4"
  shows "\<exists>r' c'. settle_turn K kind at k t r c = (Inr r', c') \<and> kx_next c' \<le> kx_next c + 4"
proof -
  have "source_ok K (kx_next c) 2" by (rule source_okD [OF src]) simp_all
  from appendEvent_total [OF this] obtain r1 c1
    where a: "appendEvent K kind (tn_inputID t) (tn_id t) (r\<lparr>ks_turns := (ks_turns r)[k := t]\<rparr>) c = (Inr r1, c1)" by blast
  note n = appendEvent_Inr(2) [OF a]
  have "source_ok K (kx_next c1) 2" by (rule source_okD [OF src]) (use n in simp_all)
  from advance_total [OF this] obtain r2 c2 where "advance K at r1 c1 = (Inr r2, c2)" "kx_next c2 \<le> kx_next c1 + 2" by blast
  with a n show ?thesis by (auto simp: settle_turn_def)
qed

lemma accept_input_total:
  assumes src: "source_ok K (kx_next c) 6"
  shows "\<exists>i t r' c'. accept_input K parts r c = (Inr (i, t, r'), c') \<and> kx_next c' = kx_next c + 6"
proof -
  have v: "valid_draw K (kx_next c)" "valid_draw K (Suc (kx_next c))"
    using source_okD [OF src, of "kx_next c" 2] by (simp_all add: source_ok_def numeral_2_eq_2)
  define c3 where "c3 = c\<lparr>kx_next := Suc (Suc (kx_next c)), kx_tick := Suc (kx_tick c)\<rparr>"
  from newID_total(3) [OF v(1)] obtain i where i: "newInputID K c = (Inr i, c\<lparr>kx_next := Suc (kx_next c)\<rparr>)" ..
  from newID_total(4) [of K "c\<lparr>kx_next := Suc (kx_next c)\<rparr>"] v(2)
  obtain t where t: "newTurnID K (c\<lparr>kx_next := Suc (kx_next c)\<rparr>) = (Inr t, c\<lparr>kx_next := Suc (Suc (kx_next c))\<rparr>)" by auto
  define u where "u = \<lparr>tn_id = t, tn_inputID = i, tn_position = length (ks_turns r) + 1, tn_state = TurnQueued,
     tn_startedAt = None, tn_completedAt = None, tn_failure = None, tn_usage = None, tn_output = None\<rparr>"
  define r0 where "r0 = r\<lparr>ks_inputs := (ks_inputs r)(i \<mapsto> \<lparr>ip_id = i, ip_parts = parts,
     ip_acceptedAt = GTime (instant (kn_clock K (kx_tick c))) True\<rparr>), ks_turns := ks_turns r @ [u]\<rparr>"
  have "source_ok K (kx_next c3) 2" by (rule source_okD [OF src]) (simp_all add: c3_def)
  then obtain r1 c4 where a: "appendEvent K EventInputAccepted i t r0 c3 = (Inr r1, c4)" using appendEvent_total by blast
  note n = appendEvent_Inr(2) [OF a]
  have "source_ok K (kx_next c4) 2" by (rule source_okD [OF src]) (use n in \<open>simp_all add: c3_def\<close>)
  note src4 = this
  have total: "\<exists>r2 c5. appendEvent K kind i t r' c4 = (Inr r2, c5) \<and> kx_next c5 = kx_next c + 6" for kind r'
  proof -
    obtain r2 c5 where x: "appendEvent K kind i t r' c4 = (Inr r2, c5)" using appendEvent_total [OF src4] by blast
    have "kx_next c5 = kx_next c + 6" using appendEvent_Inr(2) [OF x] n by (simp add: c3_def)
    with x show ?thesis by blast
  qed
  define at where "at = GTime (instant (kn_clock K (kx_tick c))) True"
  define last where "last = (if activeTurnIndex r1 = None then appendEvent K EventTurnStarted i t (start_turn (length (ks_turns r1) - 1) at r1)
      else appendEvent K EventTurnQueued i t r1)"
  have "\<exists>r2 c5. last c4 = (Inr r2, c5) \<and> kx_next c5 = kx_next c + 6"
    unfolding last_def by (cases "activeTurnIndex r1 = None") (simp_all only: simp_thms if_True if_False total)
  then obtain r2 c5 where b: "last c4 = (Inr r2, c5)" and n': "kx_next c5 = kx_next c + 6" by (elim exE conjE)
  have "kbind (appendEvent K EventInputAccepted i t r0) (\<lambda>r. kbind (if activeTurnIndex r = None
        then appendEvent K EventTurnStarted i t (start_turn (length (ks_turns r) - 1) at r) else appendEvent K EventTurnQueued i t r)
        (\<lambda>r. kpure (i, t, touch_session at r))) c3 = (Inr (i, t, touch_session at r2), c5)"
    by (simp only: kbind_def a b prod.case sum.case last_def [symmetric] kpure_def)
  moreover have "kx_tick (c\<lparr>kx_next := n\<rparr>) = kx_tick c" for n by simp
  ultimately have "accept_input K parts r c = (Inr (i, t, touch_session at r2), c5)"
    by (simp only: accept_input_def Let_def kbind_def i t kernel_now_def prod.case sum.case c3_def r0_def u_def at_def kctx.simps)
  with n' show ?thesis by blast
qed

section \<open>Counting the Turns to settle\<close>

definition unfinished :: "Turn list \<Rightarrow> nat" where
  "unfinished ts = length (filter (\<lambda>t. \<not> terminal (tn_state t)) ts)"

lemma unfinished_update:
  assumes "k < length ts" and "\<not> terminal (tn_state (ts ! k))"
  shows "unfinished (ts[k := u]) + (if terminal (tn_state u) then 1 else 0) = unfinished ts"
  using assms
proof (induction ts arbitrary: k)
  case (Cons t ts)
  then show ?case by (cases k) (auto simp: unfinished_def)
qed simp

lemma unfinished_zero: "unfinished ts = 0 \<longleftrightarrow> idle ts"
  by (simp add: unfinished_def idle_def list_all_iff filter_empty_conv)

lemma advance_effect:
  assumes "advance K at r c = (Inr r', c')"
  shows "unfinished (ks_turns r') = unfinished (ks_turns r)"
    and "se_state (ks_session r') = se_state (ks_session r) \<or> se_state (ks_session r) = SessionClosing \<and> se_state (ks_session r') = SessionCompleted"
proof -
  consider "r' = r" | k where "queuedTurnIndex r = Some k" "ks_turns r' = ks_turns (start_turn k at r)" "ks_session r' = ks_session r"
    | "se_state (ks_session r) = SessionClosing" "ks_turns r' = ks_turns r" "se_state (ks_session r') = SessionCompleted"
    using assms by (auto simp: advance_def dest!: appendEvent_Inr(1) split: if_splits option.splits simp del: find_index_None find_index_None_iff)
  note cases = this
  show "unfinished (ks_turns r') = unfinished (ks_turns r)"
    using cases
  proof cases
    case (2 k)
    from 2(1) have "k < length (ks_turns r)" "tn_state (ks_turns r ! k) = TurnQueued"
      by (auto simp: queuedTurnIndex_def dest: find_index_Some)
    then show ?thesis unfolding 2(2) turns_start_turn 
      using unfinished_update [of k "ks_turns r" "(ks_turns r ! k)\<lparr>tn_state := TurnRunning, tn_startedAt := Some at\<rparr>"] by simp
  qed simp_all
  show "se_state (ks_session r') = se_state (ks_session r) \<or> se_state (ks_session r) = SessionClosing \<and> se_state (ks_session r') = SessionCompleted"
    using cases by cases simp_all
qed

lemma settle_turn_effect:
  assumes s: "settle_turn K kind at k t r c = (Inr r', c')" and k: "k < length (ks_turns r)" "\<not> terminal (tn_state (ks_turns r ! k))"
    and t: "terminal (tn_state t)"
  shows "Suc (unfinished (ks_turns r')) = unfinished (ks_turns r)"
    and "se_state (ks_session r') = se_state (ks_session r) \<or> se_state (ks_session r) = SessionClosing \<and> se_state (ks_session r') = SessionCompleted"
proof -
  from s obtain r1 c1 r2 where a: "appendEvent K kind (tn_inputID t) (tn_id t) (r\<lparr>ks_turns := (ks_turns r)[k := t]\<rparr>) c = (Inr r1, c1)"
    and adv: "advance K at r1 c1 = (Inr r2, c')" and r': "r' = touch_session at r2"
    by (auto simp: settle_turn_def)
  from appendEvent_Inr(1) [OF a] have r1: "ks_turns r1 = (ks_turns r)[k := t]" "ks_session r1 = ks_session r" by auto
  show "Suc (unfinished (ks_turns r')) = unfinished (ks_turns r)"
    using unfinished_update [OF k, of t] t advance_effect(1) [OF adv] by (simp add: r' r1)
  show "se_state (ks_session r') = se_state (ks_session r) \<or> se_state (ks_session r) = SessionClosing \<and> se_state (ks_session r') = SessionCompleted"
    using advance_effect(2) [OF adv] by (simp add: r' r1)
qed

section \<open>Completing the running Turn\<close>

lemma find_index_distinct: "distinct (map f xs) \<Longrightarrow> k < length xs \<Longrightarrow> find_index (\<lambda>x. f x = f (xs ! k)) xs = Some k"
proof (induction xs arbitrary: k)
  case (Cons x xs)
  then show ?case by (cases k) auto
qed simp

lemma complete_running:
  assumes src: "source_ok K (kx_next c) 4" and scope: "ParseScope scope \<noteq> None" and ok: "repo_ok K (kx_next c) repo"
    and r: "map_of (ts_sessions (tenant_state repo scope)) sid = Some r" and k: "activeTurnIndex r = Some k"
  shows "\<exists>t r' c'. CompleteTurn K (\<lambda>_. False) scope sid (tn_id (ks_turns r ! k)) None repo c
       = (Inr (t, repo(scope \<mapsto> put_session sid r' (tenant_state repo scope))), c')
     \<and> Suc (unfinished (ks_turns r')) = unfinished (ks_turns r) \<and> map tn_id (ks_turns r') = map tn_id (ks_turns r)
     \<and> (se_state (ks_session r') = se_state (ks_session r) \<or> se_state (ks_session r) = SessionClosing \<and> se_state (ks_session r') = SessionCompleted)
     \<and> kx_next c' \<le> kx_next c + 4"
proof -
  let ?s = "tenant_state repo scope" and ?c = "c\<lparr>kx_tick := Suc (kx_tick c)\<rparr>"
  note old = tenant_ok_session [OF tenant_state_ok [OF ok] r]
  from k have run: "k < length (ks_turns r)" "tn_state (ks_turns r ! k) = TurnRunning"
    by (auto simp: activeTurnIndex_def dest: find_index_Some)
  from old have "distinct (map tn_id (ks_turns r))" by (simp add: ids_ok_def)
  then have i: "turnIndex r (tn_id (ks_turns r ! k)) = Some k"
    using run(1) unfolding turnIndex_def by (rule find_index_distinct)
  define at where "at = GTime (instant (kn_clock K (kx_tick c))) True"
  define t where "t = (ks_turns r ! k)\<lparr>tn_completedAt := Some at, tn_failure := None, tn_state := TurnSucceeded\<rparr>"
  obtain r' c' where m: "settle_turn K EventTurnSucceeded at k t r ?c = (Inr r', c')" and n: "kx_next c' \<le> kx_next c + 4"
    using settle_turn_total [of K ?c EventTurnSucceeded at k t r] src by auto
  have g: "good sid r (settle_turn K EventTurnSucceeded at k t r)"
    by (rule settle_turn_good) (use old run in \<open>simp_all add: t_def\<close>)
  have "CompleteTurn K (\<lambda>_. False) scope sid (tn_id (ks_turns r ! k)) None repo c = (Inr (t, repo(scope \<mapsto> put_session sid r' ?s)), c')"
    using r i run m scope
    by (auto simp: CompleteTurn_def kguard_def validateScopeAndContext_def validateFailure_def Transact_def Let_def t_def at_def)
  moreover have "Suc (unfinished (ks_turns r')) = unfinished (ks_turns r)"
    "se_state (ks_session r') = se_state (ks_session r) \<or> se_state (ks_session r) = SessionClosing \<and> se_state (ks_session r') = SessionCompleted"
    using settle_turn_effect [OF m] run by (simp_all add: t_def)
  moreover have "map tn_id (ks_turns r') = map tn_id (ks_turns r)" using goodD(1) [OF g m] by simp
  ultimately show ?thesis using n by blast
qed

text \<open>The worker's loop over one Session: complete the running Turn until no Turn runs, at most \<open>n\<close> times.\<close>

fun drain :: "Kernel \<Rightarrow> string \<Rightarrow> SessionID \<Rightarrow> nat \<Rightarrow> repository \<Rightarrow> repository km" where
  "drain K scope sid 0 repo = kpure repo"
| "drain K scope sid (Suc n) repo =
     (case map_of (ts_sessions (tenant_state repo scope)) sid of
        None \<Rightarrow> kfail FailureNotFound
      | Some r \<Rightarrow>
          (case activeTurnIndex r of
             None \<Rightarrow> kpure repo
           | Some k \<Rightarrow> kbind (CompleteTurn K (\<lambda>_. False) scope sid (tn_id (ks_turns r ! k)) None repo) (\<lambda>(_, repo'). drain K scope sid n repo')))"

lemma unfinished_active:
  assumes "session_ok sid r" and "unfinished (ks_turns r) = Suc n"
  shows "\<exists>k. activeTurnIndex r = Some k"
proof -
  from assms have "fifo (ks_turns r)" "\<not> idle (ks_turns r)" by (simp_all add: session_ok_def flip: unfinished_zero)
  then show ?thesis
    by (auto simp: activeTurnIndex_def fifo_idle_iff simp del: find_index_None find_index_None_iff)
qed

lemma drain_settles:
  assumes scope: "ParseScope scope \<noteq> None" and "source_ok K (kx_next c) (4 * n)"
    and "repo_ok K (kx_next c) repo" and "map_of (ts_sessions (tenant_state repo scope)) sid = Some r"
    and "unfinished (ks_turns r) = n"
  shows "\<exists>repo' c' r'. drain K scope sid n repo c = (Inr repo', c') \<and> map_of (ts_sessions (tenant_state repo' scope)) sid = Some r'
     \<and> idle (ks_turns r') \<and> map tn_id (ks_turns r') = map tn_id (ks_turns r) \<and> session_ok sid r'
     \<and> (se_state (ks_session r') = se_state (ks_session r) \<or> se_state (ks_session r) = SessionClosing \<and> se_state (ks_session r') = SessionCompleted)"
  using assms(2-)
proof (induction n arbitrary: repo c r)
  case 0
  then show ?case using tenant_ok_session [OF tenant_state_ok [OF 0(2)] 0(3)] by (simp add: unfinished_zero kpure_def)
next
  case (Suc n)
  note ok = Suc.prems(2) and r = Suc.prems(3)
  note old = tenant_ok_session [OF tenant_state_ok [OF ok] r]
  obtain k where k: "activeTurnIndex r = Some k" using unfinished_active old Suc.prems(4) by blast
  have "source_ok K (kx_next c) 4" by (rule source_okD [OF Suc.prems(1)]) simp_all
  from complete_running [OF this scope ok r k] obtain t r1 c1 where
    step: "CompleteTurn K (\<lambda>_. False) scope sid (tn_id (ks_turns r ! k)) None repo c
       = (Inr (t, repo(scope \<mapsto> put_session sid r1 (tenant_state repo scope))), c1)"
    and r1: "unfinished (ks_turns r1) = n" "map tn_id (ks_turns r1) = map tn_id (ks_turns r)"
      "se_state (ks_session r1) = se_state (ks_session r) \<or> se_state (ks_session r) = SessionClosing \<and> se_state (ks_session r1) = SessionCompleted"
    and n: "kx_next c1 \<le> kx_next c + 4"
    using Suc.prems(4) by auto
  let ?repo = "repo(scope \<mapsto> put_session sid r1 (tenant_state repo scope))"
  have m: "map_of (ts_sessions (tenant_state ?repo scope)) sid = Some r1" by simp
  have "repo_ok K (kx_next c1) ?repo" by (rule safeD(1) [OF CompleteTurn_safe ok step, THEN conjunct1])
  moreover have "kx_next c \<le> kx_next c1" using safeD(1) [OF CompleteTurn_safe ok step] by blast
  then have "source_ok K (kx_next c1) (4 * n)" by (intro source_okD [OF Suc.prems(1)]) (use n in simp_all)
  ultimately have "\<exists>repo' c' r'. drain K scope sid n ?repo c1 = (Inr repo', c') \<and> map_of (ts_sessions (tenant_state repo' scope)) sid = Some r'
     \<and> idle (ks_turns r') \<and> map tn_id (ks_turns r') = map tn_id (ks_turns r1) \<and> session_ok sid r'
     \<and> (se_state (ks_session r') = se_state (ks_session r1) \<or> se_state (ks_session r1) = SessionClosing \<and> se_state (ks_session r') = SessionCompleted)"
    using Suc.IH m r1(1) by blast
  then obtain repo' c' r' where ih: "drain K scope sid n ?repo c1 = (Inr repo', c')"
      "map_of (ts_sessions (tenant_state repo' scope)) sid = Some r'" "idle (ks_turns r')"
      "map tn_id (ks_turns r') = map tn_id (ks_turns r1)" "session_ok sid r'"
      "se_state (ks_session r') = se_state (ks_session r1) \<or> se_state (ks_session r1) = SessionClosing \<and> se_state (ks_session r') = SessionCompleted"
    by blast
  have "drain K scope sid (Suc n) repo c = (Inr repo', c')" using r k step ih(1) by (auto simp: kbind_def)
  moreover have "se_state (ks_session r') = se_state (ks_session r) \<or> se_state (ks_session r) = SessionClosing \<and> se_state (ks_session r') = SessionCompleted"
    using ih(6) r1(3) by auto
  ultimately show ?case using ih r1 by auto
qed

section \<open>Accepting an Input\<close>

lemma all_some_None: "all_some xs = None \<longleftrightarrow> None \<in> set xs"
  by (induction xs) (auto split: option.splits)

lemma text_object_None:
  "text_object fs = None \<longleftrightarrow> None \<in> snd ` set fs" "None = text_object fs \<longleftrightarrow> None \<in> snd ` set fs"
  by (force simp: text_object_def all_some_None)+

lemma text_array_None: "text_array xs = None \<longleftrightarrow> None \<in> set xs" "None = text_array xs \<longleftrightarrow> None \<in> set xs"
  by (auto simp: text_array_def all_some_None)

lemma text_part_None: "valid_part p \<Longrightarrow> text_part p \<noteq> None"
  by (auto simp: text_part_def text_artifact_def text_object_None valid_part_def text_string_def marshalID_def ParseArtifactID_def
    simp del: not_None_eq split: ContentPartKind.splits option.splits)

lemma validateInput_digest:
  assumes "validateInput q"
  obtains d where "canonicalDigest (text_send_input q) = Some d"
proof -
  have "text_send_input q \<noteq> None"
    using assms text_part_None
    by (auto simp: text_send_input_def text_object_None text_array_None validateInput_def marshalID_def ParseSessionID_def list_all_iff
      simp del: not_None_eq split: option.splits) (metis option.distinct(1))
  then show thesis using that by (auto simp: canonicalDigest_def)
qed

lemma SendInput_accepts:
  assumes fresh: "fresh_source K" and ok: "repo_ok K (kx_next c) repo" and scope: "ParseScope scope \<noteq> None"
    and q: "validateInput q" "validateIdempotencyKey (qi_idempotencyKey q)" and src: "source_ok K (kx_next c) 6"
    and new: "ts_idempotency (tenant_state repo scope) (qi_idempotencyKey q) = None"
    and r: "map_of (ts_sessions (tenant_state repo scope)) (qi_sessionID q) = Some r" and open_: "se_state (ks_session r) = SessionOpen"
  shows "\<exists>x w r' c'. SendInput K (\<lambda>_. False) scope q repo c
       = (Inr (x, repo(scope \<mapsto> put_key (qi_idempotencyKey q) w (put_session (qi_sessionID q) r' (tenant_state repo scope)))), c')
     \<and> ks_turns r' = ks_turns r @ [sr_turn x] \<and> tn_position (sr_turn x) = Suc (length (ks_turns r))
     \<and> tn_state (sr_turn x) = (if idle (ks_turns r) then TurnRunning else TurnQueued)
     \<and> ip_parts (sr_input x) = qi_parts q \<and> ip_id (sr_input x) = tn_inputID (sr_turn x)
     \<and> ks_session r' = (ks_session r)\<lparr>se_updatedAt := se_updatedAt (ks_session r')\<rparr> \<and> kx_next c' = kx_next c + 6"
proof -
  let ?s = "tenant_state repo scope"
  note old = tenant_ok_session [OF tenant_state_ok [OF ok] r]
  obtain d where d: "canonicalDigest (text_send_input q) = Some d" using validateInput_digest [OF q(1)] .
  obtain i t r' c' where a: "accept_input K (qi_parts q) r c = (Inr (i, t, r'), c')" and n: "kx_next c' = kx_next c + 6"
    using accept_input_total [OF src] by blast
  from accept_input_Inr [OF a _ open_, of "qi_sessionID q"] old obtain u at where u: "ks_turns r' = ks_turns r @ [u]"
      "tn_position u = Suc (length (ks_turns r))" "tn_state u = (if idle (ks_turns r) then TurnRunning else TurnQueued)" "tn_id u = t" "tn_inputID u = i"
    and se: "\<exists>at. ks_session r' = (ks_session r)\<lparr>se_updatedAt := at\<rparr>"
    and ip: "ks_inputs r' = (ks_inputs r)(i \<mapsto> \<lparr>ip_id = i, ip_parts = qi_parts q, ip_acceptedAt = at\<rparr>)" by auto
  from accept_input_follows [OF fresh _ a _ open_] old have "distinct (map tn_id (ks_turns r'))" by (auto simp: ids_ok_def)
  from find_index_distinct [OF this, of "length (ks_turns r)"] u have k: "turnIndex r' t = Some (length (ks_turns r))"
    by (simp add: turnIndex_def)
  have "SendInput K (\<lambda>_. False) scope q repo c = (Inr (\<lparr>sr_input = \<lparr>ip_id = i, ip_parts = qi_parts q, ip_acceptedAt = at\<rparr>, sr_turn = u\<rparr>,
      repo(scope \<mapsto> put_key (qi_idempotencyKey q) (zero_idempotencyRecord\<lparr>kr_command := ''send_input'', kr_digest := d,
        kr_session := qi_sessionID q, kr_input := i, kr_turn := t\<rparr>) (put_session (qi_sessionID q) r' ?s))), c')"
    using scope d new q r open_ a k u(1) ip
    by (auto simp: SendInput_def kguard_def validateScopeAndContext_def Transact_def keyed_def resultFor_def klift_def)
  moreover have "ks_session r' = (ks_session r)\<lparr>se_updatedAt := se_updatedAt (ks_session r')\<rparr>" using se by auto
  ultimately show ?thesis using u n by (intro exI [of _ "\<lparr>sr_input = \<lparr>ip_id = i, ip_parts = qi_parts q, ip_acceptedAt = at\<rparr>, sr_turn = u\<rparr>"] exI)
      (rule conjI, assumption, simp)
qed

end
