(* ===== verification/Example_Kernel.thy ===== *)
theory Example_Kernel
  imports Kernel_Progress
begin

text \<open>
  A kernel with a concrete identifier source and a run of it: a Session is opened and receives two Inputs, so that the
  first of its two Turns is running and the second one waits.
\<close>

definition ex_alphabet :: string where
  "ex_alphabet = ''abcdefghijklmnopqrstuvwxyzABCDEFGHIJKLMNOPQRSTUVWXYZ0123456789''"

definition ex_kernel :: Kernel where
  "ex_kernel = \<lparr>kn_clock = (\<lambda>i. GTime (1700000000000000000 + int i) True),
     kn_ids = (\<lambda>i. if i < 62 then Some (''kernelidentifie'' @ [ex_alphabet ! i]) else None),
     kn_profiles = [''fast''], kn_schema = (\<lambda>_ _. False)\<rparr>"

definition ex_scope :: string where "ex_scope = ''acme''"

definition ex_revision :: AgentSpecification where
  "ex_revision = zero_AgentSpecification\<lparr>as_id := ''agent_exampleagent0001'', as_revisionID := ''arev_examplerevis0001'', as_revision := 1,
     as_name := ''helper''\<rparr>"

definition ex_open :: CreateSessionRequest where
  "ex_open = \<lparr>qs_idempotencyKey = ''open-1'', qs_agentRevision = ''arev_examplerevis0001''\<rparr>"

definition ex_session :: SessionID where "ex_session = ''sess_kernelidentifiea''"

definition ex_send :: "string \<Rightarrow> SendInputRequest" where
  "ex_send key = \<lparr>qi_sessionID = ex_session, qi_idempotencyKey = key,
     qi_parts = [\<lparr>cp_kind = ContentText, cp_text = ''hello'', cp_artifact = None\<rparr>]\<rparr>"

lemma ex_fresh: "fresh_source ex_kernel"
proof -
  have "distinct ex_alphabet" "length ex_alphabet = 62" by (simp_all add: ex_alphabet_def)
  then show ?thesis by (auto simp: fresh_source_def ex_kernel_def nth_eq_iff_index_eq split: if_splits)
qed

definition ex_step :: "kernel_call \<Rightarrow> repository \<times> kctx \<Rightarrow> repository \<times> kctx" where
  "ex_step call = (\<lambda>(repo, c). case perform ex_kernel (\<lambda>_. False) ex_scope call repo c of
     (Inr repo', c') \<Rightarrow> (repo', c') | (Inl e, c') \<Rightarrow> (repo, c'))"

lemma ex_step_run:
  assumes "kernel_run ex_kernel w w'"
  shows "kernel_run ex_kernel w (ex_step call w')"
proof -
  obtain repo c where w': "w' = (repo, c)" by (cases w')
  obtain x c' where p: "perform ex_kernel (\<lambda>_. False) ex_scope call repo c = (x, c')" by (cases "perform ex_kernel (\<lambda>_. False) ex_scope call repo c")
  show ?thesis
  proof (cases x)
    case (Inl e)
    have "ex_step call w' = (repo, c')" by (simp add: ex_step_def w' p Inl)
    with kernel_run_failed [OF assms [unfolded w'] p [unfolded Inl]] show ?thesis by simp
  next
    case (Inr repo')
    have "ex_step call w' = (repo', c')" by (simp add: ex_step_def w' p Inr)
    with kernel_run_call [OF assms [unfolded w'] p [unfolded Inr]] show ?thesis by simp
  qed
qed

definition ex_opened :: "repository \<times> kctx" where
  "ex_opened = ex_step (CallCreateSessionFromRevision ex_open ex_revision) kernel_start"

definition ex_first :: "repository \<times> kctx" where
  "ex_first = ex_step (CallSendInput (ex_send ''in-1'')) ex_opened"

definition ex_second :: "repository \<times> kctx" where
  "ex_second = ex_step (CallSendInput (ex_send ''in-2'')) ex_first"

lemmas ex_runs = ex_opened_def ex_first_def ex_second_def

lemma ex_reached:
  "kernel_run ex_kernel kernel_start ex_opened" "kernel_run ex_kernel kernel_start ex_first"
  "kernel_run ex_kernel kernel_start ex_second"
  unfolding ex_runs by (intro ex_step_run kernel_run_refl)+

lemma ex_source: "n + m \<le> 62 \<Longrightarrow> source_ok ex_kernel n m"
proof -
  have all: "list_all (\<lambda>x. asciiAlphaNumeric x \<and> x \<notin> set ''_- '') ex_alphabet" "length ex_alphabet = 62"
    by (simp_all add: ex_alphabet_def asciiAlphaNumeric_def)
  have "valid_draw ex_kernel i" if "i < 62" for i
  proof -
    have "asciiAlphaNumeric (ex_alphabet ! i)" "ex_alphabet ! i \<notin> set ''_- ''" using all that by (auto simp: list_all_length)
    moreover have "list_all asciiAlphaNumeric ''kernelidentifie''" by (simp add: asciiAlphaNumeric_def)
    ultimately show ?thesis using that by (simp add: valid_draw_def ex_kernel_def validPayload_def)
  qed
  then show "n + m \<le> 62 \<Longrightarrow> source_ok ex_kernel n m" by (auto simp: source_ok_def list_all_iff)
qed

lemma ex_scope_ok [simp]: "ParseScope ex_scope \<noteq> None"
  by (simp add: ParseScope_def ex_scope_def scopeCharacter_def asciiAlphaNumeric_def)

lemma ex_send_valid [simp]: "validateInput (ex_send key)"
  by (simp add: validateInput_def ex_send_def ex_session_def parse_defs prefix_defs parseID_def trimPrefix_def validPayload_def
    asciiAlphaNumeric_def MaxInputParts_def valid_part_def MaxTextPartBytes_def utf8_valid_def utf8_runes_ascii del: utf8_runes.simps)

lemma ex_keys [simp]: "validateIdempotencyKey ''in-1''" "validateIdempotencyKey ''in-2''"
  by (simp_all add: validateIdempotencyKey_def MaxIdempotencyKeyBytes_def)

lemma ex_opened_state:
  "\<exists>s r. fst ex_opened ex_scope = Some s \<and> map_of (ts_sessions s) ex_session = Some r \<and> ks_turns r = []
     \<and> se_state (ks_session r) = SessionOpen \<and> ts_idempotency s ''in-1'' = None \<and> ts_idempotency s ''in-2'' = None
     \<and> kx_next (snd ex_opened) = 3"
  by (simp add: ex_opened_def ex_step_def kernel_start_def outcome_def CreateSessionFromRevision_def kguard_def
    validateScopeAndContext_def ParseScope_def ex_scope_def ex_open_def ex_revision_def zero_AgentSpecification_def parse_defs
    prefix_defs parseID_def trimPrefix_def validPayload_def canonicalDigest_def text_create_session_def text_object_def
    text_string_def marshalID_def Transact_def keyed_def tenant_state_def NewMemoryRepository_def newTenantState_def
    validateIdempotencyKey_def MaxIdempotencyKeyBytes_def open_session_def kbind_def new_id_defs payload_def
    parsed_identifier_def kpure_def kernel_now_def appendEvent_def ex_kernel_def ex_alphabet_def nextEventSequence_def
    zero_sessionRecord_def put_key_def put_session_def kfail_def scopeCharacter_def asciiAlphaNumeric_def Let_def ex_session_def)

lemma ex_send_step:
  assumes run: "kernel_run ex_kernel kernel_start w" and s: "fst w ex_scope = Some s" and key: "ts_idempotency s key = None" "validateIdempotencyKey key"
    and r: "map_of (ts_sessions s) ex_session = Some r" "se_state (ks_session r) = SessionOpen" and n: "kx_next (snd w) \<le> 56"
  shows "\<exists>s' r' v. fst (ex_step (CallSendInput (ex_send key)) w) ex_scope = Some s' \<and> map_of (ts_sessions s') ex_session = Some r'
    \<and> map tn_state (ks_turns r') = map tn_state (ks_turns r) @ [if idle (ks_turns r) then TurnRunning else TurnQueued]
    \<and> se_state (ks_session r') = SessionOpen \<and> ts_idempotency s' = (ts_idempotency s)(key \<mapsto> v)
    \<and> kx_next (snd (ex_step (CallSendInput (ex_send key)) w)) = kx_next (snd w) + 6"
proof -
  obtain repo c where w: "w = (repo, c)" by (cases w)
  have ok: "repo_ok ex_kernel (kx_next c) repo" using reached_ok [OF _ ex_fresh] run w by simp
  have t: "tenant_state repo ex_scope = s" using s w by (simp add: tenant_state_def)
  have q: "qi_idempotencyKey (ex_send key) = key" "qi_sessionID (ex_send key) = ex_session" by (simp_all add: ex_send_def)
  have "source_ok ex_kernel (kx_next c) 6" by (rule ex_source) (use n w in simp)
  from SendInput_accepts [OF ex_fresh ok ex_scope_ok ex_send_valid, of key] this key r obtain x v r' c' where
    "SendInput ex_kernel (\<lambda>_. False) ex_scope (ex_send key) repo c = (Inr (x, repo(ex_scope \<mapsto> put_key key v (put_session ex_session r' s))), c')"
    and r': "ks_turns r' = ks_turns r @ [sr_turn x]" "tn_state (sr_turn x) = (if idle (ks_turns r) then TurnRunning else TurnQueued)"
      "ks_session r' = (ks_session r)\<lparr>se_updatedAt := se_updatedAt (ks_session r')\<rparr>" "kx_next c' = kx_next c + 6"
    unfolding q t by blast
  then have "ex_step (CallSendInput (ex_send key)) w = (repo(ex_scope \<mapsto> put_key key v (put_session ex_session r' s)), c')"
    by (simp add: w ex_step_def outcome_def kbind_def kpure_def)
  moreover have "se_state (ks_session r') = SessionOpen" by (subst r'(3)) (simp add: r(2))
  ultimately show ?thesis using r' w by (auto simp: put_key_def)
qed

lemma ex_first_state:
  "\<exists>s r. fst ex_first ex_scope = Some s \<and> map_of (ts_sessions s) ex_session = Some r \<and> map tn_state (ks_turns r) = [TurnRunning]
     \<and> se_state (ks_session r) = SessionOpen \<and> ts_idempotency s ''in-2'' = None \<and> kx_next (snd ex_first) = 9"
proof -
  from ex_opened_state obtain s r where s: "fst ex_opened ex_scope = Some s" "map_of (ts_sessions s) ex_session = Some r" "ks_turns r = []"
    "se_state (ks_session r) = SessionOpen" "ts_idempotency s ''in-1'' = None" "ts_idempotency s ''in-2'' = None" "kx_next (snd ex_opened) = 3"
    by blast
  from ex_send_step [OF ex_reached(1) s(1,5) ex_keys(1) s(2,4)] s(3,6,7) show ?thesis
    unfolding ex_first_def by (fastforce simp: idle_def)
qed

lemma ex_second_state:
  "\<exists>s r. fst ex_second ex_scope = Some s \<and> map_of (ts_sessions s) ex_session = Some r
     \<and> map tn_state (ks_turns r) = [TurnRunning, TurnQueued] \<and> se_state (ks_session r) = SessionOpen \<and> kx_next (snd ex_second) = 15"
proof -
  from ex_first_state obtain s r where s: "fst ex_first ex_scope = Some s" "map_of (ts_sessions s) ex_session = Some r"
    "map tn_state (ks_turns r) = [TurnRunning]" "se_state (ks_session r) = SessionOpen" "ts_idempotency s ''in-2'' = None"
    "kx_next (snd ex_first) = 9" by (elim exE conjE)
  have "\<not> idle (ks_turns r)" using s(3) by (auto simp: idle_def)
  with ex_send_step [OF ex_reached(2) s(1,5) ex_keys(2) s(2,4)] s(3,6) show ?thesis
    unfolding ex_second_def by fastforce
qed

lemma ex_first_send:
  "\<exists>x. SendInput ex_kernel (\<lambda>_. False) ex_scope (ex_send ''in-1'') (fst ex_opened) (snd ex_opened) = (Inr (x, fst ex_first), snd ex_first)"
proof -
  obtain repo c where o: "ex_opened = (repo, c)" by (cases ex_opened)
  obtain y c' where y: "SendInput ex_kernel (\<lambda>_. False) ex_scope (ex_send ''in-1'') repo c = (y, c')"
    by (cases "SendInput ex_kernel (\<lambda>_. False) ex_scope (ex_send ''in-1'') repo c")
  show ?thesis
  proof (cases y)
    case (Inr p)
    then show ?thesis using y by (cases p) (simp add: o ex_first_def ex_step_def outcome_def kbind_def kpure_def)
  next
    case (Inl e)
    then have "fst ex_first = fst ex_opened" using y by (simp add: o ex_first_def ex_step_def outcome_def kbind_def)
    with ex_first_state ex_opened_state show ?thesis by auto
  qed
qed

end
