(* ===== verification/Kernel_Properties.thy ===== *)
theory Kernel_Properties
  imports Example_Kernel
begin

text \<open>
  What the agent kernel promises its callers along every run from the empty repository, whatever the calls, their
  scopes and the points at which their contexts are cancelled: the order of the Turns of a Session, the absence of panics,
  the effect of an Input and of its repetition, and the progress of a Session.
\<close>

section \<open>A recorded Input\<close>

lemma Transact_Inr:
  "Transact ctx scope change repo c = (Inr (x, repo'), c') \<longleftrightarrow>
     \<not> ctx 1 \<and> \<not> ctx 2 \<and> (\<exists>s'. change (tenant_state repo scope) c = (Inr (x, s'), c') \<and> repo' = repo(scope \<mapsto> s'))"
  by (auto simp: Transact_def simp del: fun_upd_apply)

lemma kguard_Inr: "kguard e m c = (Inr x, c') \<longleftrightarrow> e = None \<and> m c = (Inr x, c')"
  by (cases e) (auto simp: kguard_def)

lemma keyed_Inr:
  "keyed key command digest replay body s c = (Inr (x, s'), c') \<longleftrightarrow>
     (case ts_idempotency s key of
        Some w \<Rightarrow> kr_command w = command \<and> kr_digest w = digest \<and> replay w = Inr x \<and> s' = s \<and> c' = c
      | None \<Rightarrow> validateIdempotencyKey key \<and> body c = (Inr (x, s'), c'))"
  by (auto simp: keyed_def split: option.splits)

lemma SendInput_recorded:
  assumes "SendInput K ctx scope q repo c = (Inr (x, repo'), c')" and ok: "repo_ok K (kx_next c) repo"
  shows "\<exists>w r. ts_idempotency (tenant_state repo' scope) (qi_idempotencyKey q) = Some w \<and> kr_command w = ''send_input''
    \<and> canonicalDigest (text_send_input q) = Some (kr_digest w)
    \<and> map_of (ts_sessions (tenant_state repo' scope)) (kr_session w) = Some r \<and> resultFor r (kr_input w) (kr_turn w) = Inr x
    \<and> repo' scope = Some (tenant_state repo' scope)"
proof -
  let ?s = "tenant_state repo scope"
  from assms(1) obtain d s' where d: "canonicalDigest (text_send_input q) = Some d" and repo': "repo' = repo(scope \<mapsto> s')"
    and k: "keyed (qi_idempotencyKey q) ''send_input'' d
      (\<lambda>record. resultFor (stored_session ?s (kr_session record)) (kr_input record) (kr_turn record))
      (if \<not> validateInput q then kfail FailureInvalidInput
       else case map_of (ts_sessions ?s) (qi_sessionID q) of
         None \<Rightarrow> kfail FailureNotFound
       | Some r \<Rightarrow>
           if se_state (ks_session r) \<noteq> SessionOpen then kfail FailureConflict
           else kbind (accept_input K (qi_parts q) r) (\<lambda>(inputID, turnID, r).
                kbind (klift (resultFor r inputID turnID)) (\<lambda>result.
                kpure (result, put_key (qi_idempotencyKey q)
                  (zero_idempotencyRecord\<lparr>kr_command := ''send_input'', kr_digest := d,
                     kr_session := qi_sessionID q, kr_input := inputID, kr_turn := turnID\<rparr>)
                  (put_session (qi_sessionID q) r ?s))))) ?s c = (Inr (x, s'), c')"
    unfolding SendInput_def kguard_Inr by (cases "canonicalDigest (text_send_input q)") (simp_all add: Transact_Inr, blast)
  show ?thesis
  proof (cases "ts_idempotency ?s (qi_idempotencyKey q)")
    case (Some w)
    with k have w: "kr_command w = ''send_input''" "kr_digest w = d" "s' = ?s"
      and x: "resultFor (stored_session ?s (kr_session w)) (kr_input w) (kr_turn w) = Inr x"
      by (simp_all add: keyed_Inr)
    from tenant_state_ok [OF ok] Some have "key_ok ?s w" by (auto simp: tenant_ok_def)
    with w(1) obtain r where "map_of (ts_sessions ?s) (kr_session w) = Some r" by (auto simp: key_ok_def)
    with w x Some d repo' show ?thesis by (auto simp: stored_session_def)
  next
    case None
    with k obtain r i t r' c1 where "accept_input K (qi_parts q) r c = (Inr (i, t, r'), c1)" and x: "resultFor r' i t = Inr x"
      and s': "s' = put_key (qi_idempotencyKey q) (zero_idempotencyRecord\<lparr>kr_command := ''send_input'', kr_digest := d,
        kr_session := qi_sessionID q, kr_input := i, kr_turn := t\<rparr>) (put_session (qi_sessionID q) r' ?s)"
      by (auto simp: keyed_Inr split: option.splits if_splits)
    have "map_of (ts_sessions s') (qi_sessionID q) = Some r'" by (simp add: s' put_key_def)
    with x d show ?thesis by (auto simp: repo' s' put_key_def)
  qed
qed

lemma stored_tenant: "ts_idempotency (tenant_state repo scope) key = Some w \<Longrightarrow> repo(scope \<mapsto> tenant_state repo scope) = repo"
  by (auto simp: tenant_state_def newTenantState_def split: option.splits)

lemma SendInput_replay:
  assumes "ts_idempotency (tenant_state repo scope) (qi_idempotencyKey q) = Some w" and "kr_command w = ''send_input''"
    and "canonicalDigest (text_send_input q) = Some (kr_digest w)"
    and "map_of (ts_sessions (tenant_state repo scope)) (kr_session w) = Some r" and "resultFor r (kr_input w) (kr_turn w) = Inr x"
    and "ParseScope scope \<noteq> None" and "\<not> ctx 0" "\<not> ctx 1" "\<not> ctx 2"
  shows "SendInput K ctx scope q repo c = (Inr (x, repo), c)"
proof -
  have "SendInput K ctx scope q repo c = (Inr (x, repo(scope \<mapsto> tenant_state repo scope)), c)"
    using assms
    by (auto simp: SendInput_def kguard_Inr validateScopeAndContext_def Transact_Inr keyed_Inr stored_session_def simp del: fun_upd_apply)
  then show ?thesis unfolding stored_tenant [OF assms(1)] .
qed

lemma resultFor_later:
  assumes x: "resultFor r i t = Inr x" and i: "i \<in> dom (ks_inputs r)"
    and pre: "prefix (map tn_id (ks_turns r)) (map tn_id (ks_turns r'))" and le: "ks_inputs r \<subseteq>\<^sub>m ks_inputs r'"
  shows "\<exists>y. resultFor r' i t = Inr y \<and> sr_input y = sr_input x \<and> tn_id (sr_turn y) = tn_id (sr_turn x)"
proof -
  from x obtain k where k: "turnIndex r t = Some k" and x': "x = \<lparr>sr_input = (case ks_inputs r i of None \<Rightarrow> zero_Input | Some z \<Rightarrow> z), sr_turn = ks_turns r ! k\<rparr>"
    by (auto simp: resultFor_def split: option.splits)
  have "t \<in> set (map tn_id (ks_turns r))" using k turnIndex_Some_iff [of r t] by auto
  then have "t \<in> set (map tn_id (ks_turns r'))" using set_mono_prefix [OF pre] by blast
  then obtain k' where k': "turnIndex r' t = Some k'" using turnIndex_Some_iff [of r' t] by auto
  have "ks_inputs r' i = ks_inputs r i" using le i by (auto simp: map_le_def)
  then show ?thesis using turnIndex_SomeD [OF k] turnIndex_SomeD [OF k'] k' by (simp add: resultFor_def x')
qed

section \<open>Theorems\<close>

text \<open>C5: In every repository the kernel can reach, every Session is well-formed: its Turns are numbered from 1 in the order
  of acceptance, at most one runs, every Turn before the running one is settled, none waits while none runs; its retained
  events are consecutively numbered and belong to it; its state fits its Turns; and the identifiers of its Turns are pairwise
  distinct. The identifier source is assumed not to repeat itself.
\<close>

theorem kernel_sessions_ordered:
  assumes "kernel_run K kernel_start (repo, c)" and "fresh_source K"
    and "repo scope = Some s" and "map_of (ts_sessions s) sid = Some r"
  shows "session_ok sid r \<and> distinct (map tn_id (ks_turns r))"
proof -
  from reached_ok [OF assms(1,2)] assms(3) have "tenant_ok K (kx_next c) s" by (simp add: repo_ok_def)
  from tenant_ok_session [OF this assms(4)] show ?thesis by (simp add: ids_ok_def)
qed

theorem kernel_sessions_ordered_witness:
  "\<exists>s r. kernel_run ex_kernel kernel_start ex_second \<and> fst ex_second ex_scope = Some s \<and> map_of (ts_sessions s) ex_session = Some r
     \<and> map tn_state (ks_turns r) = [TurnRunning, TurnQueued] \<and> session_ok ex_session r \<and> distinct (map tn_id (ks_turns r))"
proof -
  from ex_second_state obtain s r where s: "fst ex_second ex_scope = Some s" "map_of (ts_sessions s) ex_session = Some r"
    "map tn_state (ks_turns r) = [TurnRunning, TurnQueued]" by (elim exE conjE)
  have "kernel_run ex_kernel kernel_start (fst ex_second, snd ex_second)" using ex_reached(3) by simp
  from kernel_sessions_ordered [OF this ex_fresh s(1,2)] s ex_reached(3) show ?thesis by (intro exI [of _ s] exI [of _ r]) simp
qed

text \<open>C29: No call on a repository the kernel has reached panics: the index of a Turn a replayed idempotency record names is
  always found, and the first revision of an Agent always exists.
\<close>

theorem kernel_never_panics:
  assumes "kernel_run K kernel_start (repo, c)" and "fresh_source K"
  shows "fst (perform K ctx scope call repo c) \<noteq> Inl Panic"
proof (cases "perform K ctx scope call repo c")
  case (Pair x c')
  then show ?thesis using perform_safe(2) [OF assms(2) reached_ok [OF assms]] by (cases x) auto
qed

theorem kernel_never_panics_witness:
  "fresh_source ex_kernel \<and> kernel_run ex_kernel kernel_start ex_second
   \<and> fst (perform ex_kernel (\<lambda>_. False) ex_scope (CallSendInput (ex_send ''in-1'')) (fst ex_second) (snd ex_second)) \<noteq> Inl Panic"
  using kernel_never_panics [OF _ ex_fresh, of "fst ex_second" "snd ex_second"] ex_fresh ex_reached(3)
  by (simp del: perform.simps)

text \<open>C28: A valid Input under a fresh key to an open Session is always accepted while the identifier source answers: its Turn
  is appended with the next position, runs at once exactly when no Turn was pending and waits otherwise, the result carries
  the Input's parts, and of the Session itself only the update time changes.
\<close>

theorem send_input_accepted:
  assumes "kernel_run K kernel_start (repo, c)" and "fresh_source K" and "ParseScope scope \<noteq> None"
    and "validateInput q" and "validateIdempotencyKey (qi_idempotencyKey q)" and "source_ok K (kx_next c) 6"
    and "repo scope = Some s" and "ts_idempotency s (qi_idempotencyKey q) = None"
    and "map_of (ts_sessions s) (qi_sessionID q) = Some r" and "se_state (ks_session r) = SessionOpen"
  shows "\<exists>x w r' c'. SendInput K (\<lambda>_. False) scope q repo c
       = (Inr (x, repo(scope \<mapsto> put_key (qi_idempotencyKey q) w (put_session (qi_sessionID q) r' s))), c')
     \<and> ks_turns r' = ks_turns r @ [sr_turn x] \<and> tn_position (sr_turn x) = Suc (length (ks_turns r))
     \<and> tn_state (sr_turn x) = (if idle (ks_turns r) then TurnRunning else TurnQueued)
     \<and> ip_parts (sr_input x) = qi_parts q \<and> ip_id (sr_input x) = tn_inputID (sr_turn x)
     \<and> ks_session r' = (ks_session r)\<lparr>se_updatedAt := se_updatedAt (ks_session r')\<rparr> \<and> kx_next c' = kx_next c + 6"
proof -
  have s: "tenant_state repo scope = s" using assms(7) by (simp add: tenant_state_def)
  from SendInput_accepts [OF assms(2) reached_ok [OF assms(1,2)] assms(3-6)] assms(8-10) show ?thesis by (simp only: s)
qed

theorem send_input_accepted_witness:
  "\<exists>x repo' c'. SendInput ex_kernel (\<lambda>_. False) ex_scope (ex_send ''in-1'') (fst ex_opened) (snd ex_opened) = (Inr (x, repo'), c')
     \<and> tn_position (sr_turn x) = 1 \<and> tn_state (sr_turn x) = TurnRunning \<and> ip_parts (sr_input x) = qi_parts (ex_send ''in-1'')"
proof -
  from ex_opened_state obtain s r where s: "fst ex_opened ex_scope = Some s" "map_of (ts_sessions s) ex_session = Some r" "ks_turns r = []"
    "se_state (ks_session r) = SessionOpen" "ts_idempotency s ''in-1'' = None" "kx_next (snd ex_opened) = 3" by blast
  have run: "kernel_run ex_kernel kernel_start (fst ex_opened, snd ex_opened)" using ex_reached(1) by simp
  have q: "qi_idempotencyKey (ex_send ''in-1'') = ''in-1''" "qi_sessionID (ex_send ''in-1'') = ex_session" by (simp_all add: ex_send_def)
  have "source_ok ex_kernel (kx_next (snd ex_opened)) 6" by (rule ex_source) (simp add: s)
  from send_input_accepted [OF run ex_fresh ex_scope_ok ex_send_valid, of "''in-1''" s r, unfolded q, OF ex_keys(1) this s(1,5,2,4)] s(3)
  show ?thesis by (auto simp: idle_def)
qed

text \<open>C10: Sending an Input is exactly-once over the life of the kernel: after any further calls, repeating the request under
  its key returns the same Input and a Turn of the same identifier, changes nothing and draws no identifier.
\<close>

theorem send_input_once:
  assumes "kernel_run K kernel_start (repo, c)" and "fresh_source K"
    and "SendInput K ctx scope q repo c = (Inr (x, repo'), c')" and "kernel_run K (repo', c') (repo'', d)"
    and "\<not> ctx' 0" and "\<not> ctx' 1" and "\<not> ctx' 2"
  shows "\<exists>y. SendInput K ctx' scope q repo'' d = (Inr (y, repo''), d)
    \<and> sr_input y = sr_input x \<and> tn_id (sr_turn y) = tn_id (sr_turn x)"
proof -
  let ?s = "tenant_state repo' scope" and ?s' = "tenant_state repo'' scope"
  note ok = reached_ok [OF assms(1,2)]
  from SendInput_recorded [OF assms(3) ok] obtain w r where w: "ts_idempotency ?s (qi_idempotencyKey q) = Some w"
    "kr_command w = ''send_input''" "canonicalDigest (text_send_input q) = Some (kr_digest w)"
    "map_of (ts_sessions ?s) (kr_session w) = Some r" "resultFor r (kr_input w) (kr_turn w) = Inr x" by blast
  have ok': "repo_ok K (kx_next c') repo'" using safeD(1) [OF SendInput_safe [OF assms(2)] ok assms(3)] by blast
  then have "key_ok ?s w" using tenant_state_ok [OF ok'] w(1) by (auto simp: tenant_ok_def)
  then have i: "kr_input w \<in> dom (ks_inputs r)" using w(2,4) by (auto simp: key_ok_def)
  have "grows ?s ?s'" using kernel_run_ok [OF assms(4,2)] ok' by (simp add: repo_grows_def)
  then obtain r' where r': "ts_idempotency ?s' (qi_idempotencyKey q) = Some w" "map_of (ts_sessions ?s') (kr_session w) = Some r'"
    "prefix (map tn_id (ks_turns r)) (map tn_id (ks_turns r'))" "ks_inputs r \<subseteq>\<^sub>m ks_inputs r'"
    using w(1,4) unfolding grows_def map_le_def by (metis domI)
  from resultFor_later [OF w(5) i r'(3,4)] obtain y where y: "resultFor r' (kr_input w) (kr_turn w) = Inr y"
    "sr_input y = sr_input x" "tn_id (sr_turn y) = tn_id (sr_turn x)" by blast
  have "ParseScope scope \<noteq> None" using assms(3) by (auto simp: SendInput_def kguard_Inr validateScopeAndContext_def split: if_splits)
  from SendInput_replay [OF r'(1) w(2,3) r'(2) y(1) this assms(5-7)] y show ?thesis by blast
qed

theorem send_input_once_witness:
  "\<exists>x repo c y. SendInput ex_kernel (\<lambda>_. False) ex_scope (ex_send ''in-1'') (fst ex_opened) (snd ex_opened) = (Inr (x, repo), c)
     \<and> kernel_run ex_kernel (repo, c) ex_second
     \<and> SendInput ex_kernel (\<lambda>_. False) ex_scope (ex_send ''in-1'') (fst ex_second) (snd ex_second) = (Inr (y, fst ex_second), snd ex_second)
     \<and> sr_input y = sr_input x \<and> tn_id (sr_turn y) = tn_id (sr_turn x)"
proof -
  from ex_first_send obtain x where x: "SendInput ex_kernel (\<lambda>_. False) ex_scope (ex_send ''in-1'') (fst ex_opened) (snd ex_opened)
      = (Inr (x, fst ex_first), snd ex_first)" by blast
  have run: "kernel_run ex_kernel kernel_start (fst ex_opened, snd ex_opened)"
    "kernel_run ex_kernel (fst ex_first, snd ex_first) (fst ex_second, snd ex_second)"
    using ex_reached(1) ex_step_run [OF kernel_run_refl] by (simp_all add: ex_second_def)
  from send_input_once [OF run(1) ex_fresh x run(2), of "\<lambda>_. False"] x run(2) show ?thesis by auto
qed

text \<open>C11: A Session always drains: completing its running Turn as often as it has unsettled Turns succeeds every time while
  the identifier source answers, settles every accepted Turn, and leaves a closing Session completed.
\<close>

theorem session_drains:
  assumes "kernel_run K kernel_start (repo, c)" and "fresh_source K" and "ParseScope scope \<noteq> None"
    and "repo scope = Some s" and "map_of (ts_sessions s) sid = Some r"
    and "source_ok K (kx_next c) (4 * unfinished (ks_turns r))"
  shows "\<exists>repo' c' r'. drain K scope sid (unfinished (ks_turns r)) repo c = (Inr repo', c')
    \<and> map_of (ts_sessions (tenant_state repo' scope)) sid = Some r' \<and> idle (ks_turns r')
    \<and> map tn_id (ks_turns r') = map tn_id (ks_turns r)
    \<and> se_state (ks_session r') = (if se_state (ks_session r) = SessionClosing then SessionCompleted else se_state (ks_session r))"
proof -
  have "map_of (ts_sessions (tenant_state repo scope)) sid = Some r" using assms(4,5) by (simp add: tenant_state_def)
  from drain_settles [OF assms(3,6) reached_ok [OF assms(1,2)] this refl]
  show ?thesis by (auto simp: session_ok_def lifecycle_ok_def)
qed

theorem session_drains_witness:
  "\<exists>repo' c' r'. drain ex_kernel ex_scope ex_session 2 (fst ex_second) (snd ex_second) = (Inr repo', c')
     \<and> map_of (ts_sessions (tenant_state repo' ex_scope)) ex_session = Some r' \<and> length (ks_turns r') = 2 \<and> idle (ks_turns r')"
proof -
  from ex_second_state obtain s r where s: "fst ex_second ex_scope = Some s" "map_of (ts_sessions s) ex_session = Some r"
    "map tn_state (ks_turns r) = [TurnRunning, TurnQueued]" "kx_next (snd ex_second) = 15" by (elim exE conjE)
  have u: "unfinished (ks_turns r) = 2" using s(3) by (auto simp: unfinished_def)
  have run: "kernel_run ex_kernel kernel_start (fst ex_second, snd ex_second)" using ex_reached(3) by simp
  have "source_ok ex_kernel (kx_next (snd ex_second)) (4 * unfinished (ks_turns r))" by (rule ex_source) (simp add: s u)
  from session_drains [OF run ex_fresh ex_scope_ok s(1,2) this] obtain repo' c' r' where
    d: "drain ex_kernel ex_scope ex_session 2 (fst ex_second) (snd ex_second) = (Inr repo', c')"
      "map_of (ts_sessions (tenant_state repo' ex_scope)) ex_session = Some r'" "idle (ks_turns r')"
      "map tn_id (ks_turns r') = map tn_id (ks_turns r)" unfolding u by blast
  have "length (ks_turns r') = 2" using arg_cong [OF d(4), of length] arg_cong [OF s(3), of length] by simp
  with d show ?thesis by blast
qed

end
