(* ===== verification/Sandbox_Ledger.thy ===== *)
theory Sandbox_Ledger
  imports Go_Time "HOL-Library.Word" "HOL-Library.AList" "HOL-Library.List_Lexorder" "HOL-Library.Char_ord" "HOL-Library.Sublist"
begin

text \<open>
  The operation ledger of the sandbox control plane (\<^verbatim>\<open>internal/sandboxcontrol/ledger.go\<close>): the durable lifecycle of a
  sandbox operation from acceptance to tombstone, the fenced assignments of hosts and the outbox of state facts.
  A method is a function from its arguments and the ledger to an error or result and the ledger it leaves, because one
  of them can fail after it has changed operations; its first argument says whether the context was
  already cancelled. The Go map of operations is an association list by key. A fencing token is a 64-bit word.

  \<open>typed\<close>, an argument of \<open>Accept\<close>, says which dispatch bodies beyond the two fixed ones are canonical control requests
  with a permitted environment: \<^verbatim>\<open>validateDispatchBody\<close> decodes them into the request types of
  \<^verbatim>\<open>sandbox/api.go\<close>, which are not modelled. The fields of \<^verbatim>\<open>MemoryLedger\<close> that serve enrolled hosts
  (\<^verbatim>\<open>host.go\<close>) are left out; no method below touches them.
\<close>

section \<open>Operations\<close>

datatype ledger_error =
    LedgerErrContext | LedgerErrInvalid | LedgerErrConflict | LedgerErrNotFoundOrDenied | ErrInvalidTransition | ErrStaleFence
  | ErrOperationIDExpired | ErrFenceExhausted

definition maxLedgerPage :: int where "maxLedgerPage = 1000"
definition maxPrincipalBytes :: nat where "maxPrincipalBytes = 512"
definition maxOperationIDBytes :: nat where "maxOperationIDBytes = 128"
definition maxDigestBytes :: nat where "maxDigestBytes = 128"
definition maxHostIDBytes :: nat where "maxHostIDBytes = 128"

datatype ledger_State =
    StateAccepted | StateDispatched | StateStarted | StateSucceeded | StateFailed | StateCancelled | StateUncertain
  | StateCleanupPending | StateCleanupConfirmed | StateExpired | StateTombstoned | OtherState string

record Assignment =
  asg_hostID :: string
  asg_hostGeneration :: nat
  asg_assignmentID :: string
  asg_leaseEpoch :: nat
  asg_fencingToken :: "64 word"
  asg_leaseExpiresAt :: gtime

definition zero_Assignment :: Assignment where
  "zero_Assignment = \<lparr>asg_hostID = [], asg_hostGeneration = 0, asg_assignmentID = [], asg_leaseEpoch = 0, asg_fencingToken = 0,
     asg_leaseExpiresAt = zero_time\<rparr>"

datatype ResourceProjectionKind =
    ResourceProjectionSandbox | ResourceProjectionProcess | ResourceProjectionVolume | ResourceProjectionSnapshot
  | OtherProjection string

fun projection_string :: "ResourceProjectionKind \<Rightarrow> string" where
  "projection_string ResourceProjectionSandbox = ''sandbox''"
| "projection_string ResourceProjectionProcess = ''process''"
| "projection_string ResourceProjectionVolume = ''volume''"
| "projection_string ResourceProjectionSnapshot = ''snapshot''"
| "projection_string (OtherProjection s) = s"

datatype ResourceProjectionTransition = ResourceProjectionReplaceSnapshot | OtherTransition string

record ResourceProjectionBinding =
  rb_kind :: ResourceProjectionKind
  rb_resourceID :: string
  rb_admittedSnapshotDigest :: string
  rb_transition :: ResourceProjectionTransition

record Operation =
  op_principal :: string
  op_tenant :: string
  op_id :: string
  op_kind :: string
  op_targetKind :: string
  op_targetID :: string
  op_inputDigest :: string
  op_canonicalDigest :: string
  op_effectiveSpecDigest :: string
  op_capabilityDigest :: string
  op_dispatchBody :: string
  op_state :: ledger_State
  op_version :: nat
  op_acceptedAt :: gtime
  op_retentionExpiresAt :: gtime
  op_cleanupRequired :: bool
  op_retainedOutputBytes :: nat
  op_binding :: "ResourceProjectionBinding option"
  op_assignment :: Assignment

record HostResult =
  hr_hostID :: string
  hr_fencingToken :: "64 word"
  hr_state :: ledger_State
  hr_observedAt :: gtime

datatype OutboxEvent = OutboxAccepted | OutboxDispatched | OutboxStateChanged | OutboxLeaseExpired | OutboxTombstoned

record ledger_OutboxRecord =
  lo_id :: nat
  lo_principal :: string
  lo_operationID :: string
  lo_operationVersion :: nat
  lo_event :: OutboxEvent
  lo_state :: ledger_State

record MemoryLedger =
  ml_operations :: "(string \<times> Operation) list"
  ml_outbox :: "ledger_OutboxRecord list"

definition NewMemoryLedger :: MemoryLedger where
  "NewMemoryLedger = \<lparr>ml_operations = [], ml_outbox = []\<rparr>"

section \<open>Validation\<close>

definition validBounded :: "string \<Rightarrow> nat \<Rightarrow> bool" where
  "validBounded value maxBytes \<longleftrightarrow> value \<noteq> [] \<and> length value \<le> maxBytes \<and> char_of (0::nat) \<notin> set value"

definition operationInputDigest :: "Operation \<Rightarrow> string" where
  "operationInputDigest operation = (if op_inputDigest operation \<noteq> [] then op_inputDigest operation else op_canonicalDigest operation)"

definition hex_char :: "char \<Rightarrow> bool" where
  "hex_char c \<longleftrightarrow> c \<in> set ''0123456789abcdefABCDEF''"

definition validProjectionSnapshotDigest :: "string \<Rightarrow> bool" where
  "validProjectionSnapshotDigest value \<longleftrightarrow>
     \<not> (length value \<noteq> length ''sha256:'' + 64 \<or> \<not> prefix ''sha256:'' value) \<and> list_all hex_char (drop (length ''sha256:'') value)"

definition validResourceProjectionBinding :: "ResourceProjectionBinding \<Rightarrow> bool" where
  "validResourceProjectionBinding b \<longleftrightarrow>
     validBounded (rb_resourceID b) maxOperationIDBytes \<and> validProjectionSnapshotDigest (rb_admittedSnapshotDigest b)
     \<and> rb_transition b = ResourceProjectionReplaceSnapshot
     \<and> (case rb_kind b of OtherProjection _ \<Rightarrow> False | _ \<Rightarrow> True)"

definition validateDispatchBody :: "(string \<Rightarrow> bool) \<Rightarrow> string \<Rightarrow> bool" where
  "validateDispatchBody typed body \<longleftrightarrow>
     body = [] \<or> body = ''{}'' \<or> body = ''{'' @ [CHR 0x22] @ ''version'' @ [CHR 0x22] @ '':'' @ [CHR 0x22] @ ''sandbox.control/v1'' @ [CHR 0x22] @ ''}''
     \<or> typed body"

definition validateOperation :: "(string \<Rightarrow> bool) \<Rightarrow> Operation \<Rightarrow> bool" where
  "validateOperation typed operation \<longleftrightarrow>
     \<not> (\<not> validBounded (op_principal operation) maxPrincipalBytes
        \<or> op_tenant operation \<noteq> [] \<and> \<not> validBounded (op_tenant operation) 256
        \<or> 2 ^ 20 < length (op_dispatchBody operation)
        \<or> \<not> validBounded (op_id operation) maxOperationIDBytes
        \<or> \<not> validBounded (operationInputDigest operation) maxDigestBytes
        \<or> \<not> validBounded (op_canonicalDigest operation) maxDigestBytes
        \<or> \<not> validBounded (op_effectiveSpecDigest operation) maxDigestBytes
        \<or> IsZero (op_acceptedAt operation) \<or> IsZero (op_retentionExpiresAt operation)
        \<or> \<not> After (op_retentionExpiresAt operation) (op_acceptedAt operation))
     \<and> validateDispatchBody typed (op_dispatchBody operation)
     \<and> (case op_binding operation of
          None \<Rightarrow> True
        | Some b \<Rightarrow>
            \<not> (\<not> validResourceProjectionBinding b \<or> op_targetKind operation \<noteq> projection_string (rb_kind b)
               \<or> op_targetID operation \<noteq> rb_resourceID b))"

definition normalizeOperationForPersistence :: "Operation \<Rightarrow> Operation" where
  "normalizeOperationForPersistence operation =
     (let operation = (if op_tenant operation = []
                       then operation\<lparr>op_tenant := takeWhile (\<lambda>c. c \<noteq> CHR '':'') (op_principal operation)\<rparr> else operation)
      in if op_dispatchBody operation = [] then operation\<lparr>op_dispatchBody := ''{}''\<rparr> else operation)"

definition validateLedgerPage :: "gtime \<Rightarrow> int \<Rightarrow> bool" where
  "validateLedgerPage now limit \<longleftrightarrow> \<not> (IsZero now \<or> limit \<le> 0 \<or> maxLedgerPage < limit)"

fun permits :: "ledger_State \<Rightarrow> ledger_State \<Rightarrow> bool" where
  "permits StateAccepted new \<longleftrightarrow> new = StateDispatched \<or> new = StateCancelled \<or> new = StateCleanupPending"
| "permits StateDispatched new \<longleftrightarrow>
     new = StateStarted \<or> new = StateSucceeded \<or> new = StateFailed \<or> new = StateCancelled \<or> new = StateUncertain \<or> new = StateCleanupPending"
| "permits StateStarted new \<longleftrightarrow>
     new = StateSucceeded \<or> new = StateFailed \<or> new = StateCancelled \<or> new = StateUncertain \<or> new = StateCleanupPending"
| "permits StateUncertain new \<longleftrightarrow> new = StateDispatched \<or> new = StateSucceeded \<or> new = StateFailed \<or> new = StateCleanupPending"
| "permits StateCleanupPending new \<longleftrightarrow> new = StateCleanupConfirmed \<or> new = StateTombstoned"
| "permits StateTombstoned new \<longleftrightarrow> False"
| "permits (OtherState s) new \<longleftrightarrow> False"
| "permits current new \<longleftrightarrow> new = StateTombstoned"

definition operationKey :: "string \<Rightarrow> string \<Rightarrow> string" where
  "operationKey p i = p @ [char_of (0::nat)] @ i"

definition sortedOperationKeys :: "(string \<times> Operation) list \<Rightarrow> string list" where
  "sortedOperationKeys operations = sort (map fst operations)"

definition appendOutbox :: "Operation \<Rightarrow> OutboxEvent \<Rightarrow> MemoryLedger \<Rightarrow> MemoryLedger" where
  "appendOutbox operation e ledger =
     ledger\<lparr>ml_outbox := ml_outbox ledger @
       [\<lparr>lo_id = length (ml_outbox ledger) + 1, lo_principal = op_principal operation, lo_operationID = op_id operation,
         lo_operationVersion = op_version operation, lo_event = e, lo_state = op_state operation\<rparr>]\<rparr>"

definition put_operation :: "string \<Rightarrow> Operation \<Rightarrow> MemoryLedger \<Rightarrow> MemoryLedger" where
  "put_operation key operation ledger = ledger\<lparr>ml_operations := AList.update key operation (ml_operations ledger)\<rparr>"

definition to_utc :: "gtime \<Rightarrow> gtime" where
  "to_utc t = GTime (instant t) True"

section \<open>The methods of the ledger\<close>

type_synonym 'a ledger_result = "(ledger_error + 'a) \<times> MemoryLedger"

definition Accept :: "(string \<Rightarrow> bool) \<Rightarrow> bool \<Rightarrow> Operation \<Rightarrow> MemoryLedger \<Rightarrow> (Operation \<times> bool) ledger_result" where
  "Accept typed cancelled operation ledger =
     (if cancelled then (Inl LedgerErrContext, ledger)
      else let operation = normalizeOperationForPersistence operation in
      if \<not> validateOperation typed operation then (Inl LedgerErrInvalid, ledger)
      else let key = operationKey (op_principal operation) (op_id operation) in
      case map_of (ml_operations ledger) key of
        Some prior \<Rightarrow>
          if op_state prior = StateTombstoned then (Inl ErrOperationIDExpired, ledger)
          else if operationInputDigest prior \<noteq> operationInputDigest operation \<or> op_binding prior \<noteq> op_binding operation
          then (Inl LedgerErrConflict, ledger)
          else (Inr (prior, True), ledger)
      | None \<Rightarrow>
          if list_ex (\<lambda>(_, prior). op_id prior = op_id operation) (ml_operations ledger) then (Inl LedgerErrNotFoundOrDenied, ledger)
          else let operation = operation\<lparr>op_state := StateAccepted, op_version := 1, op_acceptedAt := to_utc (op_acceptedAt operation),
                     op_retentionExpiresAt := to_utc (op_retentionExpiresAt operation)\<rparr>
               in (Inr (operation, False), appendOutbox operation OutboxAccepted (put_operation key operation ledger)))"

definition ledger_Get :: "bool \<Rightarrow> string \<Rightarrow> string \<Rightarrow> MemoryLedger \<Rightarrow> ledger_error + Operation" where
  "ledger_Get cancelled p i ledger =
     (if cancelled then Inl LedgerErrContext
      else case map_of (ml_operations ledger) (operationKey p i) of
        None \<Rightarrow> Inl LedgerErrNotFoundOrDenied
      | Some operation \<Rightarrow> Inr operation)"

definition Transition :: "bool \<Rightarrow> string \<Rightarrow> string \<Rightarrow> nat \<Rightarrow> ledger_State \<Rightarrow> MemoryLedger \<Rightarrow> Operation ledger_result" where
  "Transition cancelled p i version new ledger =
     (if cancelled then (Inl LedgerErrContext, ledger)
      else let key = operationKey p i in
      case map_of (ml_operations ledger) key of
        None \<Rightarrow> (Inl LedgerErrNotFoundOrDenied, ledger)
      | Some operation \<Rightarrow>
          if op_version operation \<noteq> version \<or> \<not> permits (op_state operation) new then (Inl ErrInvalidTransition, ledger)
          else let operation = operation\<lparr>op_state := new, op_version := op_version operation + 1\<rparr>
               in (Inr operation, appendOutbox operation OutboxStateChanged (put_operation key operation ledger)))"

definition assignable :: "ledger_State \<Rightarrow> bool" where
  "assignable st \<longleftrightarrow>
     \<not> (st \<noteq> StateAccepted \<and> st \<noteq> StateDispatched \<and> st \<noteq> StateStarted \<and> st \<noteq> StateUncertain \<and> st \<noteq> StateCleanupPending)"

definition Assign :: "bool \<Rightarrow> string \<Rightarrow> string \<Rightarrow> string \<Rightarrow> gtime \<Rightarrow> MemoryLedger \<Rightarrow> Operation ledger_result" where
  "Assign cancelled p i hostID leaseExpiresAt ledger =
     (if cancelled then (Inl LedgerErrContext, ledger)
      else if \<not> validBounded hostID maxHostIDBytes \<or> IsZero leaseExpiresAt then (Inl LedgerErrInvalid, ledger)
      else let key = operationKey p i in
      case map_of (ml_operations ledger) key of
        None \<Rightarrow> (Inl LedgerErrNotFoundOrDenied, ledger)
      | Some operation \<Rightarrow>
          if \<not> assignable (op_state operation) then (Inl ErrInvalidTransition, ledger)
          else let operation = operation\<lparr>
                     op_assignment := zero_Assignment\<lparr>asg_hostID := hostID,
                       asg_fencingToken := asg_fencingToken (op_assignment operation) + 1,
                       asg_leaseExpiresAt := to_utc leaseExpiresAt\<rparr>,
                     op_state := StateDispatched, op_version := op_version operation + 1\<rparr>
               in (Inr operation, appendOutbox operation OutboxDispatched (put_operation key operation ledger)))"

definition stale_result :: "HostResult \<Rightarrow> Assignment \<Rightarrow> bool" where
  "stale_result result a \<longleftrightarrow>
     IsZero (hr_observedAt result) \<or> \<not> validBounded (hr_hostID result) maxHostIDBytes \<or> hr_hostID result \<noteq> asg_hostID a
     \<or> hr_fencingToken result \<noteq> asg_fencingToken a \<or> \<not> Before (hr_observedAt result) (asg_leaseExpiresAt a)"

definition RecordHostResult :: "bool \<Rightarrow> string \<Rightarrow> string \<Rightarrow> HostResult \<Rightarrow> MemoryLedger \<Rightarrow> Operation ledger_result" where
  "RecordHostResult cancelled p i result ledger =
     (if cancelled then (Inl LedgerErrContext, ledger)
      else let key = operationKey p i in
      case map_of (ml_operations ledger) key of
        None \<Rightarrow> (Inl LedgerErrNotFoundOrDenied, ledger)
      | Some operation \<Rightarrow>
          if stale_result result (op_assignment operation) then (Inl ErrStaleFence, ledger)
          else if \<not> permits (op_state operation) (hr_state result) then (Inl ErrInvalidTransition, ledger)
          else let operation = operation\<lparr>op_state := hr_state result, op_version := op_version operation + 1\<rparr>
               in (Inr operation, appendOutbox operation OutboxStateChanged (put_operation key operation ledger)))"

text \<open>
  The three sweeps visit the keys in order, change the operations that are due and stop after \<open>limit\<close> of them. A change
  that fails (\<open>None\<close>) ends the sweep with an error after the changes it has already made.
\<close>

fun sweep ::
    "(Operation \<Rightarrow> bool) \<Rightarrow> (Operation \<Rightarrow> Operation option) \<Rightarrow> OutboxEvent \<Rightarrow> nat \<Rightarrow> string list \<Rightarrow> Operation list \<Rightarrow> MemoryLedger
     \<Rightarrow> Operation list ledger_result" where
  "sweep due change e limit [] done ledger = (Inr done, ledger)"
| "sweep due change e limit (key # keys) done ledger =
     (if length done = limit then (Inr done, ledger)
      else case map_of (ml_operations ledger) key of
        None \<Rightarrow> sweep due change e limit keys done ledger
      | Some operation \<Rightarrow>
          if \<not> due operation then sweep due change e limit keys done ledger
          else case change operation of
            None \<Rightarrow> (Inl ErrFenceExhausted, ledger)
          | Some operation' \<Rightarrow>
              sweep due change e limit keys (done @ [operation']) (appendOutbox operation' e (put_operation key operation' ledger)))"

definition cleanup_due :: "gtime \<Rightarrow> Operation \<Rightarrow> bool" where
  "cleanup_due now operation \<longleftrightarrow>
     \<not> (\<not> op_cleanupRequired operation \<or> Before now (op_retentionExpiresAt operation) \<or> op_state operation = StateCleanupPending
        \<or> op_state operation = StateCleanupConfirmed \<or> op_state operation = StateTombstoned)"

definition fenced :: "ledger_State \<Rightarrow> Operation \<Rightarrow> Operation" where
  "fenced st operation = operation\<lparr>
     op_assignment := zero_Assignment\<lparr>asg_fencingToken := asg_fencingToken (op_assignment operation) + 1\<rparr>,
     op_state := st, op_version := op_version operation + 1\<rparr>"

definition ClaimExpiredCleanup :: "bool \<Rightarrow> gtime \<Rightarrow> int \<Rightarrow> MemoryLedger \<Rightarrow> Operation list ledger_result" where
  "ClaimExpiredCleanup cancelled now limit ledger =
     (if cancelled then (Inl LedgerErrContext, ledger)
      else if \<not> validateLedgerPage now limit then (Inl LedgerErrInvalid, ledger)
      else sweep (cleanup_due now) (\<lambda>operation. Some (fenced StateCleanupPending operation)) OutboxStateChanged (nat limit)
             (sortedOperationKeys (ml_operations ledger)) [] ledger)"

definition lease_expired :: "gtime \<Rightarrow> Operation \<Rightarrow> bool" where
  "lease_expired now operation \<longleftrightarrow>
     \<not> (asg_hostID (op_assignment operation) = [] \<or> Before now (asg_leaseExpiresAt (op_assignment operation))
        \<or> op_state operation \<noteq> StateDispatched \<and> op_state operation \<noteq> StateStarted)"

definition RecoverExpiredAssignments :: "bool \<Rightarrow> gtime \<Rightarrow> int \<Rightarrow> MemoryLedger \<Rightarrow> Operation list ledger_result" where
  "RecoverExpiredAssignments cancelled now limit ledger =
     (if cancelled then (Inl LedgerErrContext, ledger)
      else if \<not> validateLedgerPage now limit then (Inl LedgerErrInvalid, ledger)
      else sweep (lease_expired now)
             (\<lambda>operation. if asg_fencingToken (op_assignment operation) = - 1 then None else Some (fenced StateUncertain operation))
             OutboxLeaseExpired (nat limit) (sortedOperationKeys (ml_operations ledger)) [] ledger)"

definition reap_due :: "gtime \<Rightarrow> Operation \<Rightarrow> bool" where
  "reap_due now operation \<longleftrightarrow>
     \<not> (op_state operation = StateTombstoned \<or> Before now (op_retentionExpiresAt operation)
        \<or> op_cleanupRequired operation \<and> op_state operation \<noteq> StateCleanupConfirmed)
     \<and> \<not> (op_state operation \<noteq> StateSucceeded \<and> op_state operation \<noteq> StateFailed \<and> op_state operation \<noteq> StateCancelled
          \<and> op_state operation \<noteq> StateUncertain \<and> op_state operation \<noteq> StateCleanupConfirmed \<and> op_state operation \<noteq> StateExpired)"

definition tombstone :: "Operation \<Rightarrow> Operation" where
  "tombstone operation = operation\<lparr>op_state := StateTombstoned,
     op_assignment := zero_Assignment\<lparr>asg_fencingToken := asg_fencingToken (op_assignment operation)\<rparr>,
     op_version := op_version operation + 1\<rparr>"

definition Reap :: "bool \<Rightarrow> gtime \<Rightarrow> int \<Rightarrow> MemoryLedger \<Rightarrow> Operation list ledger_result" where
  "Reap cancelled now limit ledger =
     (if cancelled then (Inl LedgerErrContext, ledger)
      else if \<not> validateLedgerPage now limit then (Inl LedgerErrInvalid, ledger)
      else sweep (reap_due now) (\<lambda>operation. Some (tombstone operation)) OutboxTombstoned (nat limit)
             (sortedOperationKeys (ml_operations ledger)) [] ledger)"

definition ledger_ReadOutbox :: "bool \<Rightarrow> nat \<Rightarrow> int \<Rightarrow> MemoryLedger \<Rightarrow> ledger_error + ledger_OutboxRecord list" where
  "ledger_ReadOutbox cancelled afterID limit ledger =
     (if cancelled then Inl LedgerErrContext
      else if limit \<le> 0 \<or> maxLedgerPage < limit then Inl LedgerErrInvalid
      else Inr (take (nat limit) (filter (\<lambda>r. \<not> lo_id r \<le> afterID) (ml_outbox ledger))))"

definition ReadOperationOutbox ::
    "bool \<Rightarrow> string \<Rightarrow> string \<Rightarrow> nat \<Rightarrow> int \<Rightarrow> MemoryLedger \<Rightarrow> ledger_error + ledger_OutboxRecord list" where
  "ReadOperationOutbox cancelled p i afterVersion limit ledger =
     (if cancelled then Inl LedgerErrContext
      else if \<not> validBounded p maxPrincipalBytes \<or> \<not> validBounded i maxOperationIDBytes \<or> limit \<le> 0 \<or> maxLedgerPage < limit
      then Inl LedgerErrInvalid
      else case map_of (ml_operations ledger) (operationKey p i) of
        None \<Rightarrow> Inl LedgerErrNotFoundOrDenied
      | Some _ \<Rightarrow>
          Inr (take (nat limit) (filter
            (\<lambda>r. \<not> (lo_principal r \<noteq> p \<or> lo_operationID r \<noteq> i \<or> lo_operationVersion r \<le> afterVersion)) (ml_outbox ledger))))"

end
