(* ===== verification/Ledger_Runs.thy ===== *)
theory Ledger_Runs
  imports Sandbox_Ledger
begin

text \<open>
  Runs of the operation ledger: the steps an operation can take, the invariant of the ledger and the proof that every
  method takes every operation along such steps and keeps the invariant. An operation keeps its request; its version
  counts its steps, and the outbox holds one fact for each of them.
\<close>

section \<open>Steps of an operation\<close>

inductive op_step :: "Operation \<Rightarrow> Operation \<Rightarrow> bool" where
  op_moves: "permits (op_state x) new \<Longrightarrow> op_step x (x\<lparr>op_state := new, op_version := Suc (op_version x)\<rparr>)"
| op_assigned: "assignable (op_state x) \<Longrightarrow> asg_fencingToken a = asg_fencingToken (op_assignment x) + 1
    \<Longrightarrow> op_step x (x\<lparr>op_assignment := a, op_state := StateDispatched, op_version := Suc (op_version x)\<rparr>)"
| op_recovered: "op_state x = StateDispatched \<or> op_state x = StateStarted \<Longrightarrow> op_step x (fenced StateUncertain x)"
| op_claimed: "op_state x \<noteq> StateTombstoned \<Longrightarrow> op_step x (fenced StateCleanupPending x)"
| op_reaped: "op_state x \<noteq> StateTombstoned \<Longrightarrow> op_step x (tombstone x)"

lemma no_step_tombstoned: "op_step x y \<Longrightarrow> op_state x \<noteq> StateTombstoned"
  by (induction rule: op_step.induct) (auto simp: assignable_def)

definition same_request :: "Operation \<Rightarrow> Operation \<Rightarrow> bool" where
  "same_request x y \<longleftrightarrow> y = x\<lparr>op_state := op_state y, op_version := op_version y, op_assignment := op_assignment y\<rparr>"

lemma op_step_request: "op_step x y \<Longrightarrow> same_request x y \<and> op_version y = Suc (op_version x)"
  by (induction rule: op_step.induct) (simp_all add: same_request_def fenced_def tombstone_def)

lemma same_request_fields:
  assumes "same_request x y"
  shows "op_principal y = op_principal x" "op_id y = op_id x" "operationInputDigest y = operationInputDigest x" "op_binding y = op_binding x"
    "op_retentionExpiresAt y = op_retentionExpiresAt x" "op_cleanupRequired y = op_cleanupRequired x"
  using assms by (cases x; cases y; simp add: same_request_def operationInputDigest_def)+

lemma same_request_refl [simp]: "same_request x x"
  by (simp add: same_request_def)

lemma same_request_trans: "same_request x y \<Longrightarrow> same_request y z \<Longrightarrow> same_request x z"
  unfolding same_request_def by (cases x; cases y; cases z) simp

lemma op_steps_request: "op_step\<^sup>*\<^sup>* x y \<Longrightarrow> same_request x y \<and> op_version x \<le> op_version y"
proof (induction rule: rtranclp_induct)
  case (step y z)
  then show ?case using op_step_request [of y z] same_request_trans [of x y z] by simp
qed simp

lemma op_steps_tombstoned: "op_step\<^sup>*\<^sup>* x y \<Longrightarrow> op_state x = StateTombstoned \<Longrightarrow> y = x"
  by (induction rule: converse_rtranclp_induct) (auto dest: no_step_tombstoned)

text \<open>Each step leaves the fence alone or advances it by one; only retiring a host keeps the fence and drops the assignment.\<close>

lemma op_step_fence:
  "op_step x y \<Longrightarrow> asg_fencingToken (op_assignment y) = asg_fencingToken (op_assignment x) + 1
     \<or> asg_fencingToken (op_assignment y) = asg_fencingToken (op_assignment x)
       \<and> (op_assignment y = op_assignment x \<or> asg_hostID (op_assignment y) = [])"
  by (induction rule: op_step.induct) (simp_all add: fenced_def tombstone_def zero_Assignment_def)

lemma op_steps_fence:
  assumes "op_step\<^sup>*\<^sup>* x y"
  shows "\<exists>k \<le> op_version y - op_version x. asg_fencingToken (op_assignment y) = asg_fencingToken (op_assignment x) + of_nat k
     \<and> (k = 0 \<longrightarrow> op_assignment y = op_assignment x \<or> asg_hostID (op_assignment y) = [])"
  using assms
proof (induction rule: rtranclp_induct)
  case base
  then show ?case by simp
next
  case (step y z)
  then obtain k where k: "k \<le> op_version y - op_version x" "asg_fencingToken (op_assignment y) = asg_fencingToken (op_assignment x) + of_nat k"
    "k = 0 \<longrightarrow> op_assignment y = op_assignment x \<or> asg_hostID (op_assignment y) = []" by blast
  from op_step_request [OF step(2)] op_steps_request [OF step(1)]
  have v: "op_version z = Suc (op_version y)" "op_version x \<le> op_version y" by simp_all
  from op_step_fence [OF step(2)] show ?case
  proof
    assume "asg_fencingToken (op_assignment z) = asg_fencingToken (op_assignment y) + 1"
    with k v show ?thesis by (intro exI [of _ "Suc k"]) simp
  next
    assume "asg_fencingToken (op_assignment z) = asg_fencingToken (op_assignment y)
       \<and> (op_assignment z = op_assignment y \<or> asg_hostID (op_assignment z) = [])"
    with k v show ?thesis by (intro exI [of _ k]) auto
  qed
qed

section \<open>The invariant\<close>

definition history :: "MemoryLedger \<Rightarrow> string \<Rightarrow> string \<Rightarrow> ledger_OutboxRecord list" where
  "history L p i = filter (\<lambda>r. lo_principal r = p \<and> lo_operationID r = i) (ml_outbox L)"

definition unseparated :: "string \<Rightarrow> bool" where
  "unseparated s \<longleftrightarrow> char_of (0::nat) \<notin> set s"

definition entry_ok :: "MemoryLedger \<Rightarrow> string \<Rightarrow> Operation \<Rightarrow> bool" where
  "entry_ok L key x \<longleftrightarrow>
     key = operationKey (op_principal x) (op_id x) \<and> unseparated (op_principal x) \<and> unseparated (op_id x) \<and> 1 \<le> op_version x
     \<and> map lo_operationVersion (history L (op_principal x) (op_id x)) = [1..<Suc (op_version x)]
     \<and> lo_state (last (history L (op_principal x) (op_id x))) = op_state x"

definition ledger_ok :: "MemoryLedger \<Rightarrow> bool" where
  "ledger_ok L \<longleftrightarrow>
     distinct (map fst (ml_operations L)) \<and> distinct (map (\<lambda>e. op_id (snd e)) (ml_operations L))
     \<and> map lo_id (ml_outbox L) = [1..<Suc (length (ml_outbox L))]
     \<and> (\<forall>key x. map_of (ml_operations L) key = Some x \<longrightarrow> entry_ok L key x)
     \<and> (\<forall>r \<in> set (ml_outbox L). \<exists>key x. map_of (ml_operations L) key = Some x \<and> op_id x = lo_operationID r \<and> op_principal x = lo_principal r)"

lemma operationKey_inject:
  assumes "operationKey p i = operationKey q j" and "unseparated p" and "unseparated q"
  shows "p = q \<and> i = j"
proof -
  have "takeWhile (\<lambda>c. c \<noteq> char_of (0::nat)) (operationKey s k) = s" if "unseparated s" for s k
    using that by (induction s) (auto simp: operationKey_def unseparated_def)
  with assms have "p = q" by metis
  with assms(1) show ?thesis by (simp add: operationKey_def)
qed

text \<open>A stored key has one separator, so it is found only by the principal and identifier of its operation.\<close>

lemma operationKey_found:
  assumes "operationKey p i = operationKey q j" and "unseparated q" and "unseparated j"
  shows "p = q \<and> i = j"
proof -
  have "unseparated p"
  proof (rule ccontr)
    assume "\<not> unseparated p"
    then have "2 \<le> count_list (operationKey p i) (char_of (0::nat))"
      by (auto simp: operationKey_def unseparated_def count_list_append dest!: split_list)
    moreover have "count_list (operationKey q j) (char_of (0::nat)) = 1"
      using assms(2,3) by (simp add: operationKey_def unseparated_def count_list_append count_notin)
    ultimately show False using assms(1) by simp
  qed
  with assms show ?thesis using operationKey_inject by blast
qed

lemma put_operation_map [simp]: "map_of (ml_operations (put_operation key x L)) = (map_of (ml_operations L))(key \<mapsto> x)"
  by (simp add: put_operation_def update_conv')

lemma appendOutbox_operations [simp]: "ml_operations (appendOutbox x e L) = ml_operations L"
  by (simp add: appendOutbox_def)

lemma put_operation_outbox [simp]: "ml_outbox (put_operation key x L) = ml_outbox L"
  by (simp add: put_operation_def)

lemma history_append:
  "history (appendOutbox x e L) p i = history L p i @ (if p = op_principal x \<and> i = op_id x
     then [\<lparr>lo_id = length (ml_outbox L) + 1, lo_principal = op_principal x, lo_operationID = op_id x,
            lo_operationVersion = op_version x, lo_event = e, lo_state = op_state x\<rparr>] else [])"
  by (auto simp: history_def appendOutbox_def)

lemma history_put [simp]: "history (put_operation key x L) p i = history L p i"
  by (simp add: history_def)

lemma outbox_ids_append:
  "map lo_id (ml_outbox L) = [1..<Suc (length (ml_outbox L))] \<Longrightarrow>
   map lo_id (ml_outbox (appendOutbox x e L)) = [1..<Suc (length (ml_outbox (appendOutbox x e L)))]"
  by (simp add: appendOutbox_def)

lemma ledger_ok_entry: "ledger_ok L \<Longrightarrow> map_of (ml_operations L) key = Some x \<Longrightarrow> entry_ok L key x"
  by (simp add: ledger_ok_def)

lemma entry_unique:
  assumes "ledger_ok L" "map_of (ml_operations L) key = Some x" "map_of (ml_operations L) key' = Some y"
    and "op_principal x = op_principal y" "op_id x = op_id y"
  shows "key = key' \<and> x = y"
  using ledger_ok_entry [OF assms(1,2)] ledger_ok_entry [OF assms(1,3)] assms by (simp add: entry_ok_def)

lemma distinct_ids_update:
  assumes "distinct (map (\<lambda>e. op_id (snd e)) xs)" and "distinct (map fst xs)" and "map_of xs key = Some x" and "op_id y = op_id x"
  shows "map (\<lambda>e. op_id (snd e)) (AList.update key y xs) = map (\<lambda>e. op_id (snd e)) xs"
  using assms by (induction xs) (auto split: if_splits)

text \<open>Replacing an operation by its successor and recording the fact keeps the invariant.\<close>

lemma ledger_ok_step:
  assumes ok: "ledger_ok L" and x: "map_of (ml_operations L) key = Some x" and y: "same_request x y" "op_version y = Suc (op_version x)"
  shows "ledger_ok (appendOutbox y e (put_operation key y L))"
proof -
  let ?L = "appendOutbox y e (put_operation key y L)"
  note same = same_request_fields [OF y(1)]
  have d: "distinct (map fst (ml_operations ?L))" "distinct (map (\<lambda>e. op_id (snd e)) (ml_operations ?L))"
    using ok x same(2) by (simp_all add: ledger_ok_def put_operation_def distinct_update distinct_ids_update)
  have o: "map lo_id (ml_outbox ?L) = [1..<Suc (length (ml_outbox ?L))]"
    by (rule outbox_ids_append) (use ok in \<open>simp add: ledger_ok_def\<close>)
  have e: "entry_ok ?L k z" if z: "map_of (ml_operations ?L) k = Some z" for k z
  proof (cases "k = key")
    case True
    with z have "z = y" by simp
    with True ledger_ok_entry [OF ok x] same y(2) show ?thesis by (simp add: entry_ok_def history_append)
  next
    case False
    with z have z': "map_of (ml_operations L) k = Some z" by simp
    with entry_unique [OF ok this x] False have "\<not> (op_principal z = op_principal y \<and> op_id z = op_id y)" using same by auto
    then have "history ?L (op_principal z) (op_id z) = history L (op_principal z) (op_id z)" by (auto simp: history_append)
    with ledger_ok_entry [OF ok z'] show ?thesis by (simp add: entry_ok_def)
  qed
  have r: "\<exists>k z. map_of (ml_operations ?L) k = Some z \<and> op_id z = lo_operationID r \<and> op_principal z = lo_principal r"
    if r: "r \<in> set (ml_outbox ?L)" for r
  proof (cases "op_id x = lo_operationID r \<and> op_principal x = lo_principal r")
    case True
    then show ?thesis using same by (intro exI [of _ key] exI [of _ y]) simp
  next
    case False
    then have "r \<in> set (ml_outbox L)" using r same by (auto simp: appendOutbox_def)
    then obtain k z where z: "map_of (ml_operations L) k = Some z" "op_id z = lo_operationID r" "op_principal z = lo_principal r"
      using ok by (auto simp: ledger_ok_def)
    with False x have "k \<noteq> key" by auto
    with z show ?thesis by (intro exI [of _ k] exI [of _ z]) simp
  qed
  from d o e r show ?thesis unfolding ledger_ok_def by blast
qed

lemma ledger_ok_accept:
  assumes ok: "ledger_ok L" and new: "\<not> list_ex (\<lambda>(_, prior). op_id prior = op_id x) (ml_operations L)"
    and x: "unseparated (op_principal x)" "unseparated (op_id x)" "op_version x = 1"
    and key: "key = operationKey (op_principal x) (op_id x)" "map_of (ml_operations L) key = None"
  shows "ledger_ok (appendOutbox x e (put_operation key x L))"
proof -
  let ?L = "appendOutbox x e (put_operation key x L)"
  have fresh: "op_id z \<noteq> op_id x" if "map_of (ml_operations L) k = Some z" for k z
    using new map_of_SomeD [OF that] by (auto simp: list_ex_iff)
  have "AList.update key x xs = xs @ [(key, x)]" if "key \<notin> fst ` set xs" for xs using that by (induction xs) auto
  moreover have "key \<notin> fst ` set (ml_operations L)" using key(2) by (simp add: map_of_eq_None_iff)
  ultimately have ops: "ml_operations ?L = ml_operations L @ [(key, x)]" by (simp add: put_operation_def)
  have d: "distinct (map fst (ml_operations ?L))" "distinct (map (\<lambda>e. op_id (snd e)) (ml_operations ?L))"
    using ok new \<open>key \<notin> fst ` set (ml_operations L)\<close> unfolding ops by (auto simp: ledger_ok_def list_ex_iff)
  have none: "r \<notin> set (ml_outbox L)" if "lo_operationID r = op_id x" for r
    using that ok fresh by (fastforce simp: ledger_ok_def)
  have h: "history ?L (op_principal x) (op_id x) = [\<lparr>lo_id = length (ml_outbox L) + 1, lo_principal = op_principal x, lo_operationID = op_id x,
      lo_operationVersion = op_version x, lo_event = e, lo_state = op_state x\<rparr>]"
    using none by (auto simp: history_append) (auto simp: history_def filter_empty_conv)
  have o: "map lo_id (ml_outbox ?L) = [1..<Suc (length (ml_outbox ?L))]"
    by (rule outbox_ids_append) (use ok in \<open>simp add: ledger_ok_def\<close>)
  have e: "entry_ok ?L k z" if z: "map_of (ml_operations ?L) k = Some z" for k z
  proof (cases "k = key")
    case True
    with z x key(1) h show ?thesis by (simp add: entry_ok_def)
  next
    case False
    with z have z': "map_of (ml_operations L) k = Some z" by simp
    with fresh have "history ?L (op_principal z) (op_id z) = history L (op_principal z) (op_id z)" by (auto simp: history_append)
    with ledger_ok_entry [OF ok z'] show ?thesis by (simp add: entry_ok_def)
  qed
  have r: "\<exists>k z. map_of (ml_operations ?L) k = Some z \<and> op_id z = lo_operationID r \<and> op_principal z = lo_principal r"
    if r: "r \<in> set (ml_outbox ?L)" for r
  proof (cases "r \<in> set (ml_outbox L)")
    case True
    then obtain k z where z: "map_of (ml_operations L) k = Some z" "op_id z = lo_operationID r" "op_principal z = lo_principal r"
      using ok by (auto simp: ledger_ok_def)
    with key(2) have "k \<noteq> key" by auto
    with z show ?thesis by (intro exI [of _ k] exI [of _ z]) simp
  next
    case False
    with r show ?thesis by (intro exI [of _ key] exI [of _ x]) (auto simp: appendOutbox_def)
  qed
  from d o e r show ?thesis unfolding ledger_ok_def by blast
qed

section \<open>Steps of the ledger\<close>

text \<open>A method takes every operation along steps, only adds facts to the outbox and keeps the invariant.\<close>

definition leads :: "MemoryLedger \<Rightarrow> MemoryLedger \<Rightarrow> bool" where
  "leads L L' \<longleftrightarrow>
     ledger_ok L' \<and> prefix (ml_outbox L) (ml_outbox L')
     \<and> (\<forall>key x. map_of (ml_operations L) key = Some x \<longrightarrow> (\<exists>y. map_of (ml_operations L') key = Some y \<and> op_step\<^sup>*\<^sup>* x y))"

lemma leads_refl: "ledger_ok L \<Longrightarrow> leads L L"
  by (auto simp: leads_def)

lemma leads_trans: "leads L M \<Longrightarrow> leads M N \<Longrightarrow> leads L N"
  unfolding leads_def by (meson prefix_order.trans rtranclp_trans)

lemma leads_step:
  assumes "ledger_ok L" and "map_of (ml_operations L) key = Some x" and "op_step x y"
  shows "leads L (appendOutbox y e (put_operation key y L))"
  unfolding leads_def
proof (intro conjI allI impI)
  show "ledger_ok (appendOutbox y e (put_operation key y L))" using ledger_ok_step assms op_step_request by blast
  show "prefix (ml_outbox L) (ml_outbox (appendOutbox y e (put_operation key y L)))" by (simp add: appendOutbox_def)
qed (use assms in auto)

end
