(* ===== verification/Ledger_Sweeps.thy ===== *)
theory Ledger_Sweeps
  imports Ledger_Runs
begin

text \<open>
  The contract of a sweep over the ledger: what is due and how it changes. Any such rule keeps the invariant of the ledger;
  a rule that never fails changes exactly the first due operations in the order of their keys. The
  three sweeps of the ledger are instances.
\<close>

locale sweep_rule =
  fixes due :: "Operation \<Rightarrow> bool" and change :: "Operation \<Rightarrow> Operation option"
  assumes change_step: "due x \<Longrightarrow> change x = Some y \<Longrightarrow> op_step x y"
begin

lemma sweep_leads: "ledger_ok L \<Longrightarrow> sweep due change e limit keys acc L = (res, L') \<Longrightarrow> leads L L'"
proof (induction keys arbitrary: acc L)
  case Nil
  then show ?case by (simp add: leads_refl)
next
  case (Cons key keys)
  consider "length acc = limit" | "length acc \<noteq> limit" "map_of (ml_operations L) key = None"
    | x where "length acc \<noteq> limit" "map_of (ml_operations L) key = Some x" by (cases "map_of (ml_operations L) key") auto
  then show ?case
  proof cases
    case 1
    with Cons.prems show ?thesis by (simp add: leads_refl)
  next
    case 2
    then have "sweep due change e limit (key # keys) acc L = sweep due change e limit keys acc L" by (simp del: map_of_eq_None_iff)
    with Cons show ?thesis by simp
  next
    case (3 x)
    show ?thesis
    proof (cases "due x \<and> change x \<noteq> None")
      case True
      then obtain y where y: "change x = Some y" by blast
      with True 3 change_step have "leads L (appendOutbox y e (put_operation key y L))" (is "leads L ?L")
        by (intro leads_step [OF Cons.prems(1)]) auto
      moreover from this have "ledger_ok ?L" by (simp add: leads_def)
      moreover have "sweep due change e limit keys (acc @ [y]) ?L = (res, L')" using Cons.prems(2) 3 True y by simp
      ultimately show ?thesis using Cons.IH leads_trans by blast
    next
      case not_due: False
      then have "sweep due change e limit (key # keys) acc L =
          (if due x then (Inl ErrFenceExhausted, L) else sweep due change e limit keys acc L)" using 3 by auto
      with Cons.prems Cons.IH [OF Cons.prems(1)] show ?thesis by (cases "due x") (simp_all add: leads_refl)
    qed
  qed
qed

end

locale total_rule = sweep_rule +
  fixes changed :: "Operation \<Rightarrow> Operation"
  assumes change_total: "change x = Some (changed x)"
begin

text \<open>The keys of the operations a sweep changes, in its order.\<close>

lemma sweep_exact:
  assumes "distinct keys" and "\<And>key. key \<in> set keys \<Longrightarrow> map_of (ml_operations L) key = Some (f key)" and "length acc \<le> limit"
  shows "\<exists>L'. sweep due change e limit keys acc L
      = (Inr (acc @ map (\<lambda>key. changed (f key)) (take (limit - length acc) (filter (\<lambda>key. due (f key)) keys))), L')
    \<and> (\<forall>key. map_of (ml_operations L') key =
         (if key \<in> set (take (limit - length acc) (filter (\<lambda>key. due (f key)) keys)) then Some (changed (f key))
          else map_of (ml_operations L) key))"
  using assms
proof (induction keys arbitrary: acc L)
  case Nil
  then show ?case by simp
next
  case (Cons key keys)
  have f: "map_of (ml_operations L) key = Some (f key)" using Cons.prems(2) by simp
  show ?case
  proof (cases "length acc = limit")
    case True
    then show ?thesis by simp
  next
    case False
    show ?thesis
    proof (cases "due (f key)")
      case True
      let ?y = "changed (f key)"
      let ?L = "appendOutbox ?y e (put_operation key ?y L)"
      have "map_of (ml_operations ?L) k = Some (f k)" if "k \<in> set keys" for k
        using that Cons.prems(1) Cons.prems(2) [of k] by auto
      from Cons.IH [of ?L "acc @ [?y]"] this Cons.prems(1,3) False obtain L' where
        ih: "sweep due change e limit keys (acc @ [?y]) ?L
          = (Inr ((acc @ [?y]) @ map (\<lambda>k. changed (f k)) (take (limit - length (acc @ [?y])) (filter (\<lambda>k. due (f k)) keys))), L')"
          "\<forall>k. map_of (ml_operations L') k =
             (if k \<in> set (take (limit - length (acc @ [?y])) (filter (\<lambda>k. due (f k)) keys)) then Some (changed (f k))
              else map_of (ml_operations ?L) k)" by auto
      have n: "limit - length acc = Suc (limit - length (acc @ [?y]))" using False Cons.prems(3) by simp
      have "sweep due change e limit (key # keys) acc L = sweep due change e limit keys (acc @ [?y]) ?L"
        using False True f change_total by simp
      moreover have "filter (\<lambda>k. due (f k)) (key # keys) = key # filter (\<lambda>k. due (f k)) keys" using True by simp
      moreover have "key \<notin> set (take m (filter (\<lambda>k. due (f k)) keys))" for m using Cons.prems(1) by (auto dest: in_set_takeD)
      ultimately show ?thesis using ih unfolding n by (intro exI [of _ L']) simp
    next
      case not_due: False
      have "sweep due change e limit (key # keys) acc L = sweep due change e limit keys acc L"
        using False not_due f by simp
      with Cons.IH [of L acc] Cons.prems not_due show ?thesis by simp
    qed
  qed
qed

end

interpretation cleanup: total_rule "cleanup_due now" "\<lambda>x. Some (fenced StateCleanupPending x)" "fenced StateCleanupPending" for now
  by unfold_locales (auto simp: cleanup_due_def intro: op_step.intros)

interpretation expiry: sweep_rule "lease_expired now"
    "\<lambda>x. if asg_fencingToken (op_assignment x) = - 1 then None else Some (fenced StateUncertain x)" for now
  by unfold_locales (auto simp: lease_expired_def split: if_splits intro: op_step.intros)

interpretation reaping: total_rule "reap_due now" "\<lambda>x. Some (tombstone x)" tombstone for now
  by unfold_locales (auto simp: reap_due_def intro: op_step.intros)

end
