(* ===== verification/Ledger_Properties.thy ===== *)
theory Ledger_Properties
  imports Ledger_Sweeps
begin

text \<open>
  What the operation ledger promises: exact histories, fences that never come back, tombstones that stay, acceptance that
  can be repeated, and sweeps that take exactly what is due. A run is any sequence of calls of the methods of
  \<^verbatim>\<open>ledger.go\<close>; the methods for enrolled hosts in \<^verbatim>\<open>host.go\<close>, which work on the same ledger, are not part of it.
\<close>

section \<open>Runs of the ledger\<close>

inductive ledger_step :: "(string \<Rightarrow> bool) \<Rightarrow> MemoryLedger \<Rightarrow> MemoryLedger \<Rightarrow> bool" for typed where
  step_accept: "ledger_step typed L (snd (Accept typed cancelled x L))"
| step_transition: "ledger_step typed L (snd (Transition cancelled p i version new L))"
| step_assign: "ledger_step typed L (snd (Assign cancelled p i host lease L))"
| step_result: "ledger_step typed L (snd (RecordHostResult cancelled p i res L))"
| step_claim: "ledger_step typed L (snd (ClaimExpiredCleanup cancelled now limit L))"
| step_recover: "ledger_step typed L (snd (RecoverExpiredAssignments cancelled now limit L))"
| step_reap: "ledger_step typed L (snd (Reap cancelled now limit L))"

lemma normalized_fields [simp]:
  "op_principal (normalizeOperationForPersistence x) = op_principal x" "op_id (normalizeOperationForPersistence x) = op_id x"
  "operationInputDigest (normalizeOperationForPersistence x) = operationInputDigest x"
  "op_binding (normalizeOperationForPersistence x) = op_binding x" "op_inputDigest (normalizeOperationForPersistence x) = op_inputDigest x"
  "op_canonicalDigest (normalizeOperationForPersistence x) = op_canonicalDigest x"
  by (simp_all add: normalizeOperationForPersistence_def operationInputDigest_def)

lemma validateOperation_unseparated:
  "validateOperation typed x \<Longrightarrow> unseparated (op_principal x) \<and> unseparated (op_id x)"
  by (simp add: validateOperation_def validBounded_def unseparated_def)

text \<open>The operation \<open>Accept\<close> stores under a new key.\<close>

definition accepted :: "Operation \<Rightarrow> Operation" where
  "accepted x = (normalizeOperationForPersistence x)\<lparr>op_state := StateAccepted, op_version := 1,
     op_acceptedAt := to_utc (op_acceptedAt (normalizeOperationForPersistence x)),
     op_retentionExpiresAt := to_utc (op_retentionExpiresAt (normalizeOperationForPersistence x))\<rparr>"

lemma accepted_fields [simp]:
  "op_principal (accepted x) = op_principal x" "op_id (accepted x) = op_id x" "op_version (accepted x) = 1"
  "op_state (accepted x) = StateAccepted" "operationInputDigest (accepted x) = operationInputDigest x" "op_binding (accepted x) = op_binding x"
  by (simp_all add: accepted_def operationInputDigest_def)

lemma Accept_eq:
  "Accept typed cancelled x L =
     (if cancelled then (Inl LedgerErrContext, L)
      else if \<not> validateOperation typed (normalizeOperationForPersistence x) then (Inl LedgerErrInvalid, L)
      else case map_of (ml_operations L) (operationKey (op_principal x) (op_id x)) of
        Some prior \<Rightarrow>
          if op_state prior = StateTombstoned then (Inl ErrOperationIDExpired, L)
          else if operationInputDigest prior \<noteq> operationInputDigest x \<or> op_binding prior \<noteq> op_binding x
          then (Inl LedgerErrConflict, L) else (Inr (prior, True), L)
      | None \<Rightarrow>
          if list_ex (\<lambda>(_, prior). op_id prior = op_id x) (ml_operations L) then (Inl LedgerErrNotFoundOrDenied, L)
          else (Inr (accepted x, False),
                appendOutbox (accepted x) OutboxAccepted (put_operation (operationKey (op_principal x) (op_id x)) (accepted x) L)))"
  by (simp only: Accept_def Let_def normalized_fields accepted_def)

lemma Accept_leads:
  assumes "ledger_ok L"
  shows "leads L (snd (Accept typed cancelled x L))"
proof -
  let ?key = "operationKey (op_principal x) (op_id x)"
  show ?thesis
  proof (cases "cancelled \<or> \<not> validateOperation typed (normalizeOperationForPersistence x) \<or> map_of (ml_operations L) ?key \<noteq> None
      \<or> list_ex (\<lambda>(_, prior). op_id prior = op_id x) (ml_operations L)")
    case True
    then have "snd (Accept typed cancelled x L) = L" by (auto simp: Accept_eq simp del: map_of_eq_None_iff split: option.splits)
    then show ?thesis using assms by (simp add: leads_refl)
  next
    case False
    then have v: "validateOperation typed (normalizeOperationForPersistence x)" and n: "map_of (ml_operations L) ?key = None"
      and l: "\<not> list_ex (\<lambda>(_, prior). op_id prior = op_id x) (ml_operations L)" by simp_all
    have "ledger_ok (appendOutbox (accepted x) OutboxAccepted (put_operation ?key (accepted x) L))"
      by (rule ledger_ok_accept [OF assms]) (use n l validateOperation_unseparated [OF v] in \<open>simp_all del: map_of_eq_None_iff\<close>)
    moreover have "snd (Accept typed cancelled x L) = appendOutbox (accepted x) OutboxAccepted (put_operation ?key (accepted x) L)"
      using False by (simp add: Accept_eq del: map_of_eq_None_iff)
    ultimately show ?thesis using n by (auto simp: leads_def appendOutbox_def simp del: map_of_eq_None_iff)
  qed
qed

lemma Transition_leads:
  assumes "ledger_ok L"
  shows "leads L (snd (Transition cancelled p i version new L))"
proof (cases "map_of (ml_operations L) (operationKey p i)")
  case None
  then show ?thesis using assms by (auto simp: Transition_def leads_refl simp del: map_of_eq_None_iff)
next
  case (Some x)
  then show ?thesis using assms
    by (auto simp: Transition_def Let_def leads_refl intro!: leads_step [OF _ Some] op_moves)
qed

lemma RecordHostResult_leads:
  assumes "ledger_ok L"
  shows "leads L (snd (RecordHostResult cancelled p i res L))"
proof (cases "map_of (ml_operations L) (operationKey p i)")
  case None
  then show ?thesis using assms by (auto simp: RecordHostResult_def leads_refl simp del: map_of_eq_None_iff)
next
  case (Some x)
  then show ?thesis using assms
    by (auto simp: RecordHostResult_def Let_def leads_refl intro!: leads_step [OF _ Some] op_moves)
qed

lemma Assign_leads:
  assumes "ledger_ok L"
  shows "leads L (snd (Assign cancelled p i host lease L))"
proof (cases "map_of (ml_operations L) (operationKey p i)")
  case None
  then show ?thesis using assms by (auto simp: Assign_def leads_refl simp del: map_of_eq_None_iff)
next
  case (Some x)
  then show ?thesis using assms
    by (auto simp: Assign_def Let_def leads_refl zero_Assignment_def intro!: leads_step [OF _ Some] op_assigned)
qed

lemma sweeps_lead:
  assumes ok: "ledger_ok L"
  shows "leads L (snd (ClaimExpiredCleanup cancelled now limit L))" "leads L (snd (RecoverExpiredAssignments cancelled now limit L))"
    "leads L (snd (Reap cancelled now limit L))"
  using cleanup.sweep_leads [OF ok surjective_pairing] expiry.sweep_leads [OF ok surjective_pairing] reaping.sweep_leads [OF ok surjective_pairing]
  by (simp_all add: ClaimExpiredCleanup_def RecoverExpiredAssignments_def Reap_def leads_refl [OF ok])

lemma ledger_step_leads: "ledger_step typed L L' \<Longrightarrow> ledger_ok L \<Longrightarrow> leads L L'"
  by (induction rule: ledger_step.induct)
    (simp_all add: Accept_leads Transition_leads Assign_leads RecordHostResult_leads sweeps_lead)

lemma ledger_run_leads: "(ledger_step typed)\<^sup>*\<^sup>* L L' \<Longrightarrow> ledger_ok L \<Longrightarrow> leads L L'"
proof (induction rule: rtranclp_induct)
  case (step M N)
  then show ?case using ledger_step_leads leads_trans by (meson leads_def)
qed (simp add: leads_refl)

lemma ledger_ok_new: "ledger_ok NewMemoryLedger"
  by (simp add: ledger_ok_def NewMemoryLedger_def)

lemma ledger_reached_ok: "(ledger_step typed)\<^sup>*\<^sup>* NewMemoryLedger L \<Longrightarrow> ledger_ok L"
  using ledger_run_leads ledger_ok_new leads_def by blast

section \<open>Reading histories\<close>

lemma take_filter_upt:
  "map f xs = [a..<b] \<Longrightarrow> map f (take n (filter (\<lambda>x. v < f x) xs)) = [max a (Suc v)..<min b (max a (Suc v) + n)]"
proof -
  assume xs: "map f xs = [a..<b]"
  have "map f (filter (\<lambda>x. v < f x) xs) = filter (\<lambda>y. v < y) (map f xs)" by (simp add: filter_map comp_def)
  also have "\<dots> = [max a (Suc v)..<b]" unfolding xs by (induction b) auto
  finally have "map f (take n (filter (\<lambda>x. v < f x) xs)) = take n [max a (Suc v)..<b]" by (simp add: take_map [symmetric])
  moreover have "take n [c..<b] = [c..<min b (c + n)]" for c by (cases "c + n \<le> b") (simp_all add: min_def)
  ultimately show ?thesis by simp
qed

lemma sorted_keys:
  assumes "ledger_ok L"
  shows "distinct (sortedOperationKeys (ml_operations L))"
    and "key \<in> set (sortedOperationKeys (ml_operations L)) \<longleftrightarrow> map_of (ml_operations L) key \<noteq> None"
  using assms by (simp_all add: sortedOperationKeys_def ledger_ok_def map_of_eq_None_iff)

section \<open>An example\<close>

text \<open>One operation: accepted, assigned to a host; and, without need of cleanup, cancelled and reaped.\<close>

definition example_operation :: "bool \<Rightarrow> Operation" where
  "example_operation cleanup = \<lparr>op_principal = ''acme:ann'', op_tenant = ''acme'', op_id = ''op-1'', op_kind = ''exec'', op_targetKind = ''sandbox'',
     op_targetID = ''sbx-1'', op_inputDigest = ''d1'', op_canonicalDigest = ''d2'', op_effectiveSpecDigest = ''d3'', op_capabilityDigest = ''d4'',
     op_dispatchBody = ''{}'', op_state = StateAccepted, op_version = 1, op_acceptedAt = GTime 10 True, op_retentionExpiresAt = GTime 100 True,
     op_cleanupRequired = cleanup, op_retainedOutputBytes = 0, op_binding = None, op_assignment = zero_Assignment\<rparr>"

abbreviation example_key :: string where "example_key \<equiv> operationKey ''acme:ann'' ''op-1''"

definition example_assigned :: Operation where
  "example_assigned = (example_operation True)\<lparr>op_assignment := zero_Assignment\<lparr>asg_hostID := ''host-1'', asg_fencingToken := 1,
     asg_leaseExpiresAt := GTime 50 True\<rparr>, op_state := StateDispatched, op_version := 2\<rparr>"

definition example_accepted :: "bool \<Rightarrow> MemoryLedger" where
  "example_accepted cleanup = snd (Accept (\<lambda>_. False) False (example_operation cleanup) NewMemoryLedger)"

definition example_dispatched :: MemoryLedger where
  "example_dispatched = snd (Assign False ''acme:ann'' ''op-1'' ''host-1'' (GTime 50 True) (example_accepted True))"

definition example_reaped :: MemoryLedger where
  "example_reaped = snd (Reap False (GTime 200 True) 10 (snd (Transition False ''acme:ann'' ''op-1'' 1 StateCancelled (example_accepted False))))"

lemma example_valid: "validateOperation typed (normalizeOperationForPersistence (example_operation b))"
  "normalizeOperationForPersistence (example_operation b) = example_operation b"
  by (simp_all add: normalizeOperationForPersistence_def example_operation_def validateOperation_def validBounded_def maxPrincipalBytes_def
    maxOperationIDBytes_def maxDigestBytes_def operationInputDigest_def IsZero_def After_def validateDispatchBody_def char_of_def)

lemma example_accept:
  "Accept typed False (example_operation b) NewMemoryLedger = (Inr (example_operation b, False), example_accepted b)"
  "ml_operations (example_accepted b) = [(example_key, example_operation b)]"
proof -
  have a: "accepted (example_operation b) = example_operation b"
    unfolding accepted_def example_valid(2) by (simp add: example_operation_def to_utc_def)
  have k: "op_principal (example_operation b) = ''acme:ann''" "op_id (example_operation b) = ''op-1''" by (simp_all add: example_operation_def)
  have "Accept typed False (example_operation b) NewMemoryLedger
      = (Inr (example_operation b, False), appendOutbox (example_operation b) OutboxAccepted (put_operation example_key (example_operation b) NewMemoryLedger))"
    for typed unfolding Accept_eq a k using example_valid(1) by (simp add: NewMemoryLedger_def)
  then show "Accept typed False (example_operation b) NewMemoryLedger = (Inr (example_operation b, False), example_accepted b)"
    "ml_operations (example_accepted b) = [(example_key, example_operation b)]"
    by (simp_all add: example_accepted_def put_operation_def NewMemoryLedger_def)
qed

lemma example_assign: "ml_operations example_dispatched = [(example_key, example_assigned)]"
  using example_accept(2) [of True]
  by (simp add: example_dispatched_def Assign_def validBounded_def maxHostIDBytes_def IsZero_def Let_def put_operation_def
    example_operation_def assignable_def example_assigned_def zero_Assignment_def to_utc_def char_of_def)

lemma example_runs:
  "(ledger_step (\<lambda>_. False))\<^sup>*\<^sup>* NewMemoryLedger (example_accepted b)"
  "(ledger_step (\<lambda>_. False))\<^sup>*\<^sup>* (example_accepted True) example_dispatched"
  "(ledger_step (\<lambda>_. False))\<^sup>*\<^sup>* NewMemoryLedger example_dispatched"
  "(ledger_step (\<lambda>_. False))\<^sup>*\<^sup>* NewMemoryLedger example_reaped"
proof -
  show a: "(ledger_step (\<lambda>_. False))\<^sup>*\<^sup>* NewMemoryLedger (example_accepted b)" for b
    unfolding example_accepted_def by (rule r_into_rtranclp, rule step_accept)
  show b: "(ledger_step (\<lambda>_. False))\<^sup>*\<^sup>* (example_accepted True) example_dispatched"
    unfolding example_dispatched_def by (rule r_into_rtranclp, rule step_assign)
  from a b show "(ledger_step (\<lambda>_. False))\<^sup>*\<^sup>* NewMemoryLedger example_dispatched" by (rule rtranclp_trans)
  show "(ledger_step (\<lambda>_. False))\<^sup>*\<^sup>* NewMemoryLedger example_reaped"
    unfolding example_reaped_def
    by (rule rtranclp.rtrancl_into_rtrancl, rule rtranclp.rtrancl_into_rtrancl, rule a, rule step_transition, rule step_reap)
qed

lemma example_reap: "\<exists>x. ml_operations example_reaped = [(example_key, x)] \<and> op_state x = StateTombstoned"
  using example_accept(2) [of False]
  by (simp add: example_reaped_def Reap_def Transition_def example_operation_def Let_def put_operation_def validateLedgerPage_def IsZero_def
    maxLedgerPage_def sortedOperationKeys_def reap_due_def Before_def tombstone_def)

section \<open>Theorems\<close>

text \<open>C15: The history of an operation is exact. In every ledger that calls of the methods of \<^verbatim>\<open>ledger.go\<close>
  reach, reading the outbox of a stored operation after
  a version returns the facts of the following versions, consecutively numbered up to the operation's current
  version or the limit, and they belong to that principal and identifier; read to the end, the last fact states the
  operation's current state.\<close>

theorem operation_history_exact:
  assumes "(ledger_step typed)\<^sup>*\<^sup>* NewMemoryLedger L" and "map_of (ml_operations L) (operationKey p i) = Some x"
    and "validBounded p maxPrincipalBytes" and "validBounded i maxOperationIDBytes" and "1 \<le> limit" and "limit \<le> 1000"
  shows "\<exists>rs. ReadOperationOutbox False p i v limit L = Inr rs
    \<and> map lo_operationVersion rs = [Suc v..<Suc (min (op_version x) (v + nat limit))]
    \<and> list_all (\<lambda>r. lo_principal r = p \<and> lo_operationID r = i) rs \<and> op_principal x = p \<and> op_id x = i
    \<and> (v < op_version x \<and> op_version x \<le> v + nat limit \<longrightarrow> lo_state (last rs) = op_state x)"
proof -
  let ?h = "history L p i" and ?n = "nat limit"
  let ?rs = "take ?n (filter (\<lambda>r. v < lo_operationVersion r) ?h)"
  note ok = ledger_reached_ok [OF assms(1)]
  from ledger_ok_entry [OF ok assms(2)] have k: "operationKey p i = operationKey (op_principal x) (op_id x)"
    "unseparated (op_principal x)" "unseparated (op_id x)" and e: "entry_ok L (operationKey p i) x" by (simp_all add: entry_ok_def)
  from operationKey_found [OF k] have x: "op_principal x = p" "op_id x = i" by simp_all
  with e have h: "map lo_operationVersion ?h = [1..<Suc (op_version x)]" "lo_state (last ?h) = op_state x" by (simp_all add: entry_ok_def)
  have r: "ReadOperationOutbox False p i v limit L = Inr ?rs"
    using assms(2-6) by (simp add: ReadOperationOutbox_def maxLedgerPage_def history_def not_le conj_ac)
  have vs: "map lo_operationVersion ?rs = [Suc v..<Suc (min (op_version x) (v + ?n))]"
    using take_filter_upt [OF h(1), of ?n v] by (simp add: min_def)
  have last: "lo_state (last ?rs) = op_state x" if "v < op_version x" "op_version x \<le> v + ?n"
  proof -
    have "?h \<noteq> []" using h(1) that(1) by auto
    then have hs: "?h = butlast ?h @ [last ?h]" by simp
    have "lo_operationVersion (last ?h) = last (map lo_operationVersion ?h)" using \<open>?h \<noteq> []\<close> by (simp add: last_map)
    also have "\<dots> = op_version x" unfolding h(1) using that(1) by simp
    finally have "last (filter (\<lambda>r. v < lo_operationVersion r) ?h) = last ?h" using that(1) by (subst hs) simp
    moreover have "?rs = filter (\<lambda>r. v < lo_operationVersion r) ?h"
    proof -
      have "length (map lo_operationVersion (take (length ?h) (filter (\<lambda>r. v < lo_operationVersion r) ?h))) \<le> op_version x - v"
        by (subst take_filter_upt [OF h(1)]) (auto simp: min_def)
      with that(2) show ?thesis by simp
    qed
    ultimately show ?thesis using h(2) by simp
  qed
  have all: "list_all (\<lambda>r. lo_principal r = p \<and> lo_operationID r = i) ?rs"
    by (auto simp: list_all_iff history_def dest!: in_set_takeD)
  from r vs all x last show ?thesis by blast
qed

theorem operation_history_exact_witness:
  "\<exists>rs. ReadOperationOutbox False ''acme:ann'' ''op-1'' 0 10 example_dispatched = Inr rs \<and> map lo_operationVersion rs = [1, 2]
     \<and> lo_state (last rs) = StateDispatched"
proof -
  have m: "map_of (ml_operations example_dispatched) example_key = Some example_assigned" by (simp add: example_assign)
  have b: "validBounded ''acme:ann'' maxPrincipalBytes" "validBounded ''op-1'' maxOperationIDBytes"
    by (simp_all add: validBounded_def maxPrincipalBytes_def maxOperationIDBytes_def char_of_def)
  have x: "op_version example_assigned = 2" "op_state example_assigned = StateDispatched" by (simp_all add: example_assigned_def)
  from operation_history_exact [OF example_runs(3) m b, of 10 0] obtain rs where
    "ReadOperationOutbox False ''acme:ann'' ''op-1'' 0 10 example_dispatched = Inr rs" "map lo_operationVersion rs = [1..<3]"
    "lo_state (last rs) = StateDispatched" by (auto simp: x)
  moreover have "[1..<3] = [1, 2::nat]" by (simp add: upt_rec)
  ultimately show ?thesis by simp
qed

text \<open>C13: A fence is good only for the assignment it was issued with. Whatever the methods of \<^verbatim>\<open>ledger.go\<close> do to an operation
  between two states of the ledger, a host result that carries the token the operation had in the earlier one is accepted in the later
  one only while the very same assignment is in force, from its host and before its lease ends. Tokens are 64-bit words that
  wrap; the version of the later state is taken to be one a 64-bit counter can hold.\<close>

theorem superseded_fence_refused:
  assumes "(ledger_step typed)\<^sup>*\<^sup>* NewMemoryLedger L" and "(ledger_step typed)\<^sup>*\<^sup>* L L'"
    and "map_of (ml_operations L) (operationKey p i) = Some x" and "map_of (ml_operations L') (operationKey p i) = Some y"
    and "op_version y < 2 ^ 64" and "hr_fencingToken res = asg_fencingToken (op_assignment x)"
    and "RecordHostResult cancelled p i res L' = (Inr z, L'')"
  shows "op_assignment y = op_assignment x \<and> hr_hostID res = asg_hostID (op_assignment x)
    \<and> Before (hr_observedAt res) (asg_leaseExpiresAt (op_assignment x))"
proof -
  note ok = ledger_reached_ok [OF assms(1)]
  from ledger_run_leads [OF assms(2) ok] assms(3,4) have steps: "op_step\<^sup>*\<^sup>* x y"
    unfolding leads_def by (metis option.inject)
  from assms(4,7) have r: "\<not> stale_result res (op_assignment y)" by (auto simp: RecordHostResult_def Let_def split: if_splits)
  then have host: "asg_hostID (op_assignment y) \<noteq> []" "asg_fencingToken (op_assignment y) = asg_fencingToken (op_assignment x)"
    using assms(6) by (auto simp: stale_result_def validBounded_def)
  from op_steps_fence [OF steps] obtain k where k: "k \<le> op_version y - op_version x"
    "asg_fencingToken (op_assignment y) = asg_fencingToken (op_assignment x) + of_nat k"
    "k = 0 \<longrightarrow> op_assignment y = op_assignment x \<or> asg_hostID (op_assignment y) = []" by blast
  from k(2) host(2) have "(of_nat k :: 64 word) = 0" by simp
  then have "unat (of_nat k :: 64 word) = 0" by simp
  then have "k mod 2 ^ 64 = 0" by (simp add: unsigned_of_nat take_bit_eq_mod)
  with k(1) assms(5) have "k = 0" by simp
  with k(3) host(1) have "op_assignment y = op_assignment x" by blast
  with r show ?thesis by (auto simp: stale_result_def)
qed

theorem superseded_fence_refused_witness:
  "\<exists>z L''. RecordHostResult False ''acme:ann'' ''op-1'' \<lparr>hr_hostID = ''host-1'', hr_fencingToken = 1, hr_state = StateStarted, hr_observedAt = GTime 20 True\<rparr>
       example_dispatched = (Inr z, L'')
     \<and> asg_hostID (op_assignment example_assigned) = ''host-1'' \<and> Before (GTime 20 True) (asg_leaseExpiresAt (op_assignment example_assigned))"
proof -
  let ?res = "\<lparr>hr_hostID = ''host-1'', hr_fencingToken = 1, hr_state = StateStarted, hr_observedAt = GTime 20 True\<rparr>"
  have m: "map_of (ml_operations example_dispatched) example_key = Some example_assigned" by (simp add: example_assign)
  have x: "op_version example_assigned < 2 ^ 64" "hr_fencingToken ?res = asg_fencingToken (op_assignment example_assigned)"
    by (simp_all add: example_assigned_def)
  obtain z L'' where r: "RecordHostResult False ''acme:ann'' ''op-1'' ?res example_dispatched = (Inr z, L'')"
    by (simp add: RecordHostResult_def m Let_def stale_result_def example_assigned_def IsZero_def validBounded_def maxHostIDBytes_def Before_def
      char_of_def)
  from superseded_fence_refused [OF example_runs(3) rtranclp.rtrancl_refl m m x r] r show ?thesis by simp
qed

text \<open>C14: A tombstone is final: whatever the methods of \<^verbatim>\<open>ledger.go\<close> do afterwards the operation stays as it is, and accepting its
  identifier again is refused as expired.\<close>

theorem tombstone_final:
  assumes "(ledger_step typed)\<^sup>*\<^sup>* NewMemoryLedger L" and "(ledger_step typed)\<^sup>*\<^sup>* L L'"
    and "map_of (ml_operations L) (operationKey p i) = Some x" and "op_state x = StateTombstoned"
    and "op_principal o' = p" and "op_id o' = i" and "validateOperation typed (normalizeOperationForPersistence o')"
  shows "map_of (ml_operations L') (operationKey p i) = Some x \<and> Accept typed False o' L' = (Inl ErrOperationIDExpired, L')"
proof -
  from ledger_run_leads [OF assms(2) ledger_reached_ok [OF assms(1)]] assms(3) obtain y where
    y: "map_of (ml_operations L') (operationKey p i) = Some y" "op_step\<^sup>*\<^sup>* x y" by (auto simp: leads_def)
  from op_steps_tombstoned [OF y(2) assms(4)] y(1) assms(4-7) show ?thesis by (simp add: Accept_eq)
qed

theorem tombstone_final_witness:
  "\<exists>x. map_of (ml_operations example_reaped) example_key = Some x \<and> op_state x = StateTombstoned
     \<and> Accept (\<lambda>_. False) False (example_operation True) example_reaped = (Inl ErrOperationIDExpired, example_reaped)"
proof -
  from example_reap obtain x where x: "map_of (ml_operations example_reaped) example_key = Some x" "op_state x = StateTombstoned" by auto
  have k: "op_principal (example_operation True) = ''acme:ann''" "op_id (example_operation True) = ''op-1''" by (simp_all add: example_operation_def)
  from tombstone_final [OF example_runs(4) rtranclp.rtrancl_refl x k example_valid(1)] x show ?thesis by blast
qed

text \<open>C16: Acceptance can be repeated. Once an operation is accepted, accepting it again after any further calls of the methods of
  \<^verbatim>\<open>ledger.go\<close> returns the one
  stored operation, with the request as it was first accepted and whatever version it has reached, and changes
  nothing, unless the operation has become a tombstone meanwhile.\<close>

theorem accept_repeatable:
  assumes "(ledger_step typed)\<^sup>*\<^sup>* NewMemoryLedger L" and "Accept typed cancelled o' L = (Inr (x, seen), L')"
    and "(ledger_step typed)\<^sup>*\<^sup>* L' L''"
  shows "\<exists>y. map_of (ml_operations L'') (operationKey (op_principal o') (op_id o')) = Some y \<and> same_request x y
    \<and> op_version x \<le> op_version y
    \<and> Accept typed False o' L'' = (if op_state y = StateTombstoned then (Inl ErrOperationIDExpired, L'') else (Inr (y, True), L''))"
proof -
  let ?key = "operationKey (op_principal o') (op_id o')"
  from assms(2) have valid: "validateOperation typed (normalizeOperationForPersistence o')" by (simp add: Accept_eq split: if_splits)
  have x: "map_of (ml_operations L') ?key = Some x" "operationInputDigest x = operationInputDigest o'" "op_binding x = op_binding o'"
    using assms(2) by (auto simp: Accept_eq simp del: map_of_eq_None_iff split: if_splits option.splits)
  have "ledger_ok L'" using Accept_leads [OF ledger_reached_ok [OF assms(1)], of typed cancelled o'] assms(2) by (simp add: leads_def)
  from ledger_run_leads [OF assms(3) this] x(1) obtain y where y: "map_of (ml_operations L'') ?key = Some y" "op_step\<^sup>*\<^sup>* x y"
    by (auto simp: leads_def)
  from op_steps_request [OF y(2)] have same: "same_request x y" "op_version x \<le> op_version y" by simp_all
  have "Accept typed False o' L'' = (if op_state y = StateTombstoned then (Inl ErrOperationIDExpired, L'') else (Inr (y, True), L''))"
    using valid y(1) x(2,3) same_request_fields [OF same(1)] by (simp add: Accept_eq)
  with y(1) same show ?thesis by blast
qed

theorem accept_repeatable_witness:
  "\<exists>y. Accept (\<lambda>_. False) False (example_operation True) NewMemoryLedger = (Inr (example_operation True, False), example_accepted True)
     \<and> Accept (\<lambda>_. False) False (example_operation True) example_dispatched = (Inr (y, True), example_dispatched)
     \<and> op_version y = 2 \<and> same_request (example_operation True) y"
proof -
  have k: "op_principal (example_operation True) = ''acme:ann''" "op_id (example_operation True) = ''op-1''" by (simp_all add: example_operation_def)
  have m: "map_of (ml_operations example_dispatched) example_key = Some example_assigned" by (simp add: example_assign)
  from accept_repeatable [OF rtranclp.rtrancl_refl example_accept(1) example_runs(2)] m
  have "same_request (example_operation True) example_assigned"
    "Accept (\<lambda>_. False) False (example_operation True) example_dispatched = (Inr (example_assigned, True), example_dispatched)"
    by (simp_all add: k example_assigned_def)
  then show ?thesis using example_accept(1) by (intro exI [of _ example_assigned]) (simp add: example_assigned_def)
qed

text \<open>C17: The reaper claims exactly what is due. In a ledger that calls of the methods of \<^verbatim>\<open>ledger.go\<close> have reached, claiming expired cleanup with a valid page
  returns the first \<open>limit\<close> operations in key order that require cleanup and have outlived their retention,
  each fenced and pending cleanup, and leaves every other operation as it was.\<close>

theorem cleanup_claims_exact:
  assumes "(ledger_step typed)\<^sup>*\<^sup>* NewMemoryLedger L" and "validateLedgerPage now limit"
  shows "\<exists>L'. ClaimExpiredCleanup False now limit L
      = (Inr (map (\<lambda>key. fenced StateCleanupPending (the (map_of (ml_operations L) key)))
          (take (nat limit) (filter (\<lambda>key. cleanup_due now (the (map_of (ml_operations L) key))) (sortedOperationKeys (ml_operations L))))), L')
    \<and> (\<forall>key. map_of (ml_operations L') key =
         (if key \<in> set (take (nat limit) (filter (\<lambda>key. cleanup_due now (the (map_of (ml_operations L) key))) (sortedOperationKeys (ml_operations L))))
          then Some (fenced StateCleanupPending (the (map_of (ml_operations L) key))) else map_of (ml_operations L) key))"
proof -
  note keys = sorted_keys [OF ledger_reached_ok [OF assms(1)]]
  from cleanup.sweep_exact [OF keys(1), of L "\<lambda>key. the (map_of (ml_operations L) key)" "[]" "nat limit" now OutboxStateChanged] keys(2) assms(2)
  show ?thesis by (fastforce simp: ClaimExpiredCleanup_def)
qed

theorem cleanup_claims_exact_witness:
  "\<exists>L'. ClaimExpiredCleanup False (GTime 200 True) 10 example_dispatched = (Inr [fenced StateCleanupPending example_assigned], L')
     \<and> map_of (ml_operations L') example_key = Some (fenced StateCleanupPending example_assigned)"
proof -
  have m: "map_of (ml_operations example_dispatched) example_key = Some example_assigned" by (simp add: example_assign)
  have p: "validateLedgerPage (GTime 200 True) 10" by (simp add: validateLedgerPage_def IsZero_def maxLedgerPage_def)
  have k: "sortedOperationKeys (ml_operations example_dispatched) = [example_key]" by (simp add: example_assign sortedOperationKeys_def)
  have d: "cleanup_due (GTime 200 True) example_assigned"
    by (simp add: cleanup_due_def example_assigned_def example_operation_def Before_def)
  from cleanup_claims_exact [OF example_runs(3) p] show ?thesis by (auto simp: k m d)
qed

end
