(* ===== verification/Spec2Isabelle.thy ===== *)
theory Spec2Isabelle
  imports Turn_Serialization Store_Reads Compiler_Properties Approval_Properties Kernel_Properties Ledger_Properties
begin

text \<open>
  The state machines of agent-runtime that decide what is allowed to happen: the runtime state authority
  (\<^verbatim>\<open>internal/runtimestate\<close>), the agent kernel (\<^verbatim>\<open>internal/runtime/kernel\<close>), the approval state machine and the tool policy
  (\<^verbatim>\<open>internal/approval\<close>, \<^verbatim>\<open>internal/toolpolicy\<close>) and the operation ledger of the sandbox control plane
  (\<^verbatim>\<open>internal/sandboxcontrol\<close>), with the parts of \<^verbatim>\<open>sdk/go\<close> and \<^verbatim>\<open>internal/runtimecontent\<close> they rest on.

  \<^bold>\<open>The program.\<close> A caller's command is checked and sealed by the compiler
  (\<^verbatim>\<open>compiler.go\<close>), which validates scope and identifiers, has staged content confirmed by the content store
  (\<^verbatim>\<open>content.go\<close>) and commits to the request by a SHA-256 digest of its canonical JSON. The planner
  (\<^verbatim>\<open>planner.go\<close>) turns a tenant's state and a sealed mutation into a plan: the next state, the product
  events, audit facts and outbox routes it adds, and the receipt that makes a retry harmless. A store
  (\<^verbatim>\<open>memory.go\<close>) persists plans by comparing states and answers the queries of \<^verbatim>\<open>contract.go\<close>.
  The agent kernel (\<^verbatim>\<open>kernel.go\<close>) is the smaller in-process runtime of the public SDK: Agents, Sessions, Inputs and Turns of
  a scope, in a repository that commits a whole change or nothing. Whether a tool call needs a person's
  consent is the tool policy's decision (\<^verbatim>\<open>toolpolicy.go\<close>); the approval it opens is a state machine of its own
  (\<^verbatim>\<open>approval.go\<close>). What runs in a sandbox is an operation of the sandbox ledger (\<^verbatim>\<open>ledger.go\<close>): accepted once,
  assigned to hosts under fencing tokens, recovered when a lease runs out, cleaned up and finally kept as a tombstone.

  \<^bold>\<open>Theories and code.\<close>
  \<^item> \<open>Prelude\<close>: generic lemmas on lists and searches, and the named collections the proofs share.
  \<^item> \<open>Go_Text\<close>, \<open>Go_Time\<close>, \<open>Go_Rfc3339\<close>, \<open>Go_Json\<close>, \<open>Go_Json_Raw\<close>, \<open>Go_Sha256\<close>: what the sources use of Go's standard
    library, executable: UTF-8 validity and trimming, times in UTC with nanoseconds and their JSON form,
    \<^verbatim>\<open>encoding/json\<close> on the shapes that occur, raw messages included, and SHA-256 on machine words.
  \<^item> \<open>Sdk_Types\<close>, \<open>Sdk_Json\<close>: identifiers and enumerations (\<^verbatim>\<open>ids.go\<close>, \<^verbatim>\<open>types.go\<close>). \<open>State_Contract\<close>, \<open>State_Commands\<close>:
    the records, commands and compiled mutations (\<^verbatim>\<open>contract.go\<close>, \<^verbatim>\<open>compiler.go\<close>). \<open>Content_Handoff\<close>: the
    handoff validators of \<^verbatim>\<open>content.go\<close>; a store is known by a number, its identity as an issuer.
  \<^item> \<open>Planner_Monad\<close>, \<open>Planner_Effects\<close>, \<open>Planner_Sessions\<close>, \<open>Planner_Tools\<close>, \<open>Planner_Catalog\<close>, \<open>Planner\<close>:
    \<^verbatim>\<open>planner.go\<close>, one definition per method. A method is a function of a context, the mutable state and
    the number of identifiers drawn, to an error or a result and the context it leaves. The identifier generator, the
    retention policy and the clock reading are parameters.
  \<^item> \<open>Compiler\<close>: all of \<^verbatim>\<open>compiler.go\<close>; \<open>compiled\<close> is the set of mutations its methods can return.
    \<open>Memory_Store\<close>: all of \<^verbatim>\<open>memory.go\<close>, one atomic function per method.
  \<^item> \<open>Effects_Contract\<close>, \<open>Lifecycle\<close>, \<open>Partition\<close>, \<open>Reachability\<close>: the abstract specification (what a transition may
    do to each table, and the step relations of the records), the invariant of a tenant partition, and
    the runs of the planner. \<open>Store_Runs\<close>, \<open>Store_Pages\<close>, \<open>Json_Canonical\<close>: runs of the store, paging and the
    injectivity of the JSON encoding.
  \<^item> \<open>Run_Properties\<close>, \<open>Plan_Properties\<close>, \<open>Lease_Properties\<close>, \<open>Turn_Serialization\<close>, \<open>Store_Properties\<close>,
    \<open>Store_Reads\<close>, \<open>Compiler_Properties\<close>: the properties. \<open>Example_Run\<close> holds the concrete planner, states and
    commands their instances use.
  \<^item> \<open>Kernel_State\<close>, \<open>Kernel\<close>: \<^verbatim>\<open>state.go\<close>, \<^verbatim>\<open>store.go\<close> and \<^verbatim>\<open>kernel.go\<close>, one definition per method. The clock, the identifier
    source and the schema validator are parameters, and so is the answer of the context at every point
    where the code asks whether it was cancelled. \<open>Kernel_Runs\<close>, \<open>Kernel_Invariant\<close>, \<open>Kernel_Reach\<close>,
    \<open>Kernel_Progress\<close>: runs of the kernel, the invariant of a repository, and the drain of a Session. \<open>Kernel_Properties\<close>
    has the properties, \<open>Example_Kernel\<close> their instance. Two hypotheses speak of the identifier source:
    \<open>fresh_source\<close>, that its draws do not repeat, and \<open>source_ok\<close>, that a range of them is valid.
  \<^item> \<open>Approval_Machine\<close>: all of \<^verbatim>\<open>approval.go\<close>; \<open>Tool_Policy\<close>: all of \<^verbatim>\<open>toolpolicy.go\<close>; \<open>Approval_Properties\<close>: the properties.
  \<^item> \<open>Sandbox_Ledger\<close>: all of \<^verbatim>\<open>ledger.go\<close>, a method a function on the ledger that leaves a ledger also when it fails.
    \<open>Ledger_Runs\<close>, \<open>Ledger_Sweeps\<close>: the steps of an operation, the invariant of the ledger, and the contract of a sweep as
    a locale the three sweeps of the code interpret. \<open>Ledger_Properties\<close>: the properties.

  \<^bold>\<open>What is shown.\<close> A plan refines the abstract transition system and keeps the partition
  invariant. Along any run settled Turns, decided approvals and revoked grants are final,
  grants stay within their maximum, every tool execution rests on a consumed grant, an approval and an
  intent, events are numbered without gaps and the logs only grow. Retries and reused keys behave as the receipts promise,
  leases have one holder, and stale fences are refused. The store never mixes tenants,
  never loses an update and applies a mutation once; its pages and views are exact. The compiler binds
  every mutation to one authority, tenant and key; for the commands made of plain fields the digest commits to every field.
  The kernel keeps the Turns of every Session in order with at most one running, accepts an Input once however often it is
  sent, never panics, and drains a Session in as many completions as it has unsettled Turns. An approval never grants more
  than was proposed, closes for good at its deadline, and a terminal one never changes; the policy requires an approval in exactly the valid
  cases. The ledger keeps an exact history of every operation, honours a fence only for the assignment it was issued with,
  never revives a tombstone, and its cleanup sweep takes exactly what is due.
  Some lemmas, none of them a property of the contract, record behaviour that departs from the requirements: admission overtakes
  waiting Turns (\<open>admit_overtakes\<close>); a closing Session completes with a Turn still waiting (\<open>settle_completes_undrained\<close>); the digest
  of a tool intent leaves out all but its descriptor (\<open>intent_digest_ignores_call\<close>); and looking at a pending approval expires it
  before its deadline (\<open>inspect_expires_pending\<close>).

  \<^bold>\<open>Bounds.\<close> All definitions are total, no fuel is used by the model; the only bound is
  the number of pages a reader asks for, where one more than the length of the log is enough. Versions, positions,
  sequences and counts are natural numbers: 64-bit counters and 32-bit lengths are taken not to wrap. The fencing tokens
  of the ledger are 64-bit words and wrap. An
  identifier generator may return any string or fail at every draw. A nil pointer is \<open>None\<close>, the
  zero value of an enumeration its \<open>Unset\<close> constructor; deep copies are the identity.

  \<^bold>\<open>Not modelled.\<close> Object storage and the CBOR codec behind the content store, the PostgreSQL adapters (SQL
  run by a database), Temporal workflows, HTTP transport, model providers, the virtual machine host and the command line
  tools: they are input and output around libraries outside the repository. The JSON Schema validator is such a library
  too. The methods of the sandbox ledger for enrolled hosts (\<^verbatim>\<open>host.go\<close>: enrollment, signed deliveries, output and receipts) are
  left out; the runs of the ledger are those of the methods of \<^verbatim>\<open>ledger.go\<close>. The text of error
  messages is not modelled, only which error value is returned.
\<close>

end
